(* ===== verification/Prelude.thy ===== *)
theory Prelude
  imports Main "HOL-Library.List_Lexorder" "HOL-Library.Char_ord" "HOL-Library.AList"
    "HOL-Library.Sublist" "HOL-Library.Multiset"
begin

text \<open>
  Shared vocabulary of the development.

  A Go string is a byte string: a list of the 8-bit characters of HOL.
  The functions of the packages strings and sort that the sources call are
  written here for byte strings; the two that look at characters
  (TrimSpace and ToLower) are written for the ASCII range, bytes of 128 and
  above are neither spaces nor letters.  The order of byte strings is the
  lexicographic order of the library, which is the order of sort.Strings.

  A Go map whose iteration order matters is an association list with distinct
  keys: the order of the list is the order in which one iteration visits the
  map, which Go leaves open, so a theorem for all such lists holds for every
  iteration order.  Where the order cannot matter a map is a HOL map.

  Times and durations are integers of nanoseconds.
\<close>

named_theorems go_str \<open>facts on the string functions\<close>
named_theorems go_list \<open>facts on chunking, deduplication and sorting\<close>
named_theorems go_map \<open>facts on association lists that stand for Go maps\<close>

type_synonym time_ns = int
type_synonym gomap = "(string \<times> string) list"

abbreviation second_ns :: int where "second_ns \<equiv> 1000000000"
abbreviation minute_ns :: int where "minute_ns \<equiv> 60 * second_ns"
abbreviation hour_ns :: int where "hour_ns \<equiv> 60 * minute_ns"

section \<open>Byte strings\<close>

definition is_space :: "char \<Rightarrow> bool" where
  "is_space c \<longleftrightarrow> c \<in> {CHR '' '', CHR 0x09, CHR 0x0A, CHR 0x0B, CHR 0x0C, CHR 0x0D}"

definition trim_by :: "('a \<Rightarrow> bool) \<Rightarrow> 'a list \<Rightarrow> 'a list" where
  "trim_by P s = rev (dropWhile P (rev (dropWhile P s)))"

definition trim_space :: "string \<Rightarrow> string" where
  "trim_space s = trim_by is_space s"

definition has_prefix :: "string \<Rightarrow> string \<Rightarrow> bool" where
  "has_prefix s p \<longleftrightarrow> take (length p) s = p"

definition has_suffix :: "string \<Rightarrow> string \<Rightarrow> bool" where
  "has_suffix s p \<longleftrightarrow> length p \<le> length s \<and> drop (length s - length p) s = p"

definition trim_prefix :: "string \<Rightarrow> string \<Rightarrow> string" where
  "trim_prefix s p = (if has_prefix s p then drop (length p) s else s)"

definition trim_suffix :: "string \<Rightarrow> string \<Rightarrow> string" where
  "trim_suffix s p = (if has_suffix s p then take (length s - length p) s else s)"

fun contains_str :: "string \<Rightarrow> string \<Rightarrow> bool" where
  "contains_str [] p = (p = [])"
| "contains_str (c # s) p = (has_prefix (c # s) p \<or> contains_str s p)"

definition is_upper :: "char \<Rightarrow> bool" where
  "is_upper c \<longleftrightarrow> 65 \<le> (of_char c :: nat) \<and> (of_char c :: nat) \<le> 90"

definition is_lower :: "char \<Rightarrow> bool" where
  "is_lower c \<longleftrightarrow> 97 \<le> (of_char c :: nat) \<and> (of_char c :: nat) \<le> 122"

definition is_digit :: "char \<Rightarrow> bool" where
  "is_digit c \<longleftrightarrow> 48 \<le> (of_char c :: nat) \<and> (of_char c :: nat) \<le> 57"

definition is_alnum :: "char \<Rightarrow> bool" where
  "is_alnum c \<longleftrightarrow> is_upper c \<or> is_lower c \<or> is_digit c"

definition lower_char :: "char \<Rightarrow> char" where
  "lower_char c = (if is_upper c then char_of ((of_char c :: nat) + 32) else c)"

definition to_lower :: "string \<Rightarrow> string" where
  "to_lower s = List.map lower_char s"

fun split_on :: "char \<Rightarrow> string \<Rightarrow> string list" where
  "split_on d [] = [[]]"
| "split_on d (c # s) =
     (if c = d then [] # split_on d s
      else (case split_on d s of [] \<Rightarrow> [[c]] | w # ws \<Rightarrow> (c # w) # ws))"

fun join_with :: "string \<Rightarrow> string list \<Rightarrow> string" where
  "join_with sep [] = []"
| "join_with sep [w] = w"
| "join_with sep (w # ws) = w @ sep @ join_with sep ws"

fun nat_digits :: "nat \<Rightarrow> string" where
  "nat_digits n = (if n < 10 then [char_of (48 + n)]
                   else nat_digits (n div 10) @ [char_of (48 + n mod 10)])"
declare nat_digits.simps [simp del]

definition itoa :: "int \<Rightarrow> string" where
  "itoa i = (if i < 0 then CHR ''-'' # nat_digits (nat (- i)) else nat_digits (nat i))"

definition bool_str :: "bool \<Rightarrow> string" where
  "bool_str b = (if b then ''true'' else ''false'')"

lemma has_prefix_prefix [go_str]: "has_prefix s p \<longleftrightarrow> prefix p s"
  unfolding has_prefix_def prefix_def by (metis append_eq_conv_conj append_take_drop_id)

lemma has_prefix_append [simp]: "has_prefix (p @ s) p"
  by (simp add: has_prefix_def)

lemma has_prefix_Nil [simp]: "has_prefix s []"
  by (simp add: has_prefix_def)

lemma trim_prefix_append [simp]: "trim_prefix (p @ s) p = s"
  by (simp add: trim_prefix_def)

lemma has_suffix_suffix [go_str]: "has_suffix s p \<longleftrightarrow> suffix p s"
proof
  assume "has_suffix s p"
  then have "s = take (length s - length p) s @ p"
    by (metis append_take_drop_id has_suffix_def)
  then show "suffix p s" by (metis suffixI)
qed (auto simp: suffix_def has_suffix_def)

lemma contains_str_sublist [go_str]: "contains_str s p \<longleftrightarrow> sublist p s"
  by (induction s) (auto simp: has_prefix_prefix sublist_Cons_right)

lemma contains_str_infix [intro]: "contains_str (a @ p @ b) p"
  by (simp add: contains_str_sublist sublist_def) blast

lemma contains_str_trans:
  "contains_str s q" if "contains_str p q" "contains_str s p"
  using that unfolding contains_str_sublist by (rule sublist_order.order_trans)

lemma split_on_not_Nil [simp]: "split_on d s \<noteq> []"
  by (induction s) (auto split: list.splits)

lemma split_on_no_sep [go_str]: "d \<notin> set s \<Longrightarrow> split_on d s = [s]"
  by (induction s) auto

lemma split_on_append [go_str]:
  "d \<notin> set a \<Longrightarrow> split_on d (a @ d # b) = a # split_on d b"
  by (induction a) auto

lemma split_on_pieces: "w \<in> set (split_on d s) \<Longrightarrow> d \<notin> set w"
  by (induction s arbitrary: w) (auto split: if_splits list.splits)

lemma join_split_on [go_str]: "join_with [d] (split_on d s) = s"
proof (induction s)
  case (Cons c s)
  then show ?case
    by (cases "split_on d s"; cases "tl (split_on d s)") (auto simp: neq_Nil_conv)
qed simp

lemma dropWhile_hd_id: "xs = [] \<or> \<not> P (hd xs) \<Longrightarrow> dropWhile P xs = xs"
  by (cases xs) auto

lemma trim_by_parts: "\<exists>a b. s = a @ trim_by P s @ b"
proof -
  let ?t = "dropWhile P s"
  have "s = takeWhile P s @ ?t" by simp
  moreover have "?t = trim_by P s @ rev (takeWhile P (rev ?t))"
    by (metis rev_append rev_rev_ident takeWhile_dropWhile_id trim_by_def)
  ultimately show ?thesis by metis
qed

lemma set_trim_by: "set (trim_by P s) \<subseteq> set s"
  using trim_by_parts [of s P] by (metis Un_iff set_append subsetI)

lemma length_trim_by: "length (trim_by P s) \<le> length s"
proof -
  obtain a b where "s = a @ trim_by P s @ b" using trim_by_parts by metis
  then have "length s = length a + (length (trim_by P s) + length b)" by (metis length_append)
  then show ?thesis by simp
qed

lemma trim_by_ends:
  assumes "trim_by P s \<noteq> []"
  shows "\<not> P (hd (trim_by P s))" "\<not> P (last (trim_by P s))"
proof -
  let ?t = "dropWhile P s"
  let ?r = "dropWhile P (rev ?t)"
  have ne: "?r \<noteq> []" using assms by (metis trim_by_def rev.simps(1))
  then have "\<not> P (hd ?r)" by (rule hd_dropWhile)
  then show "\<not> P (last (trim_by P s))" by (metis last_rev trim_by_def)
  have tne: "?t \<noteq> []" using ne by (metis dropWhile.simps(1) rev.simps(1))
  have "rev ?t = takeWhile P (rev ?t) @ ?r" by simp
  then have "?t = rev ?r @ rev (takeWhile P (rev ?t))"
    by (metis rev_append rev_rev_ident)
  then have "hd ?t = hd (trim_by P s)"
    using ne by (metis hd_append2 rev_is_Nil_conv trim_by_def)
  then show "\<not> P (hd (trim_by P s))" using hd_dropWhile [OF tne] by simp
qed

lemma trim_by_id:
  assumes "s = [] \<or> (\<not> P (hd s) \<and> \<not> P (last s))"
  shows "trim_by P s = s"
proof -
  have "dropWhile P s = s" "dropWhile P (rev s) = rev s"
    using assms by (auto simp: dropWhile_hd_id hd_rev)
  then show ?thesis by (simp only: trim_by_def rev_rev_ident)
qed

lemma trim_by_idem [simp]: "trim_by P (trim_by P s) = trim_by P s"
  by (cases "trim_by P s = []") (auto intro: trim_by_id simp: trim_by_ends)

lemma trim_space_idem [simp]: "trim_space (trim_space s) = trim_space s"
  by (simp add: trim_space_def)

lemma trim_space_Nil [simp]: "trim_space [] = []"
  by (simp add: trim_space_def trim_by_def)

lemma nat_digits_not_Nil [simp]: "nat_digits n \<noteq> []"
  by (subst nat_digits.simps) simp

lemma char_of_digit:
  "n < 10 \<Longrightarrow> is_digit (char_of (48 + n :: nat))"
  by (simp add: is_digit_def)

lemma nat_digits_digits: "c \<in> set (nat_digits n) \<Longrightarrow> is_digit c"
  by (induction n rule: nat_digits.induct)
     (subst (asm) (2) nat_digits.simps, auto split: if_splits simp: char_of_digit)

section \<open>Lists\<close>

text \<open>Chunks of a fixed size, the loop that every batching helper uses.\<close>

function chunks :: "nat \<Rightarrow> 'a list \<Rightarrow> 'a list list" where
  "chunks n xs = (if xs = [] then [] else take (Suc n) xs # chunks n (drop (Suc n) xs))"
  by auto
termination by (relation "measure (length \<circ> snd)") auto
declare chunks.simps [simp del]

lemma chunks_Nil [simp]: "chunks n [] = []"
  by (simp add: chunks.simps)

lemma concat_chunks [simp]: "concat (chunks n xs) = xs"
proof (induction n xs rule: chunks.induct)
  case (1 n xs)
  then show ?case by (subst chunks.simps) auto
qed

lemma chunks_size [go_list]: "c \<in> set (chunks n xs) \<Longrightarrow> c \<noteq> [] \<and> length c \<le> Suc n"
proof (induction n xs rule: chunks.induct)
  case (1 n xs)
  then show ?case by (subst (asm) (2) chunks.simps) (auto split: if_splits)
qed

lemma chunks_eq_Nil [simp]: "chunks n xs = [] \<longleftrightarrow> xs = []"
  by (subst chunks.simps) simp

lemma set_chunks [go_list]: "(\<Union>c \<in> set (chunks n xs). set c) = set xs"
  by (metis concat_chunks set_concat)

lemma length_chunks: "length (chunks n xs) = (length xs + n) div Suc n"
proof (induction n xs rule: chunks.induct)
  case (1 n xs)
  consider "xs = []" | "xs \<noteq> []" "length xs \<le> Suc n" | "Suc n < length xs" by linarith
  then show ?case
  proof cases
    case 1
    then show ?thesis by simp
  next
    case 2
    then have "(length xs + n) div Suc n = 1"
      by (intro div_nat_eqI) (auto simp: Suc_le_eq)
    with 2 show ?thesis by (subst chunks.simps) simp
  next
    case 3
    then have "length xs + n = (length xs - Suc n + n) + Suc n" by simp
    then have "(length xs + n) div Suc n = Suc ((length xs - Suc n + n) div Suc n)"
      by (metis Suc_eq_plus1 div_add_self2 nat.distinct(1))
    with 1 3 show ?thesis by (subst chunks.simps) auto
  qed
qed

text \<open>Deduplication and sorting as the code does it: collect a set, list it, sort it.\<close>

definition sort_dedup :: "'a::linorder list \<Rightarrow> 'a list" where
  "sort_dedup xs = sort (remdups xs)"

lemma set_sort_dedup [simp]: "set (sort_dedup xs) = set xs"
  by (simp add: sort_dedup_def)

lemma sorted_sort_dedup [simp]: "sorted (sort_dedup xs)" "distinct (sort_dedup xs)"
  by (simp_all add: sort_dedup_def)

lemma sort_dedup_eq_iff [go_list]: "sort_dedup xs = sort_dedup ys \<longleftrightarrow> set xs = set ys"
  by (metis set_sort_dedup sorted_distinct_set_unique sorted_sort_dedup)

lemma sort_dedup_Nil [simp]: "sort_dedup [] = []"
  by (simp add: sort_dedup_def)

lemma sort_dedup_eq_Nil [simp]: "sort_dedup xs = [] \<longleftrightarrow> xs = []"
  by (metis set_empty set_sort_dedup)

lemma map_filter_in: "x \<in> set (List.map_filter f xs) \<longleftrightarrow> (\<exists>y \<in> set xs. f y = Some x)"
proof
  assume "x \<in> set (List.map_filter f xs)"
  then obtain y where "y \<in> set xs" "f y \<noteq> None" "x = the (f y)" by (auto simp: List.map_filter_def)
  then show "\<exists>y \<in> set xs. f y = Some x" by auto
qed (auto simp: List.map_filter_def intro!: rev_image_eqI)

section \<open>Maps\<close>

definition wf_map :: "('k \<times> 'v) list \<Rightarrow> bool" where
  "wf_map m \<longleftrightarrow> distinct (List.map fst m)"

lemma wf_map_update [simp, intro]: "wf_map m \<Longrightarrow> wf_map (AList.update k v m)"
  by (simp add: wf_map_def distinct_update)

lemma wf_map_delete [simp, intro]: "wf_map m \<Longrightarrow> wf_map (AList.delete k m)"
  by (simp add: wf_map_def distinct_delete)

lemma wf_map_Nil [simp]: "wf_map []"
  by (simp add: wf_map_def)

lemma map_of_update [go_map]: "map_of (AList.update k v m) = (map_of m)(k \<mapsto> v)"
  by (simp add: update_conv')

lemma map_of_delete [go_map]: "map_of (AList.delete k m) = (map_of m)(k := None)"
  by (simp add: delete_conv')

text \<open>Copying the entries of one map into another (a Go range loop of assignments).\<close>

definition copy_into :: "('k \<times> 'v) list \<Rightarrow> ('k \<times> 'v) list \<Rightarrow> ('k \<times> 'v) list" where
  "copy_into src dst = fold (\<lambda>(k, v). AList.update k v) src dst"

lemma wf_copy_into [simp]: "wf_map dst \<Longrightarrow> wf_map (copy_into src dst)"
  unfolding copy_into_def by (induction src arbitrary: dst) auto

lemma map_of_copy_into [go_map]:
  "wf_map src \<Longrightarrow> map_of (copy_into src dst) = map_of dst ++ map_of src"
proof (induction src arbitrary: dst)
  case (Cons kv src)
  obtain k v where kv: "kv = (k, v)" by (cases kv)
  have wf: "wf_map src" "map_of src k = None"
    using Cons.prems by (auto simp: wf_map_def kv map_of_eq_None_iff)
  have "copy_into (kv # src) dst = copy_into src (AList.update k v dst)"
    by (simp add: copy_into_def kv)
  also have "map_of \<dots> = (map_of dst)(k \<mapsto> v) ++ map_of src"
    by (simp only: Cons.IH [OF wf(1)] map_of_update)
  also have "\<dots> = map_of dst ++ map_of (kv # src)"
    using wf(2) by (auto simp: kv map_add_def fun_eq_iff split: option.splits)
  finally show ?case .
qed (simp add: copy_into_def)

text \<open>A loop over a map that puts an entry for some of its keys into a new map.\<close>

definition map_filter_kv :: "('k \<Rightarrow> 'v \<Rightarrow> 'w option) \<Rightarrow> ('k \<times> 'v) list \<Rightarrow> ('k \<times> 'w) list" where
  "map_filter_kv f m = concat (List.map (\<lambda>(k, v). case f k v of None \<Rightarrow> [] | Some w \<Rightarrow> [(k, w)]) m)"

lemma map_filter_kv_keys: "fst ` set (map_filter_kv f m) \<subseteq> fst ` set m"
  by (auto simp: map_filter_kv_def split: option.splits intro: rev_image_eqI)

lemma map_of_map_filter_kv [go_map]:
  "wf_map m \<Longrightarrow> map_of (map_filter_kv f m) k = Option.bind (map_of m k) (f k)"
proof (induction m)
  case (Cons kv m)
  obtain k0 v0 where kv: "kv = (k0, v0)" by (cases kv)
  have new: "map_of m k0 = None" and wf: "wf_map m"
    using Cons.prems by (auto simp: wf_map_def kv map_of_eq_None_iff)
  show ?case
    using Cons.IH [OF wf] new
    by (cases "k = k0"; cases "f k0 v0") (auto simp: map_filter_kv_def kv)
qed (simp add: map_filter_kv_def)

lemma map_filter_kv_Cons:
  "map_filter_kv f ((k, v) # m) =
     (case f k v of None \<Rightarrow> map_filter_kv f m | Some w \<Rightarrow> (k, w) # map_filter_kv f m)"
  by (simp add: map_filter_kv_def split: option.split)

lemma wf_map_filter_kv [simp]: "wf_map m \<Longrightarrow> wf_map (map_filter_kv f m)"
proof (induction m)
  case (Cons kv m)
  obtain k v where kv: "kv = (k, v)" by (cases kv)
  have "k \<notin> fst ` set (map_filter_kv f m)" "wf_map m"
    using Cons.prems map_filter_kv_keys [of f m] by (auto simp: wf_map_def kv)
  with Cons.IH show ?case by (simp add: kv map_filter_kv_Cons wf_map_def split: option.split)
qed (simp add: map_filter_kv_def)

section \<open>Machine integers and options\<close>

definition wrap32 :: "int \<Rightarrow> int" where
  "wrap32 i = (i + 2 ^ 31) mod 2 ^ 32 - 2 ^ 31"

definition wrap64 :: "int \<Rightarrow> int" where
  "wrap64 i = (i + 2 ^ 63) mod 2 ^ 64 - 2 ^ 63"

lemma wrap32_id [simp]: "- (2 ^ 31) \<le> i \<Longrightarrow> i < 2 ^ 31 \<Longrightarrow> wrap32 i = i"
  by (simp add: wrap32_def)

lemma wrap64_id [simp]: "- (2 ^ 63) \<le> i \<Longrightarrow> i < 2 ^ 63 \<Longrightarrow> wrap64 i = i"
  by (simp add: wrap64_def)

lemma wrap64_range: "- (2 ^ 63) \<le> wrap64 i \<and> wrap64 i < 2 ^ 63"
  by (simp add: wrap64_def)

definition or_else :: "'a option \<Rightarrow> 'a \<Rightarrow> 'a" where
  "or_else ov d = (case ov of Some v \<Rightarrow> v | None \<Rightarrow> d)"

lemma or_else_simps [simp]: "or_else (Some v) d = v" "or_else None d = d"
  by (simp_all add: or_else_def)

end
