(* ===== verification/TtlCache.thy ===== *)
theory TtlCache
  imports Prelude
begin

text \<open>
  The time-to-live caches of the providers and of the batcher.  All of them
  hold a Go map from a key to a value with an expiry time behind a
  read-write lock; the operations below are the critical sections of that
  lock, so a sequence of them is an interleaving of goroutines.

  getCachedValue is two critical sections: the read, and - when the entry
  it saw had expired - a second one under the write lock that checks the
  expiry again before it deletes (pkg/providers/instancetype, vswitch,
  securitygroup, imagefamily, bootstrap and instance have the same code).
  The batcher only reads and leaves the deletion to its cleanup loop.

  The locale ttl_store is what the providers rely on; read_through is the
  pattern of their Resolve functions: look up, otherwise fetch and store.
\<close>

record 'v CacheEntry =
  Value :: 'v
  ExpiresAt :: time_ns

type_synonym 'v cache = "(string \<times> 'v CacheEntry) list"

datatype 'v cached_read = Miss | Expired | Hit 'v

definition cache_read :: "string \<Rightarrow> time_ns \<Rightarrow> 'v cache \<Rightarrow> 'v cached_read" where
  "cache_read key now c = (case map_of c key of
     None \<Rightarrow> Miss
   | Some entry \<Rightarrow> if now > ExpiresAt entry then Expired else Hit (Value entry))"

definition cache_evict :: "string \<Rightarrow> time_ns \<Rightarrow> 'v cache \<Rightarrow> 'v cache" where
  "cache_evict key now c = (case map_of c key of
     None \<Rightarrow> c
   | Some entry2 \<Rightarrow> if now > ExpiresAt entry2 then AList.delete key c else c)"

text \<open>One uninterrupted call: the clock is read once per critical section.\<close>

definition getCachedValue :: "string \<Rightarrow> time_ns \<Rightarrow> time_ns \<Rightarrow> 'v cache \<Rightarrow> 'v option \<times> 'v cache" where
  "getCachedValue key now now2 c = (case cache_read key now c of
     Miss \<Rightarrow> (None, c)
   | Expired \<Rightarrow> (None, cache_evict key now2 c)
   | Hit v \<Rightarrow> (Some v, c))"

definition setCachedValue :: "string \<Rightarrow> 'v \<Rightarrow> int \<Rightarrow> time_ns \<Rightarrow> 'v cache \<Rightarrow> 'v cache" where
  "setCachedValue key value ttl now c =
     AList.update key \<lparr>Value = value, ExpiresAt = now + ttl\<rparr> c"

definition deleteCached :: "string \<Rightarrow> 'v cache \<Rightarrow> 'v cache" where
  "deleteCached key c = AList.delete key c"

definition deleteExpired :: "time_ns \<Rightarrow> 'v cache \<Rightarrow> 'v cache" where
  "deleteExpired now c = filter (\<lambda>(key, entry). \<not> now > ExpiresAt entry) c"

section \<open>The interface\<close>

text \<open>
  What a client of a cache relies on: a fresh insertion is found until its
  time to live is over, other keys are not touched, and the maintenance
  operations (read-triggered eviction and sweeping) at a time no later than the
  look-up do not change its result.
\<close>

locale ttl_store =
  fixes empty :: "'c"
    and lookup :: "'k \<Rightarrow> time_ns \<Rightarrow> 'c \<Rightarrow> 'v option"
    and insert :: "'k \<Rightarrow> 'v \<Rightarrow> int \<Rightarrow> time_ns \<Rightarrow> 'c \<Rightarrow> 'c"
    and evict :: "'k \<Rightarrow> time_ns \<Rightarrow> 'c \<Rightarrow> 'c"
    and sweep :: "time_ns \<Rightarrow> 'c \<Rightarrow> 'c"
    and ok :: "'c \<Rightarrow> bool"
  assumes ok_empty: "ok empty"
    and ok_insert: "ok c \<Longrightarrow> ok (insert k v ttl t c)"
    and ok_evict: "ok c \<Longrightarrow> ok (evict k t c)"
    and ok_sweep: "ok c \<Longrightarrow> ok (sweep t c)"
    and lookup_empty: "lookup k t empty = None"
    and lookup_insert_same:
      "ok c \<Longrightarrow> lookup k t (insert k v ttl t0 c) = (if t > t0 + ttl then None else Some v)"
    and lookup_insert_other: "ok c \<Longrightarrow> k \<noteq> k' \<Longrightarrow> lookup k t (insert k' v ttl t0 c) = lookup k t c"
    and lookup_evict: "ok c \<Longrightarrow> t' \<le> t \<Longrightarrow> lookup k t (evict k' t' c) = lookup k t c"
    and lookup_sweep: "ok c \<Longrightarrow> t' \<le> t \<Longrightarrow> lookup k t (sweep t' c) = lookup k t c"
    and lookup_mono: "lookup k t c = Some v \<Longrightarrow> t' \<le> t \<Longrightarrow> lookup k t' c = Some v"
begin

text \<open>Read-through access: the cached value, or the fetched one, which is stored.\<close>

definition read_through :: "('k \<Rightarrow> 'v) \<Rightarrow> 'k \<Rightarrow> int \<Rightarrow> time_ns \<Rightarrow> 'c \<Rightarrow> 'v \<times> bool \<times> 'c" where
  "read_through fetch k ttl t c = (case lookup k t c of
     Some v \<Rightarrow> (v, False, c)
   | None \<Rightarrow> (fetch k, True, insert k (fetch k) ttl t c))"

lemma read_through_ok: "ok c \<Longrightarrow> ok (snd (snd (read_through fetch k ttl t c)))"
  by (auto simp: read_through_def ok_insert split: option.splits)

lemma read_through_then_hit:
  assumes "ok c" "0 \<le> ttl" "t \<le> t'" "t' \<le> t + ttl"
    and "lookup k t c = None"
  shows "read_through fetch' k ttl' t' (snd (snd (read_through fetch k ttl t c))) =
    (fetch k, False, snd (snd (read_through fetch k ttl t c)))"
  using assms by (simp add: read_through_def lookup_insert_same)

text \<open>A cache is sound for a source when it only holds values of that source.\<close>

definition sound :: "('k \<Rightarrow> 'v) \<Rightarrow> 'c \<Rightarrow> bool" where
  "sound f c \<longleftrightarrow> (\<forall>k t v. lookup k t c = Some v \<longrightarrow> v = f k)"

lemma sound_empty: "sound f empty"
  by (simp add: sound_def lookup_empty)

lemma sound_read_through:
  assumes "ok c" "sound f c"
  shows "fst (read_through f k ttl t c) = f k \<and> sound f (snd (snd (read_through f k ttl t c)))"
proof (cases "lookup k t c")
  case None
  have "sound f (insert k (f k) ttl t c)"
    unfolding sound_def
  proof (intro allI impI)
    fix k' t' v assume "lookup k' t' (insert k (f k) ttl t c) = Some v"
    then show "v = f k'"
      using assms by (cases "k' = k")
        (auto simp: lookup_insert_same lookup_insert_other sound_def split: if_splits)
  qed
  with None show ?thesis by (simp add: read_through_def)
next
  case (Some v)
  with assms show ?thesis by (simp add: read_through_def sound_def)
qed

end

section \<open>The caches of the code satisfy it\<close>

definition cache_lookup :: "string \<Rightarrow> time_ns \<Rightarrow> 'v cache \<Rightarrow> 'v option" where
  "cache_lookup key now c = (case cache_read key now c of Hit v \<Rightarrow> Some v | _ \<Rightarrow> None)"

lemma cache_lookup_iff:
  "cache_lookup key now c = (case map_of c key of None \<Rightarrow> None
     | Some e \<Rightarrow> if now > ExpiresAt e then None else Some (Value e))"
  by (simp add: cache_lookup_def cache_read_def split: option.split)

lemma getCachedValue_fst: "fst (getCachedValue key now now2 c) = cache_lookup key now c"
  by (simp add: getCachedValue_def cache_lookup_def split: cached_read.split)

lemma map_of_filter_wf:
  "wf_map c \<Longrightarrow> map_of (filter (\<lambda>(k, e). P e) c) k =
     (case map_of c k of None \<Rightarrow> None | Some e \<Rightarrow> if P e then Some e else None)"
proof (induction c)
  case (Cons kv c)
  obtain k' e where "kv = (k', e)" by (cases kv)
  moreover have "map_of c k' = None"
    using Cons.prems by (simp add: wf_map_def map_of_eq_None_iff \<open>kv = (k', e)\<close>)
  ultimately show ?case using Cons by (auto simp: wf_map_def)
qed simp

lemma wf_map_filter [simp]: "wf_map c \<Longrightarrow> wf_map (filter P c)"
  by (simp add: wf_map_def distinct_map_filter)

lemma wf_cache_ops [simp]:
  "wf_map c \<Longrightarrow> wf_map (setCachedValue k v ttl t c)"
  "wf_map c \<Longrightarrow> wf_map (cache_evict k t c)"
  "wf_map c \<Longrightarrow> wf_map (deleteExpired t c)"
  "wf_map c \<Longrightarrow> wf_map (deleteCached k c)"
  by (auto simp: setCachedValue_def cache_evict_def deleteExpired_def deleteCached_def split: option.splits)

interpretation gocache: ttl_store "[]" cache_lookup setCachedValue cache_evict deleteExpired wf_map
proof
  fix c :: "'v cache" and k :: string and t t' :: time_ns assume "wf_map c" "t' \<le> t"
  then show "cache_lookup k t (deleteExpired t' c) = cache_lookup k t c"
    by (auto simp: cache_lookup_iff deleteExpired_def map_of_filter_wf split: option.splits)
qed (auto simp: cache_lookup_iff setCachedValue_def cache_evict_def map_of_update map_of_delete
      split: option.splits if_splits)

section \<open>Interleavings of the critical sections\<close>

datatype 'v cache_op = Evict string | Store string 'v int | Remove string | Sweep | ClearAll

fun cache_step :: "time_ns \<times> 'v cache_op \<Rightarrow> 'v cache \<Rightarrow> 'v cache" where
  "cache_step (t, Evict k) c = cache_evict k t c"
| "cache_step (t, Store k v ttl) c = setCachedValue k v ttl t c"
| "cache_step (t, Remove k) c = deleteCached k c"
| "cache_step (t, Sweep) c = deleteExpired t c"
| "cache_step (t, ClearAll) c = []"

definition cache_run :: "(time_ns \<times> 'v cache_op) list \<Rightarrow> 'v cache \<Rightarrow> 'v cache" where
  "cache_run ops c = fold cache_step ops c"

text \<open>The sections that replace or drop the entry of a key on purpose.\<close>

fun overwrites :: "string \<Rightarrow> 'v cache_op \<Rightarrow> bool" where
  "overwrites k (Store k' v ttl) = (k = k')"
| "overwrites k (Remove k') = (k = k')"
| "overwrites k ClearAll = True"
| "overwrites k op = False"

lemma wf_cache_step [simp]: "wf_map c \<Longrightarrow> wf_map (cache_step tp c)"
  by (induction tp c rule: cache_step.induct) auto

text \<open>Writes bring in the written entry only, and a read gives what is stored.\<close>

lemma set_alist_update: "set (AList.update k v c) \<subseteq> insert (k, v) (set c)"
  by (induction c) auto

lemma set_alist_delete: "set (AList.delete k c) \<subseteq> set c"
  by (induction c) auto

lemma getCachedValue_sub:
  assumes "getCachedValue key t1 t2 c = (r, c')"
  shows "set c' \<subseteq> set c" "\<And>v. r = Some v \<Longrightarrow> \<exists>k e. (k, e) \<in> set c \<and> Value e = v"
proof -
  have ev: "set (cache_evict key t2 c) \<subseteq> set c"
    using set_alist_delete [of key c] by (auto simp: cache_evict_def split: option.splits)
  show "set c' \<subseteq> set c" using assms ev by (auto simp: getCachedValue_def split: cached_read.splits)
  fix v assume "r = Some v"
  with assms show "\<exists>k e. (k, e) \<in> set c \<and> Value e = v"
    by (auto simp: getCachedValue_def cache_read_def dest!: map_of_SomeD split: cached_read.splits option.splits if_splits)
qed

lemma lookup_deleteCached:
  "k \<noteq> k' \<Longrightarrow> cache_lookup k t (deleteCached k' c) = cache_lookup k t c"
  by (simp add: deleteCached_def cache_lookup_iff map_of_delete)

lemma cache_step_lookup:
  assumes "wf_map c" "\<not> overwrites k op" "t \<le> t'"
  shows "cache_lookup k t' (cache_step (t, op) c) = cache_lookup k t' c"
  using assms by (cases op)
    (auto simp: gocache.lookup_evict gocache.lookup_sweep gocache.lookup_insert_other
       lookup_deleteCached)

lemma cache_run_lookup:
  assumes "wf_map c" "\<forall>(t, op) \<in> set ops. t \<le> t' \<and> \<not> overwrites k op"
  shows "cache_lookup k t' (cache_run ops c) = cache_lookup k t' c"
  using assms unfolding cache_run_def
proof (induction ops arbitrary: c)
  case (Cons o1 ops)
  obtain t op where "o1 = (t, op)" by (cases o1)
  with Cons show ?case by (simp add: cache_step_lookup)
qed simp

text \<open>
  C35: A value stored in a provider cache is served until its time to live is
  over, and not after, whatever the other goroutines do in between: evictions by
  readers that saw an old entry, sweeps, and writes to other keys at any time up to the
  read never make it disappear or change (the double check under the write lock).
\<close>
theorem cached_value_survives_interleaving:
  assumes "wf_map c" and "\<forall>(t, op) \<in> set ops. t \<le> now \<and> \<not> overwrites k op"
  shows "fst (getCachedValue k now now2 (cache_run ops (setCachedValue k v ttl t0 c))) =
    (if now > t0 + ttl then None else Some v)"
  using assms by (simp add: getCachedValue_fst cache_run_lookup gocache.lookup_insert_same)

theorem cached_value_survives_interleaving_witness:
  "fst (getCachedValue ''i-1'' 30 30 (cache_run [(5, Evict ''i-1''), (7, Sweep)]
     (setCachedValue ''i-1'' (42::int) 30 0 []))) = Some 42"
  using cached_value_survives_interleaving
    [of "[]" "[(5, Evict ''i-1''), (7, Sweep)]" 30 "''i-1''" 30 "42::int" 30 0] by simp

end
