(* ===== verification/Unavailable.thy ===== *)
theory Unavailable
  imports TtlCache
begin

text \<open>
  pkg/cache/unavailable_offerings.go: the instance type, zone and capacity type
  combinations that ran out of stock, each with the time until which it is
  avoided.  IsAvailable spawns a goroutine that deletes an expired entry; the
  state keeps the goroutines that have not run yet.
\<close>

record UnavailableOfferingsCache =
  entries :: "(string \<times> time_ns) list"
  off_ttl :: int
  pendingCleanups :: "string list"

definition NewUnavailableOfferingsCacheWithTTL :: "int \<Rightarrow> UnavailableOfferingsCache" where
  "NewUnavailableOfferingsCacheWithTTL ttl = \<lparr>entries = [], off_ttl = ttl, pendingCleanups = []\<rparr>"

definition NewUnavailableOfferingsCache :: UnavailableOfferingsCache where
  "NewUnavailableOfferingsCache = NewUnavailableOfferingsCacheWithTTL (5 * minute_ns)"

definition makeKey :: "string \<Rightarrow> string \<Rightarrow> string \<Rightarrow> string" where
  "makeKey instanceType zone capacityType = instanceType @ '':'' @ zone @ '':'' @ capacityType"

definition MarkUnavailable ::
    "string \<Rightarrow> string \<Rightarrow> string \<Rightarrow> time_ns \<Rightarrow> UnavailableOfferingsCache \<Rightarrow> UnavailableOfferingsCache" where
  "MarkUnavailable instanceType zone capacityType now u =
     u\<lparr>entries := AList.update (makeKey instanceType zone capacityType) (now + off_ttl u) (entries u)\<rparr>"

definition IsAvailable ::
    "string \<Rightarrow> string \<Rightarrow> string \<Rightarrow> time_ns \<Rightarrow> UnavailableOfferingsCache \<Rightarrow> bool \<times> UnavailableOfferingsCache" where
  "IsAvailable instanceType zone capacityType now u =
     (let key = makeKey instanceType zone capacityType in
      case map_of (entries u) key of
        None \<Rightarrow> (True, u)
      | Some expiryTime \<Rightarrow>
          if now > expiryTime
          then (True, u\<lparr>pendingCleanups := pendingCleanups u @ [key]\<rparr>)
          else (False, u))"

definition cleanup :: "string \<Rightarrow> UnavailableOfferingsCache \<Rightarrow> UnavailableOfferingsCache" where
  "cleanup key u = u\<lparr>entries := AList.delete key (entries u)\<rparr>"

text \<open>The scheduler runs one of the spawned goroutines.\<close>

definition runCleanup :: "nat \<Rightarrow> UnavailableOfferingsCache \<Rightarrow> UnavailableOfferingsCache" where
  "runCleanup i u = (if i < length (pendingCleanups u)
     then (cleanup (pendingCleanups u ! i) u)
            \<lparr>pendingCleanups := take i (pendingCleanups u) @ drop (Suc i) (pendingCleanups u)\<rparr>
     else u)"

definition Flush :: "UnavailableOfferingsCache \<Rightarrow> UnavailableOfferingsCache" where
  "Flush u = u\<lparr>entries := []\<rparr>"

definition Count :: "UnavailableOfferingsCache \<Rightarrow> nat" where
  "Count u = length (entries u)"

definition CleanupExpired :: "time_ns \<Rightarrow> UnavailableOfferingsCache \<Rightarrow> UnavailableOfferingsCache" where
  "CleanupExpired now u = u\<lparr>entries := filter (\<lambda>(key, expiryTime). \<not> now > expiryTime) (entries u)\<rparr>"

section \<open>Keys\<close>

lemma makeKey_split:
  assumes "CHR '':'' \<notin> set it" "CHR '':'' \<notin> set z" "CHR '':'' \<notin> set c"
  shows "split_on CHR '':'' (makeKey it z c) = [it, z, c]"
  using assms by (simp add: makeKey_def split_on_append split_on_no_sep)

lemma makeKey_inj:
  assumes "CHR '':'' \<notin> set it \<union> set z \<union> set c \<union> set it' \<union> set z' \<union> set c'"
  shows "makeKey it z c = makeKey it' z' c' \<longleftrightarrow> (it, z, c) = (it', z', c')"
proof
  assume "makeKey it z c = makeKey it' z' c'"
  then have "split_on CHR '':'' (makeKey it z c) = split_on CHR '':'' (makeKey it' z' c')" by simp
  then show "(it, z, c) = (it', z', c')" using assms by (simp add: makeKey_split)
qed simp

section \<open>Operations as steps\<close>

datatype off_op =
    Mark string string string
  | Query string string string
  | RunCleanup nat
  | FlushAll
  | SweepExpired

fun off_step :: "time_ns \<times> off_op \<Rightarrow> UnavailableOfferingsCache \<Rightarrow> UnavailableOfferingsCache" where
  "off_step (t, Mark it z c) u = MarkUnavailable it z c t u"
| "off_step (t, Query it z c) u = snd (IsAvailable it z c t u)"
| "off_step (t, RunCleanup i) u = runCleanup i u"
| "off_step (t, FlushAll) u = Flush u"
| "off_step (t, SweepExpired) u = CleanupExpired t u"

definition off_run :: "(time_ns \<times> off_op) list \<Rightarrow> UnavailableOfferingsCache \<Rightarrow> UnavailableOfferingsCache" where
  "off_run ops u = fold off_step ops u"

text \<open>
  What keeps an offering blocked: the key has an expiry of at least d, and no
  goroutine that would delete it is outstanding.
\<close>

definition blocked_until :: "string \<Rightarrow> time_ns \<Rightarrow> UnavailableOfferingsCache \<Rightarrow> bool" where
  "blocked_until key d u \<longleftrightarrow> wf_map (entries u) \<and> key \<notin> set (pendingCleanups u) \<and>
     (\<exists>e \<ge> d. map_of (entries u) key = Some e)"

lemma blocked_IsAvailable:
  "blocked_until (makeKey it z c) d u \<Longrightarrow> t \<le> d \<Longrightarrow> IsAvailable it z c t u = (False, u)"
  by (auto simp: blocked_until_def IsAvailable_def)

lemma blocked_step:
  assumes "blocked_until key d u" "t \<le> d" "d \<le> t + off_ttl u" "op \<noteq> FlushAll"
  shows "blocked_until key d (off_step (t, op) u)"
proof (cases op)
  case (Mark it z c)
  with assms show ?thesis
    by (auto simp: blocked_until_def MarkUnavailable_def map_of_update)
next
  case (Query it z c)
  with assms show ?thesis
    by (auto simp: blocked_until_def IsAvailable_def Let_def split: option.splits)
next
  case (RunCleanup i)
  have "set (take i (pendingCleanups u) @ drop (Suc i) (pendingCleanups u)) \<subseteq> set (pendingCleanups u)"
    by (auto dest: in_set_takeD in_set_dropD)
  moreover have "i < length (pendingCleanups u) \<Longrightarrow> pendingCleanups u ! i \<noteq> key"
    using assms(1) by (auto simp: blocked_until_def)
  ultimately show ?thesis
    using assms(1) RunCleanup by (auto simp: blocked_until_def runCleanup_def cleanup_def map_of_delete)
next
  case SweepExpired
  with assms show ?thesis
    by (auto simp: blocked_until_def CleanupExpired_def map_of_filter_wf)
qed (use assms in simp)

lemma off_ttl_step [simp]: "off_ttl (off_step tp u) = off_ttl u"
  by (induction tp u rule: off_step.induct)
     (auto simp: MarkUnavailable_def IsAvailable_def runCleanup_def cleanup_def Flush_def
        CleanupExpired_def Let_def split: option.splits)

lemma blocked_run:
  assumes "blocked_until key d u" "\<forall>(t, op) \<in> set ops. t \<le> d \<and> d \<le> t + off_ttl u \<and> op \<noteq> FlushAll"
  shows "blocked_until key d (off_run ops u)"
  using assms unfolding off_run_def
proof (induction ops arbitrary: u)
  case (Cons o1 ops)
  obtain t op where o1: "o1 = (t, op)" by (cases o1)
  have "blocked_until key d (off_step o1 u)"
    using Cons.prems by (auto simp: o1 intro: blocked_step)
  then show ?case using Cons by simp
qed simp

lemma MarkUnavailable_blocks:
  assumes "wf_map (entries u)" "makeKey it z c \<notin> set (pendingCleanups u)"
  shows "blocked_until (makeKey it z c) (now + off_ttl u) (MarkUnavailable it z c now u)"
  using assms by (auto simp: blocked_until_def MarkUnavailable_def map_of_update)

section \<open>Properties\<close>

text \<open>
  An offering that ran out of stock at time t0 stays unavailable for the
  whole time to live, through any sequence of queries, sweeps, marks and scheduled
  cleanup goroutines up to then, provided no cleanup of that same key was still
  outstanding when it was marked and nobody flushes the cache; after that, and if it is
  not marked again, it is available.
\<close>
theorem unavailable_for_ttl:
  assumes "wf_map (entries u)" "makeKey it z c \<notin> set (pendingCleanups u)"
    and "\<forall>(t, op) \<in> set ops. t0 \<le> t \<and> t \<le> t0 + off_ttl u \<and> op \<noteq> FlushAll"
    and "now \<le> t0 + off_ttl u"
  shows "fst (IsAvailable it z c now (off_run ops (MarkUnavailable it z c t0 u))) = False \<and>
    (\<forall>later > t0 + off_ttl u. fst (IsAvailable it z c later (MarkUnavailable it z c t0 u)))"
proof
  have "blocked_until (makeKey it z c) (t0 + off_ttl u) (off_run ops (MarkUnavailable it z c t0 u))"
    using assms(3) MarkUnavailable_blocks [OF assms(1,2), of t0]
    by (intro blocked_run) (auto simp: MarkUnavailable_def)
  then show "fst (IsAvailable it z c now (off_run ops (MarkUnavailable it z c t0 u))) = False"
    using assms(4) blocked_IsAvailable by fastforce
  show "\<forall>later > t0 + off_ttl u. fst (IsAvailable it z c later (MarkUnavailable it z c t0 u))"
    by (simp add: IsAvailable_def MarkUnavailable_def Let_def map_of_update)
qed

theorem unavailable_for_ttl_witness:
  "fst (IsAvailable ''ecs.g6.large'' ''cn-a'' ''spot'' 300
     (off_run [(10, Query ''ecs.g6.large'' ''cn-a'' ''spot''), (20, SweepExpired), (30, RunCleanup 0)]
       (MarkUnavailable ''ecs.g6.large'' ''cn-a'' ''spot'' 0
         (NewUnavailableOfferingsCacheWithTTL 300)))) = False"
  using unavailable_for_ttl [of "NewUnavailableOfferingsCacheWithTTL 300" "''ecs.g6.large''"
      "''cn-a''" "''spot''"
      "[(10, Query ''ecs.g6.large'' ''cn-a'' ''spot''), (20, SweepExpired), (30, RunCleanup 0)]" 0 300]
  by (simp add: NewUnavailableOfferingsCacheWithTTL_def)

text \<open>
  The proviso of the previous property is needed: an entry that expired
  and was queried leaves a cleanup goroutine behind; when the offering is marked again
  before that goroutine runs, the goroutine deletes the fresh mark, since it does not
  check the expiry a second time, and the offering is offered again at the very moment
  it ran out of stock.
\<close>
theorem stale_cleanup_drops_fresh_mark:
  "fst (IsAvailable it z c (ttl + 2)
     (off_run [(0, Mark it z c), (ttl + 1, Query it z c), (ttl + 2, Mark it z c),
               (ttl + 2, RunCleanup 0)] (NewUnavailableOfferingsCacheWithTTL ttl)))"
  by (simp add: off_run_def NewUnavailableOfferingsCacheWithTTL_def MarkUnavailable_def
      IsAvailable_def runCleanup_def cleanup_def Let_def map_of_update map_of_delete)

end
