(* ===== verification/BatchMetrics.thy ===== *)
theory BatchMetrics
  imports Prelude
begin

text \<open>
  pkg/batcher/metrics.go: the counters and histograms of the batcher.  A vector of
  Prometheus counters is the value for each tuple of labels (0 for one that was never
  used); a vector of histograms is the sequence of its observations with their labels,
  of which the buckets are a summary.  windowUtilization is registered and never written.
\<close>

record BatcherMetrics =
  batchOperations :: "string \<times> string \<times> string \<Rightarrow> nat"
  batchSize :: "(string \<times> int) list"
  batchLatency :: "((string \<times> string) \<times> int) list"
  windowUtilization :: "((string \<times> string) \<times> int) list"
  apiCallsSaved :: "string \<Rightarrow> int"
  cacheHits :: "string \<Rightarrow> nat"
  cacheMisses :: "string \<Rightarrow> nat"

definition no_metrics :: BatcherMetrics where
  "no_metrics = \<lparr>batchOperations = (\<lambda>_. 0), batchSize = [], batchLatency = [], windowUtilization = [],
     apiCallsSaved = (\<lambda>_. 0), cacheHits = (\<lambda>_. 0), cacheMisses = (\<lambda>_. 0)\<rparr>"

definition recordBatchMetrics :: "string \<Rightarrow> int \<Rightarrow> string \<Rightarrow> int \<Rightarrow> string option \<Rightarrow>
    BatcherMetrics \<Rightarrow> BatcherMetrics" where
  "recordBatchMetrics operation n reason duration err m =
     (let status = (if err \<noteq> None then ''error'' else ''success'');
          ops = batchOperations m;
          m1 = m\<lparr>batchOperations := ops((operation, status, reason) := ops (operation, status, reason) + 1)\<rparr>;
          m2 = m1\<lparr>batchSize := batchSize m1 @ [(operation, n)]\<rparr>;
          m3 = m2\<lparr>batchLatency := batchLatency m2 @ [((operation, reason), duration)]\<rparr>;
          saved = apiCallsSaved m3
      in if n > 1 then m3\<lparr>apiCallsSaved := saved(operation := saved operation + (n - 1))\<rparr> else m3)"

definition recordCacheHit :: "string \<Rightarrow> BatcherMetrics \<Rightarrow> BatcherMetrics" where
  "recordCacheHit operation m =
     m\<lparr>cacheHits := (cacheHits m)(operation := cacheHits m operation + 1)\<rparr>"

definition recordCacheMiss :: "string \<Rightarrow> BatcherMetrics \<Rightarrow> BatcherMetrics" where
  "recordCacheMiss operation m =
     m\<lparr>cacheMisses := (cacheMisses m)(operation := cacheMisses m operation + 1)\<rparr>"

text \<open>The calls a batch saves, and what one record adds for its operation.\<close>

lemma recordBatchMetrics_saved [simp]:
  "apiCallsSaved (recordBatchMetrics op (int n) reason d err m) op' =
     apiCallsSaved m op' + (if op' = op then int (n - 1) else 0)"
  by (simp add: recordBatchMetrics_def Let_def of_nat_diff)

lemma recordBatchMetrics_sizes [simp]:
  "batchSize (recordBatchMetrics op n reason d err m) = batchSize m @ [(op, n)]"
  by (simp add: recordBatchMetrics_def Let_def)

end
