(* ===== verification/Batcher.thy ===== *)
theory Batcher
  imports TtlCache BatchMetrics
begin

text \<open>
  pkg/batcher/batcher.go: splitting of large ECS calls into batches and a
  cache for the results of deduplicated calls.

  The group of golang.org/x/sync/singleflight is a parameter, group_do: called
  with a key and the caller's function, it either runs the function or returns
  the result of a call with the same key that is in flight.  A call acts on an
  explicit state 'w of the outside world.  Do passes key and function on
  unchanged.
\<close>

type_synonym ('w, 'r) call = "'w \<Rightarrow> (string + 'r) \<times> 'w"
type_synonym ('w, 'r) flight = "string \<Rightarrow> ('w, 'r) call \<Rightarrow> ('w, 'r) call"

record 'v Batcher =
  maxBatchDuration :: int
  batchIdleDuration :: int
  bcache :: "'v cache"

definition millisecond_ns :: int where "millisecond_ns = 1000000"

definition NewBatcher :: "int \<Rightarrow> int \<Rightarrow> 'v Batcher" where
  "NewBatcher mx idle =
     (if mx = 100 * millisecond_ns \<and> idle = 10 * millisecond_ns
      then \<lparr>maxBatchDuration = 10 * millisecond_ns, batchIdleDuration = millisecond_ns, bcache = []\<rparr>
      else \<lparr>maxBatchDuration = mx, batchIdleDuration = idle, bcache = []\<rparr>)"

definition Do :: "('w, 'r) flight \<Rightarrow> string \<Rightarrow> ('w, 'r) call \<Rightarrow> ('w, 'r) call" where
  "Do group_do key fn = group_do key fn"

text \<open>The verb %v of fmt on a slice of strings.\<close>

definition show_strings :: "string list \<Rightarrow> string" where
  "show_strings xs = ''['' @ join_with '' '' xs @ '']''"

fun describe_loop :: "('w, 'r) flight \<Rightarrow> (string list \<Rightarrow> ('w, 'r) call) \<Rightarrow>
    string list list \<Rightarrow> 'r list \<Rightarrow> 'w \<Rightarrow> (string + 'r list) \<times> 'w" where
  "describe_loop group_do fn [] results w = (Inr results, w)"
| "describe_loop group_do fn (batch # rest) results w =
     (case Do group_do (''describe-instances-'' @ show_strings batch) (fn batch) w of
        (Inl err, w') \<Rightarrow> (Inl err, w')
      | (Inr result, w') \<Rightarrow> describe_loop group_do fn rest (results @ [result]) w')"

definition BatchDescribeInstances :: "('w, 'r) flight \<Rightarrow> string list \<Rightarrow>
    (string list \<Rightarrow> ('w, 'r) call) \<Rightarrow> 'w \<Rightarrow> (string + 'r list) \<times> 'w" where
  "BatchDescribeInstances group_do instanceIDs fn w =
     describe_loop group_do fn (chunks (100 - 1) instanceIDs) [] w"

fun tags_loop :: "('w, unit) flight \<Rightarrow> (string list \<Rightarrow> gomap \<Rightarrow> ('w, unit) call) \<Rightarrow> gomap \<Rightarrow>
    string list list \<Rightarrow> 'w \<Rightarrow> (string + unit) \<times> 'w" where
  "tags_loop group_do fn tags [] w = (Inr (), w)"
| "tags_loop group_do fn tags (batch # rest) w =
     (case Do group_do (''add-tags-'' @ show_strings batch) (fn batch tags) w of
        (Inl err, w') \<Rightarrow> (Inl err, w')
      | (Inr _, w') \<Rightarrow> tags_loop group_do fn tags rest w')"

definition BatchAddTags :: "('w, unit) flight \<Rightarrow> string list \<Rightarrow> gomap \<Rightarrow>
    (string list \<Rightarrow> gomap \<Rightarrow> ('w, unit) call) \<Rightarrow> 'w \<Rightarrow> (string + unit) \<times> 'w" where
  "BatchAddTags group_do resourceIDs tags fn w =
     tags_loop group_do fn tags (chunks (50 - 1) resourceIDs) w"

definition DedupDescribeInstanceTypes :: "('w, 'r) flight \<Rightarrow> ('w, 'r) call \<Rightarrow> ('w, 'r) call" where
  "DedupDescribeInstanceTypes group_do fn = Do group_do ''describe-instance-types'' fn"

definition DedupDescribeVSwitches :: "('w, 'r) flight \<Rightarrow> string \<Rightarrow> ('w, 'r) call \<Rightarrow> ('w, 'r) call" where
  "DedupDescribeVSwitches group_do vpcID fn = Do group_do (''describe-vswitches-'' @ vpcID) fn"

section \<open>Deduplication with a time to live\<close>

definition getCache :: "string \<Rightarrow> time_ns \<Rightarrow> 'v Batcher \<Rightarrow> 'v option" where
  "getCache key now b = (case map_of (bcache b) key of
     None \<Rightarrow> None
   | Some entry \<Rightarrow> if now > ExpiresAt entry then None else Some (Value entry))"

definition setCache :: "string \<Rightarrow> 'v \<Rightarrow> int \<Rightarrow> time_ns \<Rightarrow> 'v Batcher \<Rightarrow> 'v Batcher" where
  "setCache key value ttl now b =
     b\<lparr>bcache := AList.update key \<lparr>Value = value, ExpiresAt = now + ttl\<rparr> (bcache b)\<rparr>"

definition deleteCache :: "string \<Rightarrow> 'v Batcher \<Rightarrow> 'v Batcher" where
  "deleteCache key b = b\<lparr>bcache := AList.delete key (bcache b)\<rparr>"

text \<open>
  The clock is read for the look-up and again when the result is stored.  Hits and misses
  are counted under the key.
\<close>

definition DedupWithTTL :: "('w, 'v) flight \<Rightarrow> string \<Rightarrow> int \<Rightarrow> ('w, 'v) call \<Rightarrow> time_ns \<Rightarrow> time_ns \<Rightarrow>
    'v Batcher \<Rightarrow> BatcherMetrics \<Rightarrow> 'w \<Rightarrow> (string + 'v) \<times> 'v Batcher \<times> BatcherMetrics \<times> 'w" where
  "DedupWithTTL group_do key ttl fn now now2 b m w = (case getCache key now b of
     Some value \<Rightarrow> (Inr value, b, recordCacheHit key m, w)
   | None \<Rightarrow> (let m1 = recordCacheMiss key m in
       case group_do key fn w of
         (Inl err, w') \<Rightarrow> (Inl err, b, m1, w')
       | (Inr result, w') \<Rightarrow> (Inr result, setCache key result ttl now2 b, m1, w')))"

definition cleanupExpired :: "time_ns \<Rightarrow> 'v Batcher \<Rightarrow> 'v Batcher" where
  "cleanupExpired now b = b\<lparr>bcache := filter (\<lambda>(key, entry). \<not> now > ExpiresAt entry) (bcache b)\<rparr>"

definition ClearCache :: "'v Batcher \<Rightarrow> 'v Batcher" where
  "ClearCache b = b\<lparr>bcache := []\<rparr>"

text \<open>Close of a closed batcher panics (close of a closed channel): the flag is the channel.\<close>

definition CloseBatcher :: "bool \<Rightarrow> 'v Batcher \<Rightarrow> (bool \<times> 'v Batcher) option" where
  "CloseBatcher closed b = (if closed then None else Some (True, b\<lparr>bcache := []\<rparr>))"

text \<open>total, expired and active entries\<close>

definition CacheStats :: "time_ns \<Rightarrow> 'v Batcher \<Rightarrow> nat \<times> nat \<times> nat" where
  "CacheStats now b =
     (let expired = length (filter (\<lambda>(key, entry). now > ExpiresAt entry) (bcache b))
      in (length (bcache b), expired, length (bcache b) - expired))"

definition GetCacheStats :: "time_ns \<Rightarrow> 'v Batcher \<Rightarrow> nat \<times> nat \<times> nat" where
  "GetCacheStats now b =
     (let expired = length (filter (\<lambda>(key, entry). now > ExpiresAt entry) (bcache b))
      in (length (bcache b), expired, length (bcache b) - expired))"

definition SetCacheTTL :: "int \<Rightarrow> 'v Batcher \<Rightarrow> 'v Batcher" where
  "SetCacheTTL ttl b = b"

lemma getCache_lookup: "getCache key now b = cache_lookup key now (bcache b)"
  by (simp add: getCache_def cache_lookup_iff)

lemma setCache_bcache: "bcache (setCache key v ttl now b) = setCachedValue key v ttl now (bcache b)"
  by (simp add: setCache_def setCachedValue_def)

lemma cleanupExpired_bcache: "bcache (cleanupExpired now b) = deleteExpired now (bcache b)"
  by (simp add: cleanupExpired_def deleteExpired_def)

section \<open>Batches\<close>

text \<open>The documented behaviour of an idle group: with no call in flight the function runs.\<close>

definition runs_alone :: "('w, 'r) flight \<Rightarrow> bool" where
  "runs_alone group_do \<longleftrightarrow> (\<forall>key fn w. group_do key fn w = fn w)"

text \<open>An API that answers each batch with f and logs the calls made.\<close>

definition logged :: "('b \<Rightarrow> string + 'r) \<Rightarrow> 'b \<Rightarrow> ('b list, 'r) call" where
  "logged f batch w = (f batch, w @ [batch])"

fun ok_prefix :: "('b \<Rightarrow> string + 'r) \<Rightarrow> 'b list \<Rightarrow> 'b list" where
  "ok_prefix f [] = []"
| "ok_prefix f (b # bs) = (case f b of Inl _ \<Rightarrow> [b] | Inr _ \<Rightarrow> b # ok_prefix f bs)"

fun all_ok :: "('b \<Rightarrow> string + 'r) \<Rightarrow> 'b list \<Rightarrow> string + 'r list" where
  "all_ok f [] = Inr []"
| "all_ok f (b # bs) = (case f b of Inl e \<Rightarrow> Inl e
     | Inr r \<Rightarrow> (case all_ok f bs of Inl e \<Rightarrow> Inl e | Inr rs \<Rightarrow> Inr (r # rs)))"

lemma describe_loop_logged:
  assumes "runs_alone group_do"
  shows "describe_loop group_do (logged f) bs acc w =
    ((case all_ok f bs of Inl e \<Rightarrow> Inl e | Inr rs \<Rightarrow> Inr (acc @ rs)), w @ ok_prefix f bs)"
  using assms by (induction bs arbitrary: acc w)
    (auto simp: Do_def runs_alone_def logged_def split: sum.splits)

lemma tags_loop_logged:
  assumes "runs_alone group_do"
  shows "tags_loop group_do (\<lambda>b t. logged (\<lambda>b. f b t) b) tags bs w =
    ((case all_ok (\<lambda>b. f b tags) bs of Inl e \<Rightarrow> Inl e | Inr rs \<Rightarrow> Inr ()),
     w @ ok_prefix (\<lambda>b. f b tags) bs)"
  using assms by (induction bs arbitrary: w)
    (auto simp: Do_def runs_alone_def logged_def split: sum.splits)

lemma ok_prefix_all: "all_ok f bs = Inr rs \<Longrightarrow> ok_prefix f bs = bs \<and> length rs = length bs"
  by (induction bs arbitrary: rs) (auto split: sum.splits)

lemma ok_prefix_is_prefix: "prefix (ok_prefix f bs) bs"
  by (induction bs) (auto split: sum.splits)

lemma all_ok_nth: "all_ok f bs = Inr rs \<Longrightarrow> i < length bs \<Longrightarrow> f (bs ! i) = Inr (rs ! i)"
  by (induction bs arbitrary: rs i) (auto split: sum.splits simp: nth_Cons')

lemma all_ok_Inl:
  "all_ok f bs = Inl e \<Longrightarrow> ok_prefix f bs \<noteq> [] \<and> f (last (ok_prefix f bs)) = Inl e \<and>
     (\<forall>b \<in> set (butlast (ok_prefix f bs)). \<exists>r. f b = Inr r)"
  by (induction bs) (auto split: sum.splits)

section \<open>Properties\<close>

text \<open>
  With no other call in flight, BatchDescribeInstances asks for the
  instances in batches of at most 100 that together are the requested list in order;
  when it succeeds every batch was asked for exactly once and the results are those of
  the batches in order, and when it fails the error is that of the last batch asked for,
  all batches before it succeeded and no batch after it was asked for.
\<close>
theorem BatchDescribeInstances_correct:
  assumes "runs_alone group_do"
  shows "\<exists>asked. BatchDescribeInstances group_do ids (logged f) [] =
      (all_ok f (chunks 99 ids), asked) \<and>
    prefix asked (chunks 99 ids) \<and> concat (chunks 99 ids) = ids \<and>
    (\<forall>b \<in> set asked. length b \<le> 100) \<and>
    (case all_ok f (chunks 99 ids) of
       Inr rs \<Rightarrow> asked = chunks 99 ids \<and> length rs = length asked \<and>
         (\<forall>i < length asked. f (asked ! i) = Inr (rs ! i))
     | Inl e \<Rightarrow> asked \<noteq> [] \<and> f (last asked) = Inl e \<and>
         (\<forall>b \<in> set (butlast asked). \<exists>r. f b = Inr r))"
proof (intro exI [where x = "ok_prefix f (chunks 99 ids)"] conjI)
  show "BatchDescribeInstances group_do ids (logged f) [] =
      (all_ok f (chunks 99 ids), ok_prefix f (chunks 99 ids))"
    by (simp add: BatchDescribeInstances_def describe_loop_logged [OF assms] split: sum.split)
  show "\<forall>b \<in> set (ok_prefix f (chunks 99 ids)). length b \<le> 100"
    using set_mono_prefix [OF ok_prefix_is_prefix] chunks_size by fastforce
qed (auto simp: ok_prefix_is_prefix ok_prefix_all all_ok_nth all_ok_Inl split: sum.splits)

theorem BatchDescribeInstances_correct_witness:
  "\<exists>asked. BatchDescribeInstances (\<lambda>k fn. fn) [''i-1'', ''i-2''] (logged (\<lambda>b. Inr (length b))) [] =
     (Inr [2], asked)"
  using BatchDescribeInstances_correct [of "\<lambda>k fn. fn" "[''i-1'', ''i-2'']" "\<lambda>b. Inr (length b)"]
  by (auto simp: runs_alone_def chunks.simps)

text \<open>
  The deduplication key of BatchAddTags names the resources but not
  the tags: when a call for the same resources is in flight, a second call with other
  tags reports success without sending any of its tags, whatever its own API call would
  have done.
\<close>
theorem BatchAddTags_shares_other_tags:
  assumes "ids \<noteq> []" "length ids \<le> 50"
    and "\<forall>fn w. group_do (''add-tags-'' @ show_strings ids) fn w = (Inr (), w)"
  shows "BatchAddTags group_do ids tags fn w = (Inr (), w)"
  using assms by (simp add: BatchAddTags_def chunks.simps [of 49 ids] Do_def)

theorem BatchAddTags_shares_other_tags_witness:
  "BatchAddTags (\<lambda>key fn w. if key = ''add-tags-[i-1]'' then (Inr (), w) else fn w)
     [''i-1''] [(''team'', ''b'')] (\<lambda>ids tags w. (Inl ''Throttling'', w @ tags)) [] = (Inr (), [])"
  using BatchAddTags_shares_other_tags
    [of "[''i-1'']" "\<lambda>key fn w. if key = ''add-tags-[i-1]'' then (Inr (), w) else fn w"
        "[(''team'', ''b'')]" "\<lambda>ids tags w. (Inl ''Throttling'', w @ tags)" "[]"]
  by (simp add: show_strings_def)

end
