(* ===== verification/BatchWindow.thy ===== *)
theory BatchWindow
  imports Prelude
begin

text \<open>
  pkg/batcher/window.go: one batch window with its idle and maximum timers, and
  the windows by key.

  Every function that holds the mutex of the window is one atomic step.  A
  timer that fires starts a goroutine which then waits for the mutex; stopping a
  timer does not stop such a goroutine.  The state win_sys of the step relation
  is the window, the clock, the goroutines waiting to run flushIdle or flushMax,
  the batch that is being executed, and three observations: the items accepted,
  the batches handed to the executor, and whether a timer function found a flush
  in progress since the window was last flushed.
\<close>

text \<open>A pointer to a timer: the deadline while it is armed.\<close>

record timer =
  deadline :: "time_ns option"

record 'a BatchWindow =
  items :: "'a list"
  idleDuration :: int
  maxDuration :: int
  idleTimer :: "timer option"
  maxTimer :: "timer option"
  started :: bool
  closed :: bool
  flushInProgress :: bool

definition NewBatchWindow :: "int \<Rightarrow> int \<Rightarrow> 'a BatchWindow" where
  "NewBatchWindow idle mx = \<lparr>items = [], idleDuration = idle, maxDuration = mx,
     idleTimer = None, maxTimer = None, started = False, closed = False, flushInProgress = False\<rparr>"

definition armed :: "time_ns \<Rightarrow> timer option" where
  "armed t = Some \<lparr>deadline = Some t\<rparr>"

definition Add :: "'a \<Rightarrow> time_ns \<Rightarrow> 'a BatchWindow \<Rightarrow> (string + unit) \<times> 'a BatchWindow" where
  "Add item now w =
     (if closed w then (Inl ''batch window closed'', w)
      else
        let w1 = w\<lparr>items := items w @ [item]\<rparr> in
        (Inr (),
         if \<not> started w1
         then w1\<lparr>idleTimer := armed (now + idleDuration w1),
                 maxTimer := armed (now + maxDuration w1), started := True\<rparr>
         else (case idleTimer w1 of
                 None \<Rightarrow> w1
               | Some tm \<Rightarrow> w1\<lparr>idleTimer := armed (now + idleDuration w1)\<rparr>)))"

text \<open>flush returns the batch it starts a goroutine for.\<close>

definition flush :: "'a BatchWindow \<Rightarrow> 'a list option \<times> 'a BatchWindow" where
  "flush w =
     (if items w = [] \<or> flushInProgress w then (None, w)
      else (Some (items w),
        w\<lparr>flushInProgress := True, idleTimer := None, maxTimer := None,
          items := [], started := False\<rparr>))"

definition flushIdle :: "'a BatchWindow \<Rightarrow> 'a list option \<times> 'a BatchWindow" where
  "flushIdle w = (if \<not> flushInProgress w then flush w else (None, w))"

definition flushMax :: "'a BatchWindow \<Rightarrow> 'a list option \<times> 'a BatchWindow" where
  "flushMax w = (if \<not> flushInProgress w then flush w else (None, w))"

definition flushDone :: "'a BatchWindow \<Rightarrow> 'a BatchWindow" where
  "flushDone w = w\<lparr>flushInProgress := False\<rparr>"

definition CloseWindow :: "'a BatchWindow \<Rightarrow> 'a list option \<times> 'a BatchWindow" where
  "CloseWindow w =
     (if closed w then (None, w)
      else let w1 = w\<lparr>closed := True\<rparr> in
        if \<not> flushInProgress w1 then flush w1 else (None, w1))"

definition Size :: "'a BatchWindow \<Rightarrow> nat" where
  "Size w = length (items w)"

section \<open>The window among its goroutines\<close>

record 'a win_sys =
  win :: "'a BatchWindow"
  clock :: time_ns
  idleGo :: nat
  maxGo :: nat
  running :: "'a list option"
  accepted :: "'a list"
  batches :: "'a list list"
  skipped :: bool

definition init_sys :: "int \<Rightarrow> int \<Rightarrow> 'a win_sys" where
  "init_sys idle mx = \<lparr>win = NewBatchWindow idle mx, clock = 0, idleGo = 0, maxGo = 0,
     running = None, accepted = [], batches = [], skipped = False\<rparr>"

text \<open>Start the goroutine of a flush, if there is one.\<close>

definition launch :: "'a list option \<times> 'a BatchWindow \<Rightarrow> 'a win_sys \<Rightarrow> 'a win_sys" where
  "launch fw s = (case fst fw of
     None \<Rightarrow> s\<lparr>win := snd fw\<rparr>
   | Some b \<Rightarrow> s\<lparr>win := snd fw, running := Some b, batches := batches s @ [b], skipped := False\<rparr>)"

definition due :: "timer option \<Rightarrow> time_ns \<Rightarrow> bool" where
  "due tm now = (case tm of Some t \<Rightarrow> (case deadline t of Some d \<Rightarrow> d \<le> now | None \<Rightarrow> False)
                  | None \<Rightarrow> False)"

definition fired :: "timer option \<Rightarrow> timer option" where
  "fired tm = map_option (\<lambda>t. t\<lparr>deadline := None\<rparr>) tm"

datatype 'a win_event =
    EvAdd 'a
  | EvTick nat
  | EvIdleTimer
  | EvMaxTimer
  | EvRunIdle
  | EvRunMax
  | EvFlushDone
  | EvClose

text \<open>One step: None when the event is not possible in the state.\<close>

fun win_exec :: "'a win_event \<Rightarrow> 'a win_sys \<Rightarrow> 'a win_sys option" where
  "win_exec (EvAdd x) s = (case Add x (clock s) (win s) of
     (Inl err, w) \<Rightarrow> Some (s\<lparr>win := w\<rparr>)
   | (Inr _, w) \<Rightarrow> Some (s\<lparr>win := w, accepted := accepted s @ [x]\<rparr>))"
| "win_exec (EvTick n) s = Some (s\<lparr>clock := clock s + int n\<rparr>)"
| "win_exec EvIdleTimer s = (if due (idleTimer (win s)) (clock s)
     then Some (s\<lparr>win := (win s)\<lparr>idleTimer := fired (idleTimer (win s))\<rparr>, idleGo := idleGo s + 1\<rparr>)
     else None)"
| "win_exec EvMaxTimer s = (if due (maxTimer (win s)) (clock s)
     then Some (s\<lparr>win := (win s)\<lparr>maxTimer := fired (maxTimer (win s))\<rparr>, maxGo := maxGo s + 1\<rparr>)
     else None)"
| "win_exec EvRunIdle s = (if 0 < idleGo s
     then Some (launch (flushIdle (win s))
                 (s\<lparr>idleGo := idleGo s - 1, skipped := skipped s \<or> flushInProgress (win s)\<rparr>))
     else None)"
| "win_exec EvRunMax s = (if 0 < maxGo s
     then Some (launch (flushMax (win s))
                 (s\<lparr>maxGo := maxGo s - 1, skipped := skipped s \<or> flushInProgress (win s)\<rparr>))
     else None)"
| "win_exec EvFlushDone s = (case running s of None \<Rightarrow> None
     | Some b \<Rightarrow> Some (s\<lparr>win := flushDone (win s), running := None\<rparr>))"
| "win_exec EvClose s = Some (launch (CloseWindow (win s)) s)"

fun win_run :: "'a win_event list \<Rightarrow> 'a win_sys \<Rightarrow> 'a win_sys option" where
  "win_run [] s = Some s"
| "win_run (e # es) s = (case win_exec e s of None \<Rightarrow> None | Some s' \<Rightarrow> win_run es s')"

inductive win_step :: "'a win_sys \<Rightarrow> 'a win_event \<Rightarrow> 'a win_sys \<Rightarrow> bool" where
  step: "win_exec e s = Some s' \<Longrightarrow> win_step s e s'"

inductive_cases win_stepE [elim!]: "win_step s e s'"
inductive_simps win_step_iff: "win_step s e s'"

inductive win_reach :: "int \<Rightarrow> int \<Rightarrow> 'a win_sys \<Rightarrow> bool" for idle mx where
  init: "win_reach idle mx (init_sys idle mx)"
| more: "win_reach idle mx s \<Longrightarrow> win_step s e s' \<Longrightarrow> win_reach idle mx s'"

lemma win_run_reach: "win_reach idle mx s \<Longrightarrow> win_run es s = Some s' \<Longrightarrow> win_reach idle mx s'"
  by (induction es arbitrary: s) (auto split: option.splits intro: win_reach.more win_step.step)

section \<open>Invariant\<close>

definition phase_ok :: "'a BatchWindow \<Rightarrow> bool" where
  "phase_ok w \<longleftrightarrow>
     (if started w then items w \<noteq> [] \<and> idleTimer w \<noteq> None \<and> maxTimer w \<noteq> None
      else items w = [] \<and> idleTimer w = None \<and> maxTimer w = None)"

definition flush_ok :: "'a win_sys \<Rightarrow> bool" where
  "flush_ok s \<longleftrightarrow> (case running s of
     None \<Rightarrow> \<not> flushInProgress (win s)
   | Some b \<Rightarrow> flushInProgress (win s) \<and> batches s \<noteq> [] \<and> last (batches s) = b)"

definition conserved :: "'a win_sys \<Rightarrow> bool" where
  "conserved s \<longleftrightarrow> accepted s = concat (batches s) @ items (win s) \<and> [] \<notin> set (batches s)"

definition win_inv :: "'a win_sys \<Rightarrow> bool" where
  "win_inv s \<longleftrightarrow> phase_ok (win s) \<and> flush_ok s \<and> conserved s"

lemmas inv_defs = phase_ok_def flush_ok_def conserved_def

lemmas win_defs = Add_def flush_def flushIdle_def flushMax_def flushDone_def CloseWindow_def
  launch_def armed_def fired_def Let_def

lemma win_inv_init: "win_inv (init_sys idle mx)"
  by (simp add: win_inv_def inv_defs init_sys_def NewBatchWindow_def)

lemma phase_ok_step:
  "phase_ok (win s) \<Longrightarrow> win_exec e s = Some s' \<Longrightarrow> phase_ok (win s')"
  by (cases e) (auto simp: phase_ok_def win_defs due_def split: if_splits option.splits)

lemma flush_ok_launch:
  assumes "flush_ok s" "\<not> flushInProgress (win s)"
    and "win s' = win s" "running s' = running s" "batches s' = batches s"
  shows "flush_ok (launch (flush (win s)) s')" "flush_ok (launch (flush ((win s)\<lparr>closed := True\<rparr>)) s')"
  using assms by (auto simp: flush_ok_def flush_def launch_def split: option.splits)

lemma flush_ok_cong:
  assumes "flush_ok s" "flushInProgress (win s') = flushInProgress (win s)"
    and "running s' = running s" "batches s' = batches s"
  shows "flush_ok s'"
  using assms by (auto simp: flush_ok_def split: option.splits)

lemma Add_flag: "Add x t w = (r, w') \<Longrightarrow> flushInProgress w' = flushInProgress w"
  by (auto simp: Add_def Let_def split: option.splits if_splits)

lemma flush_ok_step: "flush_ok s \<Longrightarrow> win_exec e s = Some s' \<Longrightarrow> flush_ok s'"
proof (cases e)
  case (EvAdd x)
  have "flushInProgress (win s') = flushInProgress (win s) \<and> running s' = running s \<and> batches s' = batches s"
    if "win_exec e s = Some s'"
    using that by (auto simp: EvAdd dest: Add_flag split: prod.splits sum.splits)
  then show "flush_ok s \<Longrightarrow> win_exec e s = Some s' \<Longrightarrow> flush_ok s'"
    using flush_ok_cong by blast
next
  case EvFlushDone
  then show "flush_ok s \<Longrightarrow> win_exec e s = Some s' \<Longrightarrow> flush_ok s'"
    by (auto simp: flush_ok_def flushDone_def split: option.splits)
next
  case EvRunIdle
  then show "flush_ok s \<Longrightarrow> win_exec e s = Some s' \<Longrightarrow> flush_ok s'"
    by (cases "flushInProgress (win s)")
       (auto simp: flushIdle_def launch_def [of "(None, w)" for w] split: if_splits
          intro: flush_ok_launch elim: flush_ok_cong)
next
  case EvRunMax
  then show "flush_ok s \<Longrightarrow> win_exec e s = Some s' \<Longrightarrow> flush_ok s'"
    by (cases "flushInProgress (win s)")
       (auto simp: flushMax_def launch_def [of "(None, w)" for w] split: if_splits
          intro: flush_ok_launch elim: flush_ok_cong)
next
  case EvClose
  then show "flush_ok s \<Longrightarrow> win_exec e s = Some s' \<Longrightarrow> flush_ok s'"
    by (cases "flushInProgress (win s)")
       (auto simp: CloseWindow_def Let_def launch_def [of "(None, w)" for w] split: if_splits
          intro: flush_ok_launch elim: flush_ok_cong)
qed (auto elim: flush_ok_cong split: if_splits)

lemma conserved_step: "conserved s \<Longrightarrow> win_exec e s = Some s' \<Longrightarrow> conserved s'"
  by (cases e) (auto simp: conserved_def win_defs split: if_splits option.splits)

lemma win_inv_step: "win_inv s \<Longrightarrow> win_exec e s = Some s' \<Longrightarrow> win_inv s'"
  unfolding win_inv_def using phase_ok_step flush_ok_step conserved_step by blast

lemma win_inv_reach: "win_reach idle mx s \<Longrightarrow> win_inv s"
  by (induction rule: win_reach.induct) (auto intro: win_inv_init win_inv_step)

section \<open>Who will flush the waiting items\<close>

definition is_armed :: "timer option \<Rightarrow> bool" where
  "is_armed tm \<longleftrightarrow> (\<exists>t d. tm = Some t \<and> deadline t = Some d)"

text \<open>Somebody is going to look at the window: a running timer or a goroutine waiting for the mutex.\<close>

definition attended :: "'a win_sys \<Rightarrow> bool" where
  "attended s \<longleftrightarrow> is_armed (idleTimer (win s)) \<or> is_armed (maxTimer (win s)) \<or> 0 < idleGo s \<or> 0 < maxGo s"

definition covered :: "'a win_sys \<Rightarrow> bool" where
  "covered s \<longleftrightarrow> (items (win s) \<noteq> [] \<longrightarrow> attended s \<or> skipped s)"

lemma is_armed_simps [simp]:
  "is_armed (armed t)" "\<not> is_armed None" "\<not> is_armed (fired tm)"
  by (auto simp: is_armed_def armed_def fired_def)

lemma covered_step: "win_inv s \<Longrightarrow> covered s \<Longrightarrow> win_exec e s = Some s' \<Longrightarrow> covered s'"
proof (cases e)
  case (EvAdd x)
  then show "win_inv s \<Longrightarrow> covered s \<Longrightarrow> win_exec e s = Some s' \<Longrightarrow> covered s'"
    by (auto simp: covered_def attended_def Add_def win_inv_def phase_ok_def Let_def
          split: if_splits option.splits)
next
  case EvRunIdle
  then show "win_inv s \<Longrightarrow> covered s \<Longrightarrow> win_exec e s = Some s' \<Longrightarrow> covered s'"
    by (auto simp: covered_def attended_def flushIdle_def flush_def launch_def split: if_splits)
next
  case EvRunMax
  then show "win_inv s \<Longrightarrow> covered s \<Longrightarrow> win_exec e s = Some s' \<Longrightarrow> covered s'"
    by (auto simp: covered_def attended_def flushMax_def flush_def launch_def split: if_splits)
next
  case EvClose
  then show "win_inv s \<Longrightarrow> covered s \<Longrightarrow> win_exec e s = Some s' \<Longrightarrow> covered s'"
    by (auto simp: covered_def attended_def CloseWindow_def flush_def launch_def Let_def split: if_splits)
qed (auto simp: covered_def attended_def flushDone_def split: if_splits option.splits)

lemma covered_reach: "win_reach idle mx s \<Longrightarrow> covered s"
proof (induction rule: win_reach.induct)
  case init
  show ?case by (simp add: covered_def init_sys_def NewBatchWindow_def)
next
  case (more s e s')
  then show ?case by (auto intro: covered_step win_inv_reach)
qed

text \<open>A window nobody attends to is only left by another Add or by Close.\<close>

definition stuck :: "'a win_sys \<Rightarrow> bool" where
  "stuck s \<longleftrightarrow> items (win s) \<noteq> [] \<and> \<not> flushInProgress (win s) \<and> \<not> attended s"

lemma stuck_step:
  assumes "win_inv s" "stuck s" "win_exec e s = Some s'"
  shows "(\<exists>x. e = EvAdd x) \<or> e = EvClose \<or> (stuck s' \<and> items (win s') = items (win s) \<and> batches s' = batches s)"
proof -
  have "running s = None" using assms by (auto simp: win_inv_def flush_ok_def stuck_def split: option.splits)
  with assms(2,3) show ?thesis by (cases e)
    (auto simp: stuck_def attended_def due_def is_armed_def split: option.splits if_splits)
qed

lemma stuck_run:
  assumes "win_run es s = Some s'" "win_inv s" "stuck s"
    and "\<forall>e \<in> set es. (\<forall>x. e \<noteq> EvAdd x) \<and> e \<noteq> EvClose"
  shows "items (win s') = items (win s) \<and> batches s' = batches s"
  using assms
proof (induction es arbitrary: s)
  case (Cons e es)
  then obtain s1 where s1: "win_exec e s = Some s1" "win_run es s1 = Some s'"
    by (auto split: option.splits)
  have same: "stuck s1 \<and> items (win s1) = items (win s) \<and> batches s1 = batches s"
    using stuck_step [OF Cons.prems(2,3) s1(1)] Cons.prems(4) by simp
  then have "items (win s') = items (win s1) \<and> batches s' = batches s1"
    using Cons.IH [OF s1(2) win_inv_step [OF Cons.prems(2) s1(1)]] Cons.prems(4) by simp
  with same show ?case by simp
qed simp

section \<open>Windows by key\<close>

record 'a WindowedBatcher =
  windows :: "(string \<times> 'a BatchWindow) list"
  wb_idleDuration :: int
  wb_maxDuration :: int
  windowTTL :: int
  lastAccess :: "(string \<times> time_ns) list"

definition NewWindowedBatcher :: "int \<Rightarrow> int \<Rightarrow> 'a WindowedBatcher" where
  "NewWindowedBatcher idle mx = \<lparr>windows = [], wb_idleDuration = idle, wb_maxDuration = mx,
     windowTTL = 10 * minute_ns, lastAccess = []\<rparr>"

definition Batch :: "string \<Rightarrow> 'a \<Rightarrow> time_ns \<Rightarrow> 'a WindowedBatcher \<Rightarrow> (string + unit) \<times> 'a WindowedBatcher" where
  "Batch key request now wb =
     (let wb1 = wb\<lparr>lastAccess := AList.update key now (lastAccess wb)\<rparr>;
          window = (case map_of (windows wb1) key of
                      Some w \<Rightarrow> w
                    | None \<Rightarrow> NewBatchWindow (wb_idleDuration wb1) (wb_maxDuration wb1));
          (r, window') = Add request now window
      in (r, wb1\<lparr>windows := AList.update key window' (windows wb1)\<rparr>))"

text \<open>Close gives the batches that the windows flush while they are closed.\<close>

definition CloseBatchers :: "'a WindowedBatcher \<Rightarrow> 'a list option list \<times> 'a WindowedBatcher" where
  "CloseBatchers wb = (List.map (\<lambda>(k, w). fst (CloseWindow w)) (windows wb),
     wb\<lparr>windows := [], lastAccess := []\<rparr>)"

definition Stats :: "'a WindowedBatcher \<Rightarrow> nat \<times> nat" where
  "Stats wb = (length (windows wb), sum_list (List.map (Size \<circ> snd) (windows wb)))"

fun cleanup_windows :: "(string \<times> time_ns) list \<Rightarrow> time_ns \<Rightarrow> 'a WindowedBatcher \<Rightarrow>
    'a list option list \<times> 'a WindowedBatcher" where
  "cleanup_windows [] expirationTime wb = ([], wb)"
| "cleanup_windows ((key, accessed) # rest) expirationTime wb =
     (if accessed < expirationTime then
        (let (fl, wb1) = (case map_of (windows wb) key of
               Some window \<Rightarrow> ([fst (CloseWindow window)], wb\<lparr>windows := AList.delete key (windows wb)\<rparr>)
             | None \<Rightarrow> ([], wb));
             (fls, wb2) = cleanup_windows rest expirationTime
                 (wb1\<lparr>lastAccess := AList.delete key (lastAccess wb1)\<rparr>)
         in (fl @ fls, wb2))
      else cleanup_windows rest expirationTime wb)"

definition cleanupExpiredWindows :: "time_ns \<Rightarrow> 'a WindowedBatcher \<Rightarrow>
    'a list option list \<times> 'a WindowedBatcher" where
  "cleanupExpiredWindows now wb = cleanup_windows (lastAccess wb) (now - windowTTL wb) wb"

definition wb_inv :: "'a WindowedBatcher \<Rightarrow> bool" where
  "wb_inv wb \<longleftrightarrow> wf_map (windows wb) \<and> wf_map (lastAccess wb) \<and>
     fst ` set (windows wb) = fst ` set (lastAccess wb)"

lemma wb_inv_Batch: "wb_inv wb \<Longrightarrow> wb_inv (snd (Batch k x now wb))"
  by (auto simp: wb_inv_def Batch_def Let_def dom_update split: prod.splits)

lemma cleanup_windows_lookup:
  "distinct (List.map fst acc) \<Longrightarrow>
     map_of (windows (snd (cleanup_windows acc t wb))) k =
       (case map_of acc k of Some a \<Rightarrow> if a < t then None else map_of (windows wb) k
        | None \<Rightarrow> map_of (windows wb) k) \<and>
     map_of (lastAccess (snd (cleanup_windows acc t wb))) k =
       (case map_of acc k of Some a \<Rightarrow> if a < t then None else map_of (lastAccess wb) k
        | None \<Rightarrow> map_of (lastAccess wb) k)"
proof (induction acc arbitrary: wb)
  case (Cons ka acc)
  obtain key a where ka: "ka = (key, a)" by (cases ka)
  then have "map_of acc key = None" using Cons.prems by (simp add: map_of_eq_None_iff)
  then show ?case
    using Cons by (cases "map_of (windows wb) key"; cases "a < t"; cases "k = key")
      (simp_all add: ka map_of_delete Let_def split_beta split: option.split)
qed simp

section \<open>Properties\<close>



text \<open>
  As long as no timer function has found a flush in progress, a waiting
  request is attended to: a timer is running for it or a timer goroutine is waiting for
  the mutex, and such a goroutine, when it runs with no flush in progress, hands all
  waiting requests to the executor as one batch.
\<close>
theorem waiting_requests_attended:
  assumes "win_reach idle mx s" "items (win s) \<noteq> []" "\<not> skipped s"
  shows "attended s \<and>
    (\<forall>e s'. e \<in> {EvRunIdle, EvRunMax} \<and> \<not> flushInProgress (win s) \<and> win_exec e s = Some s' \<longrightarrow>
       batches s' = batches s @ [items (win s)] \<and> items (win s') = [] \<and> running s' = Some (items (win s)))"
  using assms covered_reach [OF assms(1)]
  by (auto simp: covered_def flushIdle_def flushMax_def flush_def launch_def split: if_splits)

theorem waiting_requests_attended_witness:
  "attended (the (win_run [EvAdd ''a''] (init_sys 1 10)))"
proof -
  have "win_run [EvAdd ''a''] (init_sys 1 10) = Some (the (win_run [EvAdd ''a''] (init_sys 1 10)))"
    "items (win (the (win_run [EvAdd ''a''] (init_sys 1 10)))) \<noteq> []"
    "\<not> skipped (the (win_run [EvAdd ''a''] (init_sys 1 10)))"
    by (simp_all add: init_sys_def NewBatchWindow_def win_defs)
  then show ?thesis
    using waiting_requests_attended [OF win_run_reach [OF win_reach.init]] by metis
qed

text \<open>
  C37: The proviso of the previous property can fail, for good: a request that
  arrives while a long flush is running can see both of its timers fire during that flush,
  and after the flush it waits with no timer and no goroutine; from there on nothing but
  another request or Close (neither a tick nor any other step) ever moves it.
\<close>
theorem waiting_request_can_be_stranded:
  "\<exists>s. win_run [EvAdd ''a'', EvTick 1, EvIdleTimer, EvRunIdle, EvAdd ''b'', EvTick 10, EvIdleTimer,
         EvMaxTimer, EvRunIdle, EvRunMax, EvFlushDone] (init_sys 1 10) = Some s \<and>
      items (win s) = [''b''] \<and> stuck s \<and>
      (\<forall>es s'. win_run es s = Some s' \<and> (\<forall>e \<in> set es. (\<forall>x. e \<noteq> EvAdd x) \<and> e \<noteq> EvClose)
         \<longrightarrow> items (win s') = [''b''] \<and> batches s' = batches s)"
proof -
  let ?es = "[EvAdd ''a'', EvTick 1, EvIdleTimer, EvRunIdle, EvAdd ''b'', EvTick 10, EvIdleTimer,
         EvMaxTimer, EvRunIdle, EvRunMax, EvFlushDone]"
  define s where "s = the (win_run ?es (init_sys 1 10))"
  have run: "win_run ?es (init_sys 1 10) = Some s" "items (win s) = [''b'']" "stuck s"
    by (simp_all add: s_def init_sys_def NewBatchWindow_def win_defs due_def stuck_def
          attended_def is_armed_def)
  have inv: "win_inv s" using run(1) by (blast intro: win_run_reach win_reach.init win_inv_reach)
  show ?thesis using run stuck_run [OF _ inv run(3)] by fastforce
qed

theorem waiting_request_can_be_stranded_witness:
  "\<exists>s s'. win_run [EvAdd ''a'', EvTick 1, EvIdleTimer, EvRunIdle, EvAdd ''b'', EvTick 10, EvIdleTimer,
         EvMaxTimer, EvRunIdle, EvRunMax, EvFlushDone] (init_sys 1 10) = Some s \<and>
      win_run [EvTick 1000] s = Some s' \<and> items (win s') = [''b'']"
proof -
  obtain s where s: "win_run [EvAdd ''a'', EvTick 1, EvIdleTimer, EvRunIdle, EvAdd ''b'', EvTick 10,
         EvIdleTimer, EvMaxTimer, EvRunIdle, EvRunMax, EvFlushDone] (init_sys 1 10) = Some s"
    and stay: "\<And>es s'. win_run es s = Some s' \<Longrightarrow>
      (\<forall>e \<in> set es. (\<forall>x. e \<noteq> EvAdd x) \<and> e \<noteq> EvClose) \<Longrightarrow> items (win s') = [''b'']"
    using waiting_request_can_be_stranded by metis
  have tick: "win_run [EvTick 1000] s = Some (s\<lparr>clock := clock s + 1000\<rparr>)" by simp
  have "items (win (s\<lparr>clock := clock s + 1000\<rparr>)) = [''b'']"
    by (rule stay [OF tick]) simp
  with s tick show ?thesis by blast
qed

text \<open>
  The cleanup of the windowed batcher removes a window only when its key
  was last used more than the window time to live ago; every other window is left as
  it is, and afterwards windows and access times still name the same keys.
\<close>
theorem cleanup_keeps_recent_windows:
  assumes "wb_inv wb"
  shows "map_of (windows (snd (cleanupExpiredWindows now wb))) k =
      (case map_of (lastAccess wb) k of Some a \<Rightarrow>
         if a < now - windowTTL wb then None else map_of (windows wb) k | None \<Rightarrow> None) \<and>
    (map_of (windows (snd (cleanupExpiredWindows now wb))) k = None \<longleftrightarrow>
     map_of (lastAccess (snd (cleanupExpiredWindows now wb))) k = None)"
proof -
  have eq: "map_of (windows wb) k = None \<longleftrightarrow> map_of (lastAccess wb) k = None"
    using assms by (simp add: wb_inv_def map_of_eq_None_iff)
  have wf: "distinct (List.map fst (lastAccess wb))" using assms by (simp add: wb_inv_def wf_map_def)
  show ?thesis
    using eq by (auto simp: cleanupExpiredWindows_def cleanup_windows_lookup [OF wf] split: option.splits)
qed

theorem cleanup_keeps_recent_windows_witness:
  "map_of (windows (snd (cleanupExpiredWindows (minute_ns) (snd (Batch ''k'' (0::nat) 0
      (NewWindowedBatcher 1 10)))))) ''k'' \<noteq> None"
proof -
  have "wb_inv (NewWindowedBatcher 1 10 :: nat WindowedBatcher)"
    by (simp add: wb_inv_def NewWindowedBatcher_def)
  from cleanup_keeps_recent_windows [OF wb_inv_Batch [OF this, of "''k''" 0 0], of minute_ns "''k''"]
  show ?thesis
    by (simp add: Batch_def NewWindowedBatcher_def NewBatchWindow_def Add_def Let_def)
qed

end
