(* ===== verification/Labels.thy ===== *)
theory Labels
  imports Prelude
begin

text \<open>
  The label, annotation and tag keys of pkg/apis/v1alpha1/labels.go, the set of
  well-known labels and NormalizeLabelValue, which turns a value reported by
  ECS (a GPU model) into a legal Kubernetes label value.

  The loop of NormalizeLabelValue visits code points, the model visits bytes:
  every byte of a multi-byte code point is replaced, and a run of replaced
  characters gives one dash in both.
\<close>

named_theorems label_defs \<open>the definitions of the keys\<close>

definition Group :: string where "Group = ''karpenter.sh''"
definition LabelDomain :: string where "LabelDomain = ''karpenter.alibabacloud.com''"
definition AnnotationECSNodeClassHash :: string where "AnnotationECSNodeClassHash = Group @ ''/ecsnodeclass-hash''"
definition AnnotationECSNodeClassHashVersion :: string where "AnnotationECSNodeClassHashVersion = Group @ ''/ecsnodeclass-hash-version''"
definition AnnotationInstanceTagged :: string where "AnnotationInstanceTagged = Group @ ''/instance-tagged''"
definition LabelNodeClass :: string where "LabelNodeClass = Group @ ''/nodeclass''"
definition LabelCapacityType :: string where "LabelCapacityType = ''karpenter.sh/capacity-type''"
definition CapacityTypeOnDemand :: string where "CapacityTypeOnDemand = ''on-demand''"
definition CapacityTypeSpot :: string where "CapacityTypeSpot = ''spot''"
definition CapacityTypePrePaid :: string where "CapacityTypePrePaid = ''pre-paid''"
definition TagName :: string where "TagName = ''Name''"
definition TagNodePool :: string where "TagNodePool = Group @ ''/nodepool''"
definition TagNodeClaim :: string where "TagNodeClaim = Group @ ''/nodeclaim''"
definition TagManagedBy :: string where "TagManagedBy = Group @ ''/managed-by''"
definition TagManagedByValue :: string where "TagManagedByValue = ''karpenter''"
definition TagCluster :: string where "TagCluster = ''kubernetes.io/cluster''"
definition TagClusterID :: string where "TagClusterID = Group @ ''/cluster-id''"
definition TagDiscovery :: string where "TagDiscovery = Group @ ''/discovery''"
definition TagKubeletMaxPods :: string where "TagKubeletMaxPods = Group @ ''/kubelet-max-pods''"
definition LabelInstanceFamily :: string where "LabelInstanceFamily = ''node.kubernetes.io/instance-family''"
definition LabelInstanceFamilyCanonical :: string where "LabelInstanceFamilyCanonical = LabelDomain @ ''/instance-family''"
definition LabelInstanceCategory :: string where "LabelInstanceCategory = LabelDomain @ ''/instance-category''"
definition LabelInstanceGeneration :: string where "LabelInstanceGeneration = LabelDomain @ ''/instance-generation''"
definition LabelInstanceSize :: string where "LabelInstanceSize = ''node.kubernetes.io/instance-size''"
definition LabelInstanceSizeCanonical :: string where "LabelInstanceSizeCanonical = LabelDomain @ ''/instance-size''"
definition LabelInstanceCPU :: string where "LabelInstanceCPU = LabelDomain @ ''/instance-cpu''"
definition LabelInstanceMemory :: string where "LabelInstanceMemory = LabelDomain @ ''/instance-memory''"
definition LabelInstanceGPUName :: string where "LabelInstanceGPUName = LabelDomain @ ''/instance-gpu-name''"
definition LabelInstanceGPUManufacturer :: string where "LabelInstanceGPUManufacturer = LabelDomain @ ''/instance-gpu-manufacturer''"
definition LabelInstanceGPUCount :: string where "LabelInstanceGPUCount = LabelDomain @ ''/instance-gpu-count''"
definition LabelInstanceGPUMemory :: string where "LabelInstanceGPUMemory = LabelDomain @ ''/instance-gpu-memory''"
definition LabelCapacityReservationID :: string where "LabelCapacityReservationID = LabelDomain @ ''/capacity-reservation-id''"
definition LabelCapacityReservationType :: string where "LabelCapacityReservationType = LabelDomain @ ''/capacity-reservation-type''"
definition LabelInstanceType :: string where "LabelInstanceType = ''node.kubernetes.io/instance-type''"
definition LabelZone :: string where "LabelZone = ''topology.kubernetes.io/zone''"
definition LabelDiskCSITopologyZone :: string where "LabelDiskCSITopologyZone = ''topology.diskplugin.csi.alibabacloud.com/zone''"
definition LabelRegion :: string where "LabelRegion = ''topology.kubernetes.io/region''"
definition LabelArchitecture :: string where "LabelArchitecture = ''kubernetes.io/arch''"
definition LabelOS :: string where "LabelOS = ''kubernetes.io/os''"
definition ArchitectureAmd64 :: string where "ArchitectureAmd64 = ''amd64''"
definition ArchitectureArm64 :: string where "ArchitectureArm64 = ''arm64''"
definition OSLinux :: string where "OSLinux = ''linux''"
definition OSWindows :: string where "OSWindows = ''windows''"
definition ResourceGPU :: string where "ResourceGPU = ''nvidia.com/gpu''"
definition ResourceGPUMemory :: string where "ResourceGPUMemory = ''aliyun.com/gpu-mem''"

declare Group_def [label_defs] and
  LabelDomain_def [label_defs] and
  AnnotationECSNodeClassHash_def [label_defs] and
  AnnotationECSNodeClassHashVersion_def [label_defs] and
  AnnotationInstanceTagged_def [label_defs] and
  LabelNodeClass_def [label_defs] and
  LabelCapacityType_def [label_defs] and
  CapacityTypeOnDemand_def [label_defs] and
  CapacityTypeSpot_def [label_defs] and
  CapacityTypePrePaid_def [label_defs] and
  TagName_def [label_defs] and
  TagNodePool_def [label_defs] and
  TagNodeClaim_def [label_defs] and
  TagManagedBy_def [label_defs] and
  TagManagedByValue_def [label_defs] and
  TagCluster_def [label_defs] and
  TagClusterID_def [label_defs] and
  TagDiscovery_def [label_defs] and
  TagKubeletMaxPods_def [label_defs] and
  LabelInstanceFamily_def [label_defs] and
  LabelInstanceFamilyCanonical_def [label_defs] and
  LabelInstanceCategory_def [label_defs] and
  LabelInstanceGeneration_def [label_defs] and
  LabelInstanceSize_def [label_defs] and
  LabelInstanceSizeCanonical_def [label_defs] and
  LabelInstanceCPU_def [label_defs] and
  LabelInstanceMemory_def [label_defs] and
  LabelInstanceGPUName_def [label_defs] and
  LabelInstanceGPUManufacturer_def [label_defs] and
  LabelInstanceGPUCount_def [label_defs] and
  LabelInstanceGPUMemory_def [label_defs] and
  LabelCapacityReservationID_def [label_defs] and
  LabelCapacityReservationType_def [label_defs] and
  LabelInstanceType_def [label_defs] and
  LabelZone_def [label_defs] and
  LabelDiskCSITopologyZone_def [label_defs] and
  LabelRegion_def [label_defs] and
  LabelArchitecture_def [label_defs] and
  LabelOS_def [label_defs] and
  ArchitectureAmd64_def [label_defs] and
  ArchitectureArm64_def [label_defs] and
  OSLinux_def [label_defs] and
  OSWindows_def [label_defs] and
  ResourceGPU_def [label_defs] and
  ResourceGPUMemory_def [label_defs]

definition WellKnownLabels :: "string list" where
  "WellKnownLabels = [LabelInstanceType, LabelInstanceFamily, LabelInstanceFamilyCanonical,
     LabelInstanceCategory, LabelInstanceGeneration, LabelInstanceSize,
     LabelInstanceSizeCanonical, LabelInstanceCPU, LabelInstanceMemory,
     LabelInstanceGPUName, LabelInstanceGPUManufacturer, LabelInstanceGPUCount,
     LabelInstanceGPUMemory, LabelCapacityReservationID, LabelCapacityReservationType,
     LabelZone, LabelRegion, LabelArchitecture, LabelOS, LabelCapacityType]"

definition isLabelValueChar :: "char \<Rightarrow> bool" where
  "isLabelValueChar r \<longleftrightarrow> is_lower r \<or> is_digit r \<or> r = CHR ''-'' \<or> r = CHR ''_'' \<or> r = CHR ''.''"

text \<open>strings.Trim with the cut set of the three punctuation characters.\<close>

definition is_label_punct :: "char \<Rightarrow> bool" where
  "is_label_punct c \<longleftrightarrow> c \<in> set ''-_.''"

definition trim_punct :: "string \<Rightarrow> string" where
  "trim_punct s = trim_by is_label_punct s"

fun normalize_loop :: "bool \<Rightarrow> string \<Rightarrow> string" where
  "normalize_loop lastReplacement [] = []"
| "normalize_loop lastReplacement (r # rs) =
     (if isLabelValueChar r then r # normalize_loop False rs
      else if lastReplacement then normalize_loop True rs
      else CHR ''-'' # normalize_loop True rs)"

definition NormalizeLabelValue :: "string \<Rightarrow> string" where
  "NormalizeLabelValue value =
     (let result = trim_punct (normalize_loop False (to_lower (trim_space value)))
      in if 63 < length result then trim_punct (take 63 result) else result)"

text \<open>What Kubernetes accepts as a label value, restricted to lower case.\<close>

definition valid_label_value :: "string \<Rightarrow> bool" where
  "valid_label_value s \<longleftrightarrow> length s \<le> 63 \<and> (\<forall>c \<in> set s. isLabelValueChar c) \<and>
     (s \<noteq> [] \<longrightarrow> (is_lower (hd s) \<or> is_digit (hd s)) \<and> (is_lower (last s) \<or> is_digit (last s)))"

lemma normalize_loop_chars: "c \<in> set (normalize_loop b s) \<Longrightarrow> isLabelValueChar c"
  by (induction b s rule: normalize_loop.induct) (auto split: if_splits simp: isLabelValueChar_def)

lemma normalize_loop_id: "(\<forall>c \<in> set s. isLabelValueChar c) \<Longrightarrow> normalize_loop b s = s"
  by (induction s arbitrary: b) auto

lemmas trim_punct_facts = set_trim_by [of is_label_punct, folded trim_punct_def]
  length_trim_by [of is_label_punct, folded trim_punct_def]
  trim_by_ends [of is_label_punct, folded trim_punct_def]

lemma valid_trim_punct:
  assumes "\<forall>c \<in> set s. isLabelValueChar c" "length (trim_punct s) \<le> 63"
  shows "valid_label_value (trim_punct s)"
proof -
  have chars: "\<forall>c \<in> set (trim_punct s). isLabelValueChar c"
    using assms(1) trim_punct_facts(1) by blast
  have ends: "is_lower c \<or> is_digit c" if "isLabelValueChar c" "\<not> is_label_punct c" for c
    using that by (auto simp: isLabelValueChar_def is_label_punct_def)
  show ?thesis
    using chars ends assms(2) trim_punct_facts(3,4) [of s]
    by (auto simp: valid_label_value_def)
qed

lemma valid_NormalizeLabelValue: "valid_label_value (NormalizeLabelValue v)"
proof -
  let ?n = "normalize_loop False (to_lower (trim_space v))"
  have chars: "\<forall>c \<in> set ?n. isLabelValueChar c"
    using normalize_loop_chars by blast
  have cut: "\<forall>c \<in> set (take 63 (trim_punct ?n)). isLabelValueChar c"
    using chars trim_punct_facts(1) [of ?n] in_set_takeD by fastforce
  have "length (trim_punct (take 63 (trim_punct ?n))) \<le> 63"
    using trim_punct_facts(2) [of "take 63 (trim_punct ?n)"] by simp
  then show ?thesis
    by (simp add: NormalizeLabelValue_def Let_def valid_trim_punct chars cut)
qed

lemma label_char_not_space: "isLabelValueChar c \<Longrightarrow> \<not> is_space c \<and> lower_char c = c"
  by (auto simp: isLabelValueChar_def is_space_def lower_char_def is_lower_def is_upper_def is_digit_def)

lemma NormalizeLabelValue_id:
  assumes "valid_label_value s"
  shows "NormalizeLabelValue s = s"
proof -
  have chars: "\<forall>c \<in> set s. isLabelValueChar c" using assms by (simp add: valid_label_value_def)
  have "trim_space s = s"
    unfolding trim_space_def using chars label_char_not_space
    by (intro trim_by_id) (cases "s = []"; auto)
  moreover have "to_lower s = s"
    using chars label_char_not_space by (simp add: to_lower_def map_idI)
  moreover have "trim_punct s = s"
    unfolding trim_punct_def using assms
    by (intro trim_by_id) (auto simp: valid_label_value_def is_label_punct_def is_lower_def is_digit_def)
  ultimately show ?thesis
    using assms chars by (simp add: NormalizeLabelValue_def normalize_loop_id valid_label_value_def)
qed

text \<open>
  NormalizeLabelValue always gives a legal label value (at most 63
  characters, all legal, a letter or digit at both ends, possibly empty) and leaves a
  legal lower-case value alone, so normalising twice is normalising once.
\<close>
theorem NormalizeLabelValue_correct:
  "valid_label_value (NormalizeLabelValue v) \<and>
   NormalizeLabelValue (NormalizeLabelValue v) = NormalizeLabelValue v"
  using valid_NormalizeLabelValue NormalizeLabelValue_id by blast

end
