(* ===== verification/EcsErrors.thy ===== *)
theory EcsErrors
  imports Prelude
begin

text \<open>
  The error classification of pkg/errors/errors.go.  The code only looks at the
  message of an error, so an error is None (nil) or Some message; every
  predicate is a search for the documented error codes in that message.
\<close>

type_synonym goerr = "string option"

definition ErrCodeNoStock :: string where "ErrCodeNoStock = ''OperationDenied.NoStock''"
definition ErrCodeZoneNotOnSale :: string where "ErrCodeZoneNotOnSale = ''Zone.NotOnSale''"
definition ErrCodeVSwitchIPNotEnough :: string where
  "ErrCodeVSwitchIPNotEnough = ''InvalidVSwitchId.IpNotEnough''"
definition ErrCodeResourceTypeNotSupported :: string where
  "ErrCodeResourceTypeNotSupported = ''InvalidResourceType.NotSupported''"
definition ErrCodeQuotaExceedInstance :: string where
  "ErrCodeQuotaExceedInstance = ''QuotaExceed.Instance''"
definition ErrCodeQuotaExceedSpot :: string where
  "ErrCodeQuotaExceedSpot = ''QuotaExceed.Spot''"
definition ErrCodeThrottling :: string where "ErrCodeThrottling = ''Throttling''"
definition ErrCodeThrottlingUser :: string where "ErrCodeThrottlingUser = ''Throttling.User''"
definition ErrCodeInvalidParameter :: string where
  "ErrCodeInvalidParameter = ''InvalidParameter''"
definition ErrCodeInvalidInstanceType :: string where
  "ErrCodeInvalidInstanceType = ''InvalidInstanceType.NotSupported''"
definition ErrCodeInvalidImageNotFound :: string where
  "ErrCodeInvalidImageNotFound = ''InvalidImage.NotFound''"
definition ErrCodeInvalidVSwitchNotFound :: string where
  "ErrCodeInvalidVSwitchNotFound = ''InvalidVSwitchId.NotFound''"
definition ErrCodeInvalidSGNotFound :: string where
  "ErrCodeInvalidSGNotFound = ''InvalidSecurityGroupId.NotFound''"
definition ErrCodeForbiddenRAM :: string where "ErrCodeForbiddenRAM = ''Forbidden.RAM''"
definition ErrCodeForbiddenRiskControl :: string where
  "ErrCodeForbiddenRiskControl = ''Forbidden.RiskControl''"
definition ErrCodeInstanceNotFound :: string where
  "ErrCodeInstanceNotFound = ''InvalidInstanceId.NotFound''"

lemmas err_code_defs = ErrCodeNoStock_def ErrCodeZoneNotOnSale_def
  ErrCodeVSwitchIPNotEnough_def ErrCodeResourceTypeNotSupported_def
  ErrCodeQuotaExceedInstance_def ErrCodeQuotaExceedSpot_def
  ErrCodeThrottling_def ErrCodeThrottlingUser_def
  ErrCodeInvalidParameter_def ErrCodeInvalidInstanceType_def
  ErrCodeInvalidImageNotFound_def ErrCodeInvalidVSwitchNotFound_def
  ErrCodeInvalidSGNotFound_def ErrCodeForbiddenRAM_def
  ErrCodeForbiddenRiskControl_def ErrCodeInstanceNotFound_def

definition IsInsufficientCapacityError :: "goerr \<Rightarrow> bool" where
  "IsInsufficientCapacityError err = (case err of None \<Rightarrow> False | Some m \<Rightarrow>
     contains_str m ErrCodeNoStock \<or> contains_str m ErrCodeZoneNotOnSale \<or>
     contains_str m ErrCodeResourceTypeNotSupported \<or> contains_str m ErrCodeVSwitchIPNotEnough)"

definition IsThrottlingError :: "goerr \<Rightarrow> bool" where
  "IsThrottlingError err = (case err of None \<Rightarrow> False | Some m \<Rightarrow>
     contains_str m ErrCodeThrottling \<or> contains_str m ErrCodeThrottlingUser)"

definition IsQuotaError :: "goerr \<Rightarrow> bool" where
  "IsQuotaError err = (case err of None \<Rightarrow> False | Some m \<Rightarrow>
     contains_str m ErrCodeQuotaExceedInstance \<or> contains_str m ErrCodeQuotaExceedSpot)"

definition IsParameterError :: "goerr \<Rightarrow> bool" where
  "IsParameterError err = (case err of None \<Rightarrow> False | Some m \<Rightarrow>
     contains_str m ErrCodeInvalidParameter \<or> contains_str m ErrCodeInvalidInstanceType)"

definition IsPermissionError :: "goerr \<Rightarrow> bool" where
  "IsPermissionError err = (case err of None \<Rightarrow> False | Some m \<Rightarrow>
     contains_str m ErrCodeForbiddenRAM \<or> contains_str m ErrCodeForbiddenRiskControl)"

definition IsRetryable :: "goerr \<Rightarrow> bool" where
  "IsRetryable err = (case err of None \<Rightarrow> False | Some m \<Rightarrow>
     IsInsufficientCapacityError err \<or> IsThrottlingError err)"

definition NewInsufficientCapacityError :: "string \<Rightarrow> string \<Rightarrow> goerr" where
  "NewInsufficientCapacityError instanceType zone =
     Some (''insufficient capacity for instance type '' @ instanceType @ '' in zone '' @ zone)"

definition NewNotFoundError :: "string \<Rightarrow> string \<Rightarrow> goerr" where
  "NewNotFoundError resourceType identifier =
     Some (resourceType @ '' not found: '' @ identifier)"

definition IsNotFound :: "goerr \<Rightarrow> bool" where
  "IsNotFound err = (case err of None \<Rightarrow> False | Some m \<Rightarrow>
     contains_str m ErrCodeInstanceNotFound \<or> contains_str m ErrCodeInvalidImageNotFound \<or>
     contains_str m ErrCodeInvalidVSwitchNotFound \<or> contains_str m ErrCodeInvalidSGNotFound \<or>
     contains_str m ''not found'' \<or> contains_str m ''NotFound'' \<or>
     contains_str m ''InvalidInstanceId.NotFound'' \<or> contains_str m ''InstanceNotFound'')"

text \<open>An error wrapped with the verb %w keeps its message as a part of the new one.\<close>

definition wrap_err :: "string \<Rightarrow> string \<Rightarrow> string" where
  "wrap_err pre m = pre @ m"

lemma contains_wrap_err: "contains_str m c \<Longrightarrow> contains_str (wrap_err pre m) c"
  by (rule contains_str_trans, assumption)
     (metis append_Nil2 contains_str_infix wrap_err_def)

lemma IsThrottlingError_alt:
  "IsThrottlingError (Some m) = contains_str m ErrCodeThrottling"
proof -
  have "contains_str ErrCodeThrottlingUser ErrCodeThrottling"
    by (simp add: err_code_defs has_prefix_def)
  note up = this [THEN contains_str_trans]
  show ?thesis by (auto simp: IsThrottlingError_def dest: up)
qed

lemma IsNotFound_alt:
  "IsNotFound (Some m) \<longleftrightarrow> contains_str m ''not found'' \<or> contains_str m ''NotFound''"
proof -
  have sub: "contains_str ErrCodeInstanceNotFound ''NotFound''"
    "contains_str ErrCodeInvalidImageNotFound ''NotFound''"
    "contains_str ErrCodeInvalidVSwitchNotFound ''NotFound''"
    "contains_str ErrCodeInvalidSGNotFound ''NotFound''"
    "contains_str ''InvalidInstanceId.NotFound'' ''NotFound''"
    "contains_str ''InstanceNotFound'' ''NotFound''"
    by (simp_all add: err_code_defs has_prefix_def)
  note up = sub [THEN contains_str_trans]
  show ?thesis unfolding IsNotFound_def option.case by (blast dest: up)
qed

lemma NewNotFoundError_IsNotFound: "IsNotFound (NewNotFoundError r i)"
proof -
  have "contains_str (r @ '' not found: '' @ i) ''not found''"
    unfolding contains_str_sublist sublist_def
    by (rule exI [where x = "r @ '' ''"], rule exI [where x = "'': '' @ i"]) simp
  then show ?thesis by (simp add: NewNotFoundError_def IsNotFound_alt)
qed

end
