(* ===== verification/EcsUtil.thy ===== *)
theory EcsUtil
  imports Labels EcsErrors
begin

text \<open>
  The helper packages: pkg/utils/ecs/capacity.go (capacity types, spot
  strategies, architectures), pkg/utils/ecs/tags.go (BatchTags) and
  pkg/utils/securitygroups (NormalizeIDs, EqualIDs).
\<close>

section \<open>Capacity types and spot strategies\<close>

definition ChargeTypePostPaid :: string where "ChargeTypePostPaid = ''PostPaid''"
definition ChargeTypePrePaid :: string where "ChargeTypePrePaid = ''PrePaid''"
definition SpotStrategyNoSpot :: string where "SpotStrategyNoSpot = ''NoSpot''"
definition SpotStrategyAsPriceGo :: string where "SpotStrategyAsPriceGo = ''SpotAsPriceGo''"
definition SpotStrategyWithPriceLimit :: string where
  "SpotStrategyWithPriceLimit = ''SpotWithPriceLimit''"

lemmas spot_defs = ChargeTypePostPaid_def ChargeTypePrePaid_def SpotStrategyNoSpot_def
  SpotStrategyAsPriceGo_def SpotStrategyWithPriceLimit_def

definition IsSpotStrategy :: "string \<Rightarrow> bool" where
  "IsSpotStrategy spotStrategy =
     (let s = trim_space spotStrategy in s \<noteq> [] \<and> s \<noteq> SpotStrategyNoSpot)"

definition CapacityTypeFromInstance :: "string \<Rightarrow> string \<Rightarrow> string" where
  "CapacityTypeFromInstance instanceChargeType spotStrategy =
     (if IsSpotStrategy spotStrategy then CapacityTypeSpot
      else let c = trim_space instanceChargeType in
        if c = ChargeTypePrePaid then CapacityTypePrePaid
        else if c = ChargeTypePostPaid then CapacityTypeOnDemand
        else CapacityTypeOnDemand)"

definition IsValidSpotStrategy :: "string \<Rightarrow> bool" where
  "IsValidSpotStrategy strategy =
     (let s = trim_space strategy in s = SpotStrategyAsPriceGo \<or> s = SpotStrategyWithPriceLimit)"

definition SpotStrategyForCapacityType :: "string \<Rightarrow> string option \<Rightarrow> string" where
  "SpotStrategyForCapacityType capacityType requestedStrategy =
     (if capacityType \<noteq> CapacityTypeSpot then SpotStrategyNoSpot
      else case requestedStrategy of
        Some r \<Rightarrow> (let s = trim_space r in
                   if IsValidSpotStrategy s then s else SpotStrategyAsPriceGo)
      | None \<Rightarrow> SpotStrategyAsPriceGo)"

definition KubeArchitecture :: "string \<Rightarrow> string" where
  "KubeArchitecture ecsArch =
     (let a = to_lower (trim_space ecsArch) in
      if a \<in> {''arm'', ''arm64'', ''aarch64''} then ArchitectureArm64
      else if a \<in> {''x86'', ''x86_64'', ''amd64'', ''i386''} then ArchitectureAmd64
      else ArchitectureAmd64)"

definition armInstanceFamilyPrefixes :: "string list" where
  "armInstanceFamilyPrefixes = [''ecs.g8y'', ''ecs.c8y'', ''ecs.r8y'',
     ''ecs.g6r'', ''ecs.c6r'', ''ecs.r6r'']"

definition ArchitectureFromInstanceType :: "string \<Rightarrow> string" where
  "ArchitectureFromInstanceType instanceType =
     (let it = to_lower (trim_space instanceType) in
      if \<exists>p \<in> set armInstanceFamilyPrefixes. has_prefix it p
      then ArchitectureArm64 else ArchitectureAmd64)"

lemma SpotStrategy_cases:
  "SpotStrategyForCapacityType ct r \<in>
     {SpotStrategyNoSpot, SpotStrategyAsPriceGo, SpotStrategyWithPriceLimit}"
  by (auto simp: SpotStrategyForCapacityType_def IsValidSpotStrategy_def Let_def split: option.splits)

lemma IsSpotStrategy_consts [simp]:
  "\<not> IsSpotStrategy SpotStrategyNoSpot" "IsSpotStrategy SpotStrategyAsPriceGo"
  "IsSpotStrategy SpotStrategyWithPriceLimit" "\<not> IsSpotStrategy []"
  by (simp_all add: IsSpotStrategy_def spot_defs trim_space_def trim_by_def is_space_def)

section \<open>Tag batches\<close>

definition MaxTagsPerRequest :: nat where "MaxTagsPerRequest = 20"

definition BatchTags :: "gomap \<Rightarrow> gomap list" where
  "BatchTags tags =
     (let keys = sort (List.map fst tags) in
      List.map (\<lambda>ks. List.map (\<lambda>k. (k, or_else (map_of tags k) '''')) ks)
               (chunks (MaxTagsPerRequest - 1) keys))"

lemma concat_BatchTags:
  "concat (BatchTags tags) =
     List.map (\<lambda>k. (k, or_else (map_of tags k) '''')) (sort (List.map fst tags))"
  by (simp add: BatchTags_def Let_def flip: map_concat)

lemma map_of_keys_table: "map_of (List.map (\<lambda>k. (k, f k)) ks) = (\<lambda>k. if k \<in> set ks then Some (f k) else None)"
  by (induction ks) auto

lemma map_of_concat_BatchTags: "map_of (concat (BatchTags tags)) = map_of tags"
proof
  fix k
  show "map_of (concat (BatchTags tags)) k = map_of tags k"
  proof (cases "map_of tags k")
    case None
    then have "k \<notin> fst ` set tags" by (simp add: map_of_eq_None_iff)
    with None show ?thesis by (simp add: concat_BatchTags map_of_keys_table)
  next
    case (Some v)
    then have "k \<in> fst ` set tags" by (metis map_of_eq_None_iff option.distinct(1))
    with Some show ?thesis by (simp add: concat_BatchTags map_of_keys_table)
  qed
qed

lemma distinct_BatchTags:
  "wf_map tags \<Longrightarrow> distinct (List.map fst (concat (BatchTags tags)))"
  by (simp add: concat_BatchTags wf_map_def comp_def)

lemma BatchTags_order_independent:
  assumes "wf_map t" "wf_map u" "map_of t = map_of u"
  shows "BatchTags t = BatchTags u"
proof -
  have "set (List.map fst t) = set (List.map fst u)"
    by (metis assms(3) dom_map_of_conv_image_fst list.set_map)
  then have "sort (List.map fst t) = sort (List.map fst u)"
    using assms(1,2) by (intro sorted_distinct_set_unique) (simp_all add: wf_map_def)
  with assms(3) show ?thesis by (simp add: BatchTags_def)
qed

section \<open>Security group IDs\<close>

definition NormalizeIDs :: "string list \<Rightarrow> string list" where
  "NormalizeIDs ids = (if ids = [] then [] else sort (remdups ids))"

definition EqualIDs :: "string list \<Rightarrow> string list \<Rightarrow> bool" where
  "EqualIDs l r = (let left = NormalizeIDs l; right = NormalizeIDs r in
     if length left \<noteq> length right then False
     else list_all (\<lambda>i. left ! i = right ! i) [0..<length left])"

lemma NormalizeIDs_sort_dedup: "NormalizeIDs ids = sort_dedup ids"
  by (simp add: NormalizeIDs_def sort_dedup_def)

lemma EqualIDs_NormalizeIDs: "EqualIDs l r \<longleftrightarrow> NormalizeIDs l = NormalizeIDs r"
  unfolding EqualIDs_def Let_def list_all_iff list_eq_iff_nth_eq [of "NormalizeIDs l"]
  by (simp add: Ball_def)

section \<open>Properties\<close>

text \<open>
  The ECS strategy chosen for a capacity type is read back from the running
  instance as spot exactly when the NodeClaim asked for spot, whatever the charge type
  and whatever the strategy written in the ECSNodeClass.
\<close>
theorem spot_strategy_roundtrip:
  "CapacityTypeFromInstance c (SpotStrategyForCapacityType ct r) = CapacityTypeSpot
     \<longleftrightarrow> ct = CapacityTypeSpot"
proof (cases "ct = CapacityTypeSpot")
  case True
  then have "SpotStrategyForCapacityType ct r \<in> {SpotStrategyAsPriceGo, SpotStrategyWithPriceLimit}"
    by (auto simp: SpotStrategyForCapacityType_def IsValidSpotStrategy_def Let_def split: option.splits)
  with True show ?thesis by (auto simp: CapacityTypeFromInstance_def)
next
  case False
  then show ?thesis
    by (auto simp: SpotStrategyForCapacityType_def CapacityTypeFromInstance_def Let_def label_defs)
qed

text \<open>
  BatchTags splits the tags of one call without losing or duplicating any:
  every batch is non-empty and holds at most 20 tags, no key is sent twice, the batches
  together are the map that was passed, the batches follow the order of the keys, their
  number is the least possible, and the result does not depend on the iteration order
  of the Go map.
\<close>
theorem BatchTags_correct:
  assumes "wf_map tags"
  shows "(\<forall>b \<in> set (BatchTags tags). b \<noteq> [] \<and> length b \<le> MaxTagsPerRequest) \<and>
    distinct (List.map fst (concat (BatchTags tags))) \<and>
    map_of (concat (BatchTags tags)) = map_of tags \<and>
    sorted (List.map fst (concat (BatchTags tags))) \<and>
    length (BatchTags tags) = (length tags + 19) div 20 \<and>
    (\<forall>u. wf_map u \<and> map_of u = map_of tags \<longrightarrow> BatchTags u = BatchTags tags)"
proof (intro conjI allI impI)
  show "\<forall>b \<in> set (BatchTags tags). b \<noteq> [] \<and> length b \<le> MaxTagsPerRequest"
    by (auto simp: BatchTags_def Let_def MaxTagsPerRequest_def dest!: chunks_size)
  show "distinct (List.map fst (concat (BatchTags tags)))"
    by (rule distinct_BatchTags [OF assms])
  show "map_of (concat (BatchTags tags)) = map_of tags"
    by (rule map_of_concat_BatchTags)
  show "sorted (List.map fst (concat (BatchTags tags)))"
    by (simp add: concat_BatchTags comp_def)
  show "length (BatchTags tags) = (length tags + 19) div 20"
    by (simp add: BatchTags_def Let_def MaxTagsPerRequest_def length_chunks)
  show "BatchTags u = BatchTags tags" if "wf_map u \<and> map_of u = map_of tags" for u
    using that BatchTags_order_independent [OF _ assms] by blast
qed

theorem BatchTags_correct_witness:
  "let t = [(''b'', ''1''), (''a'', ''2'')] in
     map_of (concat (BatchTags t)) = map_of t \<and> length (BatchTags t) = 1 \<and>
     BatchTags t = BatchTags (rev t)"
  using BatchTags_correct [of "[(''b'', ''1''), (''a'', ''2'')]"]
  by (simp add: wf_map_def BatchTags_def)

text \<open>
  Two lists of security group IDs are equal for drift detection exactly
  when they name the same groups: order and duplicates do not count.
\<close>
theorem EqualIDs_iff: "EqualIDs l r \<longleftrightarrow> set l = set r"
  by (simp add: EqualIDs_NormalizeIDs NormalizeIDs_sort_dedup sort_dedup_eq_iff)

end
