(* ===== verification/InstanceBatch.thy ===== *)
theory InstanceBatch
  imports BatchWindow EcsUtil
begin

text \<open>
  pkg/batcher/instance.go: creation of several ECS instances with one
  RunInstances call.  The request has the fields of the SDK type that the file
  reads; a pointer to a slice is an option of a list.  The RunInstances call of
  the client (documented: it creates Amount instances and returns their IDs, or
  fails) and SHA-256 are parameters.
\<close>

record RunSystemDisk =
  sd_Encrypted :: string
  sd_KMSKeyId :: string

record RunDataDisk =
  dd_Category :: string
  dd_Size :: string
  dd_Device :: string
  dd_PerformanceLevel :: string
  dd_Encrypted :: string
  dd_KMSKeyId :: string
  dd_SnapshotId :: string
  dd_DeleteWithInstance :: string

record RunRequest =
  RegionId :: string
  InstanceType :: string
  ImageId :: string
  VSwitchId :: string
  SecurityGroupId :: string
  SecurityGroupIds :: "string list option"
  InstanceName :: string
  InternetMaxBandwidthOut :: string
  UserData :: string
  ClientToken :: string
  SpotStrategy :: string
  SpotPriceLimit :: string
  RamRoleName :: string
  Tag :: "(string \<times> string) list option"
  SystemDisk :: RunSystemDisk
  SystemDiskCategory :: string
  SystemDiskSize :: string
  SystemDiskPerformanceLevel :: string
  DataDisk :: "RunDataDisk list option"
  Amount :: string

definition emptyRequest :: RunRequest where
  "emptyRequest = \<lparr>RegionId = [], InstanceType = [], ImageId = [], VSwitchId = [],
     SecurityGroupId = [], SecurityGroupIds = None, InstanceName = [],
     InternetMaxBandwidthOut = [], UserData = [], ClientToken = [], SpotStrategy = [],
     SpotPriceLimit = [], RamRoleName = [], Tag = None,
     SystemDisk = \<lparr>sd_Encrypted = [], sd_KMSKeyId = []\<rparr>, SystemDiskCategory = [],
     SystemDiskSize = [], SystemDiskPerformanceLevel = [], DataDisk = None, Amount = []\<rparr>"

definition cloneRequest :: "RunRequest \<Rightarrow> RunRequest" where
  "cloneRequest req = emptyRequest\<lparr>RegionId := RegionId req, InstanceType := InstanceType req,
     ImageId := ImageId req, VSwitchId := VSwitchId req, SecurityGroupId := SecurityGroupId req,
     SecurityGroupIds := SecurityGroupIds req, InstanceName := InstanceName req,
     InternetMaxBandwidthOut := InternetMaxBandwidthOut req, UserData := UserData req,
     ClientToken := ClientToken req, SpotStrategy := SpotStrategy req,
     SpotPriceLimit := SpotPriceLimit req, RamRoleName := RamRoleName req, Tag := Tag req,
     SystemDisk := SystemDisk req, SystemDiskCategory := SystemDiskCategory req,
     SystemDiskSize := SystemDiskSize req,
     SystemDiskPerformanceLevel := SystemDiskPerformanceLevel req, DataDisk := DataDisk req\<rparr>"

section \<open>Execution of a batch\<close>

datatype BatchResult = Created string time_ns | Failed string

text \<open>The result sent to the channel of each item, in order, and the error returned.\<close>

definition Execute :: "(RunRequest \<Rightarrow> string + string list) \<Rightarrow> time_ns \<Rightarrow> RunRequest list \<Rightarrow>
    BatchResult list \<times> string option" where
  "Execute RunInstances startTime its =
     (if its = [] then ([], None)
      else
        let req = (cloneRequest (its ! 0))\<lparr>Amount := itoa (int (length its))\<rparr> in
        case RunInstances req of
          Inl err \<Rightarrow> (List.map (\<lambda>_. Failed (wrap_err ''batch RunInstances failed: '' err)) its, Some err)
        | Inr instanceIDs \<Rightarrow>
            if length instanceIDs < length its then
              (let err = ''insufficient instances returned: requested '' @ itoa (int (length its)) @
                         '', got '' @ itoa (int (length instanceIDs))
               in (List.map (\<lambda>i. if i < length instanceIDs then Created (instanceIDs ! i) startTime
                                 else Failed err) [0..<length its], Some err))
            else (List.map (\<lambda>i. Created (instanceIDs ! i) startTime) [0..<length its], None))"

text \<open>
  The channel of one item has room for one result.  Execute sends its result;
  when it returned an error, the flush goroutine tries to send that error as well
  without blocking; the waiting CreateInstance receives once, before or after that.
\<close>

definition try_send :: "BatchResult \<Rightarrow> BatchResult option \<Rightarrow> BatchResult option" where
  "try_send r ch = (case ch of None \<Rightarrow> Some r | Some q \<Rightarrow> Some q)"

definition received :: "bool \<Rightarrow> BatchResult \<Rightarrow> string option \<Rightarrow> BatchResult option" where
  "received early r err =
     (let ch = Some r in
      if early then ch
      else (case err of None \<Rightarrow> ch | Some e \<Rightarrow> try_send (Failed e) ch))"

definition CreateInstanceResult :: "BatchResult option \<Rightarrow> string \<Rightarrow> string + (string \<times> time_ns)" where
  "CreateInstanceResult got ctxErr = (case got of
     None \<Rightarrow> Inl ctxErr
   | Some (Failed e) \<Rightarrow> Inl e
   | Some (Created i t) \<Rightarrow> Inr (i, t))"

lemma length_Execute: "length (fst (Execute run t its)) = length its"
  by (auto simp: Execute_def Let_def split: sum.splits)

lemma Execute_nth_success:
  assumes "run ((cloneRequest (its ! 0))\<lparr>Amount := itoa (int (length its))\<rparr>) = Inr ids"
    and "i < length its"
  shows "fst (Execute run t its) ! i =
    (if i < length ids then Created (ids ! i) t
     else Failed (''insufficient instances returned: requested '' @ itoa (int (length its)) @
                  '', got '' @ itoa (int (length ids))))"
  using assms by (auto simp: Execute_def Let_def)

section \<open>The batch key\<close>

definition normalizeBatchPerformanceLevel :: "string \<Rightarrow> string \<Rightarrow> string" where
  "normalizeBatchPerformanceLevel category performanceLevel =
     (if category = ''cloud_essd''
      then (if performanceLevel = '''' then ''PL0'' else performanceLevel)
      else '''')"

definition normalizeBatchBool :: "string \<Rightarrow> bool \<Rightarrow> string" where
  "normalizeBatchBool value defaultValue =
     (if value \<in> {''true'', ''True'', ''TRUE''} then (if defaultValue then '''' else ''true'')
      else if value \<in> {''false'', ''False'', ''FALSE''} then (if \<not> defaultValue then '''' else ''false'')
      else '''')"

definition disk_fields :: "RunDataDisk \<Rightarrow> string list" where
  "disk_fields disk = [dd_Category disk, dd_Size disk, dd_Device disk,
     normalizeBatchPerformanceLevel (dd_Category disk) (dd_PerformanceLevel disk),
     normalizeBatchBool (dd_Encrypted disk) False, dd_KMSKeyId disk, dd_SnapshotId disk,
     normalizeBatchBool (dd_DeleteWithInstance disk) True]"

definition core_fields :: "RunRequest \<Rightarrow> string list" where
  "core_fields req = [RegionId req, InstanceType req, ImageId req, VSwitchId req, SecurityGroupId req]"

definition group_fields :: "RunRequest \<Rightarrow> string list" where
  "group_fields req = (case SecurityGroupIds req of None \<Rightarrow> [] | Some ids \<Rightarrow> NormalizeIDs ids)"

definition middle_fields :: "RunRequest \<Rightarrow> string list" where
  "middle_fields req = [SpotStrategy req, SpotPriceLimit req, RamRoleName req,
     SystemDiskCategory req, SystemDiskSize req,
     normalizeBatchPerformanceLevel (SystemDiskCategory req) (SystemDiskPerformanceLevel req),
     normalizeBatchBool (sd_Encrypted (SystemDisk req)) False, sd_KMSKeyId (SystemDisk req)]"

definition key_fields :: "RunRequest \<Rightarrow> string list" where
  "key_fields req = core_fields req @ group_fields req @ middle_fields req @
     (case DataDisk req of None \<Rightarrow> [] | Some ds \<Rightarrow> concat (List.map disk_fields ds)) @
     [UserData req] @
     (case Tag req of None \<Rightarrow> [] | Some tags \<Rightarrow> List.map (\<lambda>(k, v). k @ ''='' @ v) tags)"

definition hash_input :: "string list \<Rightarrow> string" where
  "hash_input fs = concat (List.map (\<lambda>v. v @ [CHR 0x00]) fs)"

definition ComputeRunInstancesBatchKey :: "(string \<Rightarrow> string) \<Rightarrow> RunRequest \<Rightarrow> string" where
  "ComputeRunInstancesBatchKey sha256hex req = ''run-instances-'' @ sha256hex (hash_input (key_fields req))"

lemma hash_input_inj:
  assumes "hash_input xs = hash_input ys"
    and "\<forall>x \<in> set xs. CHR 0x00 \<notin> set x" "\<forall>y \<in> set ys. CHR 0x00 \<notin> set y"
  shows "xs = ys"
  using assms
proof (induction xs arbitrary: ys)
  case Nil
  then show ?case by (cases ys) (auto simp: hash_input_def)
next
  case (Cons x xs)
  then obtain y ys' where ys: "ys = y # ys'" by (cases ys) (auto simp: hash_input_def)
  have eq: "x @ CHR 0x00 # hash_input xs = y @ CHR 0x00 # hash_input ys'"
    using Cons.prems(1) by (simp add: hash_input_def ys)
  moreover have "CHR 0x00 \<notin> set x" "CHR 0x00 \<notin> set y" using Cons.prems ys by auto
  ultimately have "x = y" by (metis list.inject split_on_append)
  with eq have "x = y \<and> hash_input xs = hash_input ys'" by simp
  then show ?case using Cons ys by auto
qed

lemma length_disk_fields: "length (concat (List.map disk_fields ds)) = 8 * length ds"
  by (induction ds) (auto simp: disk_fields_def)

definition same_shape :: "RunRequest \<Rightarrow> RunRequest \<Rightarrow> bool" where
  "same_shape r q \<longleftrightarrow> length (group_fields r) = length (group_fields q) \<and>
     length (or_else (DataDisk r) []) = length (or_else (DataDisk q) [])"

lemma key_fields_split:
  assumes "key_fields r = key_fields q" "same_shape r q"
  shows "core_fields r = core_fields q \<and> group_fields r = group_fields q \<and>
    middle_fields r = middle_fields q \<and>
    concat (List.map disk_fields (or_else (DataDisk r) [])) =
      concat (List.map disk_fields (or_else (DataDisk q) [])) \<and>
    UserData r = UserData q \<and>
    List.map (\<lambda>(k, v). k @ ''='' @ v) (or_else (Tag r) []) =
      List.map (\<lambda>(k, v). k @ ''='' @ v) (or_else (Tag q) [])"
proof -
  have kf: "key_fields p = core_fields p @ group_fields p @ middle_fields p @
      concat (List.map disk_fields (or_else (DataDisk p) [])) @ [UserData p] @
      List.map (\<lambda>(k, v). k @ ''='' @ v) (or_else (Tag p) [])" for p
    by (auto simp: key_fields_def or_else_def split: option.split)
  have "length (core_fields r) = length (core_fields q)" "length (group_fields r) = length (group_fields q)"
    "length (middle_fields r) = length (middle_fields q)"
    "length (concat (List.map disk_fields (or_else (DataDisk r) []))) =
       length (concat (List.map disk_fields (or_else (DataDisk q) [])))"
    using assms(2) by (simp_all add: same_shape_def core_fields_def middle_fields_def length_disk_fields)
  with assms(1) show ?thesis
    unfolding kf [of r] kf [of q] by (simp add: append_eq_append_conv)
qed

section \<open>Properties\<close>

text \<open>
  Every request of a batch gets exactly one answer.  When ECS returns at
  least as many instances as were asked for, the i-th caller gets the i-th instance
  (so distinct instances go to distinct callers) and no error is returned; when it
  returns fewer, the callers that can be served are served and only the others get the
  error; when the call fails all callers get its error.  The answer a caller receives is
  the one Execute sent, whether it reads before or after the flush goroutine tries to
  report the error of the batch a second time.
\<close>
theorem Execute_answers_everyone:
  assumes "its \<noteq> []" "i < length its"
    and "req = (cloneRequest (its ! 0))\<lparr>Amount := itoa (int (length its))\<rparr>"
  shows "length (fst (Execute RunInstances t its)) = length its \<and>
    (case RunInstances req of
       Inl err \<Rightarrow> fst (Execute RunInstances t its) ! i = Failed (''batch RunInstances failed: '' @ err) \<and>
         snd (Execute RunInstances t its) = Some err
     | Inr ids \<Rightarrow>
         (i < length ids \<longrightarrow> fst (Execute RunInstances t its) ! i = Created (ids ! i) t) \<and>
         (length ids \<le> i \<longrightarrow> (\<exists>e. fst (Execute RunInstances t its) ! i = Failed e)) \<and>
         (snd (Execute RunInstances t its) = None \<longleftrightarrow> length its \<le> length ids)) \<and>
    received early (fst (Execute RunInstances t its) ! i) (snd (Execute RunInstances t its)) =
      Some (fst (Execute RunInstances t its) ! i)"
proof (intro conjI)
  show "length (fst (Execute RunInstances t its)) = length its" by (rule length_Execute)
  show "case RunInstances req of
       Inl err \<Rightarrow> fst (Execute RunInstances t its) ! i = Failed (''batch RunInstances failed: '' @ err) \<and>
         snd (Execute RunInstances t its) = Some err
     | Inr ids \<Rightarrow>
         (i < length ids \<longrightarrow> fst (Execute RunInstances t its) ! i = Created (ids ! i) t) \<and>
         (length ids \<le> i \<longrightarrow> (\<exists>e. fst (Execute RunInstances t its) ! i = Failed e)) \<and>
         (snd (Execute RunInstances t its) = None \<longleftrightarrow> length its \<le> length ids)"
    using assms(1,2) unfolding assms(3)
    by (auto simp: Execute_def Let_def wrap_err_def split: sum.split)
  show "received early (fst (Execute RunInstances t its) ! i) (snd (Execute RunInstances t its)) =
      Some (fst (Execute RunInstances t its) ! i)"
    by (simp add: received_def try_send_def Let_def split: option.split)
qed

theorem Execute_answers_everyone_witness:
  "fst (Execute (\<lambda>_. Inr [''i-1'']) 7 [emptyRequest, emptyRequest]) ! 0 = Created ''i-1'' 7"
  using Execute_answers_everyone
    [of "[emptyRequest, emptyRequest]" 0 _ "\<lambda>_. Inr [''i-1'']" 7] by simp



text \<open>
  The tags take part in the key in the order in which the request lists
  them (they are not sorted), so two requests with the same tags in another order never
  share a batch.
\<close>
theorem batch_key_depends_on_tag_order:
  assumes "inj sha256hex"
  shows "ComputeRunInstancesBatchKey sha256hex (emptyRequest\<lparr>Tag := Some [(''a'', ''1''), (''b'', ''2'')]\<rparr>) \<noteq>
         ComputeRunInstancesBatchKey sha256hex (emptyRequest\<lparr>Tag := Some [(''b'', ''2''), (''a'', ''1'')]\<rparr>)"
  using assms
  by (simp add: ComputeRunInstancesBatchKey_def inj_eq hash_input_def key_fields_def core_fields_def
      group_fields_def middle_fields_def emptyRequest_def)

theorem batch_key_depends_on_tag_order_witness:
  "ComputeRunInstancesBatchKey id (emptyRequest\<lparr>Tag := Some [(''a'', ''1''), (''b'', ''2'')]\<rparr>) \<noteq>
   ComputeRunInstancesBatchKey id (emptyRequest\<lparr>Tag := Some [(''b'', ''2''), (''a'', ''1'')]\<rparr>)"
  using batch_key_depends_on_tag_order [of id] by simp

end
