(* ===== verification/ApiTypes.thy ===== *)
theory ApiTypes
  imports Complex_Main EcsUtil
begin

text \<open>
  The API types of pkg/apis/v1alpha1/ecsnodeclass_types.go.  A pointer is an
  option; a map whose entries the code ranges over is an association list in
  the order of one iteration.  The price limit, a float64, is a rational number.
\<close>

record VSwitchSelectorTerm =
  vst_Tags :: gomap
  vst_ID :: "string option"
  vst_ZoneID :: "string option"

record SecurityGroupSelectorTerm =
  sgt_Tags :: gomap
  sgt_ID :: "string option"
  sgt_Name :: "string option"

record ImageSelectorTerm =
  ist_ImageOwnerAlias :: "string option"
  ist_Tags :: gomap
  ist_ID :: "string option"
  ist_Name :: "string option"
  ist_ImageOwnerID :: "string option"
  ist_ImageFamily :: "string option"

record CapacityReservation =
  cr_ID :: string
  cr_Name :: string

record CapacityReservationSelectorTerm =
  crt_Tags :: gomap
  crt_ID :: "string option"

record SystemDiskSpec =
  sds_Category :: string
  sds_Size :: "int option"
  sds_PerformanceLevel :: "string option"
  sds_Encrypted :: "bool option"
  sds_KMSKeyID :: "string option"

record DataDiskSpec =
  dds_Category :: string
  dds_Size :: int
  dds_Device :: "string option"
  dds_PerformanceLevel :: "string option"
  dds_Encrypted :: "bool option"
  dds_KMSKeyID :: "string option"
  dds_SnapshotID :: "string option"
  dds_DeleteWithInstance :: "bool option"

record KubeletConfiguration =
  kc_ClusterDNS :: "string list"
  kc_MaxPods :: "int option"
  kc_SystemReserved :: gomap
  kc_KubeReserved :: gomap
  kc_EvictionHard :: gomap
  kc_PodsPerCore :: "int option"
  kc_EvictionSoft :: gomap
  kc_EvictionSoftGracePeriod :: gomap
  kc_EvictionMaxPodGracePeriod :: "int option"
  kc_ImageGCHighThresholdPercent :: "int option"
  kc_ImageGCLowThresholdPercent :: "int option"
  kc_CPUCFSQuota :: "bool option"

record MetadataOptions =
  mo_HttpTokens :: string
  mo_HttpPutResponseHopLimit :: "int option"
  mo_HttpEndpoint :: "string option"

record ECSNodeClassSpec =
  nc_ClusterID :: string
  nc_ClusterName :: string
  nc_ClusterEndpoint :: string
  nc_VSwitchSelectorTerms :: "VSwitchSelectorTerm list"
  nc_SecurityGroupSelectorTerms :: "SecurityGroupSelectorTerm list"
  nc_ImageSelectorTerms :: "ImageSelectorTerm list"
  nc_Role :: "string option"
  nc_SystemDisk :: "SystemDiskSpec option"
  nc_DataDisks :: "DataDiskSpec list"
  nc_InstanceStorePolicy :: "string option"
  nc_SpotStrategy :: "string option"
  nc_SpotPriceLimit :: "rat option"
  nc_UserData :: "string option"
  nc_Tags :: gomap
  nc_Kubelet :: "KubeletConfiguration option"
  nc_CapacityReservationSelectorTerms :: "CapacityReservationSelectorTerm list"
  nc_CapacityReservationPreference :: "string option"
  nc_MetadataOptions :: "MetadataOptions option"
  nc_LaunchTemplateID :: "string option"
  nc_LaunchTemplateVersion :: "int option"

record VSwitch =
  vsw_ID :: string
  vsw_Zone :: string
  vsw_ZoneID :: string
  vsw_AvailableIPAddressCount :: int

record SecurityGroup =
  sg_ID :: string
  sg_Name :: string

record Image =
  img_ID :: string
  img_Name :: string
  img_Architecture :: string

text \<open>The conditions of the Kubernetes API that the status controller writes.\<close>

datatype ConditionStatus = ConditionTrue | ConditionFalse | ConditionUnknown

record Condition =
  cond_Type :: string
  cond_Status :: ConditionStatus
  cond_Reason :: string
  cond_Message :: string
  cond_ObservedGeneration :: int
  cond_LastTransitionTime :: time_ns

record ECSNodeClassStatus =
  st_Ready :: bool
  st_VSwitches :: "VSwitch list"
  st_SecurityGroups :: "SecurityGroup list"
  st_Images :: "Image list"
  st_RAMRole :: "string option"
  st_Conditions :: "Condition list"

definition ConditionTypeReady :: string where "ConditionTypeReady = ''Ready''"
definition ConditionTypeVSwitchResolved :: string where
  "ConditionTypeVSwitchResolved = ''VSwitchResolved''"
definition ConditionTypeSecurityGroupResolved :: string where
  "ConditionTypeSecurityGroupResolved = ''SecurityGroupResolved''"
definition ConditionTypeImageResolved :: string where
  "ConditionTypeImageResolved = ''ImageResolved''"
definition ConditionTypeRAMRoleResolved :: string where
  "ConditionTypeRAMRoleResolved = ''RAMRoleResolved''"

lemmas condition_types = ConditionTypeReady_def ConditionTypeVSwitchResolved_def
  ConditionTypeSecurityGroupResolved_def ConditionTypeImageResolved_def ConditionTypeRAMRoleResolved_def

text \<open>The spec with every optional field unset.\<close>

definition emptySpec :: ECSNodeClassSpec where
  "emptySpec = \<lparr>nc_ClusterID = [], nc_ClusterName = [], nc_ClusterEndpoint = [],
     nc_VSwitchSelectorTerms = [], nc_SecurityGroupSelectorTerms = [], nc_ImageSelectorTerms = [],
     nc_Role = None, nc_SystemDisk = None, nc_DataDisks = [], nc_InstanceStorePolicy = None,
     nc_SpotStrategy = None, nc_SpotPriceLimit = None, nc_UserData = None, nc_Tags = [],
     nc_Kubelet = None, nc_CapacityReservationSelectorTerms = [],
     nc_CapacityReservationPreference = None, nc_MetadataOptions = None,
     nc_LaunchTemplateID = None, nc_LaunchTemplateVersion = None\<rparr>"

end
