(* ===== verification/Disks.thy ===== *)
theory Disks
  imports ApiTypes
begin

text \<open>
  pkg/apis/v1alpha1/disks_normalize.go: the canonical form of the disk
  configuration that validation, instance creation, hashing and drift share.
\<close>

definition defaultSystemDiskCategory :: string where "defaultSystemDiskCategory = ''cloud_essd''"
definition defaultSystemDiskSize :: int where "defaultSystemDiskSize = 40"
definition defaultESSDPerformanceLevel :: string where "defaultESSDPerformanceLevel = ''PL0''"
definition instanceStorePolicyRAID0 :: string where "instanceStorePolicyRAID0 = ''RAID0''"
definition diskCategoryValues :: string where
  "diskCategoryValues = ''cloud_essd, cloud_essd_entry, cloud_efficiency, cloud_pperf, cloud_sperf, cloud_ssd, cloud_auto, ephemeral_ssd, cloud, cloud_essd_xc0, cloud_essd_xc1, elastic_ephemeral_disk_premium, elastic_ephemeral_disk_standard''"

lemmas disk_consts = defaultSystemDiskCategory_def defaultSystemDiskSize_def
  defaultESSDPerformanceLevel_def instanceStorePolicyRAID0_def

record diskCategoryConstraint =
  minSize :: int
  maxSize :: int
  available :: bool

definition sizes :: "int \<Rightarrow> int \<Rightarrow> diskCategoryConstraint" where
  "sizes lo hi = \<lparr>minSize = lo, maxSize = hi, available = True\<rparr>"

definition diskCategoryConstraints :: "(string \<times> diskCategoryConstraint) list" where
  "diskCategoryConstraints = [
     (''cloud_essd'', sizes 20 32768),
     (''cloud_essd_entry'', sizes 20 32768),
     (''cloud_efficiency'', sizes 20 32768),
     (''cloud_pperf'', sizes 20 32768),
     (''cloud_sperf'', sizes 20 32768),
     (''cloud_ssd'', sizes 20 32768),
     (''cloud_auto'', sizes 40 32768),
     (''ephemeral_ssd'', sizes 5 800),
     (''cloud'', sizes 5 2000),
     (''cloud_essd_xc0'', sizes 40 2048),
     (''cloud_essd_xc1'', \<lparr>minSize = 0, maxSize = 0, available = False\<rparr>),
     (''elastic_ephemeral_disk_premium'', sizes 64 8192),
     (''elastic_ephemeral_disk_standard'', sizes 64 8192)]"

record NormalizedSystemDisk =
  nsd_Category :: string
  nsd_Size :: int
  nsd_PerformanceLevel :: string
  nsd_Encrypted :: "bool option"
  nsd_KMSKeyID :: string

record NormalizedDataDisk =
  ndd_Category :: string
  ndd_Size :: int
  ndd_Device :: string
  ndd_PerformanceLevel :: string
  ndd_Encrypted :: "bool option"
  ndd_KMSKeyID :: string
  ndd_SnapshotID :: string
  ndd_DeleteWithInstance :: "bool option"

record NormalizedDisks =
  nd_SystemDisk :: NormalizedSystemDisk
  nd_DataDisks :: "NormalizedDataDisk list"
  nd_InstanceStorePolicy :: "string option"

definition isValidPerformanceLevel :: "string \<Rightarrow> bool" where
  "isValidPerformanceLevel level \<longleftrightarrow> level \<in> {''PL0'', ''PL1'', ''PL2'', ''PL3''}"

definition normalizeEncrypted :: "bool option \<Rightarrow> bool option" where
  "normalizeEncrypted encrypted = (case encrypted of
     None \<Rightarrow> None | Some b \<Rightarrow> if \<not> b then None else Some True)"

text \<open>The verb %q for the printable characters; quotes and backslashes are escaped.\<close>

definition go_quote :: "string \<Rightarrow> string" where
  "go_quote s = CHR 0x22 # concat (List.map (\<lambda>c.
     if c = CHR 0x22 \<or> c = CHR 0x5C then [CHR 0x5C, c] else [c]) s) @ [CHR 0x22]"

definition validateDiskCategoryAndSize :: "string \<Rightarrow> string \<Rightarrow> int \<Rightarrow> string option" where
  "validateDiskCategoryAndSize path category sz =
     (case map_of diskCategoryConstraints category of
        None \<Rightarrow> Some (path @ ''.category must be one of: '' @ diskCategoryValues)
      | Some constraint \<Rightarrow>
          if \<not> available constraint
          then Some (path @ ''.category '' @ go_quote category @ '' is not supported'')
          else if sz < minSize constraint \<or> sz > maxSize constraint
          then Some (path @ ''.size must be between '' @ itoa (minSize constraint) @ '' and '' @
                     itoa (maxSize constraint) @ '' GB for category '' @ category)
          else None)"

text \<open>The function updates the level through its pointer: the result carries the new level.\<close>

definition normalizeDiskPerformance :: "string \<Rightarrow> string \<Rightarrow> string \<Rightarrow> string + string" where
  "normalizeDiskPerformance path category performanceLevel =
     (if category \<noteq> defaultSystemDiskCategory then
        (if performanceLevel \<noteq> ''''
         then Inl (path @ ''.performanceLevel is only supported for cloud_essd disks'')
         else Inr performanceLevel)
      else
        let level = (if performanceLevel = '''' then defaultESSDPerformanceLevel else performanceLevel) in
        if \<not> isValidPerformanceLevel level
        then Inl (path @ ''.performanceLevel must be one of: PL0, PL1, PL2, PL3'')
        else Inr level)"

definition normalizeSystemDisk :: "SystemDiskSpec option \<Rightarrow> string + NormalizedSystemDisk" where
  "normalizeSystemDisk spec_disk =
     (let n0 = \<lparr>nsd_Category = defaultSystemDiskCategory, nsd_Size = defaultSystemDiskSize,
                nsd_PerformanceLevel = [], nsd_Encrypted = None, nsd_KMSKeyID = []\<rparr>;
          n = (case spec_disk of None \<Rightarrow> n0 | Some disk \<Rightarrow>
                 \<lparr>nsd_Category = (if sds_Category disk \<noteq> '''' then sds_Category disk else nsd_Category n0),
                  nsd_Size = or_else (sds_Size disk) (nsd_Size n0),
                  nsd_PerformanceLevel = or_else (sds_PerformanceLevel disk) (nsd_PerformanceLevel n0),
                  nsd_Encrypted = normalizeEncrypted (sds_Encrypted disk),
                  nsd_KMSKeyID = or_else (sds_KMSKeyID disk) (nsd_KMSKeyID n0)\<rparr>)
      in case validateDiskCategoryAndSize ''systemDisk'' (nsd_Category n) (nsd_Size n) of
           Some err \<Rightarrow> Inl err
         | None \<Rightarrow>
      (case normalizeDiskPerformance ''systemDisk'' (nsd_Category n) (nsd_PerformanceLevel n) of
           Inl err \<Rightarrow> Inl err
         | Inr level \<Rightarrow>
             if nsd_KMSKeyID n \<noteq> '''' \<and> nsd_Encrypted n = None
             then Inl ''systemDisk.kmsKeyID requires encrypted=true''
             else Inr (n\<lparr>nsd_PerformanceLevel := level\<rparr>)))"

definition normalizeDataDisk :: "nat \<Rightarrow> DataDiskSpec \<Rightarrow> string + NormalizedDataDisk" where
  "normalizeDataDisk i disk =
     (let n = \<lparr>ndd_Category = dds_Category disk, ndd_Size = dds_Size disk,
               ndd_Device = or_else (dds_Device disk) [],
               ndd_PerformanceLevel = or_else (dds_PerformanceLevel disk) [],
               ndd_Encrypted = normalizeEncrypted (dds_Encrypted disk),
               ndd_KMSKeyID = or_else (dds_KMSKeyID disk) [],
               ndd_SnapshotID = or_else (dds_SnapshotID disk) [],
               ndd_DeleteWithInstance = (if dds_DeleteWithInstance disk = Some False
                                         then Some False else None)\<rparr>;
          path = ''dataDisks['' @ itoa (int i) @ '']''
      in case validateDiskCategoryAndSize path (ndd_Category n) (ndd_Size n) of
           Some err \<Rightarrow> Inl err
         | None \<Rightarrow>
      (case normalizeDiskPerformance path (ndd_Category n) (ndd_PerformanceLevel n) of
           Inl err \<Rightarrow> Inl err
         | Inr level \<Rightarrow>
             if ndd_KMSKeyID n \<noteq> '''' \<and> ndd_Encrypted n = None
             then Inl (''dataDisks['' @ itoa (int i) @ ''].kmsKeyID requires encrypted=true'')
             else Inr (n\<lparr>ndd_PerformanceLevel := level\<rparr>)))"

fun normalizeDataDisks :: "nat \<Rightarrow> DataDiskSpec list \<Rightarrow> string + NormalizedDataDisk list" where
  "normalizeDataDisks i [] = Inr []"
| "normalizeDataDisks i (disk # ds) = (case normalizeDataDisk i disk of
     Inl err \<Rightarrow> Inl err
   | Inr n \<Rightarrow> (case normalizeDataDisks (Suc i) ds of Inl err \<Rightarrow> Inl err | Inr ns \<Rightarrow> Inr (n # ns)))"

definition NormalizeDisks :: "ECSNodeClassSpec \<Rightarrow> string + NormalizedDisks" where
  "NormalizeDisks spec =
     (if nc_InstanceStorePolicy spec \<noteq> None \<and> nc_InstanceStorePolicy spec \<noteq> Some instanceStorePolicyRAID0
      then Inl ''instanceStorePolicy must be unset or RAID0''
      else case normalizeSystemDisk (nc_SystemDisk spec) of
        Inl err \<Rightarrow> Inl err
      | Inr sys \<Rightarrow> (case normalizeDataDisks 0 (nc_DataDisks spec) of
          Inl err \<Rightarrow> Inl err
        | Inr ds \<Rightarrow> Inr \<lparr>nd_SystemDisk = sys, nd_DataDisks = ds,
                           nd_InstanceStorePolicy = nc_InstanceStorePolicy spec\<rparr>))"

section \<open>What a canonical disk configuration is\<close>

definition size_ok :: "string \<Rightarrow> int \<Rightarrow> bool" where
  "size_ok category sz \<longleftrightarrow> (\<exists>k. map_of diskCategoryConstraints category = Some k \<and>
     available k \<and> minSize k \<le> sz \<and> sz \<le> maxSize k)"

definition level_ok :: "string \<Rightarrow> string \<Rightarrow> bool" where
  "level_ok category level \<longleftrightarrow> (if category = ''cloud_essd'' then level \<in> {''PL0'', ''PL1'', ''PL2'', ''PL3''}
     else level = '''')"

definition system_disk_ok :: "NormalizedSystemDisk \<Rightarrow> bool" where
  "system_disk_ok n \<longleftrightarrow> size_ok (nsd_Category n) (nsd_Size n) \<and>
     level_ok (nsd_Category n) (nsd_PerformanceLevel n) \<and> nsd_Encrypted n \<in> {None, Some True} \<and>
     (nsd_KMSKeyID n \<noteq> '''' \<longrightarrow> nsd_Encrypted n = Some True)"

definition data_disk_ok :: "NormalizedDataDisk \<Rightarrow> bool" where
  "data_disk_ok n \<longleftrightarrow> size_ok (ndd_Category n) (ndd_Size n) \<and>
     level_ok (ndd_Category n) (ndd_PerformanceLevel n) \<and> ndd_Encrypted n \<in> {None, Some True} \<and>
     (ndd_KMSKeyID n \<noteq> '''' \<longrightarrow> ndd_Encrypted n = Some True) \<and>
     ndd_DeleteWithInstance n \<in> {None, Some False}"

lemma validate_size_ok: "validateDiskCategoryAndSize path c s = None \<longleftrightarrow> size_ok c s"
  by (auto simp: validateDiskCategoryAndSize_def size_ok_def split: option.splits)

lemma performance_ok:
  "normalizeDiskPerformance path c l = Inr l' \<longleftrightarrow>
     level_ok c l' \<and> (if c = ''cloud_essd'' \<and> l = '''' then l' = ''PL0'' else l' = l)"
  by (auto simp: normalizeDiskPerformance_def level_ok_def isValidPerformanceLevel_def disk_consts Let_def)

lemma normalizeEncrypted_cases: "normalizeEncrypted e \<in> {None, Some True}"
  by (auto simp: normalizeEncrypted_def split: option.splits)

lemma system_disk_size_ok_ne: "size_ok c s \<Longrightarrow> c \<noteq> ''''"
  by (auto simp: size_ok_def diskCategoryConstraints_def)

lemma normalizeSystemDisk_ok: "normalizeSystemDisk d = Inr n \<Longrightarrow> system_disk_ok n"
  using normalizeEncrypted_cases [of "sds_Encrypted (the d)"]
  by (auto simp: normalizeSystemDisk_def Let_def system_disk_ok_def validate_size_ok performance_ok
      split: option.splits sum.splits if_splits)

lemma normalizeDataDisk_ok: "normalizeDataDisk i d = Inr n \<Longrightarrow> data_disk_ok n"
  using normalizeEncrypted_cases [of "dds_Encrypted d"]
  by (auto simp: normalizeDataDisk_def Let_def data_disk_ok_def validate_size_ok performance_ok
      split: option.splits sum.splits if_splits)

lemma normalizeDataDisks_ok:
  "normalizeDataDisks i ds = Inr ns \<Longrightarrow> length ns = length ds \<and> (\<forall>n \<in> set ns. data_disk_ok n)"
  by (induction i ds arbitrary: ns rule: normalizeDataDisks.induct)
     (auto split: sum.splits dest: normalizeDataDisk_ok)

section \<open>Canonical configurations are fixed points\<close>

definition opt_str :: "string \<Rightarrow> string option" where
  "opt_str s = (if s = '''' then None else Some s)"

lemma or_else_opt_str [simp]: "or_else (opt_str s) [] = s"
  by (simp add: opt_str_def)

definition as_system_spec :: "NormalizedSystemDisk \<Rightarrow> SystemDiskSpec" where
  "as_system_spec n = \<lparr>sds_Category = nsd_Category n, sds_Size = Some (nsd_Size n),
     sds_PerformanceLevel = opt_str (nsd_PerformanceLevel n), sds_Encrypted = nsd_Encrypted n,
     sds_KMSKeyID = opt_str (nsd_KMSKeyID n)\<rparr>"

definition as_data_spec :: "NormalizedDataDisk \<Rightarrow> DataDiskSpec" where
  "as_data_spec n = \<lparr>dds_Category = ndd_Category n, dds_Size = ndd_Size n,
     dds_Device = opt_str (ndd_Device n), dds_PerformanceLevel = opt_str (ndd_PerformanceLevel n),
     dds_Encrypted = ndd_Encrypted n, dds_KMSKeyID = opt_str (ndd_KMSKeyID n),
     dds_SnapshotID = opt_str (ndd_SnapshotID n), dds_DeleteWithInstance = ndd_DeleteWithInstance n\<rparr>"

definition with_disks :: "NormalizedDisks \<Rightarrow> ECSNodeClassSpec \<Rightarrow> ECSNodeClassSpec" where
  "with_disks n spec = spec\<lparr>nc_SystemDisk := Some (as_system_spec (nd_SystemDisk n)),
     nc_DataDisks := List.map as_data_spec (nd_DataDisks n),
     nc_InstanceStorePolicy := nd_InstanceStorePolicy n\<rparr>"

lemma normalizeEncrypted_fix: "e \<in> {None, Some True} \<Longrightarrow> normalizeEncrypted e = e"
  by (auto simp: normalizeEncrypted_def)

lemma performance_fix: "level_ok c l \<Longrightarrow> normalizeDiskPerformance path c l = Inr l"
  by (auto simp: performance_ok level_ok_def)

lemma normalizeSystemDisk_fix:
  assumes "system_disk_ok n"
  shows "normalizeSystemDisk (Some (as_system_spec n)) = Inr n"
proof -
  have "validateDiskCategoryAndSize ''systemDisk'' (nsd_Category n) (nsd_Size n) = None"
    using assms by (simp add: system_disk_ok_def validate_size_ok)
  moreover have "nsd_Category n \<noteq> ''''" using assms system_disk_size_ok_ne by (auto simp: system_disk_ok_def)
  ultimately show ?thesis
    using assms
    by (auto simp: normalizeSystemDisk_def as_system_spec_def Let_def system_disk_ok_def
        normalizeEncrypted_fix performance_fix)
qed

lemma normalizeDataDisk_fix:
  assumes "data_disk_ok n"
  shows "normalizeDataDisk i (as_data_spec n) = Inr n"
proof -
  have "validateDiskCategoryAndSize path (ndd_Category n) (ndd_Size n) = None" for path
    using assms by (simp add: data_disk_ok_def validate_size_ok)
  then show ?thesis
    using assms
    by (auto simp: normalizeDataDisk_def as_data_spec_def Let_def data_disk_ok_def
        normalizeEncrypted_fix performance_fix)
qed

lemma normalizeDataDisks_fix:
  "(\<forall>n \<in> set ns. data_disk_ok n) \<Longrightarrow> normalizeDataDisks i (List.map as_data_spec ns) = Inr ns"
  by (induction ns arbitrary: i) (auto simp: normalizeDataDisk_fix)

lemma NormalizeDisks_parts:
  "NormalizeDisks spec = Inr n \<longleftrightarrow>
     nc_InstanceStorePolicy spec \<in> {None, Some instanceStorePolicyRAID0} \<and>
     normalizeSystemDisk (nc_SystemDisk spec) = Inr (nd_SystemDisk n) \<and>
     normalizeDataDisks 0 (nc_DataDisks spec) = Inr (nd_DataDisks n) \<and>
     nd_InstanceStorePolicy n = nc_InstanceStorePolicy spec"
  by (cases n) (auto simp: NormalizeDisks_def split: sum.splits)

section \<open>Properties\<close>

text \<open>
  C31: When NormalizeDisks accepts a spec, its result is canonical: every disk
  has a supported category and a size within the limits of that category, a performance
  level exactly when it is an ESSD disk (PL0 to PL3), a KMS key only if it is encrypted,
  encryption recorded only when on and DeleteWithInstance only when off; data disks keep
  their number; and normalising the canonical configuration again gives the same result.
\<close>
theorem NormalizeDisks_canonical:
  assumes "NormalizeDisks spec = Inr n"
  shows "system_disk_ok (nd_SystemDisk n) \<and> (\<forall>d \<in> set (nd_DataDisks n). data_disk_ok d) \<and>
    length (nd_DataDisks n) = length (nc_DataDisks spec) \<and>
    nd_InstanceStorePolicy n \<in> {None, Some ''RAID0''} \<and>
    NormalizeDisks (with_disks n spec) = Inr n"
proof -
  note parts = assms [unfolded NormalizeDisks_parts]
  have sys: "system_disk_ok (nd_SystemDisk n)" using parts normalizeSystemDisk_ok by blast
  have data: "length (nd_DataDisks n) = length (nc_DataDisks spec)"
      "\<forall>d \<in> set (nd_DataDisks n). data_disk_ok d"
    using parts normalizeDataDisks_ok by blast+
  have "NormalizeDisks (with_disks n spec) = Inr n"
    using parts sys data(2)
    by (simp add: NormalizeDisks_parts with_disks_def normalizeSystemDisk_fix normalizeDataDisks_fix)
  with parts sys data show ?thesis by (simp add: disk_consts)
qed

theorem NormalizeDisks_canonical_witness:
  "\<exists>n. NormalizeDisks emptySpec = Inr n \<and> NormalizeDisks (with_disks n emptySpec) = Inr n"
proof -
  define n where "n = \<lparr>nd_SystemDisk = \<lparr>nsd_Category = ''cloud_essd'', nsd_Size = 40,
      nsd_PerformanceLevel = ''PL0'', nsd_Encrypted = None, nsd_KMSKeyID = []\<rparr>,
    nd_DataDisks = [], nd_InstanceStorePolicy = None\<rparr>"
  have "NormalizeDisks emptySpec = Inr n"
    by (simp add: NormalizeDisks_def normalizeSystemDisk_def emptySpec_def disk_consts n_def
        validateDiskCategoryAndSize_def diskCategoryConstraints_def sizes_def
        normalizeDiskPerformance_def isValidPerformanceLevel_def)
  then show ?thesis using NormalizeDisks_canonical by blast
qed

end
