(* ===== verification/Validation.thy ===== *)
theory Validation
  imports Disks
begin

text \<open>
  Admission of an ECSNodeClass: pkg/apis/v1alpha1/ecsnodeclass_validation.go
  (Validate and its parts) and ecsnodeclass_webhook.go (Default).  An error is
  Some message, None is nil.  The regular expressions are written as
  recognisers on byte strings.
\<close>

text \<open>The chain of checks of Validate: the first error wins.\<close>

fun first_err :: "string option list \<Rightarrow> string option" where
  "first_err [] = None"
| "first_err (e # es) = (case e of Some m \<Rightarrow> Some m | None \<Rightarrow> first_err es)"

lemma first_err_None: "first_err es = None \<longleftrightarrow> (\<forall>e \<in> set es. e = None)"
  by (induction es) (auto split: option.splits)

declare first_err.simps(2) [simp del]

definition fail_if :: "bool \<Rightarrow> string \<Rightarrow> string option" where
  "fail_if b m = (if b then Some m else None)"

lemma fail_if_None [simp]: "fail_if b m = None \<longleftrightarrow> \<not> b"
  by (simp add: fail_if_def)

text \<open>A loop over indexed terms that stops at the first error.\<close>

definition check_terms :: "(nat \<Rightarrow> 'a \<Rightarrow> string option) \<Rightarrow> 'a list \<Rightarrow> string option" where
  "check_terms f xs = first_err (List.map (\<lambda>(i, x). f i x) (enumerate 0 xs))"

lemma check_terms_None: "check_terms f xs = None \<longleftrightarrow> (\<forall>i < length xs. f i (xs ! i) = None)"
proof
  assume "check_terms f xs = None"
  then have all: "\<And>p. p \<in> set (enumerate 0 xs) \<Longrightarrow> f (fst p) (snd p) = None"
    by (auto simp: check_terms_def first_err_None)
  show "\<forall>i < length xs. f i (xs ! i) = None"
    using all [of "(i, xs ! i)" for i] by (auto simp: in_set_enumerate_eq)
qed (auto simp: check_terms_def first_err_None in_set_enumerate_eq)

section \<open>Recognisers\<close>

definition is_role_char :: "char \<Rightarrow> bool" where
  "is_role_char c \<longleftrightarrow> is_alnum c \<or> c \<in> set ''._-''"

definition ramRoleNameRegex :: "string \<Rightarrow> bool" where
  "ramRoleNameRegex s \<longleftrightarrow> 1 \<le> length s \<and> length s \<le> 64 \<and> list_all is_role_char s"

definition imageOwnerIDRegex :: "string \<Rightarrow> bool" where
  "imageOwnerIDRegex s \<longleftrightarrow> (case s of [] \<Rightarrow> False | c # ds \<Rightarrow>
     is_digit c \<and> c \<noteq> CHR ''0'' \<and> list_all is_digit ds \<and> 5 \<le> length ds \<and> length ds \<le> 19)"

definition is_image_char :: "char \<Rightarrow> bool" where
  "is_image_char c \<longleftrightarrow> is_alnum c \<or> c \<in> set ''._:-''"

definition image_file :: "string \<Rightarrow> string \<Rightarrow> bool" where
  "image_file ext s \<longleftrightarrow> has_suffix s ext \<and> (case trim_suffix s ext of [] \<Rightarrow> False | c # rest \<Rightarrow>
     is_alnum c \<and> list_all is_image_char rest \<and> length rest \<le> 126)"

definition imageIDRegex :: "string \<Rightarrow> bool" where
  "imageIDRegex s \<longleftrightarrow>
     (has_prefix s ''m-'' \<and> (let rest = drop 2 s in
        1 \<le> length rest \<and> length rest \<le> 126 \<and> list_all is_image_char rest)) \<or>
     image_file ''.vhd'' s \<or> image_file ''.qcow2'' s"

definition isValidResourceID :: "string \<Rightarrow> string \<Rightarrow> bool" where
  "isValidResourceID i p \<longleftrightarrow> (let stem = p @ ''-''; rest = drop (length stem) i in
     has_prefix i stem \<and> rest \<noteq> [] \<and> list_all (\<lambda>c. is_lower c \<or> is_digit c) rest)"

definition isValidImageOwnerAlias :: "string \<Rightarrow> bool" where
  "isValidImageOwnerAlias owner \<longleftrightarrow> owner \<in> {''system'', ''self'', ''others'', ''marketplace''}"

definition isValidSpotStrategyName :: "string \<Rightarrow> bool" where
  "isValidSpotStrategyName strategy \<longleftrightarrow> strategy = ''SpotAsPriceGo'' \<or> strategy = ''SpotWithPriceLimit''"

definition isValidCapacityReservationPreference :: "string \<Rightarrow> bool" where
  "isValidCapacityReservationPreference pref \<longleftrightarrow> pref = ''open'' \<or> pref = ''none'' \<or> pref = ''target''"

section \<open>The checks\<close>

definition validateLaunchTemplate :: "ECSNodeClassSpec \<Rightarrow> string option" where
  "validateLaunchTemplate s =
     (if nc_LaunchTemplateVersion s \<noteq> None \<and> nc_LaunchTemplateID s = None
      then Some ''launchTemplateVersion requires launchTemplateID''
      else if (case nc_LaunchTemplateVersion s of Some v \<Rightarrow> v \<le> 0 | None \<Rightarrow> False)
      then Some ''launchTemplateVersion must be greater than 0''
      else case nc_LaunchTemplateID s of
        None \<Rightarrow> None
      | Some lt \<Rightarrow>
          if \<not> isValidResourceID lt ''lt'' then Some ''launchTemplateID is not a valid launch template ID''
          else if nc_VSwitchSelectorTerms s \<noteq> [] \<or> nc_SecurityGroupSelectorTerms s \<noteq> [] \<or>
             nc_ImageSelectorTerms s \<noteq> [] \<or> nc_SystemDisk s \<noteq> None \<or> nc_DataDisks s \<noteq> [] \<or>
             nc_UserData s \<noteq> None \<or> nc_SpotStrategy s \<noteq> None \<or> nc_SpotPriceLimit s \<noteq> None
          then Some ''launchTemplateID cannot be combined with selectors, disk configuration, userData, or spot configuration''
          else None)"

definition restrictedTags :: "string list" where
  "restrictedTags = [TagManagedBy, TagClusterID, TagNodePool, TagNodeClaim, TagKubeletMaxPods,
     ''kubernetes.io/cluster'']"

definition validateTags :: "ECSNodeClassSpec \<Rightarrow> string option" where
  "validateTags s = first_err (List.map (\<lambda>(key, _).
     fail_if (key \<in> set restrictedTags) (''tags contains restricted key '' @ go_quote key)) (nc_Tags s))"

definition validateRole :: "ECSNodeClassSpec \<Rightarrow> string option" where
  "validateRole s = (case nc_Role s of None \<Rightarrow> None | Some role \<Rightarrow>
     first_err [
       fail_if (role \<noteq> trim_space role) ''role must not contain leading or trailing whitespace'',
       fail_if (length role < 1 \<or> length role > 64) ''role must be between 1 and 64 characters'',
       fail_if (has_prefix role ''acs:ram::'' \<and> contains_str role '':role/'')
         ''role must be a RAM role name, not an ARN'',
       fail_if (\<not> ramRoleNameRegex role) ''role must match ^[A-Za-z0-9._-]{1,64}$''])"

definition validateSelectorTags :: "string \<Rightarrow> gomap \<Rightarrow> bool \<Rightarrow> string option" where
  "validateSelectorTags field tags limit =
     (if tags = [] then None
      else if limit \<and> length tags > 20
      then Some (field @ '' may contain at most 20 entries, got '' @ itoa (int (length tags)))
      else first_err (List.map (\<lambda>(key, value).
             first_err [fail_if (key = '''') (field @ '' key must be non-empty''),
                        fail_if (value = '''') (field @ ''['' @ go_quote key @ ''] value must be non-empty'')]) tags))"

definition idx :: "string \<Rightarrow> nat \<Rightarrow> string" where
  "idx field i = field @ ''['' @ itoa (int i) @ '']''"

definition validateVSwitchSelectors :: "ECSNodeClassSpec \<Rightarrow> string option" where
  "validateVSwitchSelectors s = (let terms = nc_VSwitchSelectorTerms s; f = ''vSwitchSelectorTerms'' in
     first_err [
       fail_if (terms = []) (f @ '' is required''),
       fail_if (length terms > 30) (f @ '' may contain at most 30 terms, got '' @ itoa (int (length terms))),
       check_terms (\<lambda>i term. first_err [
         fail_if (vst_ID term = None \<and> vst_Tags term = [] \<and> vst_ZoneID term = None)
           (idx f i @ '' must specify at least one of: id, tags, or zoneID''),
         fail_if (vst_ID term \<noteq> None \<and> (vst_Tags term \<noteq> [] \<or> vst_ZoneID term \<noteq> None))
           (idx f i @ ''.id is mutually exclusive with tags and zoneID''),
         validateSelectorTags (idx f i @ ''.tags'') (vst_Tags term) True,
         fail_if (case vst_ID term of Some i' \<Rightarrow> \<not> isValidResourceID i' ''vsw'' | None \<Rightarrow> False)
           (idx f i @ ''.id is not a valid VSwitch ID'')]) terms])"

definition validateSecurityGroupSelectors :: "ECSNodeClassSpec \<Rightarrow> string option" where
  "validateSecurityGroupSelectors s =
     (let terms = nc_SecurityGroupSelectorTerms s; f = ''securityGroupSelectorTerms'' in
     first_err [
       fail_if (terms = []) (f @ '' is required''),
       fail_if (length terms > 30) (f @ '' may contain at most 30 terms, got '' @ itoa (int (length terms))),
       check_terms (\<lambda>i term. first_err [
         fail_if (sgt_ID term = None \<and> sgt_Name term = None \<and> sgt_Tags term = [])
           (idx f i @ '' must specify at least one of: id, name, or tags''),
         fail_if (sgt_ID term \<noteq> None \<and> (sgt_Name term \<noteq> None \<or> sgt_Tags term \<noteq> []))
           (idx f i @ ''.id is mutually exclusive with name and tags''),
         fail_if (sgt_Name term \<noteq> None \<and> (sgt_ID term \<noteq> None \<or> sgt_Tags term \<noteq> []))
           (idx f i @ ''.name is mutually exclusive with id and tags''),
         validateSelectorTags (idx f i @ ''.tags'') (sgt_Tags term) False,
         fail_if (case sgt_ID term of Some i' \<Rightarrow> \<not> isValidResourceID i' ''sg'' | None \<Rightarrow> False)
           (idx f i @ ''.id is not a valid security group ID'')]) terms])"

definition image_selector_count :: "ImageSelectorTerm \<Rightarrow> nat" where
  "image_selector_count term =
     of_bool (ist_ID term \<noteq> None) + of_bool (ist_ImageFamily term \<noteq> None) +
     of_bool (ist_ImageOwnerAlias term \<noteq> None) + of_bool (ist_Name term \<noteq> None) +
     of_bool (ist_ImageFamily term \<noteq> None) + of_bool (ist_Tags term \<noteq> [])"

definition validateImageSelectors :: "ECSNodeClassSpec \<Rightarrow> string option" where
  "validateImageSelectors s = (let terms = nc_ImageSelectorTerms s; f = ''imageSelectorTerms'' in
     first_err [
       fail_if (terms = []) (f @ '' is required''),
       fail_if (length terms > 30) (f @ '' may contain at most 30 terms, got '' @ itoa (int (length terms))),
       check_terms (\<lambda>i term. first_err [
         (if image_selector_count term = 0
          then (if ist_ImageOwnerID term \<noteq> None
                then Some (idx f i @ ''.imageOwnerID cannot be the only selector'')
                else Some (idx f i @ '' must specify at least one of: id, imageFamily, imageOwnerAlias, name, or tags''))
          else None),
         fail_if (ist_ID term \<noteq> None \<and> (ist_ImageFamily term \<noteq> None \<or> ist_ImageOwnerAlias term \<noteq> None \<or>
             ist_Name term \<noteq> None \<or> ist_ImageOwnerID term \<noteq> None \<or> ist_Tags term \<noteq> []))
           (idx f i @ ''.id is mutually exclusive with imageFamily, imageOwnerAlias, imageOwnerID, name, and tags''),
         validateSelectorTags (idx f i @ ''.tags'') (ist_Tags term) True,
         fail_if (case ist_ID term of Some i' \<Rightarrow> \<not> imageIDRegex i' | None \<Rightarrow> False)
           (idx f i @ ''.id is not a valid image ID''),
         fail_if (case ist_ImageOwnerAlias term of Some a \<Rightarrow> \<not> isValidImageOwnerAlias a | None \<Rightarrow> False)
           (idx f i @ ''.imageOwnerAlias must be one of: system, self, others, marketplace''),
         fail_if (case ist_ImageOwnerID term of Some a \<Rightarrow> \<not> imageOwnerIDRegex a | None \<Rightarrow> False)
           (idx f i @ ''.imageOwnerID must match ^[1-9][0-9]{5,19}$'')]) terms])"

definition bad_level :: "string option \<Rightarrow> bool" where
  "bad_level l = (case l of Some v \<Rightarrow> \<not> isValidPerformanceLevel v | None \<Rightarrow> False)"

definition validateSystemDisk :: "ECSNodeClassSpec \<Rightarrow> string option" where
  "validateSystemDisk s = (case nc_SystemDisk s of None \<Rightarrow> None | Some disk \<Rightarrow>
     first_err [
       validateDiskCategoryAndSize ''systemDisk'' (sds_Category disk) (or_else (sds_Size disk) defaultSystemDiskSize),
       fail_if (bad_level (sds_PerformanceLevel disk))
         ''systemDisk.performanceLevel must be one of: PL0, PL1, PL2, PL3''])"

definition validateDataDisks :: "ECSNodeClassSpec \<Rightarrow> string option" where
  "validateDataDisks s = first_err [
     fail_if (length (nc_DataDisks s) > 16)
       (''maximum 16 data disks allowed, got '' @ itoa (int (length (nc_DataDisks s)))),
     check_terms (\<lambda>i disk. first_err [
       validateDiskCategoryAndSize (idx ''dataDisks'' i) (dds_Category disk) (dds_Size disk),
       fail_if (bad_level (dds_PerformanceLevel disk))
         (idx ''dataDisks'' i @ ''.performanceLevel must be one of: PL0, PL1, PL2, PL3'')]) (nc_DataDisks s)]"

definition validateSpotConfig :: "ECSNodeClassSpec \<Rightarrow> string option" where
  "validateSpotConfig s = first_err [
     (case nc_SpotStrategy s of None \<Rightarrow> None | Some st \<Rightarrow> first_err [
        fail_if (\<not> isValidSpotStrategyName st) ''spotStrategy must be one of: SpotAsPriceGo, SpotWithPriceLimit'',
        fail_if (st = ''SpotWithPriceLimit'' \<and> nc_SpotPriceLimit s = None)
          ''spotPriceLimit is required when spotStrategy is SpotWithPriceLimit'']),
     fail_if (case nc_SpotPriceLimit s of Some p \<Rightarrow> p \<le> 0 | None \<Rightarrow> False)
       ''spotPriceLimit must be greater than 0'']"

definition validateCapacityReservation :: "ECSNodeClassSpec \<Rightarrow> string option" where
  "validateCapacityReservation s = (let f = ''capacityReservationSelectorTerms'' in first_err [
     fail_if (case nc_CapacityReservationPreference s of
                Some p \<Rightarrow> \<not> isValidCapacityReservationPreference p | None \<Rightarrow> False)
       ''capacityReservationPreference must be one of: open, target, none'',
     check_terms (\<lambda>i term. first_err [
       fail_if (crt_ID term = None \<and> crt_Tags term = []) (idx f i @ '' must specify at least one of: id or tags''),
       fail_if (crt_ID term \<noteq> None \<and> crt_Tags term \<noteq> []) (idx f i @ ''.id cannot be combined with tags''),
       fail_if (case crt_ID term of Some i' \<Rightarrow> \<not> isValidResourceID i' ''crp'' | None \<Rightarrow> False)
         (idx f i @ ''.id is not a valid capacity reservation ID'')])
       (nc_CapacityReservationSelectorTerms s)])"

definition outside :: "int \<Rightarrow> int \<Rightarrow> int option \<Rightarrow> bool" where
  "outside lo hi v = (case v of Some x \<Rightarrow> x < lo \<or> x > hi | None \<Rightarrow> False)"

definition validateKubelet :: "ECSNodeClassSpec \<Rightarrow> string option" where
  "validateKubelet s = (case nc_Kubelet s of None \<Rightarrow> None | Some k \<Rightarrow> first_err [
     fail_if (outside 0 100 (kc_ImageGCHighThresholdPercent k))
       ''kubelet.imageGCHighThresholdPercent must be between 0 and 100'',
     fail_if (outside 0 100 (kc_ImageGCLowThresholdPercent k))
       ''kubelet.imageGCLowThresholdPercent must be between 0 and 100'',
     fail_if (case (kc_ImageGCHighThresholdPercent k, kc_ImageGCLowThresholdPercent k) of
                (Some h, Some l) \<Rightarrow> h < l | _ \<Rightarrow> False)
       ''kubelet.imageGCHighThresholdPercent must be greater than or equal to imageGCLowThresholdPercent''])"

definition validateMetadataOptions :: "ECSNodeClassSpec \<Rightarrow> string option" where
  "validateMetadataOptions s = (case nc_MetadataOptions s of None \<Rightarrow> None | Some m \<Rightarrow> first_err [
     fail_if (mo_HttpTokens m \<notin> {''optional'', ''required''})
       ''metadataOptions.httpTokens must be one of: optional, required'',
     fail_if (case mo_HttpEndpoint m of Some e \<Rightarrow> e \<notin> {''enabled'', ''disabled''} | None \<Rightarrow> False)
       ''metadataOptions.httpEndpoint must be one of: enabled, disabled'',
     fail_if (outside 1 64 (mo_HttpPutResponseHopLimit m))
       ''metadataOptions.httpPutResponseHopLimit must be between 1 and 64''])"

definition normalize_err :: "ECSNodeClassSpec \<Rightarrow> string option" where
  "normalize_err s = (case NormalizeDisks s of Inl e \<Rightarrow> Some e | Inr _ \<Rightarrow> None)"

definition Validate :: "ECSNodeClassSpec \<Rightarrow> string option" where
  "Validate s =
     (case validateTags s of Some e \<Rightarrow> Some e | None \<Rightarrow>
     (case validateLaunchTemplate s of Some e \<Rightarrow> Some e | None \<Rightarrow>
      if nc_LaunchTemplateID s \<noteq> None then None
      else first_err [validateVSwitchSelectors s, validateSecurityGroupSelectors s,
        validateImageSelectors s, validateRole s, validateSystemDisk s, validateDataDisks s,
        normalize_err s, validateSpotConfig s, validateCapacityReservation s,
        validateMetadataOptions s, validateKubelet s]))"

section \<open>The mutating webhook\<close>

definition default_system_disk :: "NormalizedSystemDisk \<Rightarrow> SystemDiskSpec option \<Rightarrow> SystemDiskSpec" where
  "default_system_disk n sd =
     (case sd of
        None \<Rightarrow> \<lparr>sds_Category = nsd_Category n, sds_Size = Some (nsd_Size n),
                 sds_PerformanceLevel = (if nsd_PerformanceLevel n \<noteq> '''' then Some (nsd_PerformanceLevel n) else None),
                 sds_Encrypted = None, sds_KMSKeyID = None\<rparr>
      | Some d \<Rightarrow> d\<lparr>sds_Size := (if sds_Size d = None then Some (nsd_Size n) else sds_Size d),
                    sds_Category := (if sds_Category d = '''' then nsd_Category n else sds_Category d),
                    sds_PerformanceLevel :=
                      (if nsd_PerformanceLevel n \<noteq> '''' \<and> sds_PerformanceLevel d = None
                       then Some (nsd_PerformanceLevel n) else sds_PerformanceLevel d)\<rparr>)"

definition default_metadata :: "MetadataOptions \<Rightarrow> MetadataOptions" where
  "default_metadata m = m\<lparr>mo_HttpTokens := (if mo_HttpTokens m = '''' then ''optional'' else mo_HttpTokens m),
     mo_HttpPutResponseHopLimit := (if mo_HttpPutResponseHopLimit m = None then Some 1
                                     else mo_HttpPutResponseHopLimit m)\<rparr>"

text \<open>Default acts on the receiver of the method.\<close>

definition Default :: "ECSNodeClassSpec \<Rightarrow> string + ECSNodeClassSpec" where
  "Default s = (case NormalizeDisks s of
     Inl err \<Rightarrow> Inl err
   | Inr nd \<Rightarrow> Inr (s\<lparr>nc_SystemDisk := Some (default_system_disk (nd_SystemDisk nd) (nc_SystemDisk s)),
       nc_MetadataOptions := map_option default_metadata (nc_MetadataOptions s),
       nc_CapacityReservationPreference :=
         (if nc_CapacityReservationPreference s = None then Some ''open''
          else nc_CapacityReservationPreference s)\<rparr>))"

text \<open>The validating methods check the receiver as well; the admitted object is not looked at.\<close>

definition ValidateCreate :: "ECSNodeClassSpec \<Rightarrow> 'obj \<Rightarrow> string option" where
  "ValidateCreate nc obj = (case Validate nc of None \<Rightarrow> None | Some e \<Rightarrow> Some (''validation failed: '' @ e))"

definition validateImmutableFields :: "ECSNodeClassSpec \<Rightarrow> ECSNodeClassSpec \<Rightarrow> string option" where
  "validateImmutableFields nc old = None"

text \<open>The old object is an ECSNodeClass or something else.\<close>

definition ValidateUpdate :: "ECSNodeClassSpec \<Rightarrow> ECSNodeClassSpec option \<Rightarrow> 'obj \<Rightarrow> string option" where
  "ValidateUpdate nc oldObj newObj = (case Validate nc of
     Some e \<Rightarrow> Some (''validation failed: '' @ e)
   | None \<Rightarrow> (case oldObj of None \<Rightarrow> Some ''old object is not an ECSNodeClass''
       | Some oldNC \<Rightarrow> validateImmutableFields nc oldNC))"

definition ValidateDelete :: "ECSNodeClassSpec \<Rightarrow> 'obj \<Rightarrow> string option" where
  "ValidateDelete nc obj = None"

section \<open>Lemmas on Default\<close>

text \<open>Filling in the defaults does not change the canonical system disk.\<close>

lemma default_system_disk_same:
  assumes "normalizeSystemDisk sd = Inr n"
  shows "normalizeSystemDisk (Some (default_system_disk n sd)) = Inr n"
proof (cases sd)
  case None
  have ok: "system_disk_ok n" by (rule normalizeSystemDisk_ok [OF assms])
  have "nsd_Encrypted n = None \<and> nsd_KMSKeyID n = []"
    using assms None
    by (auto simp: normalizeSystemDisk_def Let_def split: option.splits sum.splits if_splits)
  then have "default_system_disk n sd = as_system_spec n"
    by (simp add: default_system_disk_def None as_system_spec_def Let_def opt_str_def)
  then show ?thesis by (simp add: normalizeSystemDisk_fix ok)
next
  case (Some d)
  from assms Some have f: "nsd_Category n = (if sds_Category d \<noteq> [] then sds_Category d else defaultSystemDiskCategory)"
      "nsd_Size n = or_else (sds_Size d) defaultSystemDiskSize"
      "nsd_Encrypted n = normalizeEncrypted (sds_Encrypted d)"
      "nsd_KMSKeyID n = or_else (sds_KMSKeyID d) []"
      "nsd_KMSKeyID n \<noteq> [] \<longrightarrow> nsd_Encrypted n \<noteq> None"
      "validateDiskCategoryAndSize ''systemDisk'' (nsd_Category n) (nsd_Size n) = None"
      "normalizeDiskPerformance ''systemDisk'' (nsd_Category n) (or_else (sds_PerformanceLevel d) []) =
         Inr (nsd_PerformanceLevel n)"
    by (auto simp: normalizeSystemDisk_def Let_def split: option.splits sum.splits if_splits)
  have lvl: "level_ok (nsd_Category n) (nsd_PerformanceLevel n)"
    using f(7) by (simp add: performance_ok)
  have perf: "normalizeDiskPerformance ''systemDisk'' (nsd_Category n)
      (or_else (sds_PerformanceLevel (default_system_disk n sd)) []) = Inr (nsd_PerformanceLevel n)"
  proof (cases "sds_PerformanceLevel d")
    case None
    then show ?thesis
      using f(7) performance_fix [OF lvl] by (auto simp: default_system_disk_def Some Let_def)
  next
    case (Some l)
    then show ?thesis using f(7) by (auto simp: default_system_disk_def \<open>sd = Some d\<close> Let_def)
  qed
  have fields: "sds_Category (default_system_disk n sd) = nsd_Category n"
      "or_else (sds_Size (default_system_disk n sd)) k = nsd_Size n"
      "sds_Encrypted (default_system_disk n sd) = sds_Encrypted d"
      "sds_KMSKeyID (default_system_disk n sd) = sds_KMSKeyID d" for k
    using f(1,2) by (auto simp: default_system_disk_def Some Let_def disk_consts split: if_splits)
  have "nsd_Category n \<noteq> []" using f(1) by (auto simp: disk_consts split: if_splits)
  then show ?thesis
    using f(3-6) perf by (auto simp: normalizeSystemDisk_def Let_def fields)
qed

lemma default_system_disk_idem:
  "default_system_disk n (Some (default_system_disk n sd)) = default_system_disk n sd"
  by (cases sd) (auto simp: default_system_disk_def Let_def)

lemma default_metadata_idem: "default_metadata (default_metadata m) = default_metadata m"
  by (simp add: default_metadata_def)

lemma NormalizeDisks_Default:
  assumes "Default s = Inr s'"
  shows "NormalizeDisks s' = NormalizeDisks s"
proof -
  obtain nd where nd: "NormalizeDisks s = Inr nd" using assms by (auto simp: Default_def split: sum.splits)
  have sys: "nc_SystemDisk s' = Some (default_system_disk (nd_SystemDisk nd) (nc_SystemDisk s))"
    and rest: "nc_DataDisks s' = nc_DataDisks s" "nc_InstanceStorePolicy s' = nc_InstanceStorePolicy s"
    using assms by (auto simp: Default_def nd)
  have "NormalizeDisks s' = Inr nd"
    using nd [unfolded NormalizeDisks_parts]
    unfolding NormalizeDisks_parts sys rest by (simp add: default_system_disk_same)
  with nd show ?thesis by simp
qed

section \<open>Properties\<close>

text \<open>
  The mutating webhook only fills in what the controllers would assume
  anyway: a spec it accepts has the same canonical disks before and after (so defaulting
  never causes drift), and defaulting a second time changes nothing.
\<close>
theorem Default_stable:
  assumes "Default s = Inr s'"
  shows "NormalizeDisks s' = NormalizeDisks s \<and> Default s' = Inr s'"
proof -
  have same: "NormalizeDisks s' = NormalizeDisks s" by (rule NormalizeDisks_Default [OF assms])
  obtain nd where nd: "NormalizeDisks s = Inr nd" using assms by (auto simp: Default_def split: sum.splits)
  have "Default s' = Inr s'"
    using assms same nd
    by (auto simp: Default_def default_system_disk_idem default_metadata_idem option.map_comp comp_def
        split: if_splits)
  with same show ?thesis by blast
qed

theorem Default_stable_witness: "\<exists>s'. Default emptySpec = Inr s' \<and> Default s' = Inr s'"
proof -
  have "NormalizeDisks emptySpec \<noteq> Inl e" for e
    by (simp add: NormalizeDisks_def normalizeSystemDisk_def emptySpec_def disk_consts
        validateDiskCategoryAndSize_def diskCategoryConstraints_def sizes_def
        normalizeDiskPerformance_def isValidPerformanceLevel_def)
  then obtain s' where "Default emptySpec = Inr s'"
    by (cases "NormalizeDisks emptySpec") (auto simp: Default_def)
  then show ?thesis using Default_stable by blast
qed

text \<open>
  Defaulting and validation contradict each other for launch
  templates: every spec with a launch template that the mutating webhook accepts is
  rejected by validation afterwards, since Default sets a system disk, which may not be
  combined with a launch template; without defaulting such specs can be valid.
\<close>
theorem Default_breaks_launch_templates:
  "(\<forall>s s'. nc_LaunchTemplateID s \<noteq> None \<and> Default s = Inr s' \<longrightarrow> Validate s' \<noteq> None) \<and>
   (\<exists>s. nc_LaunchTemplateID s \<noteq> None \<and> Validate s = None \<and> (\<exists>s'. Default s = Inr s'))"
proof (intro conjI allI impI)
  fix s s' assume a: "nc_LaunchTemplateID s \<noteq> None \<and> Default s = Inr s'"
  then have "nc_SystemDisk s' \<noteq> None" "nc_LaunchTemplateID s' \<noteq> None"
    by (auto simp: Default_def split: sum.splits)
  then show "Validate s' \<noteq> None"
    by (auto simp: Validate_def validateLaunchTemplate_def split: option.splits if_splits)
next
  let ?s = "emptySpec\<lparr>nc_LaunchTemplateID := Some ''lt-1''\<rparr>"
  have "Validate ?s = None"
    by (simp add: Validate_def validateTags_def validateLaunchTemplate_def emptySpec_def
        isValidResourceID_def Let_def has_prefix_def is_digit_def is_lower_def)
  moreover have "\<exists>s'. Default ?s = Inr s'"
    by (simp add: Default_def NormalizeDisks_def normalizeSystemDisk_def emptySpec_def disk_consts
        validateDiskCategoryAndSize_def diskCategoryConstraints_def sizes_def
        normalizeDiskPerformance_def isValidPerformanceLevel_def)
  ultimately show "\<exists>s. nc_LaunchTemplateID s \<noteq> None \<and> Validate s = None \<and> (\<exists>s'. Default s = Inr s')"
    by (intro exI [where x = ?s]) simp
qed

theorem Default_breaks_launch_templates_witness:
  "\<exists>s s'. nc_LaunchTemplateID s \<noteq> None \<and> Validate s = None \<and> Default s = Inr s' \<and> Validate s' \<noteq> None"
  using Default_breaks_launch_templates by blast


text \<open>A spec that is accepted with any tags that are not restricted.\<close>

definition accepted_spec :: "gomap \<Rightarrow> ECSNodeClassSpec" where
  "accepted_spec tags = emptySpec\<lparr>
     nc_VSwitchSelectorTerms := [\<lparr>vst_Tags = [], vst_ID = Some ''vsw-1'', vst_ZoneID = None\<rparr>],
     nc_SecurityGroupSelectorTerms := [\<lparr>sgt_Tags = [], sgt_ID = Some ''sg-1'', sgt_Name = None\<rparr>],
     nc_ImageSelectorTerms := [\<lparr>ist_ImageOwnerAlias = None, ist_Tags = [], ist_ID = Some ''m-1'',
       ist_Name = None, ist_ImageOwnerID = None, ist_ImageFamily = None\<rparr>],
     nc_Tags := tags\<rparr>"

lemma accepted_spec_valid:
  assumes "fst ` set tags \<inter> set restrictedTags = {}"
  shows "Validate (accepted_spec tags) = None" "nc_LaunchTemplateID (accepted_spec tags) = None"
proof -
  let ?s = "accepted_spec tags"
  have n: "normalize_err ?s = None"
    by (simp add: normalize_err_def NormalizeDisks_def normalizeSystemDisk_def accepted_spec_def emptySpec_def disk_consts
        validateDiskCategoryAndSize_def diskCategoryConstraints_def sizes_def
        normalizeDiskPerformance_def isValidPerformanceLevel_def)
  have "key \<notin> set restrictedTags" if "(key, v) \<in> set tags" for key v
    using assms that by (force simp: disjoint_iff)
  then have "validateTags ?s = None" "validateLaunchTemplate ?s = None"
    by (auto simp: validateTags_def first_err_None accepted_spec_def validateLaunchTemplate_def emptySpec_def)
  moreover have "validateVSwitchSelectors ?s = None" "validateSecurityGroupSelectors ?s = None"
    "validateImageSelectors ?s = None"
    by (simp_all add: validateVSwitchSelectors_def validateSecurityGroupSelectors_def
        validateImageSelectors_def first_err_None check_terms_None validateSelectorTags_def
        isValidResourceID_def imageIDRegex_def image_selector_count_def is_image_char_def is_alnum_def
        has_prefix_def is_digit_def is_lower_def is_upper_def accepted_spec_def emptySpec_def Let_def)
  moreover have "validateRole ?s = None" "validateSystemDisk ?s = None" "validateDataDisks ?s = None"
    "validateSpotConfig ?s = None" "validateCapacityReservation ?s = None"
    "validateMetadataOptions ?s = None" "validateKubelet ?s = None" "nc_LaunchTemplateID ?s = None"
    by (simp_all add: validateRole_def validateSystemDisk_def validateDataDisks_def
        validateSpotConfig_def validateCapacityReservation_def validateMetadataOptions_def
        validateKubelet_def first_err_None check_terms_None accepted_spec_def emptySpec_def Let_def)
  ultimately show "Validate ?s = None" "nc_LaunchTemplateID ?s = None"
    using n by (simp_all add: Validate_def first_err_None)
qed


end
