(* ===== verification/OperatorOptions.thy ===== *)
theory OperatorOptions
  imports Complex_Main Disks
begin

text \<open>
  Options of the operator (pkg/operator/options/options.go) and its feature
  gates (featuregates.go).  Environment and flag set are arguments: getenv
  maps a variable to its value (the empty string when unset), fs_parse is the
  flag set of the karpenter core, which fills the options from the arguments
  and says whether the flag feature-gates was given.
\<close>

section \<open>Feature gates\<close>

definition FeatureGateLaunchTemplateID :: string where "FeatureGateLaunchTemplateID = ''LaunchTemplateID''"
definition FeatureGateMetadataOptions :: string where "FeatureGateMetadataOptions = ''MetadataOptions''"
definition FeatureGateCapacityReservation :: string where
  "FeatureGateCapacityReservation = ''CapacityReservation''"
definition FeatureGateDeploymentSet :: string where "FeatureGateDeploymentSet = ''DeploymentSet''"
definition FeatureGateInstanceStoreRAID0 :: string where
  "FeatureGateInstanceStoreRAID0 = ''InstanceStoreRAID0''"
definition FeatureGateInterruptionHandling :: string where
  "FeatureGateInterruptionHandling = ''InterruptionHandling''"
definition FeatureGateTerwayPodDensity :: string where "FeatureGateTerwayPodDensity = ''TerwayPodDensity''"
definition FeatureGateCreateFallback :: string where "FeatureGateCreateFallback = ''CreateFallback''"
definition FeatureGatePricingRefresh :: string where "FeatureGatePricingRefresh = ''PricingRefresh''"

lemmas gate_defs = FeatureGateLaunchTemplateID_def FeatureGateMetadataOptions_def
  FeatureGateCapacityReservation_def FeatureGateDeploymentSet_def FeatureGateInstanceStoreRAID0_def
  FeatureGateInterruptionHandling_def FeatureGateTerwayPodDensity_def FeatureGateCreateFallback_def
  FeatureGatePricingRefresh_def

type_synonym gates = "(string \<times> bool) list"

definition DefaultFeatureGates :: gates where
  "DefaultFeatureGates =
     [(FeatureGateLaunchTemplateID, False), (FeatureGateMetadataOptions, False),
      (FeatureGateCapacityReservation, False), (FeatureGateDeploymentSet, False),
      (FeatureGateInstanceStoreRAID0, False), (FeatureGateInterruptionHandling, False),
      (FeatureGateTerwayPodDensity, False), (FeatureGateCreateFallback, False),
      (FeatureGatePricingRefresh, True)]"

definition Enabled :: "gates option \<Rightarrow> string \<Rightarrow> bool" where
  "Enabled f name = (case f of
     None \<Rightarrow> or_else (map_of DefaultFeatureGates name) False
   | Some values \<Rightarrow> or_else (map_of values name) False)"

definition invalid_gate :: "string \<Rightarrow> string" where
  "invalid_gate entry = ''invalid feature gate '' @ go_quote entry @ '', expected Name=true|false''"

fun gate_entries :: "string list \<Rightarrow> string list \<Rightarrow> gates \<Rightarrow> string + gates" where
  "gate_entries [] seen values = Inr values"
| "gate_entries (e # es) seen values =
     (let entry = trim_space e; parts = split_on CHR ''='' entry in
      if length parts \<noteq> 2 \<or> trim_space (parts ! 0) = '''' then Inl (invalid_gate entry)
      else let name = trim_space (parts ! 0); value = trim_space (parts ! 1) in
        if map_of values name = None then Inl (''unknown feature gate '' @ go_quote name)
        else if name \<in> set seen then Inl (''duplicate feature gate '' @ go_quote name)
        else if value = ''true'' then gate_entries es (name # seen) (AList.update name True values)
        else if value = ''false'' then gate_entries es (name # seen) (AList.update name False values)
        else Inl (''invalid feature gate value '' @ go_quote value @ '' for '' @ go_quote name @
               '', expected true or false''))"

definition ParseFeatureGates :: "string \<Rightarrow> string + gates" where
  "ParseFeatureGates input =
     (let inp = trim_space input in
      if inp = '''' then Inr DefaultFeatureGates
      else gate_entries (split_on CHR '','' inp) [] DefaultFeatureGates)"

section \<open>Options\<close>

definition PodDensityModeKubelet :: string where "PodDensityModeKubelet = ''kubelet''"
definition PodDensityModeTerwayENI :: string where "PodDensityModeTerwayENI = ''terway-eni''"
definition PodDensityModeTerwayENIMultiIP :: string where
  "PodDensityModeTerwayENIMultiIP = ''terway-eni-multi-ip''"
definition PodDensityModeExclusiveENI :: string where "PodDensityModeExclusiveENI = ''exclusive-eni''"

lemmas pod_density_defs = PodDensityModeKubelet_def PodDensityModeTerwayENI_def
  PodDensityModeTerwayENIMultiIP_def PodDensityModeExclusiveENI_def

record Options =
  o_ClusterName :: string
  o_ClusterID :: string
  o_ClusterEndpoint :: string
  o_Region :: string
  o_AccessKeyID :: string
  o_AccessKeySecret :: string
  o_RoleARN :: string
  o_OIDCProviderARN :: string
  o_OIDCTokenFile :: string
  o_InterruptionQueue :: string
  o_AssumeRoleARN :: string
  o_VMMemoryOverhead :: string
  o_VMMemoryOverheadPercent :: rat
  o_PricingRefreshEnabled :: bool
  o_PricingRefreshInterval :: int
  o_PricingRefreshConcurrency :: int
  o_PricingStaticDefaultRegionFallbackEnabled :: bool
  o_UnavailableOfferingCacheTTL :: int
  o_MaxCreateCandidateAttempts :: int
  o_PodDensityMode :: string
  o_TerwayReservedENIs :: int
  o_TerwayReservedIPsPerENI :: int
  o_TerwayMaxPodsCap :: int
  o_FeatureGates :: string
  o_GatesParsed :: "gates option"

definition NewOptions :: Options where
  "NewOptions = \<lparr>o_ClusterName = [], o_ClusterID = [], o_ClusterEndpoint = [], o_Region = ''cn-hangzhou'',
     o_AccessKeyID = [], o_AccessKeySecret = [], o_RoleARN = [], o_OIDCProviderARN = [], o_OIDCTokenFile = [],
     o_InterruptionQueue = [], o_AssumeRoleARN = [], o_VMMemoryOverhead = ''50Mi'',
     o_VMMemoryOverheadPercent = 5 / 100, o_PricingRefreshEnabled = True,
     o_PricingRefreshInterval = 12 * hour_ns, o_PricingRefreshConcurrency = 8,
     o_PricingStaticDefaultRegionFallbackEnabled = False, o_UnavailableOfferingCacheTTL = 5 * minute_ns,
     o_MaxCreateCandidateAttempts = 20, o_PodDensityMode = PodDensityModeKubelet,
     o_TerwayReservedENIs = 1, o_TerwayReservedIPsPerENI = 1, o_TerwayMaxPodsCap = 0,
     o_FeatureGates = [], o_GatesParsed = Some DefaultFeatureGates\<rparr>"

text \<open>The environment variables that AddFlags reads before it registers the flags.\<close>

definition AddFlags_env :: "(string \<Rightarrow> string) \<Rightarrow> Options \<Rightarrow> Options" where
  "AddFlags_env getenv opts =
     (let pick = (\<lambda>name old. if getenv name \<noteq> '''' then getenv name else old) in
      opts\<lparr>o_ClusterName := pick ''ALIBABA_CLOUD_CLUSTER_NAME'' (o_ClusterName opts),
           o_ClusterID := pick ''CLUSTER_ID'' (o_ClusterID opts),
           o_ClusterEndpoint := pick ''ALIBABA_CLOUD_CLUSTER_ENDPOINT'' (o_ClusterEndpoint opts),
           o_Region := pick ''ALIBABA_CLOUD_REGION'' (o_Region opts)\<rparr>)"

definition EnvRoleARN :: string where "EnvRoleARN = ''ALIBABA_CLOUD_ROLE_ARN''"
definition EnvOIDCProviderARN :: string where "EnvOIDCProviderARN = ''ALIBABA_CLOUD_OIDC_PROVIDER_ARN''"
definition EnvOIDCTokenFile :: string where "EnvOIDCTokenFile = ''ALIBABA_CLOUD_OIDC_TOKEN_FILE''"

definition IsRRSAEnabled :: "Options \<Rightarrow> bool" where
  "IsRRSAEnabled opts \<longleftrightarrow> o_RoleARN opts \<noteq> '''' \<and> o_OIDCProviderARN opts \<noteq> '''' \<and> o_OIDCTokenFile opts \<noteq> ''''"

definition terwayValuesChanged :: "Options \<Rightarrow> bool" where
  "terwayValuesChanged opts \<longleftrightarrow> o_TerwayReservedENIs opts \<noteq> o_TerwayReservedENIs NewOptions \<or>
     o_TerwayReservedIPsPerENI opts \<noteq> o_TerwayReservedIPsPerENI NewOptions \<or>
     o_TerwayMaxPodsCap opts \<noteq> o_TerwayMaxPodsCap NewOptions"

definition pod_density_modes :: "string list" where
  "pod_density_modes = [PodDensityModeKubelet, PodDensityModeTerwayENI, PodDensityModeTerwayENIMultiIP,
     PodDensityModeExclusiveENI]"

definition validateProviderOptions :: "Options \<Rightarrow> string option" where
  "validateProviderOptions opts =
     (let gate = Enabled (o_GatesParsed opts) in
      if o_PricingRefreshInterval opts < 5 * minute_ns \<or> o_PricingRefreshInterval opts > 168 * hour_ns
        then Some ''pricing-refresh-interval must be between 5m and 168h''
      else if o_PricingRefreshConcurrency opts < 1 \<or> o_PricingRefreshConcurrency opts > 64
        then Some ''pricing-refresh-concurrency must be between 1 and 64''
      else if o_UnavailableOfferingCacheTTL opts < 30 * second_ns \<or> o_UnavailableOfferingCacheTTL opts > hour_ns
        then Some ''unavailable-offering-cache-ttl must be between 30s and 1h''
      else if o_MaxCreateCandidateAttempts opts < 1 \<or> o_MaxCreateCandidateAttempts opts > 100
        then Some ''max-create-candidate-attempts must be between 1 and 100''
      else if o_PodDensityMode opts \<notin> set pod_density_modes
        then Some ''pod-density-mode must be one of kubelet, terway-eni, terway-eni-multi-ip, exclusive-eni''
      else if o_TerwayReservedENIs opts < 0 then Some ''terway-reserved-enis must be >= 0''
      else if o_TerwayReservedIPsPerENI opts < 0 then Some ''terway-reserved-ips-per-eni must be >= 0''
      else if o_TerwayMaxPodsCap opts < 0 then Some ''terway-max-pods-cap must be >= 0''
      else if o_PodDensityMode opts \<noteq> PodDensityModeKubelet \<and> \<not> gate FeatureGateTerwayPodDensity
        then Some (''non-kubelet pod-density-mode requires '' @ FeatureGateTerwayPodDensity @ ''=true'')
      else if terwayValuesChanged opts \<and> \<not> gate FeatureGateTerwayPodDensity
        then Some (''non-default Terway pod density options require '' @ FeatureGateTerwayPodDensity @ ''=true'')
      else if terwayValuesChanged opts \<and> o_PodDensityMode opts = PodDensityModeKubelet
        then Some ''non-default Terway pod density options require pod-density-mode other than kubelet''
      else if o_InterruptionQueue opts \<noteq> '''' \<and> \<not> gate FeatureGateInterruptionHandling
        then Some (''interruption-queue requires '' @ FeatureGateInterruptionHandling @ ''=true'')
      else None)"

text \<open>
  fs_parse gives an error, or the options with the flags applied and the value of the
  flag feature-gates when it was set.  The help flag ends the process, which is not an
  outcome here.
\<close>

definition ParseOptions :: "(string \<Rightarrow> string) \<Rightarrow> (Options \<Rightarrow> string + Options \<times> string option) \<Rightarrow>
    Options \<Rightarrow> string option \<times> Options" where
  "ParseOptions getenv fs_parse opts = (case fs_parse opts of
     Inl err \<Rightarrow> (Some (''parsing flags, '' @ err), opts)
   | Inr (o0, flag) \<Rightarrow>
     (let o1 = (case flag of Some v \<Rightarrow> o0\<lparr>o_FeatureGates := v\<rparr> | None \<Rightarrow> o0) in
      case ParseFeatureGates (o_FeatureGates o1) of
        Inl err \<Rightarrow> (Some (''parsing feature gates, '' @ err), o1)
      | Inr gates \<Rightarrow>
        (let o2 = o1\<lparr>o_GatesParsed := Some gates\<rparr> in
         if o_ClusterName o2 = '''' then (Some ''cluster-name is required'', o2)
         else if o_ClusterID o2 = '''' then (Some ''cluster-id is required'', o2)
         else if o_ClusterEndpoint o2 = '''' then (Some ''cluster-endpoint is required'', o2)
         else
           (let o3 = o2\<lparr>o_AccessKeyID := getenv ''ALIBABA_CLOUD_ACCESS_KEY_ID'',
                        o_AccessKeySecret := getenv ''ALIBABA_CLOUD_ACCESS_KEY_SECRET'',
                        o_RoleARN := getenv EnvRoleARN, o_OIDCProviderARN := getenv EnvOIDCProviderARN,
                        o_OIDCTokenFile := getenv EnvOIDCTokenFile\<rparr>;
                hasAKSK = (o_AccessKeyID o3 \<noteq> '''' \<and> o_AccessKeySecret o3 \<noteq> '''') in
            if \<not> IsRRSAEnabled o3 \<and> \<not> hasAKSK
            then (Some (''authentication required: either configure RRSA (ALIBABA_CLOUD_ROLE_ARN, ALIBABA_CLOUD_OIDC_PROVIDER_ARN, ALIBABA_CLOUD_OIDC_TOKEN_FILE) or AK/SK (ALIBABA_CLOUD_ACCESS_KEY_ID, ALIBABA_CLOUD_ACCESS_KEY_SECRET)''), o3)
            else (validateProviderOptions o3, o3)))))"

text \<open>Without options in the context the defaults are used.\<close>

definition FromContext :: "Options option \<Rightarrow> Options" where
  "FromContext ctx = or_else ctx NewOptions"

section \<open>Properties\<close>

text \<open>A gate as it is written on the command line.\<close>

definition gate_text :: "string \<times> bool \<Rightarrow> string" where
  "gate_text g = fst g @ ''='' @ bool_str (snd g)"

definition plain :: "string \<Rightarrow> bool" where
  "plain s \<longleftrightarrow> s \<noteq> [] \<and> list_all (\<lambda>c. \<not> is_space c \<and> c \<noteq> CHR ''='' \<and> c \<noteq> CHR '','') s"

lemma plain_trim [simp]: "plain s \<Longrightarrow> trim_space s = s"
  unfolding trim_space_def plain_def list_all_iff by (rule trim_by_id) auto

lemma plain_bool_str [simp]: "plain (bool_str b)"
  by (cases b) (simp_all add: plain_def bool_str_def is_space_def)

lemma gate_text_ends:
  assumes "plain n"
  shows "gate_text (n, b) \<noteq> []" "\<not> is_space (hd (gate_text (n, b)))" "\<not> is_space (last (gate_text (n, b)))"
proof -
  have n: "n \<noteq> []" "\<not> is_space (hd n)"
    using assms by (simp_all add: plain_def list_all_iff)
  show "gate_text (n, b) \<noteq> []" by (simp add: gate_text_def)
  show "\<not> is_space (hd (gate_text (n, b)))" using n by (simp add: gate_text_def hd_append)
  show "\<not> is_space (last (gate_text (n, b)))"
    by (cases b) (simp_all add: gate_text_def bool_str_def is_space_def)
qed

lemma gate_text_trim: "plain n \<Longrightarrow> trim_space (gate_text (n, b)) = gate_text (n, b)"
  unfolding trim_space_def by (rule trim_by_id) (simp add: gate_text_ends)

lemma gate_text_split: "plain n \<Longrightarrow> split_on CHR ''='' (gate_text (n, b)) = [n, bool_str b]"
proof -
  assume "plain n"
  then have "CHR ''='' \<notin> set n" by (auto simp: plain_def list_all_iff)
  moreover have "split_on CHR ''='' (bool_str b) = [bool_str b]" by (cases b) (simp_all add: bool_str_def)
  ultimately show ?thesis
    using split_on_append [of "CHR ''=''" n "bool_str b"] by (simp add: gate_text_def)
qed

lemma default_gates_plain: "n \<in> fst ` set DefaultFeatureGates \<Longrightarrow> plain n"
  by (auto simp: DefaultFeatureGates_def gate_defs plain_def is_space_def)

lemma gate_text_no_comma: "plain n \<Longrightarrow> CHR '','' \<notin> set (gate_text (n, b))"
  by (cases b) (auto simp: gate_text_def plain_def list_all_iff bool_str_def)

lemma split_join_gates:
  "gs \<noteq> [] \<Longrightarrow> \<forall>g \<in> set gs. plain (fst g) \<Longrightarrow>
   split_on CHR '','' (join_with '','' (List.map gate_text gs)) = List.map gate_text gs"
proof (induction gs)
  case (Cons g gs)
  obtain n b where g: "g = (n, b)" by (cases g)
  have nc: "CHR '','' \<notin> set (gate_text g)"
    using Cons.prems gate_text_no_comma by (simp add: g)
  show ?case
  proof (cases gs)
    case Nil
    with nc show ?thesis by (simp add: split_on_no_sep)
  next
    case (Cons h hs)
    then have "join_with '','' (List.map gate_text (g # gs)) =
        gate_text g @ CHR '','' # join_with '','' (List.map gate_text gs)" by simp
    with nc Cons Cons.IH Cons.prems show ?thesis by (simp add: split_on_append)
  qed
qed simp

lemma gate_entries_texts:
  assumes "\<forall>g \<in> set gs. plain (fst g) \<and> map_of values (fst g) \<noteq> None"
    and "distinct (List.map fst gs)" "set seen \<inter> fst ` set gs = {}"
  shows "gate_entries (List.map gate_text gs) seen values =
    Inr (fold (\<lambda>(n, b). AList.update n b) gs values)"
  using assms
proof (induction gs arbitrary: seen "values")
  case (Cons g gs)
  obtain n b where g: "g = (n, b)" by (cases g)
  obtain old where p: "plain n" and k: "map_of values n = Some old" and s: "n \<notin> set seen"
    using Cons.prems by (auto simp: g)
  have step: "gate_entries (List.map gate_text (g # gs)) seen values =
      gate_entries (List.map gate_text gs) (n # seen) (AList.update n b values)"
    using p k s plain_trim [OF p] plain_trim [OF plain_bool_str [of b]]
    by (cases b) (simp_all add: g gate_text_trim gate_text_split Let_def bool_str_def plain_def)
  have "gate_entries (List.map gate_text gs) (n # seen) (AList.update n b values) =
      Inr (fold (\<lambda>(n, b). AList.update n b) gs (AList.update n b values))"
    using Cons.prems by (intro Cons.IH) (auto simp: g map_of_update)
  with step show ?case by (simp add: g)
qed simp

lemma join_with_gates_edges:
  assumes "gs \<noteq> []" "\<forall>g \<in> set gs. plain (fst g)"
  shows "trim_space (join_with '','' (List.map gate_text gs)) = join_with '','' (List.map gate_text gs)"
    and "join_with '','' (List.map gate_text gs) \<noteq> []"
proof -
  let ?j = "join_with '','' (List.map gate_text gs)"
  have t: "gate_text g \<noteq> [] \<and> \<not> is_space (hd (gate_text g)) \<and> \<not> is_space (last (gate_text g))"
    if "plain (fst g)" for g
    using that gate_text_ends by (cases g) auto
  have "?j \<noteq> [] \<and> \<not> is_space (hd ?j) \<and> \<not> is_space (last ?j)"
    using assms
  proof (induction gs rule: induct_list012)
    case (3 g h gs)
    then show ?case using t [of g] by auto
  qed (use t in auto)
  then show "trim_space ?j = ?j" "?j \<noteq> []" unfolding trim_space_def by (auto intro: trim_by_id)
qed

text \<open>
  Writing feature gates and parsing them is the identity: for any choice of known gates,
  each named once, the text Name=true or Name=false joined by commas is accepted and
  the result is the table of defaults with exactly those gates replaced.
\<close>
theorem feature_gates_roundtrip:
  assumes "fst ` set gs \<subseteq> fst ` set DefaultFeatureGates" "distinct (List.map fst gs)"
  shows "\<exists>g. ParseFeatureGates (join_with '','' (List.map gate_text gs)) = Inr g \<and>
    (\<forall>n. Enabled (Some g) n = or_else (map_of gs n) (Enabled None n))"
proof -
  have p: "\<forall>g \<in> set gs. plain (fst g)" using assms(1) default_gates_plain by blast
  have k: "\<forall>g \<in> set gs. plain (fst g) \<and> map_of DefaultFeatureGates (fst g) \<noteq> None"
    using p assms(1) by (auto simp: map_of_eq_None_iff)
  let ?g = "fold (\<lambda>(n, b). AList.update n b) gs DefaultFeatureGates"
  have "ParseFeatureGates (join_with '','' (List.map gate_text gs)) = Inr ?g"
  proof (cases "gs = []")
    case False
    with p have "split_on CHR '','' (join_with '','' (List.map gate_text gs)) = List.map gate_text gs"
      by (intro split_join_gates)
    with gate_entries_texts [OF k assms(2), of "[]"] join_with_gates_edges [OF False p]
    show ?thesis by (simp add: ParseFeatureGates_def)
  qed (simp add: ParseFeatureGates_def)
  moreover have "map_of ?g = map_of DefaultFeatureGates ++ map_of gs"
    using map_of_copy_into [of gs DefaultFeatureGates] assms(2) by (simp add: copy_into_def wf_map_def)
  ultimately show ?thesis
    by (intro exI [of _ ?g]) (auto simp: Enabled_def map_add_def split: option.split)
qed

theorem feature_gates_roundtrip_witness:
  "\<exists>g. ParseFeatureGates ''CreateFallback=true,PricingRefresh=false'' = Inr g \<and>
     Enabled (Some g) FeatureGateCreateFallback \<and> \<not> Enabled (Some g) FeatureGatePricingRefresh \<and>
     \<not> Enabled (Some g) FeatureGateDeploymentSet"
proof -
  let ?gs = "[(FeatureGateCreateFallback, True), (FeatureGatePricingRefresh, False)]"
  have "fst ` set ?gs \<subseteq> fst ` set DefaultFeatureGates" "distinct (List.map fst ?gs)"
    by (simp_all add: DefaultFeatureGates_def gate_defs)
  from feature_gates_roundtrip [OF this] show ?thesis
    by (auto simp: gate_text_def bool_str_def gate_defs Enabled_def DefaultFeatureGates_def)
qed



end
