(* ===== verification/Fallback.thy ===== *)
theory Fallback
  imports EcsErrors
begin

text \<open>
  Trying candidates in order.  The loops over instance types and over vSwitches in
  pkg/cloudprovider/cloudprovider.go have one shape: attempt a candidate, return at
  the first success, go on after an error of a retryable kind, stop at
  any other error.  The locale states that shape by the equations of such a
  loop and proves once which candidates are attempted and what the result means;
  CreatePlan interprets it for the two loops.  An attempt acts on a state 'w
  of the world.
\<close>

locale fallback_loop =
  fixes loop :: "'a list \<Rightarrow> string option \<Rightarrow> 'w \<Rightarrow> (string + 'b) \<times> 'w"
    and attempt :: "'a \<Rightarrow> 'w \<Rightarrow> (string + 'b) \<times> 'w"
    and retryable :: "string \<Rightarrow> bool"
    and failed :: "string \<Rightarrow> string"
    and exhausted :: "string option \<Rightarrow> string"
  assumes loop_nil: "loop [] lst w = (Inl (exhausted lst), w)"
    and loop_cons: "loop (x # xs) lst w = (case attempt x w of
        (Inr b, w') \<Rightarrow> (Inr b, w')
      | (Inl e, w') \<Rightarrow> if retryable e then loop xs (Some e) w' else (Inl (failed e), w'))"
begin

definition after :: "'a list \<Rightarrow> 'w \<Rightarrow> 'w" where
  "after xs w = fold (\<lambda>x v. snd (attempt x v)) xs w"

definition gives_up :: "'a list \<Rightarrow> 'w \<Rightarrow> bool" where
  "gives_up xs w \<longleftrightarrow> (\<forall>i < length xs. \<exists>e. fst (attempt (xs ! i) (after (take i xs) w)) = Inl e \<and> retryable e)"

lemma after_Nil [simp]: "after [] w = w"
  by (simp add: after_def)

lemma after_Cons [simp]: "after (x # xs) w = after xs (snd (attempt x w))"
  by (simp add: after_def)

lemma after_append: "after (xs @ ys) w = after ys (after xs w)"
  by (simp add: after_def)

lemma gives_up_Nil [simp]: "gives_up [] w"
  by (simp add: gives_up_def)

lemma gives_up_Cons [simp]:
  "gives_up (x # xs) w \<longleftrightarrow> (\<exists>e. fst (attempt x w) = Inl e \<and> retryable e) \<and> gives_up xs (snd (attempt x w))"
  unfolding gives_up_def by (auto simp: less_Suc_eq_0_disj)

text \<open>
  A run of the loop attempts a prefix of the candidates, every attempt before the last
  one fails in a retryable way, and the result is that of the last attempt unless all failed.
\<close>

lemma loop_trace:
  assumes "loop xs lst w = (r, w')"
  shows "(\<exists>ys y zs. xs = ys @ y # zs \<and> gives_up ys w \<and> w' = after (ys @ [y]) w \<and>
            (case fst (attempt y (after ys w)) of
               Inr b \<Rightarrow> r = Inr b
             | Inl e \<Rightarrow> \<not> retryable e \<and> r = Inl (failed e))) \<or>
         (gives_up xs w \<and> w' = after xs w \<and> (\<exists>l. r = Inl (exhausted l) \<and>
            (if xs = [] then l = lst
             else \<exists>e. fst (attempt (List.last xs) (after (butlast xs) w)) = Inl e \<and> l = Some e)))"
  using assms
proof (induction xs arbitrary: lst w)
  case Nil
  then show ?case by (auto simp: loop_nil)
next
  case (Cons x xs)
  obtain a v where a: "attempt x w = (a, v)" by (metis surj_pair)
  show ?case
  proof (cases "\<exists>e. a = Inl e \<and> retryable e")
    case True
    then obtain e where e: "a = Inl e" "retryable e" by blast
    with Cons.prems a have "loop xs (Some e) v = (r, w')" by (simp add: loop_cons)
    from Cons.IH [OF this] show ?thesis
    proof
      assume "\<exists>ys y zs. xs = ys @ y # zs \<and> gives_up ys v \<and> w' = after (ys @ [y]) v \<and>
            (case fst (attempt y (after ys v)) of
               Inr b \<Rightarrow> r = Inr b
             | Inl e \<Rightarrow> \<not> retryable e \<and> r = Inl (failed e))"
      then obtain ys y zs where "xs = ys @ y # zs" "gives_up ys v" "w' = after (ys @ [y]) v"
        "case fst (attempt y (after ys v)) of Inr b \<Rightarrow> r = Inr b | Inl e \<Rightarrow> \<not> retryable e \<and> r = Inl (failed e)"
        by blast
      then show ?thesis
        using a e by (intro disjI1 exI [of _ "x # ys"] exI [of _ y] exI [of _ zs]) simp
    next
      assume "gives_up xs v \<and> w' = after xs v \<and> (\<exists>l. r = Inl (exhausted l) \<and>
          (if xs = [] then l = Some e
           else \<exists>e. fst (attempt (List.last xs) (after (butlast xs) v)) = Inl e \<and> l = Some e))"
      then show ?thesis using a e by (cases "xs = []") auto
    qed
  next
    case False
    then show ?thesis
      using Cons.prems a
      by (intro disjI1 exI [of _ "[]"] exI [of _ x] exI [of _ xs]) (auto simp: loop_cons split: sum.splits if_splits)
  qed
qed

lemma loop_first_success:
  assumes "gives_up ys w" "attempt y (after ys w) = (Inr b, w')"
  shows "loop (ys @ y # zs) lst w = (Inr b, w')"
  using assms
proof (induction ys arbitrary: lst w)
  case Nil
  then show ?case by (simp add: loop_cons)
next
  case (Cons x ys)
  obtain e v where "attempt x w = (Inl e, v)" "retryable e"
    using Cons.prems(1) by (cases "attempt x w") auto
  with Cons show ?case by (simp add: loop_cons)
qed

lemma loop_invariant:
  assumes "P w" "\<And>x v r v'. x \<in> set xs \<Longrightarrow> P v \<Longrightarrow> attempt x v = (r, v') \<Longrightarrow> P v'"
    and "loop xs lst w = (r, w')"
  shows "P w'"
  using assms
proof (induction xs arbitrary: lst w)
  case (Cons x xs)
  obtain a v where a: "attempt x w = (a, v)" by (metis surj_pair)
  have v: "P v" using Cons.prems(2) [OF _ Cons.prems(1) a] by simp
  show ?case
  proof (cases "\<exists>e. a = Inl e \<and> retryable e")
    case True
    with Cons.prems(3) a have "\<exists>l. loop xs l v = (r, w')" by (auto simp: loop_cons)
    with v Cons.IH Cons.prems(2) show ?thesis by (meson list.set_intros(2))
  next
    case False
    with Cons.prems(3) a v show ?thesis by (auto simp: loop_cons split: sum.splits if_splits)
  qed
qed (simp add: loop_nil)

end

end
