(* ===== verification/KubeErrors.thy ===== *)
theory KubeErrors
  imports Prelude
begin

text \<open>
  Errors whose type matters to a caller.  Karpenter decides what to do next by
  the type of an error: NodeClaimNotFoundError, NodeClassNotReadyError and
  CreateError of the karpenter core, NotFoundError of
  pkg/providers/instance.  fmt.Errorf with the verb %w is Wrapped, any other
  error is a message; a run-time panic (a nil dereference) is a value too, so
  that every outcome of the code is visible.
\<close>

datatype kerr =
    Msg string
  | NotFoundError kerr
  | NodeClaimNotFoundError kerr
  | NodeClassNotReadyError kerr
  | CreateError kerr string string
  | Wrapped string kerr
  | GoPanic

text \<open>
  errors.As follows the chain of wrapped errors; NotFoundError has no Unwrap
  method, so the search stops there.
\<close>

fun is_nodeclaim_notfound :: "kerr \<Rightarrow> bool" where
  "is_nodeclaim_notfound (NodeClaimNotFoundError e) = True"
| "is_nodeclaim_notfound (Wrapped p e) = is_nodeclaim_notfound e"
| "is_nodeclaim_notfound e = False"

text \<open>IsNotFoundError is a type assertion: only the outermost error counts.\<close>

fun IsNotFoundError :: "kerr \<Rightarrow> bool" where
  "IsNotFoundError (NotFoundError e) = True"
| "IsNotFoundError e = False"

text \<open>Error(), for the errors whose text the code looks at.\<close>

fun err_text :: "kerr \<Rightarrow> string" where
  "err_text (Msg m) = m"
| "err_text (NotFoundError e) = err_text e"
| "err_text (NodeClaimNotFoundError e) = err_text e"
| "err_text (NodeClassNotReadyError e) = err_text e"
| "err_text (CreateError e r m) = err_text e"
| "err_text (Wrapped p e) = p @ err_text e"
| "err_text GoPanic = []"

end
