(* ===== verification/KubeTypes.thy ===== *)
theory KubeTypes
  imports ApiTypes KubeErrors
begin

text \<open>
  The Kubernetes objects that the program reads and writes, with the fields it
  uses: NodeClaims and NodePools of the karpenter core, nodes and ECSNodeClass objects.  A
  quantity of the Kubernetes API is a rational number; a resource list is an
  association list from resource names.  A deletion timestamp that is not set
  is None.
\<close>

type_synonym resources = "(string \<times> rat) list"

record NodeSelectorRequirement =
  nsr_Key :: string
  nsr_Operator :: string
  nsr_Values :: "string list"

record Taint =
  tnt_Key :: string
  tnt_Value :: string
  tnt_Effect :: string

record NodeClaim =
  ncl_Name :: string
  ncl_Labels :: gomap
  ncl_Annotations :: gomap
  ncl_CreationTimestamp :: time_ns
  ncl_DeletionTimestamp :: "time_ns option"
  ncl_NodeClassRef :: string
  ncl_Requirements :: "NodeSelectorRequirement list"
  ncl_Taints :: "Taint list"
  ncl_ProviderID :: string
  ncl_ImageID :: string
  ncl_Capacity :: resources
  ncl_Allocatable :: resources

definition emptyNodeClaim :: NodeClaim where
  "emptyNodeClaim = \<lparr>ncl_Name = [], ncl_Labels = [], ncl_Annotations = [], ncl_CreationTimestamp = 0,
     ncl_DeletionTimestamp = None, ncl_NodeClassRef = [], ncl_Requirements = [], ncl_Taints = [],
     ncl_ProviderID = [], ncl_ImageID = [], ncl_Capacity = [], ncl_Allocatable = []\<rparr>"

record NodePool =
  np_Name :: string
  np_NodeClassRef :: string
  np_Requirements :: "NodeSelectorRequirement list"

record Node =
  node_Name :: string
  node_ProviderID :: string

record ECSNodeClass =
  k_Name :: string
  k_Generation :: int
  k_Annotations :: gomap
  k_Spec :: ECSNodeClassSpec
  k_Status :: ECSNodeClassStatus

text \<open>Operators and well-known labels of the Kubernetes API.\<close>

definition NodeSelectorOpIn :: string where "NodeSelectorOpIn = ''In''"
definition NodeSelectorOpNotIn :: string where "NodeSelectorOpNotIn = ''NotIn''"
definition NodeSelectorOpExists :: string where "NodeSelectorOpExists = ''Exists''"
definition NodeSelectorOpDoesNotExist :: string where "NodeSelectorOpDoesNotExist = ''DoesNotExist''"

definition LabelTopologyZone :: string where "LabelTopologyZone = ''topology.kubernetes.io/zone''"
definition LabelTopologyRegion :: string where "LabelTopologyRegion = ''topology.kubernetes.io/region''"
definition LabelArchStable :: string where "LabelArchStable = ''kubernetes.io/arch''"
definition LabelOSStable :: string where "LabelOSStable = ''kubernetes.io/os''"
definition LabelInstanceTypeStable :: string where
  "LabelInstanceTypeStable = ''node.kubernetes.io/instance-type''"
definition CapacityTypeLabelKey :: string where "CapacityTypeLabelKey = ''karpenter.sh/capacity-type''"
definition NodePoolLabelKey :: string where "NodePoolLabelKey = ''karpenter.sh/nodepool''"

definition ResourceCPU :: string where "ResourceCPU = ''cpu''"
definition ResourceMemory :: string where "ResourceMemory = ''memory''"
definition ResourcePods :: string where "ResourcePods = ''pods''"

lemmas selector_defs = NodeSelectorOpIn_def NodeSelectorOpNotIn_def NodeSelectorOpExists_def
  NodeSelectorOpDoesNotExist_def
lemmas kube_label_defs = LabelTopologyZone_def LabelTopologyRegion_def LabelArchStable_def
  LabelOSStable_def LabelInstanceTypeStable_def CapacityTypeLabelKey_def NodePoolLabelKey_def
lemmas resource_name_defs = ResourceCPU_def ResourceMemory_def ResourcePods_def

section \<open>Quantities\<close>

text \<open>Value rounds away from zero; NewQuantity makes a whole quantity.\<close>

definition qty_value :: "rat \<Rightarrow> int" where
  "qty_value q = (if 0 \<le> q then \<lceil>q\<rceil> else \<lfloor>q\<rfloor>)"

lemma qty_value_int [simp]: "qty_value (of_int i) = i"
  by (simp add: qty_value_def)

lemma qty_value_ge: "0 \<le> q \<Longrightarrow> q \<le> of_int (qty_value q)"
  by (simp add: qty_value_def)

text \<open>
  Conflicts: retry.RetryOnConflict with the default backoff runs the function at
  most five times, as long as it fails with a conflict.
\<close>

datatype kube_error = KubeNotFound string | KubeConflict string | KubeOther string

primrec kube_text :: "kube_error \<Rightarrow> string" where
  "kube_text (KubeNotFound m) = m"
| "kube_text (KubeConflict m) = m"
| "kube_text (KubeOther m) = m"

primrec is_conflict :: "kube_error \<Rightarrow> bool" where
  "is_conflict (KubeNotFound m) = False"
| "is_conflict (KubeConflict m) = True"
| "is_conflict (KubeOther m) = False"

primrec is_kube_notfound :: "kube_error \<Rightarrow> bool" where
  "is_kube_notfound (KubeNotFound m) = True"
| "is_kube_notfound (KubeConflict m) = False"
| "is_kube_notfound (KubeOther m) = False"

fun retry_on_conflict :: "nat \<Rightarrow> ('w \<Rightarrow> kube_error option \<times> 'w) \<Rightarrow> 'w \<Rightarrow> kube_error option \<times> 'w" where
  "retry_on_conflict 0 f w = f w"
| "retry_on_conflict (Suc n) f w = (case f w of
     (Some e, w') \<Rightarrow> if is_conflict e then retry_on_conflict n f w' else (Some e, w')
   | (None, w') \<Rightarrow> (None, w'))"

text \<open>wait.Backoff of DefaultRetry has five steps: one call and at most four retries.\<close>

definition default_retries :: nat where "default_retries = 4"

lemma retry_invariant:
  assumes "P w" "\<And>v e v'. P v \<Longrightarrow> f v = (Some e, v') \<Longrightarrow> is_conflict e \<Longrightarrow> P v'"
    and "\<And>v e v'. P v \<Longrightarrow> f v = (e, v') \<Longrightarrow> Q e v'"
  shows "case retry_on_conflict n f w of (e, w') \<Rightarrow> Q e w'"
  using assms(1)
proof (induction n arbitrary: w)
  case (Suc n)
  obtain e w' where f: "f w = (e, w')" by (metis surj_pair)
  show ?case
  proof (cases "\<exists>x. e = Some x \<and> is_conflict x")
    case True
    with f assms(2) Suc.prems have "P w'" by blast
    from Suc.IH [OF this] True f show ?thesis by auto
  next
    case False
    with f assms(3) [OF Suc.prems f] show ?thesis by (auto split: option.splits)
  qed
qed (use assms(3) in \<open>auto split: prod.splits\<close>)

end
