(* ===== verification/ClusterNetwork.thy ===== *)
theory ClusterNetwork
  imports EcsUtil
begin

text \<open>
  Network configuration of the cluster (pkg/providers/cluster/cluster.go).  The
  container service client and the JSON decoder are parameters: addon gives an error or
  a response (None without body) with name, version and configuration, detail the
  node CIDR mask and the IP stack, unmarshal the field ENITrunking of a
  configuration.
\<close>

record NetworkConfig =
  ClusterNetwork :: string
  NodeCidrMask :: int
  MaxPods :: int
  TrunkEniEnabled :: bool
  ExclusiveEniEnabled :: bool
  DualStack :: bool

record AddonBody =
  ab_Name :: "string option"
  ab_Version :: "string option"
  ab_Config :: "string option"

record ClusterDetail =
  cd_NodeCidrMask :: "string option"
  cd_IpStack :: "string option"

text \<open>strconv.Atoi: an optional sign and decimal digits, in the range of a 64-bit integer.\<close>

definition digits_value :: "string \<Rightarrow> int" where
  "digits_value s = foldl (\<lambda>n c. 10 * n + (of_char c - 48)) 0 s"

definition atoi :: "string \<Rightarrow> int option" where
  "atoi s =
     (let neg = (s \<noteq> [] \<and> hd s = CHR ''-'');
          ds = (if s \<noteq> [] \<and> (hd s = CHR ''-'' \<or> hd s = CHR ''+'') then tl s else s) in
      if ds = [] \<or> \<not> list_all is_digit ds then None
      else let v = (if neg then - digits_value ds else digits_value ds) in
        if - (2 ^ 63) \<le> v \<and> v < 2 ^ 63 then Some v else None)"

definition CalculateMaxPods :: "NetworkConfig \<Rightarrow> int" where
  "CalculateMaxPods nc =
     (if NodeCidrMask nc > 0 \<and> NodeCidrMask nc < 32 then 2 ^ nat (32 - NodeCidrMask nc) else 0)"

definition network_addons :: "string list" where
  "network_addons = [''terway-eniip'', ''terway'', ''kube-flannel-ds'', ''kube-flannel-ds-vxlan'']"

fun addon_loop :: "(string \<Rightarrow> string + AddonBody option) \<Rightarrow> string \<Rightarrow> string list \<Rightarrow>
    string + string \<times> string \<times> string option" where
  "addon_loop addon clusterID [] = Inl (''no network addon found in cluster '' @ clusterID)"
| "addon_loop addon clusterID (a # as) = (case addon a of
     Inl err \<Rightarrow> addon_loop addon clusterID as
   | Inr None \<Rightarrow> addon_loop addon clusterID as
   | Inr (Some body) \<Rightarrow> (case ab_Name body of
        None \<Rightarrow> addon_loop addon clusterID as
      | Some n \<Rightarrow> Inr (n, or_else (ab_Version body) [], ab_Config body)))"

definition getClusterNetworkAddon :: "(string \<Rightarrow> string + AddonBody option) \<Rightarrow> string \<Rightarrow>
    string + string \<times> string \<times> string option" where
  "getClusterNetworkAddon addon clusterID = addon_loop addon clusterID network_addons"

definition parseTerwayEniipConfig :: "(string \<Rightarrow> string + bool) \<Rightarrow> string option \<Rightarrow> NetworkConfig \<Rightarrow>
    string option \<times> NetworkConfig" where
  "parseTerwayEniipConfig unmarshal configStr nc = (case configStr of
     None \<Rightarrow> (Some ''config string is nil'', nc)
   | Some s \<Rightarrow> (case unmarshal s of
        Inl err \<Rightarrow> (Some (''failed to unmarshal terway-eniip config: '' @ err), nc)
      | Inr trunk \<Rightarrow> (None, nc\<lparr>TrunkEniEnabled := trunk\<rparr>)))"

definition detail_mask :: "string + ClusterDetail option \<Rightarrow> int" where
  "detail_mask detail = (case detail of
     Inr (Some d) \<Rightarrow> (case cd_NodeCidrMask d of Some m \<Rightarrow> or_else (atoi m) 24 | None \<Rightarrow> 24)
   | _ \<Rightarrow> 24)"

definition detail_dual_stack :: "string + ClusterDetail option \<Rightarrow> bool" where
  "detail_dual_stack detail = (case detail of
     Inr (Some d) \<Rightarrow> (case cd_IpStack d of
        Some s \<Rightarrow> to_lower (trim_space s) = ''dual'' \<or> to_lower (trim_space s) = ''ipv6'' | None \<Rightarrow> False)
   | _ \<Rightarrow> False)"

definition InitializeClusterNetworkConfig :: "(string \<Rightarrow> string + AddonBody option) \<Rightarrow>
    (string + ClusterDetail option) \<Rightarrow> (string \<Rightarrow> string + bool) \<Rightarrow> string \<Rightarrow> string + NetworkConfig" where
  "InitializeClusterNetworkConfig addon detail unmarshal clusterID =
     (if clusterID = '''' then Inl ''clusterID is empty''
      else case getClusterNetworkAddon addon clusterID of
        Inl err \<Rightarrow> Inl (''failed to get cluster network addon: '' @ err)
      | Inr (networkAddon, _, addonConfig) \<Rightarrow>
          (let nc = \<lparr>ClusterNetwork = networkAddon, NodeCidrMask = detail_mask detail, MaxPods = 0,
                     TrunkEniEnabled = False, ExclusiveEniEnabled = False,
                     DualStack = detail_dual_stack detail\<rparr> in
           if networkAddon = ''terway-eniip'' then
             (case addonConfig of
                Some c \<Rightarrow> Inr (snd (parseTerwayEniipConfig unmarshal (Some c) nc)) | None \<Rightarrow> Inr nc)
           else if networkAddon = ''kube-flannel-ds'' \<or> networkAddon = ''kube-flannel-ds-vxlan'' then
             Inr (nc\<lparr>MaxPods := CalculateMaxPods nc\<rparr>)
           else Inr nc))"

section \<open>Properties\<close>

lemma addon_loop_result:
  "addon_loop addon clusterID as = Inr (n, v, c) \<Longrightarrow>
     \<exists>a body. a \<in> set as \<and> addon a = Inr (Some body) \<and> ab_Name body = Some n \<and> ab_Config body = c"
  by (induction as) (auto split: sum.splits option.splits)

lemma CalculateMaxPods_range: "0 \<le> CalculateMaxPods nc \<and> CalculateMaxPods nc \<le> 2 ^ 31"
proof (cases "NodeCidrMask nc > 0 \<and> NodeCidrMask nc < 32")
  case True
  then have "nat (32 - NodeCidrMask nc) \<le> 31" by (simp add: nat_le_iff)
  then have "(2::int) ^ nat (32 - NodeCidrMask nc) \<le> 2 ^ 31" by (intro power_increasing) auto
  with True show ?thesis by (simp add: CalculateMaxPods_def)
qed (auto simp: CalculateMaxPods_def)

text \<open>
  The network configuration is the one the cluster reports: its addon
  is a name that the container service returned for one of the four addons it was asked for;
  a pod limit is set only for flannel and then is the size of the node's
  address block (a power of two that fits a 32-bit address space), and trunk ENIs only for terway-eniip.
\<close>
theorem network_config_reported:
  assumes "InitializeClusterNetworkConfig addon detail unmarshal clusterID = Inr nc"
  shows "clusterID \<noteq> [] \<and>
     (\<exists>a body. a \<in> set network_addons \<and> addon a = Inr (Some body) \<and> ab_Name body = Some (ClusterNetwork nc)) \<and>
     MaxPods nc = (if ClusterNetwork nc \<in> {''kube-flannel-ds'', ''kube-flannel-ds-vxlan''}
                   then CalculateMaxPods nc else 0) \<and>
     0 \<le> MaxPods nc \<and> MaxPods nc \<le> 2 ^ 31 \<and>
     (TrunkEniEnabled nc = False \<or> ClusterNetwork nc = ''terway-eniip'') \<and>
     ExclusiveEniEnabled nc = False"
proof -
  obtain n v c where g: "getClusterNetworkAddon addon clusterID = Inr (n, v, c)"
    using assms by (auto simp: InitializeClusterNetworkConfig_def split: if_splits sum.splits)
  have id: "clusterID \<noteq> []" using assms by (auto simp: InitializeClusterNetworkConfig_def split: if_splits)
  let ?nc = "\<lparr>ClusterNetwork = n, NodeCidrMask = detail_mask detail, MaxPods = 0,
       TrunkEniEnabled = False, ExclusiveEniEnabled = False, DualStack = detail_dual_stack detail\<rparr>"
  consider "n = ''terway-eniip''" | "n = ''kube-flannel-ds'' \<or> n = ''kube-flannel-ds-vxlan''"
    | "n \<noteq> ''terway-eniip''" "\<not> (n = ''kube-flannel-ds'' \<or> n = ''kube-flannel-ds-vxlan'')" by blast
  then have nc: "ClusterNetwork nc = n \<and> ExclusiveEniEnabled nc = False \<and>
      MaxPods nc = (if n \<in> {''kube-flannel-ds'', ''kube-flannel-ds-vxlan''} then CalculateMaxPods nc else 0) \<and>
      (TrunkEniEnabled nc = False \<or> n = ''terway-eniip'')"
  proof cases
    case 1
    with assms g id show ?thesis
      by (cases c) (auto simp: InitializeClusterNetworkConfig_def parseTerwayEniipConfig_def Let_def split: sum.splits)
  next
    case 2
    with assms g id have "nc = ?nc\<lparr>MaxPods := CalculateMaxPods ?nc\<rparr>"
      by (auto simp: InitializeClusterNetworkConfig_def Let_def)
    with 2 show ?thesis by (auto simp: CalculateMaxPods_def)
  next
    case 3
    with assms g id have "nc = ?nc" by (auto simp: InitializeClusterNetworkConfig_def Let_def)
    with 3 show ?thesis by auto
  qed
  with addon_loop_result g id CalculateMaxPods_range [of nc] show ?thesis
    unfolding getClusterNetworkAddon_def by (metis order_refl zero_le_numeral zero_le_power)
qed

theorem network_config_reported_witness:
  "\<exists>nc. InitializeClusterNetworkConfig
       (\<lambda>a. if a = ''kube-flannel-ds'' then Inr (Some \<lparr>ab_Name = Some a, ab_Version = None, ab_Config = None\<rparr>)
            else Inl ''404'')
       (Inr (Some \<lparr>cd_NodeCidrMask = Some ''25'', cd_IpStack = None\<rparr>)) (\<lambda>s. Inr True) ''c-1'' = Inr nc \<and>
     MaxPods nc = CalculateMaxPods nc \<and> NodeCidrMask nc = 25"
proof -
  let ?a = "\<lambda>a. if a = ''kube-flannel-ds'' then Inr (Some \<lparr>ab_Name = Some a, ab_Version = None, ab_Config = None\<rparr>)
            else Inl ''404''"
  let ?d = "Inr (Some \<lparr>cd_NodeCidrMask = Some ''25'', cd_IpStack = None\<rparr>)"
  obtain nc where nc: "InitializeClusterNetworkConfig ?a ?d (\<lambda>s. Inr True) ''c-1'' = Inr nc"
    "ClusterNetwork nc = ''kube-flannel-ds''" "NodeCidrMask nc = 25"
    by (simp add: InitializeClusterNetworkConfig_def getClusterNetworkAddon_def network_addons_def
        detail_mask_def atoi_def is_digit_def digits_value_def Let_def)
  from network_config_reported [OF nc(1)] nc show ?thesis by auto
qed

end
