(* ===== verification/GpuTables.thy ===== *)
theory GpuTables
  imports Prelude
begin

text \<open>
  The tables of pkg/providers/instancetype/gpu.go: GPU memory in MiB per GPU of
  an instance family and in total for an instance type.
\<close>

definition GPUInstanceTypeFamily :: "(string \<times> int) list" where
  "GPUInstanceTypeFamily = [
     (''ecs.gn7e'', 81251),
     (''ecs.ebmgn7e'', 81251),
     (''ecs.gn7'', 40537),
     (''ecs.ebmgn7'', 40537),
     (''ecs.gn7i'', 22731),
     (''ecs.ebmgn7i'', 22731),
     (''ecs.gn6i'', 15109),
     (''ecs.ebmgn6i'', 15109),
     (''ecs.ebmgn6ia'', 15109),
     (''ecs.gn6e'', 32510),
     (''ecs.ebmgn6e'', 32510),
     (''ecs.ebmgn6t'', 11019),
     (''ecs.ebmgn7t'', 24245),
     (''ecs.gn6v'', 16160),
     (''ecs.ebmgn6v'', 16160),
     (''ecs.gn5'', 16280),
     (''ecs.gn5i'', 7611),
     (''ecs.gn4'', 12215)]"

text \<open>The types of the families up to gn5i, then the others.\<close>

definition GPUInstanceTypes_gn7_gn5 :: "(string \<times> int) list" where
  "GPUInstanceTypes_gn7_gn5 = [
     (''ecs.gn7e-c16g1.4xlarge'', 81251),
     (''ecs.gn7e-c16g1.16xlarge'', 325004),
     (''ecs.gn7e-c16g1.32xlarge'', 650008),
     (''ecs.gn7-c12g1.3xlarge'', 40537),
     (''ecs.gn7-c13g1.13xlarge'', 162148),
     (''ecs.gn7-c13g1.26xlarge'', 324296),
     (''ecs.gn7i-c8g1.2xlarge'', 22731),
     (''ecs.gn7i-c16g1.4xlarge'', 22731),
     (''ecs.gn7i-c32g1.8xlarge'', 22731),
     (''ecs.gn7i-c32g1.16xlarge'', 45462),
     (''ecs.gn7i-c32g1.32xlarge'', 90924),
     (''ecs.gn7i-c48g1.12xlarge'', 22731),
     (''ecs.gn7i-c56g1.14xlarge'', 22731),
     (''ecs.vgn6i-m4.xlarge'', 3805),
     (''ecs.vgn6i-m8.2xlarge'', 7611),
     (''ecs.gn6i-c4g1.xlarge'', 15109),
     (''ecs.gn6i-c40g1.10xlarge'', 15109),
     (''ecs.gn6i-c8g1.2xlarge'', 15109),
     (''ecs.gn6i-c16g1.4xlarge'', 15109),
     (''ecs.gn6i-c24g1.6xlarge'', 15109),
     (''ecs.gn6i-c24g1.12xlarge'', 15109),
     (''ecs.gn6i-c24g1.24xlarge'', 60436),
     (''ecs.gn6e-c12g1.3xlarge'', 32510),
     (''ecs.gn6e-c12g1.12xlarge'', 130040),
     (''ecs.gn6e-c12g1.24xlarge'', 260080),
     (''ecs.gn6v-c8g1.2xlarge'', 16160),
     (''ecs.gn6v-c8g1.8xlarge'', 64640),
     (''ecs.gn6v-c8g1.16xlarge'', 129280),
     (''ecs.gn6v-cg1.xlarge'', 129280),
     (''ecs.vgn5i-m1.large'', 951),
     (''ecs.vgn5i-m2.xlarge'', 1902),
     (''ecs.vgn5i-m4.2xlarge'', 3804),
     (''ecs.vgn5i-m8.4xlarge'', 7611),
     (''ecs.gn5-c4g1.xlarge'', 16280),
     (''ecs.gn5-c8g1.2xlarge'', 16280),
     (''ecs.gn5-c4g1.2xlarge'', 32560),
     (''ecs.gn5-c8g1.4xlarge'', 32560),
     (''ecs.gn5-c28g1.7xlarge'', 16280),
     (''ecs.gn5-c8g1.8xlarge'', 65120),
     (''ecs.gn5-c28g1.14xlarge'', 32560),
     (''ecs.gn5-c8g1.14xlarge'', 130240),
     (''ecs.gn5i-c2g1.large'', 7611),
     (''ecs.gn5i-c4g1.xlarge'', 7611),
     (''ecs.gn5i-c8g1.2xlarge'', 7611),
     (''ecs.gn5i-c16g1.4xlarge'', 7611),
     (''ecs.gn5i-c16g1.8xlarge'', 15222),
     (''ecs.gn5i-c28g1.14xlarge'', 15222)]"

definition GPUInstanceTypes_others :: "(string \<times> int) list" where
  "GPUInstanceTypes_others = [
     (''ecs.gn4-c4g1.xlarge'', 12215),
     (''ecs.gn4-c8g1.2xlarge'', 12215),
     (''ecs.gn4.8xlarge'', 12215),
     (''ecs.gn4-c4g1.2xlarge'', 24430),
     (''ecs.gn4-c8g1.4xlarge'', 24430),
     (''ecs.gn4.14xlarge'', 24430),
     (''ecs.ga1.xlarge'', 1902),
     (''ecs.ga1.2xlarge'', 3804),
     (''ecs.ga1.4xlarge'', 7611),
     (''ecs.ga1.8xlarge'', 15216),
     (''ecs.ga1.14xlarge'', 30432),
     (''ecs.ebmgn6e.24xlarge'', 260080),
     (''ecs.ebmgn6v.24xlarge'', 129280),
     (''ecs.ebmgn6i.24xlarge'', 60436),
     (''ecs.ebmgn8is.32xlarge'', 360448),
     (''ecs.ebmgn8te.32xlarge'', 385024),
     (''ecs.gn8is-2x.8xlarge'', 90112),
     (''ecs.ebmgn9t.48xlarge'', 253952),
     (''ecs.gn8is-8x.32xlarge'', 360448),
     (''ecs.gn8is.4xlarge'', 45056),
     (''ecs.gn8ia.8xlarge'', 45056)]"

definition GPUInstanceTypes :: "(string \<times> int) list" where
  "GPUInstanceTypes = GPUInstanceTypes_gn7_gn5 @ GPUInstanceTypes_others"

lemmas gpu_type_defs = GPUInstanceTypes_def GPUInstanceTypes_gn7_gn5_def GPUInstanceTypes_others_def

lemma wf_gpu_tables: "wf_map GPUInstanceTypeFamily" "wf_map GPUInstanceTypes"
  by (simp_all add: wf_map_def GPUInstanceTypeFamily_def gpu_type_defs)

text \<open>Every entry of both tables is positive and at most 650008 MiB.\<close>

lemma gpu_memory_bounds:
  "list_all (\<lambda>(n, m). 0 < m \<and> m \<le> 650008) GPUInstanceTypeFamily"
  "list_all (\<lambda>(n, m). 0 < m \<and> m \<le> 650008) GPUInstanceTypes"
  by (simp_all add: GPUInstanceTypeFamily_def gpu_type_defs)

lemma map_of_list_all: "map_of m k = Some v \<Longrightarrow> list_all (\<lambda>(n, x). P x) m \<Longrightarrow> P v"
  by (auto simp: list_all_iff dest: map_of_SomeD)

end
