(* ===== verification/InstanceTypes.thy ===== *)
theory InstanceTypes
  imports GpuTables TtlCache EcsUtil Complex_Main
begin

text \<open>
  pkg/providers/instancetype/instancetype.go: the instance types of the region,
  their labels, their stock by zone and capacity type, and the matching of
  requirements.

  Quantities that the file builds with NewQuantity are integers in their base
  unit; the memory size that ECS reports, a floating point number of GiB, is a
  rational number.  The ECS calls are parameters that give an error message or
  the response; a pointer in a response is an option.  A Go map that is ranged
  over is an association list in the order of that iteration.  One clock reading
  stands for the readings of one call.
\<close>

definition cacheTTLZones :: int where "cacheTTLZones = 2 * hour_ns"
definition cacheTTLInventory :: int where "cacheTTLInventory = 5 * minute_ns"
definition cacheTTLInstanceTypes :: int where "cacheTTLInstanceTypes = 5 * minute_ns"

definition stockStatusWithStock :: string where "stockStatusWithStock = ''WithStock''"
definition stockStatusClosedWithStock :: string where "stockStatusClosedWithStock = ''ClosedWithStock''"
definition stockStatusWithoutStock :: string where "stockStatusWithoutStock = ''WithoutStock''"
definition stockStatusClosedWithoutStock :: string where
  "stockStatusClosedWithoutStock = ''ClosedWithoutStock''"

lemmas stock_defs = stockStatusWithStock_def stockStatusClosedWithStock_def
  stockStatusWithoutStock_def stockStatusClosedWithoutStock_def

record GPU =
  gpu_Count :: "int option"
  gpu_Model :: string
  gpu_Memory :: "int option"

record ZoneInfo =
  zi_Available :: bool
  zi_CapacityTypes :: "string list"
  zi_KnownCapacityTypes :: "string list"

record InstanceType =
  it_Name :: string
  it_Architecture :: string
  it_CPU :: "int option"
  it_Memory :: "int option"
  it_Storage :: "int option"
  it_GPU :: "GPU option"
  it_Zones :: "(string \<times> ZoneInfo) list"
  it_EniQuantity :: int
  it_EniPrivateIpAddressQuantity :: int

text \<open>An instance type as DescribeInstanceTypes reports it.\<close>

record EcsInstanceType =
  eit_InstanceTypeId :: "string option"
  eit_InstanceTypeFamily :: "string option"
  eit_CpuCoreCount :: "int option"
  eit_MemorySize :: "rat option"
  eit_CpuArchitecture :: "string option"
  eit_GPUAmount :: "int option"
  eit_GPUSpec :: "string option"
  eit_EniQuantity :: "int option"
  eit_EniPrivateIpAddressQuantity :: "int option"

section \<open>Conversion\<close>

text \<open>math.Floor of the quotient; exact for the sizes of the tables.\<close>

definition CovertMibToGib :: "int \<Rightarrow> int" where
  "CovertMibToGib mibValue = mibValue div 1024"

definition CalculateGPUMemory :: "EcsInstanceType \<Rightarrow> int option" where
  "CalculateGPUMemory e =
     (let gpuAmount = or_else (eit_GPUAmount e) 0 in
      if gpuAmount = 0 then None
      else case map_of GPUInstanceTypes (or_else (eit_InstanceTypeId e) []) of
        Some v \<Rightarrow> Some (CovertMibToGib v)
      | None \<Rightarrow> (case map_of GPUInstanceTypeFamily (or_else (eit_InstanceTypeFamily e) []) of
          Some familyVal \<Rightarrow> Some (CovertMibToGib (wrap64 (familyVal * gpuAmount)))
        | None \<Rightarrow> Some 0))"

text \<open>Conversion of a float64 to int64: truncation, and the minimal value when out of range (amd64).\<close>

definition trunc_rat :: "rat \<Rightarrow> int" where
  "trunc_rat x = (if 0 \<le> x then \<lfloor>x\<rfloor> else \<lceil>x\<rceil>)"

definition int64_of_float :: "rat \<Rightarrow> int" where
  "int64_of_float x = (let i = trunc_rat x in
     if - (2 ^ 63) \<le> i \<and> i < 2 ^ 63 then i else - (2 ^ 63))"

definition memory_bytes :: "rat \<Rightarrow> int" where
  "memory_bytes sz =
     (let memoryGiB = (if sz > 2 ^ 53 then 2 ^ 53 else sz)
      in int64_of_float (memoryGiB * 1024 * 1024 * 1024))"

definition convertECSInstanceType :: "EcsInstanceType option \<Rightarrow> (string \<times> ZoneInfo) list \<Rightarrow> InstanceType option" where
  "convertECSInstanceType eo zones = (case eo of None \<Rightarrow> None | Some e \<Rightarrow>
     (case eit_CpuCoreCount e of None \<Rightarrow> None | Some cpu \<Rightarrow>
     (case eit_MemorySize e of None \<Rightarrow> None | Some sz \<Rightarrow>
       let gpuAmount = or_else (eit_GPUAmount e) 0 in
       Some \<lparr>it_Name = or_else (eit_InstanceTypeId e) [],
             it_Architecture = (case eit_CpuArchitecture e of None \<Rightarrow> ArchitectureAmd64
                                 | Some a \<Rightarrow> KubeArchitecture a),
             it_CPU = Some cpu,
             it_Memory = Some (memory_bytes sz),
             it_Storage = Some 0,
             it_GPU = (if gpuAmount > 0
                       then Some \<lparr>gpu_Count = Some gpuAmount, gpu_Model = or_else (eit_GPUSpec e) [],
                                  gpu_Memory = CalculateGPUMemory e\<rparr>
                       else None),
             it_Zones = zones,
             it_EniQuantity = or_else (eit_EniQuantity e) 0,
             it_EniPrivateIpAddressQuantity = or_else (eit_EniPrivateIpAddressQuantity e) 0\<rparr>)))"

section \<open>Stock\<close>

text \<open>The response of DescribeAvailableResource.\<close>

record SupportedResource =
  sr_Value :: "string option"
  sr_StatusCategory :: "string option"

record AvailableResource =
  ar_Type :: "string option"
  ar_Supported :: "SupportedResource option list option"

record AvailableZone =
  az_ZoneId :: "string option"
  az_Resources :: "AvailableResource option list option"

type_synonym stock_response = "AvailableZone option list option"

text \<open>instance type, zone, capacity type: has it stock?\<close>

type_synonym cap_stock = "(string \<times> bool) list"
type_synonym inventory = "(string \<times> (string \<times> cap_stock) list) list"

definition has_stock :: "string \<Rightarrow> bool" where
  "has_stock status \<longleftrightarrow> status = stockStatusWithStock \<or> status = stockStatusClosedWithStock"

definition known_status :: "string \<Rightarrow> bool" where
  "known_status status \<longleftrightarrow> has_stock status \<or> status = stockStatusWithoutStock \<or>
     status = stockStatusClosedWithoutStock"

text \<open>The assignment of the inner loop: stock is never downgraded.\<close>

definition note_stock :: "string \<Rightarrow> string \<Rightarrow> string \<Rightarrow> bool \<Rightarrow> inventory \<Rightarrow> inventory" where
  "note_stock itID zoneID ct hasStock stk =
     (let zs = or_else (map_of stk itID) [];
          cts = or_else (map_of zs zoneID) [];
          cts' = (case map_of cts ct of
                    None \<Rightarrow> AList.update ct hasStock cts
                  | Some existing \<Rightarrow> if \<not> existing \<and> hasStock then AList.update ct hasStock cts else cts)
      in AList.update itID (AList.update zoneID cts' zs) stk)"

fun scan_supported :: "string \<Rightarrow> string \<Rightarrow> SupportedResource option list \<Rightarrow> inventory \<Rightarrow> inventory" where
  "scan_supported zoneID ct [] stk = stk"
| "scan_supported zoneID ct (s # ss) stk = scan_supported zoneID ct ss
     (case s of None \<Rightarrow> stk | Some sr \<Rightarrow>
       (case (sr_Value sr, sr_StatusCategory sr) of
          (Some itID, Some status) \<Rightarrow>
            (if known_status status then note_stock itID zoneID ct (has_stock status) stk else stk)
        | _ \<Rightarrow> stk))"

fun scan_resources :: "string \<Rightarrow> string \<Rightarrow> AvailableResource option list \<Rightarrow> inventory \<Rightarrow> inventory" where
  "scan_resources zoneID ct [] stk = stk"
| "scan_resources zoneID ct (a # as) stk = scan_resources zoneID ct as
     (case a of None \<Rightarrow> stk | Some ar \<Rightarrow>
       (if ar_Type ar = Some ''InstanceType'' then
          (case ar_Supported ar of None \<Rightarrow> stk | Some ss \<Rightarrow> scan_supported zoneID ct ss stk)
        else stk))"

fun scan_zones :: "string \<Rightarrow> AvailableZone option list \<Rightarrow> inventory \<Rightarrow> inventory" where
  "scan_zones ct [] stk = stk"
| "scan_zones ct (z # zs) stk = scan_zones ct zs
     (case z of None \<Rightarrow> stk | Some az \<Rightarrow>
       (case (az_ZoneId az, az_Resources az) of
          (Some zoneID, Some rs) \<Rightarrow> scan_resources zoneID ct rs stk
        | _ \<Rightarrow> stk))"

definition stock_queries :: "(string \<times> string) list" where
  "stock_queries = [(SpotStrategyNoSpot, CapacityTypeOnDemand), (SpotStrategyAsPriceGo, CapacityTypeSpot)]"

text \<open>None is the nil map that getInventory returns on an API error.\<close>

fun query_stock :: "(string \<Rightarrow> string + stock_response) \<Rightarrow> (string \<times> string) list \<Rightarrow> inventory \<Rightarrow> inventory option" where
  "query_stock describe [] stk = Some stk"
| "query_stock describe ((spotStrategy, ct) # qs) stk = (case describe spotStrategy of
     Inl err \<Rightarrow> None
   | Inr None \<Rightarrow> query_stock describe qs stk
   | Inr (Some zs) \<Rightarrow> query_stock describe qs (scan_zones ct zs stk))"

section \<open>Provider state and List\<close>

datatype cached =
    CachedZones "(string \<times> ZoneInfo) list"
  | CachedInventory inventory
  | CachedTypes "InstanceType list"
  | CachedType "InstanceType option"

text \<open>The ECS calls; a nil zone ID is dereferenced and panics.\<close>

record EcsTypesApi =
  DescribeZones :: "string + string option list"
  DescribeAvailableResource :: "string \<Rightarrow> string + stock_response"
  DescribeInstanceTypes :: "string list \<Rightarrow> string + EcsInstanceType option list"

definition nil_panic :: string where
  "nil_panic = ''panic: invalid memory address or nil pointer dereference''"

fun zone_map :: "string option list \<Rightarrow> (string \<times> ZoneInfo) list \<Rightarrow> string + (string \<times> ZoneInfo) list" where
  "zone_map [] acc = Inr acc"
| "zone_map (None # zs) acc = Inl nil_panic"
| "zone_map (Some z # zs) acc = zone_map zs
     (AList.update z \<lparr>zi_Available = True, zi_CapacityTypes = [], zi_KnownCapacityTypes = []\<rparr> acc)"

definition getAvailableZones :: "EcsTypesApi \<Rightarrow> time_ns \<Rightarrow> cached cache \<Rightarrow>
    (string + (string \<times> ZoneInfo) list) \<times> cached cache" where
  "getAvailableZones api now c =
     (case getCachedValue ''zones'' now now c of
        (Some (CachedZones zs), c1) \<Rightarrow> (Inr zs, c1)
      | (_, c1) \<Rightarrow> (case DescribeZones api of
          Inl err \<Rightarrow> (Inl (wrap_err ''failed to describe zones: '' err), c1)
        | Inr ids \<Rightarrow> (case zone_map ids [] of
            Inl p \<Rightarrow> (Inl p, c1)
          | Inr zs \<Rightarrow> (Inr zs, setCachedValue ''zones'' (CachedZones zs) cacheTTLZones now c1))))"

definition getInventory :: "EcsTypesApi \<Rightarrow> time_ns \<Rightarrow> cached cache \<Rightarrow> inventory option \<times> cached cache" where
  "getInventory api now c =
     (case getCachedValue ''inventory'' now now c of
        (Some (CachedInventory stk), c1) \<Rightarrow> (Some stk, c1)
      | (_, c1) \<Rightarrow> (case query_stock (DescribeAvailableResource api) stock_queries [] of
          None \<Rightarrow> (None, c1)
        | Some stk \<Rightarrow> (Some stk, setCachedValue ''inventory'' (CachedInventory stk) cacheTTLInventory now c1)))"

text \<open>The zones of one instance type; capTypeMap is visited in the order of its list.\<close>

definition optimistic_zone :: ZoneInfo where
  "optimistic_zone = \<lparr>zi_Available = True, zi_CapacityTypes = [CapacityTypeOnDemand, CapacityTypeSpot],
     zi_KnownCapacityTypes = [CapacityTypeOnDemand, CapacityTypeSpot]\<rparr>"

definition stocked_zone :: "cap_stock \<Rightarrow> ZoneInfo" where
  "stocked_zone capTypeMap =
     (let avail = List.map fst (filter snd capTypeMap); known = List.map fst capTypeMap
      in \<lparr>zi_Available = (avail \<noteq> []), zi_CapacityTypes = avail, zi_KnownCapacityTypes = known\<rparr>)"

definition type_zones :: "inventory option \<Rightarrow> string \<Rightarrow> (string \<times> ZoneInfo) list \<Rightarrow> (string \<times> ZoneInfo) list" where
  "type_zones stk itID zones = map_filter_kv (\<lambda>zoneID zoneInfo.
     if \<not> zi_Available zoneInfo then None
     else case stk of
       None \<Rightarrow> Some optimistic_zone
     | Some iv \<Rightarrow> (case map_of iv itID of
         None \<Rightarrow> None
       | Some invZones \<Rightarrow> (case map_of invZones zoneID of
           None \<Rightarrow> None
         | Some capTypeMap \<Rightarrow> Some (stocked_zone capTypeMap)))) zones"

definition list_type :: "inventory option \<Rightarrow> (string \<times> ZoneInfo) list \<Rightarrow> EcsInstanceType option \<Rightarrow> InstanceType option" where
  "list_type stk zones eo = (case eo of None \<Rightarrow> None | Some e \<Rightarrow>
     (case eit_InstanceTypeId e of None \<Rightarrow> None | Some itID \<Rightarrow>
       let itZones = type_zones stk itID zones in
       if itZones = [] then None else convertECSInstanceType (Some e) itZones))"

definition ListTypes :: "EcsTypesApi \<Rightarrow> time_ns \<Rightarrow> cached cache \<Rightarrow>
    (string + InstanceType list) \<times> cached cache" where
  "ListTypes api now c =
     (case getCachedValue ''instance-types'' now now c of
        (Some (CachedTypes its), c1) \<Rightarrow> (Inr its, c1)
      | (_, c1) \<Rightarrow> (case getAvailableZones api now c1 of
          (Inl err, c2) \<Rightarrow> (Inl (wrap_err ''failed to get available zones: '' err), c2)
        | (Inr zones, c2) \<Rightarrow> (case getInventory api now c2 of
            (stk, c3) \<Rightarrow> (case DescribeInstanceTypes api [] of
              Inl err \<Rightarrow> (Inl (wrap_err ''failed to describe instance types: '' err), c3)
            | Inr es \<Rightarrow>
                (let its = List.map_filter (list_type stk zones) es in
                 (Inr its, fold (\<lambda>it. setCachedValue (''instance-type-'' @ it_Name it) (CachedType (Some it))
                                    cacheTTLInstanceTypes now) its
                   (setCachedValue ''instance-types'' (CachedTypes its) cacheTTLInstanceTypes now c3)))))))"

text \<open>Get caches what the conversion gives, also when it is nil.\<close>

definition GetType :: "EcsTypesApi \<Rightarrow> string \<Rightarrow> time_ns \<Rightarrow> cached cache \<Rightarrow>
    (string + InstanceType option) \<times> cached cache" where
  "GetType api name now c =
     (let cacheKey = ''instance-type-'' @ name in
      case getCachedValue cacheKey now now c of
        (Some (CachedType it), c1) \<Rightarrow> (Inr it, c1)
      | (_, c1) \<Rightarrow> (case getAvailableZones api now c1 of
          (Inl err, c2) \<Rightarrow> (Inl (wrap_err ''failed to get available zones: '' err), c2)
        | (Inr zones, c2) \<Rightarrow> (case DescribeInstanceTypes api [name] of
            Inl err \<Rightarrow> (Inl (''failed to describe instance type '' @ name @ '': '' @ err), c2)
          | Inr [] \<Rightarrow> (Inl (''instance type '' @ name @ '' not found''), c2)
          | Inr (e # _) \<Rightarrow>
              (let it = convertECSInstanceType e zones in
               (Inr it, setCachedValue cacheKey (CachedType it) cacheTTLInstanceTypes now c2)))))"

definition ClearTypeCache :: "cached cache \<Rightarrow> cached cache" where
  "ClearTypeCache c = []"

section \<open>What the inventory records\<close>

definition stock_lookup :: "inventory \<Rightarrow> string \<Rightarrow> string \<Rightarrow> string \<Rightarrow> bool option" where
  "stock_lookup stk itID zoneID ct = (case map_of stk itID of None \<Rightarrow> None
     | Some zs \<Rightarrow> (case map_of zs zoneID of None \<Rightarrow> None | Some cts \<Rightarrow> map_of cts ct))"

definition stock_wf :: "inventory \<Rightarrow> bool" where
  "stock_wf stk \<longleftrightarrow> (\<forall>itID zs zoneID cts. map_of stk itID = Some zs \<longrightarrow> map_of zs zoneID = Some cts \<longrightarrow>
     wf_map cts \<and> cts \<noteq> [])"

lemma wf_stock_update:
  "wf_map (case m of None \<Rightarrow> AList.update ct h cts
     | Some ex \<Rightarrow> if \<not> ex \<and> h then AList.update ct h cts else cts)" if "wf_map cts"
  using that by (auto split: option.splits)

lemma stock_wf_cts: "stock_wf stk \<Longrightarrow> wf_map (or_else (map_of (or_else (map_of stk i) []) z) [])"
  by (auto simp: stock_wf_def or_else_def split: option.splits)

lemma AList_update_not_Nil [simp]: "AList.update k v m \<noteq> []"
  by (cases m) auto

lemma stock_wf_note:
  assumes "stock_wf stk"
  shows "stock_wf (note_stock i z ct h stk)"
proof -
  let ?cts = "or_else (map_of (or_else (map_of stk i) []) z) []"
  let ?new = "(case map_of ?cts ct of None \<Rightarrow> AList.update ct h ?cts
     | Some ex \<Rightarrow> if \<not> ex \<and> h then AList.update ct h ?cts else ?cts)"
  have "wf_map ?new" using stock_wf_cts [OF assms] by (auto split: option.split)
  moreover have "?new \<noteq> []" by (cases ?cts) (auto split: option.splits)
  moreover have "map_of (or_else (map_of stk i) []) z' = Some cts \<Longrightarrow> wf_map cts \<and> cts \<noteq> []" for z' cts
    using assms by (auto simp: stock_wf_def or_else_def split: option.splits)
  ultimately show ?thesis
    using assms unfolding stock_wf_def note_stock_def Let_def
    by (auto simp: map_of_update simp del: not_None_eq split: if_splits)
qed

lemma lookup_note_stock:
  "stock_lookup (note_stock i z ct h stk) i' z' ct' =
     (if (i', z', ct') = (i, z, ct)
      then Some (h \<or> stock_lookup stk i z ct = Some True)
      else stock_lookup stk i' z' ct')"
proof -
  have old: "stock_lookup stk i z c = map_of (or_else (map_of (or_else (map_of stk i) []) z) []) c" for c
    by (auto simp: stock_lookup_def or_else_def split: option.split)
  show ?thesis
    by (auto simp: note_stock_def Let_def stock_lookup_def map_of_update old or_else_def
        split: option.splits if_splits)
qed

text \<open>The records of a response, flattened: instance type, zone and whether it is in stock.\<close>

definition supported_records :: "string \<Rightarrow> SupportedResource option \<Rightarrow> (string \<times> string \<times> bool) list" where
  "supported_records zoneID s = (case s of None \<Rightarrow> [] | Some sr \<Rightarrow>
     (case (sr_Value sr, sr_StatusCategory sr) of
        (Some itID, Some status) \<Rightarrow> if known_status status then [(itID, zoneID, has_stock status)] else []
      | _ \<Rightarrow> []))"

definition resource_records :: "string \<Rightarrow> AvailableResource option \<Rightarrow> (string \<times> string \<times> bool) list" where
  "resource_records zoneID a = (case a of None \<Rightarrow> [] | Some ar \<Rightarrow>
     if ar_Type ar = Some ''InstanceType''
     then concat (List.map (supported_records zoneID) (or_else (ar_Supported ar) [])) else [])"

definition zone_records :: "AvailableZone option \<Rightarrow> (string \<times> string \<times> bool) list" where
  "zone_records z = (case z of None \<Rightarrow> [] | Some az \<Rightarrow>
     (case (az_ZoneId az, az_Resources az) of
        (Some zoneID, Some rs) \<Rightarrow> concat (List.map (resource_records zoneID) rs)
      | _ \<Rightarrow> []))"

definition response_records :: "stock_response \<Rightarrow> (string \<times> string \<times> bool) list" where
  "response_records r = concat (List.map zone_records (or_else r []))"

definition note_all :: "string \<Rightarrow> (string \<times> string \<times> bool) list \<Rightarrow> inventory \<Rightarrow> inventory" where
  "note_all ct rs stk = fold (\<lambda>(i, z, h). note_stock i z ct h) rs stk"

lemma note_all_append: "note_all ct (xs @ ys) stk = note_all ct ys (note_all ct xs stk)"
  by (simp add: note_all_def)

lemma scan_supported_records:
  "scan_supported z ct ss stk = note_all ct (concat (List.map (supported_records z) ss)) stk"
proof (induction ss arbitrary: stk)
  case (Cons s ss)
  have "(case s of None \<Rightarrow> stk | Some sr \<Rightarrow> (case (sr_Value sr, sr_StatusCategory sr) of
           (Some itID, Some status) \<Rightarrow>
             (if known_status status then note_stock itID z ct (has_stock status) stk else stk)
         | _ \<Rightarrow> stk)) = note_all ct (supported_records z s) stk"
    by (auto simp: supported_records_def note_all_def split: option.split)
  then show ?case by (simp add: note_all_append Cons.IH)
qed (simp add: note_all_def)

lemma scan_resources_records:
  "scan_resources z ct as stk = note_all ct (concat (List.map (resource_records z) as)) stk"
proof (induction as arbitrary: stk)
  case (Cons a as)
  have "(case a of None \<Rightarrow> stk | Some ar \<Rightarrow> if ar_Type ar = Some ''InstanceType''
           then (case ar_Supported ar of None \<Rightarrow> stk | Some ss \<Rightarrow> scan_supported z ct ss stk) else stk) =
        note_all ct (resource_records z a) stk"
    by (simp add: resource_records_def scan_supported_records or_else_def split: option.split)
       (simp add: note_all_def)
  then show ?case by (simp add: note_all_append Cons.IH)
qed (simp add: note_all_def)

lemma scan_zones_records: "scan_zones ct zs stk = note_all ct (concat (List.map zone_records zs)) stk"
proof (induction zs arbitrary: stk)
  case (Cons z zs)
  have "(case z of None \<Rightarrow> stk | Some az \<Rightarrow> (case (az_ZoneId az, az_Resources az) of
           (Some zoneID, Some rs) \<Rightarrow> scan_resources zoneID ct rs stk | _ \<Rightarrow> stk)) =
        note_all ct (zone_records z) stk"
    by (simp add: zone_records_def scan_resources_records split: option.split) (simp add: note_all_def)
  then show ?case by (simp add: note_all_append Cons.IH)
qed (simp add: note_all_def)

lemma lookup_note_all:
  "stock_lookup (note_all ct rs stk) i z c =
     (if c = ct \<and> (\<exists>h. (i, z, h) \<in> set rs)
      then Some ((i, z, True) \<in> set rs \<or> stock_lookup stk i z c = Some True)
      else stock_lookup stk i z c)"
proof (induction rs arbitrary: stk)
  case (Cons r rs)
  obtain i0 z0 h0 where r: "r = (i0, z0, h0)" by (cases r)
  have "note_all ct (r # rs) stk = note_all ct rs (note_stock i0 z0 ct h0 stk)"
    by (simp add: note_all_def r)
  then show ?case by (auto simp: Cons.IH lookup_note_stock r)
qed (simp add: note_all_def)

lemma stock_wf_note_all: "stock_wf stk \<Longrightarrow> stock_wf (note_all ct rs stk)"
  unfolding note_all_def by (induction rs arbitrary: stk) (auto simp: stock_wf_note split: prod.split)

text \<open>All the records that the queries brought: instance type, zone, capacity type, stock.\<close>

definition queried :: "(string \<Rightarrow> string + stock_response) \<Rightarrow> (string \<times> string) list \<Rightarrow>
    (string \<times> string \<times> string \<times> bool) set" where
  "queried describe qs = {(i, z, ct, h). \<exists>ss r. (ss, ct) \<in> set qs \<and> describe ss = Inr r \<and>
     (i, z, h) \<in> set (response_records r)}"

lemma query_stock_lookup:
  assumes "query_stock describe qs stk = Some stk'" "stock_wf stk"
  shows "stock_lookup stk' i z c =
      (if \<exists>h. (i, z, c, h) \<in> queried describe qs
       then Some ((i, z, c, True) \<in> queried describe qs \<or> stock_lookup stk i z c = Some True)
       else stock_lookup stk i z c) \<and> stock_wf stk'"
  using assms
proof (induction describe qs stk rule: query_stock.induct)
  case (2 describe ss ct qs stk)
  obtain r where r: "describe ss = Inr r" using "2.prems"(1) by (cases "describe ss") auto
  let ?s1 = "note_all ct (response_records r) stk"
  have next': "query_stock describe qs ?s1 = Some stk'"
    using "2.prems"(1) r by (cases r) (simp_all add: response_records_def note_all_def scan_zones_records)
  have wf1: "stock_wf ?s1" using "2.prems"(2) by (rule stock_wf_note_all)
  have IH: "stock_lookup stk' i z c =
      (if \<exists>h. (i, z, c, h) \<in> queried describe qs
       then Some ((i, z, c, True) \<in> queried describe qs \<or> stock_lookup ?s1 i z c = Some True)
       else stock_lookup ?s1 i z c) \<and> stock_wf stk'"
  proof (cases r)
    case None
    then have "?s1 = stk" by (simp add: response_records_def note_all_def)
    then show ?thesis using "2.IH"(1) [OF r None] next' wf1 by simp
  next
    case (Some zs)
    have "scan_zones ct zs stk = ?s1" by (simp add: scan_zones_records response_records_def Some)
    then show ?thesis using "2.IH"(2) [OF r Some] next' wf1 by simp
  qed
  have q: "queried describe ((ss, ct) # qs) =
      {(i, z, ct', h). ct' = ct \<and> (i, z, h) \<in> set (response_records r)} \<union> queried describe qs"
    by (auto simp: queried_def r)
  show ?case using IH unfolding q lookup_note_all by auto
qed (simp add: queried_def)

lemma query_stock_correct:
  assumes "query_stock describe qs [] = Some stk"
  shows "stock_lookup stk i z c = (if \<exists>h. (i, z, c, h) \<in> queried describe qs
       then Some ((i, z, c, True) \<in> queried describe qs) else None)" "stock_wf stk"
  using query_stock_lookup [OF assms, of i z c] by (simp_all add: stock_wf_def stock_lookup_def)

section \<open>Zones of an instance type\<close>

lemma zone_map_correct:
  "zone_map ids acc = Inr zs \<Longrightarrow> wf_map acc \<Longrightarrow>
     wf_map zs \<and> map_of zs z = (if Some z \<in> set ids
       then Some \<lparr>zi_Available = True, zi_CapacityTypes = [], zi_KnownCapacityTypes = []\<rparr>
       else map_of acc z)"
  by (induction ids acc arbitrary: zs rule: zone_map.induct) (auto simp: map_of_update)

lemma stocked_zone_sets:
  assumes "wf_map cts"
  shows "set (zi_KnownCapacityTypes (stocked_zone cts)) = {c. map_of cts c \<noteq> None}"
    and "set (zi_CapacityTypes (stocked_zone cts)) = {c. map_of cts c = Some True}"
    and "zi_Available (stocked_zone cts) \<longleftrightarrow> (\<exists>c. map_of cts c = Some True)"
proof -
  show "set (zi_KnownCapacityTypes (stocked_zone cts)) = {c. map_of cts c \<noteq> None}"
    by (auto simp: stocked_zone_def Let_def map_of_eq_None_iff intro: rev_image_eqI
        dest: weak_map_of_SomeI)
  have iff: "map_of cts c = Some True \<longleftrightarrow> (c, True) \<in> set cts" for c
    using assms by (simp add: wf_map_def)
  show avail: "set (zi_CapacityTypes (stocked_zone cts)) = {c. map_of cts c = Some True}"
    unfolding iff by (auto simp: stocked_zone_def Let_def intro: rev_image_eqI)
  have "zi_Available (stocked_zone cts) \<longleftrightarrow> set (zi_CapacityTypes (stocked_zone cts)) \<noteq> {}"
    by (simp add: stocked_zone_def Let_def del: set_map set_filter)
  then show "zi_Available (stocked_zone cts) \<longleftrightarrow> (\<exists>c. map_of cts c = Some True)"
    unfolding avail by auto
qed

text \<open>What the zone entry of an instance type has to say, given the records.\<close>

definition zone_reflects :: "(string \<times> string \<times> string \<times> bool) set \<Rightarrow> string \<Rightarrow> string \<Rightarrow> ZoneInfo \<Rightarrow> bool" where
  "zone_reflects recs itID zoneID zi \<longleftrightarrow>
     set (zi_KnownCapacityTypes zi) = {c. \<exists>h. (itID, zoneID, c, h) \<in> recs} \<and>
     set (zi_CapacityTypes zi) = {c. (itID, zoneID, c, True) \<in> recs} \<and>
     zi_Available zi = (\<exists>c. (itID, zoneID, c, True) \<in> recs)"

lemma type_zones_reflect:
  assumes q: "query_stock describe qs [] = Some stk" and wf: "wf_map zones"
  shows "(map_of (type_zones (Some stk) itID zones) z = None \<longleftrightarrow>
      \<not> ((\<exists>zi. map_of zones z = Some zi \<and> zi_Available zi) \<and> (\<exists>c h. (itID, z, c, h) \<in> queried describe qs)))"
    and "map_of (type_zones (Some stk) itID zones) z = Some zi \<Longrightarrow> zone_reflects (queried describe qs) itID z zi"
proof -
  note look = query_stock_correct(1) [OF q] and wfs = query_stock_correct(2) [OF q]
  have tz: "map_of (type_zones (Some stk) itID zones) z = Option.bind (map_of zones z) (\<lambda>zoneInfo.
      if \<not> zi_Available zoneInfo then None
      else (case map_of stk itID of None \<Rightarrow> None | Some invZones \<Rightarrow>
        (case map_of invZones z of None \<Rightarrow> None | Some cts \<Rightarrow> Some (stocked_zone cts))))"
    by (simp only: type_zones_def map_of_map_filter_kv [OF wf] option.case)
  have known: "(\<exists>zs cts. map_of stk itID = Some zs \<and> map_of zs z = Some cts) \<longleftrightarrow>
      (\<exists>c h. (itID, z, c, h) \<in> queried describe qs)"
  proof
    assume "\<exists>zs cts. map_of stk itID = Some zs \<and> map_of zs z = Some cts"
    then obtain zs cts where zc: "map_of stk itID = Some zs" "map_of zs z = Some cts" by blast
    with wfs have "cts \<noteq> []" by (simp add: stock_wf_def)
    then obtain c b where "(c, b) \<in> set cts" by (cases cts) auto
    then obtain b' where "map_of cts c = Some b'" by (metis weak_map_of_SomeI)
    with zc have "stock_lookup stk itID z c = Some b'" by (simp add: stock_lookup_def)
    with look [of itID z c] show "\<exists>c h. (itID, z, c, h) \<in> queried describe qs" by (auto split: if_splits)
  next
    assume "\<exists>c h. (itID, z, c, h) \<in> queried describe qs"
    then obtain c h where "(itID, z, c, h) \<in> queried describe qs" by blast
    with look [of itID z c] show "\<exists>zs cts. map_of stk itID = Some zs \<and> map_of zs z = Some cts"
      by (auto simp: stock_lookup_def split: option.splits if_splits)
  qed
  show "(map_of (type_zones (Some stk) itID zones) z = None \<longleftrightarrow>
      \<not> ((\<exists>zi. map_of zones z = Some zi \<and> zi_Available zi) \<and> (\<exists>c h. (itID, z, c, h) \<in> queried describe qs)))"
    unfolding known [symmetric] tz by (cases "map_of zones z") (auto split: option.splits)
  assume "map_of (type_zones (Some stk) itID zones) z = Some zi"
  then obtain zs cts where zc: "map_of stk itID = Some zs" "map_of zs z = Some cts" "zi = stocked_zone cts"
    unfolding tz by (auto split: option.splits if_splits simp: bind_eq_Some_conv)
  have wfc: "wf_map cts" using wfs zc by (simp add: stock_wf_def)
  have m: "map_of cts c = (if \<exists>h. (itID, z, c, h) \<in> queried describe qs
       then Some ((itID, z, c, True) \<in> queried describe qs) else None)" for c
    using look [of itID z c] zc by (simp add: stock_lookup_def)
  show "zone_reflects (queried describe qs) itID z zi"
    unfolding zone_reflects_def zc(3) stocked_zone_sets [OF wfc] m by auto
qed

section \<open>Properties\<close>

lemma ListTypes_fresh:
  assumes "cache_lookup ''instance-types'' now c = None" "cache_lookup ''zones'' now c = None"
    "cache_lookup ''inventory'' now c = None" "wf_map c"
    and "DescribeZones api = Inr ids" "zone_map ids [] = Inr zones"
    and "DescribeInstanceTypes api [] = Inr es"
  shows "fst (ListTypes api now c) =
    Inr (List.map_filter (list_type (query_stock (DescribeAvailableResource api) stock_queries []) zones) es)"
proof -
  have ev: "\<exists>c'. getCachedValue k now now d = (None, c') \<and> wf_map c' \<and>
      (\<forall>k'. cache_lookup k' now d = None \<longrightarrow> cache_lookup k' now c' = None)"
    if "cache_lookup k now d = None" "wf_map d" for k d
    using that by (auto simp: getCachedValue_def cache_lookup_def gocache.lookup_evict [unfolded cache_lookup_def]
        split: cached_read.splits)
  obtain c1 where c1: "getCachedValue ''instance-types'' now now c = (None, c1)" "wf_map c1"
    "cache_lookup ''zones'' now c1 = None" "cache_lookup ''inventory'' now c1 = None"
    using ev [of "''instance-types''" c] assms(1-4) by blast
  obtain c2 where c2: "getCachedValue ''zones'' now now c1 = (None, c2)" "wf_map c2"
    "cache_lookup ''inventory'' now c2 = None"
    using ev [of "''zones''" c1] c1 by blast
  define c3 where "c3 = setCachedValue ''zones'' (CachedZones zones) cacheTTLZones now c2"
  have z: "getAvailableZones api now c1 = (Inr zones, c3)"
    by (simp add: getAvailableZones_def c2(1) assms(5,6) c3_def)
  have "cache_lookup ''inventory'' now c3 = None" "wf_map c3"
    using c2 by (simp_all add: c3_def gocache.lookup_insert_other)
  then obtain c4 where c4: "getCachedValue ''inventory'' now now c3 = (None, c4)"
    using ev by blast
  have "fst (getInventory api now c3) = query_stock (DescribeAvailableResource api) stock_queries []"
    by (simp add: getInventory_def c4 split: option.split)
  then show ?thesis
    by (cases "getInventory api now c3") (simp add: ListTypes_def c1(1) z assms(7) Let_def)
qed

lemma convert_fields:
  "convertECSInstanceType (Some e) zs = Some it \<Longrightarrow>
     it_Zones it = zs \<and> it_Name it = or_else (eit_InstanceTypeId e) [] \<and>
     it_CPU it \<noteq> None \<and> it_Memory it \<noteq> None"
  by (auto simp: convertECSInstanceType_def Let_def split: option.splits)

text \<open>
  C18: A fresh List reports the stock of the region exactly.  Every
  instance type it returns is one ECS described; with stock information, a zone is
  present for it exactly when it is a zone of the region in which ECS reported that type
  with a recognised status, its known capacity types are those of such records, the
  available ones those with stock in some record (a later record without stock never
  hides it), and the zone counts as available exactly when there is one - so zones that
  ran out of stock stay known.  When the stock query failed, every zone of the region is
  offered for both capacity types.
\<close>
theorem ListTypes_reflects_stock:
  assumes "cache_lookup ''instance-types'' now c = None" "cache_lookup ''zones'' now c = None"
    "cache_lookup ''inventory'' now c = None" "wf_map c"
    and "DescribeZones api = Inr ids" "zone_map ids [] = Inr zones"
    and "DescribeInstanceTypes api [] = Inr es"
  shows "\<exists>its. fst (ListTypes api now c) = Inr its \<and> (\<forall>it \<in> set its. \<exists>e. Some e \<in> set es \<and>
    eit_InstanceTypeId e = Some (it_Name it) \<and>
    (case query_stock (DescribeAvailableResource api) stock_queries [] of
       None \<Rightarrow> (\<forall>z. map_of (it_Zones it) z = (if Some z \<in> set ids then Some optimistic_zone else None))
     | Some stk \<Rightarrow> (\<forall>z. (map_of (it_Zones it) z = None \<longleftrightarrow> \<not> (Some z \<in> set ids \<and>
           (\<exists>ct h. (it_Name it, z, ct, h) \<in> queried (DescribeAvailableResource api) stock_queries))) \<and>
         (\<forall>zi. map_of (it_Zones it) z = Some zi \<longrightarrow>
            zone_reflects (queried (DescribeAvailableResource api) stock_queries) (it_Name it) z zi))))"
proof -
  let ?q = "query_stock (DescribeAvailableResource api) stock_queries []"
  define its where "its = List.map_filter (list_type ?q zones) es"
  have zc: "wf_map zones" "map_of zones z = (if Some z \<in> set ids
       then Some \<lparr>zi_Available = True, zi_CapacityTypes = [], zi_KnownCapacityTypes = []\<rparr> else None)" for z
    using zone_map_correct [OF assms(6)] by simp_all
  have lst: "fst (ListTypes api now c) = Inr its"
    unfolding its_def by (rule ListTypes_fresh [OF assms])
  have "\<exists>e. Some e \<in> set es \<and> eit_InstanceTypeId e = Some (it_Name it) \<and>
    (case ?q of
       None \<Rightarrow> (\<forall>z. map_of (it_Zones it) z = (if Some z \<in> set ids then Some optimistic_zone else None))
     | Some stk \<Rightarrow> (\<forall>z. (map_of (it_Zones it) z = None \<longleftrightarrow> \<not> (Some z \<in> set ids \<and>
           (\<exists>ct h. (it_Name it, z, ct, h) \<in> queried (DescribeAvailableResource api) stock_queries))) \<and>
         (\<forall>zi. map_of (it_Zones it) z = Some zi \<longrightarrow>
            zone_reflects (queried (DescribeAvailableResource api) stock_queries) (it_Name it) z zi)))"
    if "it \<in> set its" for it
  proof -
    from that obtain eo where eo: "eo \<in> set es" "list_type ?q zones eo = Some it"
      unfolding its_def map_filter_in by blast
    have "eo \<noteq> None" using eo(2) by (auto simp: list_type_def split: option.splits)
    then obtain e where e: "Some e \<in> set es" "list_type ?q zones (Some e) = Some it"
      using eo by blast
    then obtain i where i: "eit_InstanceTypeId e = Some i"
        "convertECSInstanceType (Some e) (type_zones ?q i zones) = Some it"
      by (auto simp: list_type_def Let_def split: option.splits if_splits)
    from convert_fields [OF i(2)] i(1) have it: "it_Zones it = type_zones ?q i zones" "it_Name it = i"
      by simp_all
    show ?thesis
    proof (cases ?q)
      case None
      then show ?thesis using e(1) i(1) it zc
        by (auto simp: type_zones_def map_of_map_filter_kv)
    next
      case (Some stk)
      note tz = type_zones_reflect [OF Some zc(1), of i]
      show ?thesis
        using e(1) i(1) tz(2) unfolding it Some option.case tz(1) zc(2)
        by (auto split: if_splits)
    qed
  qed
  with lst show ?thesis by blast
qed

theorem ListTypes_reflects_stock_witness:
  "\<exists>its. fst (ListTypes \<lparr>DescribeZones = Inr [Some ''cn-a''],
       DescribeAvailableResource = (\<lambda>ss. Inr (Some [Some \<lparr>az_ZoneId = Some ''cn-a'', az_Resources = Some
         [Some \<lparr>ar_Type = Some ''InstanceType'', ar_Supported = Some [Some \<lparr>sr_Value = Some ''ecs.g6.large'',
            sr_StatusCategory = Some ''WithoutStock''\<rparr>]\<rparr>]\<rparr>])),
       DescribeInstanceTypes = (\<lambda>_. Inr [Some \<lparr>eit_InstanceTypeId = Some ''ecs.g6.large'',
         eit_InstanceTypeFamily = None, eit_CpuCoreCount = Some 2, eit_MemorySize = Some 8,
         eit_CpuArchitecture = None, eit_GPUAmount = None, eit_GPUSpec = None, eit_EniQuantity = None,
         eit_EniPrivateIpAddressQuantity = None\<rparr>])\<rparr> 0 []) = Inr its \<and>
     (\<forall>it \<in> set its. \<forall>zi. map_of (it_Zones it) ''cn-a'' = Some zi \<longrightarrow> \<not> zi_Available zi)"
proof -
  let ?api = "\<lparr>DescribeZones = Inr [Some ''cn-a''],
       DescribeAvailableResource = (\<lambda>ss. Inr (Some [Some \<lparr>az_ZoneId = Some ''cn-a'', az_Resources = Some
         [Some \<lparr>ar_Type = Some ''InstanceType'', ar_Supported = Some [Some \<lparr>sr_Value = Some ''ecs.g6.large'',
            sr_StatusCategory = Some ''WithoutStock''\<rparr>]\<rparr>]\<rparr>])),
       DescribeInstanceTypes = (\<lambda>_. Inr [Some \<lparr>eit_InstanceTypeId = Some ''ecs.g6.large'',
         eit_InstanceTypeFamily = None, eit_CpuCoreCount = Some 2, eit_MemorySize = Some 8,
         eit_CpuArchitecture = None, eit_GPUAmount = None, eit_GPUSpec = None, eit_EniQuantity = None,
         eit_EniPrivateIpAddressQuantity = None\<rparr>])\<rparr>"
  obtain zones where z: "zone_map [Some ''cn-a''] [] = Inr zones" by simp
  have q: "\<exists>stk. query_stock (DescribeAvailableResource ?api) stock_queries [] = Some stk"
    by (simp add: stock_queries_def)
  have recs: "(i, zz, ct, True) \<notin> queried (DescribeAvailableResource ?api) stock_queries" for i zz ct
    by (auto simp: queried_def stock_queries_def response_records_def zone_records_def
        resource_records_def supported_records_def known_status_def has_stock_def stock_defs)
  from ListTypes_reflects_stock [of 0 "[]" ?api "[Some ''cn-a'']" zones] z q recs
  show ?thesis
    by (auto simp: cache_lookup_iff zone_reflects_def)
qed

end
