(* ===== verification/TypeLabels.thy ===== *)
theory TypeLabels
  imports InstanceTypes
begin

text \<open>
  Labels of instance types and the requirements on them
  (pkg/providers/instancetype/instancetype.go: Filter, matchesRequirement, the
  label functions, Sort).  Operators and keys are the strings of the source.
\<close>

record InstanceTypeRequirement =
  req_Key :: string
  req_Operator :: string
  req_Values :: "string list"

definition OperatorIn :: string where "OperatorIn = ''In''"
definition OperatorNotIn :: string where "OperatorNotIn = ''NotIn''"
definition OperatorExists :: string where "OperatorExists = ''Exists''"
definition OperatorDoesNotExist :: string where "OperatorDoesNotExist = ''DoesNotExist''"

lemmas operator_defs = OperatorIn_def OperatorNotIn_def OperatorExists_def OperatorDoesNotExist_def

section \<open>Parts of an instance type name\<close>

definition name_parts :: "string \<Rightarrow> string list" where
  "name_parts name = split_on CHR ''.'' (trim_prefix name ''ecs.'')"

definition instanceFamily :: "string \<Rightarrow> string" where
  "instanceFamily name = (let parts = name_parts name in if length parts = 0 then [] else parts ! 0)"

definition instanceSize :: "string \<Rightarrow> string" where
  "instanceSize name = (let parts = name_parts name in if length parts < 2 then [] else parts ! 1)"

definition instanceCategory :: "string \<Rightarrow> string" where
  "instanceCategory name = takeWhile is_lower (instanceFamily name)"

fun generation_loop :: "string \<Rightarrow> string \<Rightarrow> string" where
  "generation_loop [] b = b"
| "generation_loop (r # rs) b =
     (if is_digit r then generation_loop rs (b @ [r])
      else if b \<noteq> [] then b else generation_loop rs b)"

definition instanceGeneration :: "string \<Rightarrow> string" where
  "instanceGeneration name = generation_loop (instanceFamily name) []"

text \<open>The loop takes the first run of digits.\<close>

lemma generation_loop_run:
  "b \<noteq> [] \<Longrightarrow> generation_loop s b = b @ takeWhile is_digit s"
  by (induction s b rule: generation_loop.induct) auto

lemma generation_loop_first:
  "generation_loop s [] = takeWhile is_digit (dropWhile (\<lambda>c. \<not> is_digit c) s)"
  by (induction s) (auto simp: generation_loop_run)

section \<open>Label values\<close>

definition quantityValue :: "int option \<Rightarrow> string" where
  "quantityValue q = (case q of None \<Rightarrow> [] | Some v \<Rightarrow> itoa v)"

text \<open>Integer division of Go truncates towards zero.\<close>

definition go_div :: "int \<Rightarrow> int \<Rightarrow> int" where
  "go_div a b = (if (0 \<le> a) = (0 < b) then \<bar>a\<bar> div \<bar>b\<bar> else - (\<bar>a\<bar> div \<bar>b\<bar>))"

definition quantityMiB :: "int option \<Rightarrow> string" where
  "quantityMiB q = (case q of None \<Rightarrow> [] | Some v \<Rightarrow> itoa (go_div v (1024 * 1024)))"

definition gpuModel :: "InstanceType option \<Rightarrow> string" where
  "gpuModel it = (case it of None \<Rightarrow> [] | Some t \<Rightarrow> (case it_GPU t of None \<Rightarrow> []
     | Some g \<Rightarrow> NormalizeLabelValue (gpu_Model g)))"

definition gpuManufacturer :: "InstanceType option \<Rightarrow> string" where
  "gpuManufacturer it = (if gpuModel it = '''' then [] else ''nvidia'')"

definition gpuCount :: "InstanceType option \<Rightarrow> string" where
  "gpuCount it = (case it of None \<Rightarrow> [] | Some t \<Rightarrow> (case it_GPU t of None \<Rightarrow> []
     | Some g \<Rightarrow> (case gpu_Count g of None \<Rightarrow> [] | Some v \<Rightarrow> itoa v)))"

definition gpuMemory :: "InstanceType option \<Rightarrow> string" where
  "gpuMemory it = (case it of None \<Rightarrow> [] | Some t \<Rightarrow> (case it_GPU t of None \<Rightarrow> []
     | Some g \<Rightarrow> (case gpu_Memory g of None \<Rightarrow> [] | Some v \<Rightarrow> if v \<le> 0 then [] else itoa v)))"

definition put_nonempty :: "(string \<times> string) list \<Rightarrow> gomap \<Rightarrow> gomap" where
  "put_nonempty kvs m = fold (\<lambda>(k, v) m. if v = '''' then m else AList.update k v m) kvs m"

definition InstanceTypeLabels :: "string \<Rightarrow> gomap" where
  "InstanceTypeLabels name = put_nonempty
     [(LabelInstanceFamily, instanceFamily name), (LabelInstanceFamilyCanonical, instanceFamily name),
      (LabelInstanceCategory, instanceCategory name),
      (LabelInstanceGeneration, instanceGeneration name),
      (LabelInstanceSize, instanceSize name), (LabelInstanceSizeCanonical, instanceSize name)] []"

definition ResolvedLabels :: "InstanceType option \<Rightarrow> gomap" where
  "ResolvedLabels ito = (case ito of None \<Rightarrow> [] | Some it \<Rightarrow> put_nonempty
     [(LabelInstanceCPU, quantityValue (it_CPU it)), (LabelInstanceMemory, quantityMiB (it_Memory it)),
      (LabelInstanceGPUName, gpuModel ito), (LabelInstanceGPUManufacturer, gpuManufacturer ito),
      (LabelInstanceGPUCount, gpuCount ito), (LabelInstanceGPUMemory, gpuMemory ito)]
     (InstanceTypeLabels (it_Name it)))"

section \<open>Requirements\<close>

definition matchesStringRequirement :: "string \<Rightarrow> string \<Rightarrow> string list \<Rightarrow> bool" where
  "matchesStringRequirement value operator values =
     (if operator = OperatorIn then value \<in> set values
      else if operator = OperatorNotIn then value \<notin> set values
      else if operator = OperatorExists then value \<noteq> ''''
      else if operator = OperatorDoesNotExist then value = ''''
      else True)"

definition zone_available :: "InstanceType \<Rightarrow> string \<Rightarrow> bool" where
  "zone_available it z = (case map_of (it_Zones it) z of Some zi \<Rightarrow> zi_Available zi | None \<Rightarrow> False)"

definition matchesZoneRequirement :: "InstanceType \<Rightarrow> string \<Rightarrow> string list \<Rightarrow> bool" where
  "matchesZoneRequirement it operator values =
     (if operator = OperatorIn then list_ex (zone_available it) values
      else if operator = OperatorNotIn then \<not> list_ex (zone_available it) values
      else if operator = OperatorExists then list_ex (\<lambda>(z, zi). zi_Available zi) (it_Zones it)
      else if operator = OperatorDoesNotExist then \<not> list_ex (\<lambda>(z, zi). zi_Available zi) (it_Zones it)
      else True)"

definition matchesRequirement :: "string \<Rightarrow> InstanceType \<Rightarrow> InstanceTypeRequirement \<Rightarrow> bool" where
  "matchesRequirement region it req =
     (let key = req_Key req;
          m = (\<lambda>v. matchesStringRequirement v (req_Operator req) (req_Values req)) in
      if key = LabelInstanceType then m (it_Name it)
      else if key = LabelInstanceFamily \<or> key = LabelInstanceFamilyCanonical then m (instanceFamily (it_Name it))
      else if key = LabelInstanceCategory then m (instanceCategory (it_Name it))
      else if key = LabelInstanceGeneration then m (instanceGeneration (it_Name it))
      else if key = LabelInstanceSize \<or> key = LabelInstanceSizeCanonical then m (instanceSize (it_Name it))
      else if key = LabelInstanceCPU then m (quantityValue (it_CPU it))
      else if key = LabelInstanceMemory then m (quantityMiB (it_Memory it))
      else if key = LabelInstanceGPUName then m (gpuModel (Some it))
      else if key = LabelInstanceGPUManufacturer then m (gpuManufacturer (Some it))
      else if key = LabelInstanceGPUCount then m (gpuCount (Some it))
      else if key = LabelInstanceGPUMemory then m (gpuMemory (Some it))
      else if key = LabelArchitecture then m (KubeArchitecture (it_Architecture it))
      else if key = LabelOS then m OSLinux
      else if key = LabelRegion then m region
      else if key = LabelCapacityType then m CapacityTypeOnDemand \<or> m CapacityTypeSpot
      else if key = LabelCapacityReservationID \<or> key = LabelCapacityReservationType then m []
      else if key = LabelZone then matchesZoneRequirement it (req_Operator req) (req_Values req)
      else True)"

definition FilterTypes :: "string \<Rightarrow> InstanceType list \<Rightarrow> InstanceTypeRequirement list \<Rightarrow> InstanceType list" where
  "FilterTypes region its reqs = filter (\<lambda>it. list_all (matchesRequirement region it) reqs) its"

section \<open>Sorting\<close>

text \<open>The comparison that Sort hands to sort.Slice.\<close>

definition sort_less :: "InstanceType \<Rightarrow> InstanceType \<Rightarrow> bool" where
  "sort_less a b =
     (case (it_CPU a, it_CPU b) of
        (Some x, Some y) \<Rightarrow> if x \<noteq> y then x < y
          else (case (it_Memory a, it_Memory b) of
                  (Some m, Some n) \<Rightarrow> m < n | _ \<Rightarrow> it_Name a < it_Name b)
      | _ \<Rightarrow> (case (it_Memory a, it_Memory b) of
                (Some m, Some n) \<Rightarrow> m < n | _ \<Rightarrow> it_Name a < it_Name b))"

lemma sort_less_strict:
  assumes "it_CPU a \<noteq> None" "it_CPU b \<noteq> None" "it_CPU c \<noteq> None"
    "it_Memory a \<noteq> None" "it_Memory b \<noteq> None" "it_Memory c \<noteq> None"
  shows "\<not> sort_less a a" "sort_less a b \<Longrightarrow> sort_less b c \<Longrightarrow> sort_less a c"
    "\<not> sort_less a b \<Longrightarrow> \<not> sort_less b c \<Longrightarrow> \<not> sort_less a c"
  using assms by (auto simp: sort_less_def split: if_splits)

text \<open>
  sort.Slice is a parameter: for a comparison that orders the elements weakly it returns them sorted.
\<close>

definition SortTypes :: "((InstanceType \<Rightarrow> InstanceType \<Rightarrow> bool) \<Rightarrow> InstanceType list \<Rightarrow> InstanceType list) \<Rightarrow>
    InstanceType list \<Rightarrow> InstanceType list" where
  "SortTypes sort_slice its = sort_slice sort_less its"

definition slice_sorts :: "(('a \<Rightarrow> 'a \<Rightarrow> bool) \<Rightarrow> 'a list \<Rightarrow> 'a list) \<Rightarrow> bool" where
  "slice_sorts sort_slice \<longleftrightarrow> (\<forall>less xs.
     (\<forall>a \<in> set xs. \<not> less a a) \<and>
     (\<forall>a \<in> set xs. \<forall>b \<in> set xs. \<forall>c \<in> set xs. less a b \<and> less b c \<longrightarrow> less a c) \<and>
     (\<forall>a \<in> set xs. \<forall>b \<in> set xs. \<forall>c \<in> set xs. \<not> less a b \<and> \<not> less b c \<longrightarrow> \<not> less a c) \<longrightarrow>
     mset (sort_slice less xs) = mset xs \<and> sorted_wrt (\<lambda>a b. \<not> less b a) (sort_slice less xs))"

lemma SortTypes_sorts:
  assumes "slice_sorts sort_slice" "\<forall>it \<in> set its. it_CPU it \<noteq> None \<and> it_Memory it \<noteq> None"
  shows "mset (SortTypes sort_slice its) = mset its"
    "sorted_wrt (\<lambda>a b. \<not> sort_less b a) (SortTypes sort_slice its)"
proof -
  have "mset (sort_slice sort_less its) = mset its \<and> sorted_wrt (\<lambda>a b. \<not> sort_less b a) (sort_slice sort_less its)"
    using assms(1) unfolding slice_sorts_def
  proof (elim allE [of _ sort_less] allE [of _ its] impE, intro conjI ballI impI)
    fix a b c assume m: "a \<in> set its" "b \<in> set its" "c \<in> set its"
    note strict = sort_less_strict [of a b c] and known = assms(2) [rule_format, OF m(1)] assms(2) [rule_format, OF m(2)]
      assms(2) [rule_format, OF m(3)]
    show "sort_less a c" if "sort_less a b \<and> sort_less b c" using strict(2) known that by simp
    show "\<not> sort_less a c" if "\<not> sort_less a b \<and> \<not> sort_less b c" using strict(3) known that by simp
  next
    fix a assume "a \<in> set its"
    with assms(2) show "\<not> sort_less a a" using sort_less_strict(1) [of a a a] by simp
  qed
  then show "mset (SortTypes sort_slice its) = mset its"
    "sorted_wrt (\<lambda>a b. \<not> sort_less b a) (SortTypes sort_slice its)" by (simp_all add: SortTypes_def)
qed

text \<open>With a type whose CPU is not known the comparison can go round in a circle.\<close>

lemma sort_less_circle:
  assumes "it_CPU a = Some 2" "it_Memory a = None" "it_Name a = ''a''" "it_CPU b = None" "it_Memory b = None" "it_Name b = ''b''"
    "it_CPU c = Some 1" "it_Memory c = None" "it_Name c = ''c''"
  shows "sort_less a b" "sort_less b c" "sort_less c a"
  using assms by (simp_all add: sort_less_def)

definition instancetype_kubeArchitecture :: "string \<Rightarrow> string" where
  "instancetype_kubeArchitecture arch = KubeArchitecture arch"

definition GetImageSupportInstanceTypes :: "string list" where
  "GetImageSupportInstanceTypes = []"

section \<open>Lemmas\<close>

lemma map_of_put_nonempty:
  "map_of (put_nonempty kvs m) k =
     (case map_of (rev (filter (\<lambda>(k, v). v \<noteq> []) kvs)) k of Some v \<Rightarrow> Some v | None \<Rightarrow> map_of m k)"
proof (induction kvs arbitrary: m)
  case (Cons kv kvs)
  obtain k0 v0 where kv: "kv = (k0, v0)" by (cases kv)
  have "put_nonempty (kv # kvs) m = put_nonempty kvs (if v0 = [] then m else AList.update k0 v0 m)"
    by (simp add: put_nonempty_def kv)
  then show ?case
    by (simp add: Cons.IH kv map_add_def map_of_update split: option.split)
qed (simp add: put_nonempty_def)

lemma itoa_not_Nil [simp]: "itoa i \<noteq> []"
  by (simp add: itoa_def)

text \<open>The keys that ResolvedLabels can set, with the value that requirements are matched against.\<close>

definition resolved_values :: "InstanceType \<Rightarrow> (string \<times> string) list" where
  "resolved_values it =
     [(LabelInstanceFamily, instanceFamily (it_Name it)),
      (LabelInstanceFamilyCanonical, instanceFamily (it_Name it)),
      (LabelInstanceCategory, instanceCategory (it_Name it)),
      (LabelInstanceGeneration, instanceGeneration (it_Name it)),
      (LabelInstanceSize, instanceSize (it_Name it)),
      (LabelInstanceSizeCanonical, instanceSize (it_Name it)),
      (LabelInstanceCPU, quantityValue (it_CPU it)),
      (LabelInstanceMemory, quantityMiB (it_Memory it)),
      (LabelInstanceGPUName, gpuModel (Some it)),
      (LabelInstanceGPUManufacturer, gpuManufacturer (Some it)),
      (LabelInstanceGPUCount, gpuCount (Some it)),
      (LabelInstanceGPUMemory, gpuMemory (Some it))]"

lemma resolved_keys_distinct: "distinct (List.map fst (resolved_values it))"
  by (simp add: resolved_values_def label_defs)

lemma map_of_rev_filter_distinct:
  assumes "distinct (List.map fst kvs)"
  shows "map_of (rev (filter P kvs)) k = map_of (filter P kvs) k"
proof -
  have d: "distinct (List.map fst (filter P kvs))" using assms by (simp add: distinct_map_filter)
  then have "distinct (List.map fst (rev (filter P kvs)))" by (simp add: rev_map [symmetric])
  with d show ?thesis
    by (intro map_of_eqI [THEN fun_cong]) (auto simp del: set_filter)
qed

lemma map_of_filter_nonempty:
  "distinct (List.map fst kvs) \<Longrightarrow> map_of (filter (\<lambda>(k, v). v \<noteq> []) kvs) k =
     (case map_of kvs k of Some v \<Rightarrow> if v \<noteq> [] then Some v else None | None \<Rightarrow> None)"
proof (induction kvs)
  case (Cons kv kvs)
  obtain k0 v0 where kv: "kv = (k0, v0)" by (cases kv)
  have "map_of kvs k0 = None" using Cons.prems by (simp add: kv map_of_eq_None_iff)
  with Cons show ?case by (auto simp: kv)
qed simp

lemma map_of_ResolvedLabels:
  "map_of (ResolvedLabels (Some it)) k =
     (case map_of (resolved_values it) k of Some v \<Rightarrow> if v \<noteq> [] then Some v else None | None \<Rightarrow> None)"
proof -
  have "ResolvedLabels (Some it) = put_nonempty (resolved_values it) []"
    by (simp add: ResolvedLabels_def InstanceTypeLabels_def resolved_values_def put_nonempty_def)
  then show ?thesis
    using resolved_keys_distinct [of it]
    by (simp add: map_of_put_nonempty map_of_rev_filter_distinct map_of_filter_nonempty split: option.split)
qed

lemma requirement_keys_distinct:
  "distinct [LabelInstanceType, LabelInstanceFamily, LabelInstanceFamilyCanonical,
     LabelInstanceCategory, LabelInstanceGeneration, LabelInstanceSize, LabelInstanceSizeCanonical,
     LabelInstanceCPU, LabelInstanceMemory, LabelInstanceGPUName, LabelInstanceGPUManufacturer,
     LabelInstanceGPUCount, LabelInstanceGPUMemory]"
  by (simp add: label_defs)

lemmas requirement_key_neq = requirement_keys_distinct [simplified]

lemma matchesRequirement_resolved:
  assumes "map_of (resolved_values it) k = Some v"
  shows "matchesRequirement region it \<lparr>req_Key = k, req_Operator = op, req_Values = vs\<rparr> =
    matchesStringRequirement v op vs"
proof -
  have "(k, v) \<in> set (resolved_values it)" using assms by (rule map_of_SomeD)
  then show ?thesis
    using requirement_key_neq
    unfolding resolved_values_def set_simps insert_iff prod.inject empty_iff
    by (elim disjE conjE) (simp_all add: matchesRequirement_def Let_def)
qed

section \<open>Properties\<close>

text \<open>
  The labels published for an instance type and the requirements that
  select it agree: for each of the twelve keys that ResolvedLabels can set, a
  requirement with any operator is matched against exactly the published value (the
  empty string when the label is absent), and the filter keeps exactly the instance
  types whose requirements all match, in order.
\<close>
theorem labels_agree_with_requirements:
  assumes "map_of (resolved_values it) k \<noteq> None"
  shows "matchesRequirement region it \<lparr>req_Key = k, req_Operator = op, req_Values = vs\<rparr> =
      matchesStringRequirement (or_else (map_of (ResolvedLabels (Some it)) k) []) op vs \<and>
    (\<forall>its reqs. set (FilterTypes region its reqs) =
       {t \<in> set its. \<forall>r \<in> set reqs. matchesRequirement region t r})"
proof -
  obtain v where v: "map_of (resolved_values it) k = Some v" using assms by blast
  have "or_else (map_of (ResolvedLabels (Some it)) k) [] = v"
    by (simp add: map_of_ResolvedLabels v)
  with matchesRequirement_resolved [OF v] show ?thesis
    by (auto simp: FilterTypes_def list_all_iff)
qed

theorem labels_agree_with_requirements_witness:
  "\<exists>it. it_Name it = ''ecs.g6.large'' \<and>
     matchesRequirement ''cn-a'' it \<lparr>req_Key = LabelInstanceFamily, req_Operator = OperatorIn, req_Values = [''g6'']\<rparr> =
     matchesStringRequirement (or_else (map_of (ResolvedLabels (Some it)) LabelInstanceFamily) []) OperatorIn [''g6'']"
proof -
  define it where "it = \<lparr>it_Name = ''ecs.g6.large'', it_Architecture = ''amd64'', it_CPU = Some 2,
     it_Memory = Some 8589934592, it_Storage = None, it_GPU = None, it_Zones = [], it_EniQuantity = 2,
     it_EniPrivateIpAddressQuantity = 6\<rparr>"
  have "map_of (resolved_values it) LabelInstanceFamily \<noteq> None"
    by (simp add: resolved_values_def label_defs)
  then show ?thesis
    using labels_agree_with_requirements [of it LabelInstanceFamily "''cn-a''" OperatorIn "[''g6'']"]
    by (intro exI [of _ it]) (simp add: it_def)
qed

end
