(* ===== verification/InstanceProvider.thy ===== *)
theory InstanceProvider
  imports KubeErrors EcsUtil TtlCache Batcher TypeLabels "HOL-Library.Log_Nat"
begin

text \<open>
  The provider of ECS instances (pkg/providers/instance/instance.go): creation,
  look-up, deletion, listing and tagging.

  The ECS client is a parameter: a record of functions on the state 'w of the
  cloud, one per call of the API, each returning an error message or a
  response and the new state; clk reads the clock in a state.  Pointers of the SDK's
  response types are options, their dereference at nil is GoPanic.
\<close>

section \<open>Requests and options\<close>

record InstSystemDisk =
  isd_Category :: string
  isd_Size :: int
  isd_PerformanceLevel :: string
  isd_Encrypted :: "bool option"
  isd_KMSKeyID :: string

record InstDataDisk =
  idd_Category :: string
  idd_Size :: int
  idd_PerformanceLevel :: string
  idd_Encrypted :: "bool option"
  idd_KMSKeyID :: string
  idd_SnapshotID :: string
  idd_DeleteWithInstance :: "bool option"
  idd_Device :: string

record InstMetadataOptions =
  imo_HttpEndpoint :: "string option"
  imo_HttpTokens :: "string option"
  imo_HttpPutResponseHopLimit :: "int option"

record CreateOptions =
  co_InstanceType :: string
  co_ImageID :: string
  co_VSwitchID :: string
  co_SecurityGroupIDs :: "string list"
  co_UserData :: string
  co_Tags :: gomap
  co_SystemDisk :: InstSystemDisk
  co_DataDisks :: "InstDataDisk list"
  co_SpotStrategy :: string
  co_SpotPriceLimit :: rat
  co_RAMRoleName :: string
  co_MetadataOptions :: "InstMetadataOptions option"
  co_InstanceStorePolicy :: "string option"
  co_Ipv6AddressCount :: "int option"

record Instance =
  ins_InstanceID :: string
  ins_Region :: string
  ins_Zone :: string
  ins_InstanceType :: string
  ins_ImageID :: string
  ins_CPU :: int
  ins_Memory :: int
  ins_Storage :: int
  ins_GPU :: int
  ins_GPUMem :: int
  ins_GPUSpec :: string
  ins_Architecture :: string
  ins_Status :: string
  ins_CreationTime :: string
  ins_Tags :: gomap
  ins_CapacityType :: string
  ins_SecurityGroupIDs :: "string list"
  ins_VSwitchID :: string

text \<open>The request of RunInstances; a field that is not set is None.\<close>

record RunSystemDiskReq =
  rsd_Category :: string
  rsd_Size :: string
  rsd_PerformanceLevel :: "string option"
  rsd_Encrypted :: "string option"
  rsd_KMSKeyId :: "string option"

record RunDataDiskReq =
  rdd_Category :: string
  rdd_Size :: int
  rdd_Device :: "string option"
  rdd_PerformanceLevel :: "string option"
  rdd_Encrypted :: "string option"
  rdd_KMSKeyId :: "string option"
  rdd_SnapshotId :: "string option"
  rdd_DeleteWithInstance :: "bool option"

record RunInstancesReq =
  rr_RegionId :: string
  rr_InstanceType :: string
  rr_ImageId :: string
  rr_VSwitchId :: string
  rr_SecurityGroupIds :: "string list"
  rr_SpotStrategy :: "string option"
  rr_SpotPriceLimit :: "rat option"
  rr_Ipv6AddressCount :: "int option"
  rr_RamRoleName :: "string option"
  rr_HttpEndpoint :: "string option"
  rr_HttpTokens :: "string option"
  rr_HttpPutResponseHopLimit :: "int option"
  rr_SystemDisk :: RunSystemDiskReq
  rr_DataDisk :: "RunDataDiskReq list"
  rr_UserData :: "string option"
  rr_Tag :: gomap

text \<open>An instance as DescribeInstances reports it; the tags of the list are never nil.\<close>

record EcsInstance =
  ei_InstanceId :: "string option"
  ei_RegionId :: "string option"
  ei_ZoneId :: "string option"
  ei_InstanceType :: "string option"
  ei_ImageId :: "string option"
  ei_Cpu :: "int option"
  ei_Memory :: "int option"
  ei_GPUAmount :: "int option"
  ei_GPUSpec :: "string option"
  ei_InstanceChargeType :: "string option"
  ei_SpotStrategy :: "string option"
  ei_Status :: "string option"
  ei_CreationTime :: "string option"
  ei_SecurityGroupIds :: "string option list option"
  ei_VSwitchId :: "string option"
  ei_Tags :: "(string option \<times> string option) list option"

record DescribeBody =
  db_Instances :: "EcsInstance option list option"
  db_TotalCount :: "int option"
  db_PageNumber :: "int option"
  db_PageSize :: "int option"

text \<open>The request of DescribeInstances: the IDs as the JSON text that is sent.\<close>

record DescribeReq =
  dr_RegionId :: string
  dr_InstanceIds :: "string option"
  dr_Tag :: gomap
  dr_PageNumber :: "int option"
  dr_PageSize :: "int option"

record TagReq =
  tr_RegionId :: string
  tr_ResourceType :: string
  tr_ResourceId :: "string list"
  tr_Tag :: gomap

record 'w EcsApi =
  RunInstances :: "RunInstancesReq \<Rightarrow> 'w \<Rightarrow> (string + string option list option) \<times> 'w"
  DescribeInstances :: "DescribeReq \<Rightarrow> 'w \<Rightarrow> (string + DescribeBody option) \<times> 'w"
  DeleteInstances :: "string \<Rightarrow> string list \<Rightarrow> bool \<Rightarrow> 'w \<Rightarrow> string option \<times> 'w"
  TagResources :: "TagReq \<Rightarrow> 'w \<Rightarrow> string option \<times> 'w"
  clk :: "'w \<Rightarrow> time_ns"

definition boolValue :: "bool option \<Rightarrow> bool" where
  "boolValue v = (v = Some True)"

definition derefString :: "string option \<Rightarrow> string" where
  "derefString s = or_else s []"

text \<open>A field that is sent only when it is not the empty string.\<close>

definition nonempty_str :: "string \<Rightarrow> string option" where
  "nonempty_str s = (if s \<noteq> '''' then Some s else None)"

section \<open>Standard encodings\<close>

text \<open>base64.StdEncoding: three bytes become four characters, the last group is padded.\<close>

definition b64_alphabet :: string where
  "b64_alphabet = ''ABCDEFGHIJKLMNOPQRSTUVWXYZabcdefghijklmnopqrstuvwxyz0123456789+/''"

definition b64_char :: "nat \<Rightarrow> char" where
  "b64_char n = b64_alphabet ! (n mod 64)"

fun base64_encode :: "string \<Rightarrow> string" where
  "base64_encode [] = []"
| "base64_encode [a] = (let n = of_char a * 65536 in
     [b64_char (n div 262144), b64_char (n div 4096), CHR ''='', CHR ''=''])"
| "base64_encode [a, b] = (let n = of_char a * 65536 + of_char b * 256 in
     [b64_char (n div 262144), b64_char (n div 4096), b64_char (n div 64), CHR ''=''])"
| "base64_encode (a # b # c # s) = (let n = of_char a * 65536 + of_char b * 256 + of_char c in
     [b64_char (n div 262144), b64_char (n div 4096), b64_char (n div 64), b64_char n] @ base64_encode s)"

text \<open>
  Conversion of a positive number to float32: 24 significant bits, rounded to nearest, ties to even.
  Numbers of 2^128 and more become infinity, which does not occur for a price.
\<close>

definition round_half_even :: "rat \<Rightarrow> int" where
  "round_half_even y = (let q = \<lfloor>y\<rfloor>; r = y - of_int q in
     if r < 1 / 2 then q else if r > 1 / 2 then q + 1 else if even q then q else q + 1)"

definition rat_pow2 :: "int \<Rightarrow> rat" where
  "rat_pow2 e = (if 0 \<le> e then 2 ^ nat e else 1 / 2 ^ nat (- e))"

definition rat_exponent :: "rat \<Rightarrow> int" where
  "rat_exponent x = (let (n, d) = quotient_of x; e = bitlen n - bitlen d in
     if x < rat_pow2 e then e - 1 else e)"

definition float32_of :: "rat \<Rightarrow> rat" where
  "float32_of x = (let u = rat_pow2 (max (rat_exponent x) (-126) - 23) in of_int (round_half_even (x / u)) * u)"

section \<open>Creation\<close>

definition empty_run_request :: "string \<Rightarrow> CreateOptions \<Rightarrow> string list \<Rightarrow> RunInstancesReq" where
  "empty_run_request region opts sgs =
     \<lparr>rr_RegionId = region, rr_InstanceType = co_InstanceType opts, rr_ImageId = co_ImageID opts,
      rr_VSwitchId = co_VSwitchID opts, rr_SecurityGroupIds = sgs,
      rr_SpotStrategy = nonempty_str (co_SpotStrategy opts),
      rr_SpotPriceLimit =
        (if co_SpotPriceLimit opts > 0 then Some (float32_of (co_SpotPriceLimit opts)) else None),
      rr_Ipv6AddressCount = (case co_Ipv6AddressCount opts of
         Some n \<Rightarrow> if n > 0 then Some n else None | None \<Rightarrow> None),
      rr_RamRoleName = nonempty_str (co_RAMRoleName opts),
      rr_HttpEndpoint = None, rr_HttpTokens = None, rr_HttpPutResponseHopLimit = None,
      rr_SystemDisk = \<lparr>rsd_Category = [], rsd_Size = [], rsd_PerformanceLevel = None,
                       rsd_Encrypted = None, rsd_KMSKeyId = None\<rparr>,
      rr_DataDisk = [], rr_UserData = None, rr_Tag = []\<rparr>"

definition nonempty_opt :: "string option \<Rightarrow> string option" where
  "nonempty_opt so = (case so of Some s \<Rightarrow> nonempty_str s | None \<Rightarrow> None)"

definition applyMetadataOptions :: "RunInstancesReq \<Rightarrow> InstMetadataOptions option \<Rightarrow> RunInstancesReq" where
  "applyMetadataOptions req opts = (case opts of None \<Rightarrow> req
   | Some m \<Rightarrow>
       (let req = (case nonempty_opt (imo_HttpEndpoint m) of Some e \<Rightarrow> req\<lparr>rr_HttpEndpoint := Some e\<rparr> | None \<Rightarrow> req);
            req = (case nonempty_opt (imo_HttpTokens m) of Some t \<Rightarrow> req\<lparr>rr_HttpTokens := Some t\<rparr> | None \<Rightarrow> req)
        in case imo_HttpPutResponseHopLimit m of
             Some h \<Rightarrow> req\<lparr>rr_HttpPutResponseHopLimit := Some h\<rparr> | None \<Rightarrow> req))"

definition request_performance_level :: "string \<Rightarrow> string \<Rightarrow> string option" where
  "request_performance_level category pl =
     (if category = ''cloud_essd'' then Some (if pl = '''' then ''PL0'' else pl) else None)"

definition request_system_disk :: "InstSystemDisk \<Rightarrow> RunSystemDiskReq" where
  "request_system_disk d =
     \<lparr>rsd_Category = isd_Category d, rsd_Size = itoa (isd_Size d),
      rsd_PerformanceLevel = request_performance_level (isd_Category d) (isd_PerformanceLevel d),
      rsd_Encrypted = (if boolValue (isd_Encrypted d) then Some ''true'' else None),
      rsd_KMSKeyId = (if boolValue (isd_Encrypted d) then nonempty_str (isd_KMSKeyID d) else None)\<rparr>"

definition request_data_disk :: "InstDataDisk \<Rightarrow> RunDataDiskReq" where
  "request_data_disk d =
     \<lparr>rdd_Category = idd_Category d, rdd_Size = idd_Size d, rdd_Device = nonempty_str (idd_Device d),
      rdd_PerformanceLevel = request_performance_level (idd_Category d) (idd_PerformanceLevel d),
      rdd_Encrypted = (if boolValue (idd_Encrypted d) then Some ''true'' else None),
      rdd_KMSKeyId = (if boolValue (idd_Encrypted d) then nonempty_str (idd_KMSKeyID d) else None),
      rdd_SnapshotId = nonempty_str (idd_SnapshotID d),
      rdd_DeleteWithInstance = (if idd_DeleteWithInstance d = Some False then Some False else None)\<rparr>"

text \<open>The first batch of tags goes into the request, the others are applied after the creation.\<close>

definition first_tag_batch :: "gomap \<Rightarrow> gomap" where
  "first_tag_batch tags = (case BatchTags tags of b # bs \<Rightarrow> b | [] \<Rightarrow> [])"

definition deferredTagBatches :: "gomap \<Rightarrow> gomap list" where
  "deferredTagBatches tags = (if tags = [] then [] else drop 1 (BatchTags tags))"

definition create_request :: "string \<Rightarrow> CreateOptions \<Rightarrow> string list \<Rightarrow> RunInstancesReq" where
  "create_request region opts sgs =
     (applyMetadataOptions (empty_run_request region opts sgs) (co_MetadataOptions opts))
       \<lparr>rr_SystemDisk := request_system_disk (co_SystemDisk opts),
        rr_DataDisk := List.map request_data_disk (co_DataDisks opts),
        rr_UserData := (if co_UserData opts \<noteq> '''' then Some (base64_encode (co_UserData opts)) else None),
        rr_Tag := (if co_Tags opts = [] then [] else first_tag_batch (co_Tags opts))\<rparr>"

text \<open>The entries of a tag map, in the order in which the loop over it visits them.\<close>

definition convertToTagResourcesRequestTags :: "gomap \<Rightarrow> gomap" where
  "convertToTagResourcesRequestTags tags = List.map (\<lambda>(k, v). (k, v)) tags"

definition tag_request :: "string \<Rightarrow> string \<Rightarrow> gomap \<Rightarrow> TagReq" where
  "tag_request region instanceID batch =
     \<lparr>tr_RegionId = region, tr_ResourceType = ''instance'', tr_ResourceId = [instanceID],
      tr_Tag = convertToTagResourcesRequestTags batch\<rparr>"

fun tag_loop :: "'w EcsApi \<Rightarrow> string \<Rightarrow> string \<Rightarrow> nat \<Rightarrow> nat \<Rightarrow> gomap list \<Rightarrow> 'w \<Rightarrow> string option \<times> 'w" where
  "tag_loop api region instanceID i n [] w = (None, w)"
| "tag_loop api region instanceID i n (batch # rest) w =
     (case TagResources api (tag_request region instanceID batch) w of
        (Some err, w') \<Rightarrow> (Some (''failed to tag instance '' @ instanceID @ '' (batch '' @ itoa (int i + 1) @
            ''/'' @ itoa (int n) @ ''): '' @ err), w')
      | (None, w') \<Rightarrow> tag_loop api region instanceID (i + 1) n rest w')"

definition TagInstance :: "'w EcsApi \<Rightarrow> string \<Rightarrow> string \<Rightarrow> gomap \<Rightarrow> 'w \<Rightarrow> string option \<times> 'w" where
  "TagInstance api region instanceID tags w =
     (if tags = [] then (None, w)
      else let batches = BatchTags tags in
        tag_loop api region instanceID 0 (length batches) batches w)"

text \<open>Errors of the deferred batches are logged and forgotten.\<close>

fun apply_deferred :: "'w EcsApi \<Rightarrow> string \<Rightarrow> string \<Rightarrow> gomap list \<Rightarrow> 'w \<Rightarrow> 'w" where
  "apply_deferred api region instanceID [] w = w"
| "apply_deferred api region instanceID (batch # rest) w =
     (let (err, w') = TagInstance api region instanceID batch w in
      apply_deferred api region instanceID rest w')"

definition CreateInst :: "'w EcsApi \<Rightarrow> string \<Rightarrow> CreateOptions \<Rightarrow> 'w \<Rightarrow> (string + string) \<times> 'w" where
  "CreateInst api region opts w =
     (let securityGroupIDs = NormalizeIDs (co_SecurityGroupIDs opts) in
      if securityGroupIDs = [] then (Inl ''at least one security group ID is required'', w)
      else if '''' \<in> set securityGroupIDs then (Inl ''security group ID cannot be empty'', w)
      else case RunInstances api (create_request region opts securityGroupIDs) w of
        (Inl err, w1) \<Rightarrow> (Inl (''failed to create instance: '' @ err), w1)
      | (Inr response, w1) \<Rightarrow> (case response of
            None \<Rightarrow> (Inl ''no instance ID returned from ECS API'', w1)
          | Some [] \<Rightarrow> (Inl ''no instance ID returned from ECS API'', w1)
          | Some (None # ids) \<Rightarrow> (Inl ''instance ID is nil in ECS API response'', w1)
          | Some (Some instanceID # ids) \<Rightarrow>
              (Inr instanceID, apply_deferred api region instanceID (deferredTagBatches (co_Tags opts)) w1)))"

section \<open>The cache of instances\<close>

definition cacheTTL :: int where "cacheTTL = 30 * second_ns"

definition getCachedInstance :: "string \<Rightarrow> time_ns \<Rightarrow> Instance cache \<Rightarrow> Instance option \<times> Instance cache" where
  "getCachedInstance instanceID now c = getCachedValue instanceID now now c"

definition setCachedInstance :: "string \<Rightarrow> Instance \<Rightarrow> time_ns \<Rightarrow> Instance cache \<Rightarrow> Instance cache" where
  "setCachedInstance instanceID i now c = setCachedValue instanceID i cacheTTL now c"

definition deleteCachedInstance :: "string \<Rightarrow> Instance cache \<Rightarrow> Instance cache" where
  "deleteCachedInstance instanceID c = deleteCached instanceID c"

section \<open>Describing\<close>

definition quoted_ids :: "string list \<Rightarrow> string" where
  "quoted_ids ids = ''['' @ [CHR 0x22] @ join_with ([CHR 0x22] @ '','' @ [CHR 0x22]) ids @ [CHR 0x22] @ '']''"

definition describe_request :: "string \<Rightarrow> string list \<Rightarrow> DescribeReq" where
  "describe_request region ids = \<lparr>dr_RegionId = region, dr_InstanceIds = Some (quoted_ids ids), dr_Tag = [],
     dr_PageNumber = None, dr_PageSize = None\<rparr>"

definition describe_not_found :: "string \<Rightarrow> bool" where
  "describe_not_found err \<longleftrightarrow> contains_str err ''InvalidInstanceId.NotFound'' \<or>
     contains_str err ''InstanceNotFound'' \<or> contains_str err ''not found''"

text \<open>Without IDs the debug output dereferences the nil field of the request.\<close>

definition describeInstances :: "'w EcsApi \<Rightarrow> string \<Rightarrow> string list \<Rightarrow> 'w \<Rightarrow> (kerr + DescribeBody option) \<times> 'w" where
  "describeInstances api region instanceIDs w =
     (if instanceIDs = [] then (Inl GoPanic, w)
      else case DescribeInstances api (describe_request region instanceIDs) w of
        (Inl err, w') \<Rightarrow>
          (if describe_not_found err
           then (Inl (NotFoundError (Wrapped (''instances '' @ show_strings instanceIDs @ '' not found: '') (Msg err))), w')
           else (Inl (Wrapped (''failed to describe instances '' @ show_strings instanceIDs @ '': '') (Msg err)), w'))
      | (Inr response, w') \<Rightarrow> (Inr response, w'))"

fun convertTags_loop :: "(string option \<times> string option) list \<Rightarrow> gomap \<Rightarrow> gomap" where
  "convertTags_loop [] tags = tags"
| "convertTags_loop ((Some k, Some v) # rest) tags = convertTags_loop rest (AList.update k v tags)"
| "convertTags_loop (_ # rest) tags = convertTags_loop rest tags"

definition convertTags :: "(string option \<times> string option) list option \<Rightarrow> gomap" where
  "convertTags resp = (case resp of None \<Rightarrow> [] | Some ts \<Rightarrow> convertTags_loop ts [])"

definition present_ids :: "string option list option \<Rightarrow> string list" where
  "present_ids sgs = (case sgs of None \<Rightarrow> [] | Some l \<Rightarrow> List.map_filter (\<lambda>s. s) l)"

text \<open>The memory comes in MiB and is kept in whole GiB.\<close>

definition instance_memory :: "int \<Rightarrow> int" where
  "instance_memory mib = go_div mib 1024 * 2 ^ 30"

definition convert_instance :: "EcsInstance \<Rightarrow> int \<Rightarrow> int \<Rightarrow> Instance" where
  "convert_instance inst cpu mem =
     \<lparr>ins_InstanceID = derefString (ei_InstanceId inst), ins_Region = derefString (ei_RegionId inst),
      ins_Zone = derefString (ei_ZoneId inst), ins_InstanceType = derefString (ei_InstanceType inst),
      ins_ImageID = derefString (ei_ImageId inst), ins_CPU = cpu, ins_Memory = instance_memory mem,
      ins_Storage = 0, ins_GPU = or_else (ei_GPUAmount inst) 0, ins_GPUMem = 0,
      ins_GPUSpec = or_else (ei_GPUSpec inst) [],
      ins_Architecture = ArchitectureFromInstanceType (derefString (ei_InstanceType inst)),
      ins_Status = derefString (ei_Status inst), ins_CreationTime = derefString (ei_CreationTime inst),
      ins_Tags = convertTags (ei_Tags inst),
      ins_CapacityType = CapacityTypeFromInstance (derefString (ei_InstanceChargeType inst))
        (derefString (ei_SpotStrategy inst)),
      ins_SecurityGroupIDs = present_ids (ei_SecurityGroupIds inst),
      ins_VSwitchID = or_else (ei_VSwitchId inst) []\<rparr>"

text \<open>
  The look-up dereferences these fields, among them, for the debug output, the
  counters of the page.
\<close>

definition get_fields_present :: "EcsInstance \<Rightarrow> bool" where
  "get_fields_present inst \<longleftrightarrow> ei_InstanceId inst \<noteq> None \<and> ei_Status inst \<noteq> None \<and> ei_ZoneId inst \<noteq> None \<and>
     ei_InstanceType inst \<noteq> None \<and> ei_Cpu inst \<noteq> None \<and> ei_Memory inst \<noteq> None \<and> ei_RegionId inst \<noteq> None \<and>
     ei_ImageId inst \<noteq> None \<and> ei_CreationTime inst \<noteq> None"

definition get_result :: "string \<Rightarrow> DescribeBody option \<Rightarrow> kerr + Instance" where
  "get_result instanceID response = (case response of None \<Rightarrow> Inl GoPanic
   | Some body \<Rightarrow> (case db_Instances body of None \<Rightarrow> Inl GoPanic
     | Some insts \<Rightarrow>
         if db_TotalCount body = None \<or> db_PageNumber body = None \<or> db_PageSize body = None then Inl GoPanic
         else (case insts of
             [] \<Rightarrow> Inl (NodeClaimNotFoundError (Msg (''instance '' @ instanceID @ '' not found'')))
           | None # rest \<Rightarrow> Inl GoPanic
           | Some inst # rest \<Rightarrow>
               if \<not> get_fields_present inst then Inl GoPanic
               else Inr (convert_instance inst (the (ei_Cpu inst)) (the (ei_Memory inst))))))"

text \<open>
  The batcher runs describeInstances for the one ID; its error is wrapped, the
  batcher itself never looks at it.
\<close>

definition describe_fn :: "'w EcsApi \<Rightarrow> string \<Rightarrow> string list \<Rightarrow> ('w, DescribeBody option) call" where
  "describe_fn api region ids w = (case describeInstances api region ids w of
     (Inl e, w') \<Rightarrow> (Inl (err_text e), w') | (Inr r, w') \<Rightarrow> (Inr r, w'))"

definition GetInst :: "('w, DescribeBody option) flight \<Rightarrow> 'w EcsApi \<Rightarrow> string \<Rightarrow> string \<Rightarrow> bool \<Rightarrow>
    Instance cache \<Rightarrow> 'w \<Rightarrow> (kerr + Instance) \<times> Instance cache \<times> 'w" where
  "GetInst group_do api region instanceID skipCache c w =
     (case (if skipCache then (None, c) else getCachedInstance instanceID (clk api w) c) of
        (Some i, c1) \<Rightarrow> (Inr i, c1, w)
      | (None, c1) \<Rightarrow>
          (case BatchDescribeInstances group_do [instanceID] (describe_fn api region) w of
             (Inl err, w1) \<Rightarrow> (Inl (Wrapped ''fail to describe instances: '' (Msg err)), c1, w1)
           | (Inr [], w1) \<Rightarrow> (Inl (Msg (''invalid batch results for instance '' @ instanceID)), c1, w1)
           | (Inr (response # _), w1) \<Rightarrow>
               (case get_result instanceID response of
                  Inl e \<Rightarrow> (Inl e, if is_nodeclaim_notfound e then deleteCachedInstance instanceID c1 else c1, w1)
                | Inr i \<Rightarrow> (Inr i, setCachedInstance instanceID i (clk api w1) c1, w1))))"

section \<open>Deletion\<close>

definition delete_not_found :: "string \<Rightarrow> bool" where
  "delete_not_found err \<longleftrightarrow> IsNotFound (Some err) \<or> contains_str err ''InvalidInstanceId.NotFound'' \<or>
     contains_str err ''InstanceNotFound''"

definition no_instances :: "DescribeBody option \<Rightarrow> bool" where
  "no_instances resp = (case resp of None \<Rightarrow> True
   | Some body \<Rightarrow> db_Instances body = None \<or> db_Instances body = Some [])"

text \<open>The debug output of an instance that still exists dereferences its status.\<close>

definition status_present :: "DescribeBody option \<Rightarrow> bool" where
  "status_present resp = (case resp of Some body \<Rightarrow> (case db_Instances body of
     Some (Some inst # _) \<Rightarrow> ei_Status inst \<noteq> None | _ \<Rightarrow> False) | None \<Rightarrow> False)"

definition gone_error :: "string \<Rightarrow> kerr" where
  "gone_error instanceID =
     NodeClaimNotFoundError (Msg (''instance '' @ instanceID @ '' not found after deletion''))"

definition DeleteInst :: "'w EcsApi \<Rightarrow> string \<Rightarrow> string \<Rightarrow> Instance cache \<Rightarrow> 'w \<Rightarrow>
    kerr option \<times> Instance cache \<times> 'w" where
  "DeleteInst api region instanceID c w =
     (case DeleteInstances api region [instanceID] True w of
        (Some err, w1) \<Rightarrow>
          (if delete_not_found err
           then (Some (NodeClaimNotFoundError (Wrapped ''instance delete with err '' (Msg err))), c, w1)
           else if contains_str err ''IncorrectInstanceStatus.Initializing'' then (None, c, w1)
           else (Some (Wrapped ''delete instance failed: '' (Msg err)), c, w1))
      | (None, w1) \<Rightarrow>
          (let c1 = deleteCachedInstance instanceID c in
           case describeInstances api region [instanceID] w1 of
             (Inl descErr, w2) \<Rightarrow>
               (if IsNotFoundError descErr then (Some (gone_error instanceID), c1, w2) else (None, c1, w2))
           | (Inr descResp, w2) \<Rightarrow>
               (if no_instances descResp then (Some (gone_error instanceID), c1, w2)
                else if status_present descResp then (None, c1, w2) else (Some GoPanic, c1, w2))))"

section \<open>Listing\<close>

definition page_size :: int where "page_size = 100"

definition list_request :: "string \<Rightarrow> gomap \<Rightarrow> int \<Rightarrow> DescribeReq" where
  "list_request region tags pageNumber = \<lparr>dr_RegionId = region, dr_InstanceIds = None, dr_Tag = tags,
     dr_PageNumber = Some pageNumber, dr_PageSize = Some page_size\<rparr>"

text \<open>One page: instances without CPU or memory are skipped; a nil instance panics.\<close>

fun list_page :: "EcsInstance option list \<Rightarrow> time_ns \<Rightarrow> Instance list \<Rightarrow> Instance cache \<Rightarrow>
    (Instance list \<times> Instance cache) option" where
  "list_page [] now acc c = Some (acc, c)"
| "list_page (None # rest) now acc c = None"
| "list_page (Some inst # rest) now acc c =
     (case (ei_Cpu inst, ei_Memory inst) of
        (Some cpu, Some mem) \<Rightarrow>
          (let i = convert_instance inst cpu mem in
           list_page rest now (acc @ [i])
             (case ei_InstanceId inst of Some id' \<Rightarrow> setCachedInstance id' i now c | None \<Rightarrow> c))
      | _ \<Rightarrow> list_page rest now acc c)"

definition last_page :: "int \<Rightarrow> int \<Rightarrow> bool" where
  "last_page pageNumber totalCount \<longleftrightarrow> wrap32 (pageNumber * 100) \<ge> totalCount"

text \<open>The result None is a loop that does not end.\<close>

partial_function (option) list_loop :: "'w EcsApi \<Rightarrow> string \<Rightarrow> gomap \<Rightarrow> int \<Rightarrow> Instance list \<Rightarrow>
    Instance cache \<Rightarrow> 'w \<Rightarrow> ((kerr + Instance list) \<times> Instance cache \<times> 'w) option" where
  "list_loop api region tags pageNumber acc c w =
     (case DescribeInstances api (list_request region tags pageNumber) w of
        (Inl err, w1) \<Rightarrow> Some (Inl (Wrapped ''failed to list instances: '' (Msg err)), c, w1)
      | (Inr None, w1) \<Rightarrow> Some (Inl (Msg ''invalid response from ECS API''), c, w1)
      | (Inr (Some body), w1) \<Rightarrow> (case db_Instances body of
            None \<Rightarrow> Some (Inl (Msg ''invalid response from ECS API''), c, w1)
          | Some insts \<Rightarrow> (case list_page insts (clk api w1) acc c of
                None \<Rightarrow> Some (Inl GoPanic, c, w1)
              | Some (acc1, c1) \<Rightarrow>
                  (if last_page pageNumber (or_else (db_TotalCount body) 0) then Some (Inr acc1, c1, w1)
                   else list_loop api region tags (wrap32 (pageNumber + 1)) acc1 c1 w1))))"

definition ListInst :: "'w EcsApi \<Rightarrow> string \<Rightarrow> gomap \<Rightarrow> Instance cache \<Rightarrow> 'w \<Rightarrow>
    ((kerr + Instance list) \<times> Instance cache \<times> 'w) option" where
  "ListInst api region tags c w = list_loop api region tags 1 [] c w"

section \<open>Recording the calls\<close>

text \<open>
  A client whose state is the list of the calls so far and whose answers are
  any functions of the call and of that list.
\<close>

datatype api_event =
    EvRun RunInstancesReq
  | EvDescribe DescribeReq
  | EvDelete "string list"
  | EvTag TagReq

record api_answers =
  ans_run :: "RunInstancesReq \<Rightarrow> api_event list \<Rightarrow> string + string option list option"
  ans_describe :: "DescribeReq \<Rightarrow> api_event list \<Rightarrow> string + DescribeBody option"
  ans_delete :: "string list \<Rightarrow> api_event list \<Rightarrow> string option"
  ans_tag :: "TagReq \<Rightarrow> api_event list \<Rightarrow> string option"
  ans_clk :: "api_event list \<Rightarrow> time_ns"

definition recording :: "api_answers \<Rightarrow> api_event list EcsApi" where
  "recording a = \<lparr>RunInstances = (\<lambda>r w. (ans_run a r w, w @ [EvRun r])),
     DescribeInstances = (\<lambda>r w. (ans_describe a r w, w @ [EvDescribe r])),
     DeleteInstances = (\<lambda>region ids force w. (ans_delete a ids w, w @ [EvDelete ids])),
     TagResources = (\<lambda>r w. (ans_tag a r w, w @ [EvTag r])),
     clk = ans_clk a\<rparr>"

lemma recording_simps [simp]:
  "RunInstances (recording a) r w = (ans_run a r w, w @ [EvRun r])"
  "DescribeInstances (recording a) q w = (ans_describe a q w, w @ [EvDescribe q])"
  "DeleteInstances (recording a) region ids force w = (ans_delete a ids w, w @ [EvDelete ids])"
  "TagResources (recording a) t w = (ans_tag a t w, w @ [EvTag t])"
  by (simp_all add: recording_def)

section \<open>Tagging\<close>

lemma convert_request_tags_id [simp]: "convertToTagResourcesRequestTags tags = tags"
  by (simp add: convertToTagResourcesRequestTags_def)

lemma tag_loop_recorded:
  "tag_loop (recording a) region instanceID i n bs w = (err, w') \<Longrightarrow>
     \<exists>k \<le> length bs. w' = w @ List.map (EvTag \<circ> tag_request region instanceID) (take k bs) \<and>
       (if err = None then k = length bs
        else \<exists>j m. k = Suc j \<and> ans_tag a (tag_request region instanceID (bs ! j))
               (w @ List.map (EvTag \<circ> tag_request region instanceID) (take j bs)) = Some m)"
proof (induction bs arbitrary: i w)
  case (Cons b bs)
  show ?case
  proof (cases "ans_tag a (tag_request region instanceID b) w")
    case (Some m)
    with Cons.prems show ?thesis by (intro exI [of _ 1]) auto
  next
    case None
    from Cons.IH [of "i + 1" "w @ [EvTag (tag_request region instanceID b)]"] Cons.prems None
    obtain k where k: "k \<le> length bs"
      "w' = (w @ [EvTag (tag_request region instanceID b)]) @
              List.map (EvTag \<circ> tag_request region instanceID) (take k bs)"
      "if err = None then k = length bs
        else \<exists>j m. k = Suc j \<and> ans_tag a (tag_request region instanceID (bs ! j))
               ((w @ [EvTag (tag_request region instanceID b)]) @
                List.map (EvTag \<circ> tag_request region instanceID) (take j bs)) = Some m"
      by auto
    show ?thesis
    proof (intro exI [of _ "Suc k"] conjI)
      show "if err = None then Suc k = length (b # bs) else
          \<exists>j m. Suc k = Suc j \<and> ans_tag a (tag_request region instanceID ((b # bs) ! j))
               (w @ List.map (EvTag \<circ> tag_request region instanceID) (take j (b # bs))) = Some m"
        using k(3) by (auto split: if_splits)
    qed (use k in auto)
  qed
qed simp

lemma BatchTags_Nil [simp]: "BatchTags [] = []"
  by (simp add: BatchTags_def)

lemma TagInstance_recorded:
  assumes "TagInstance (recording a) region instanceID tags w = (err, w')"
  shows "\<exists>k \<le> length (BatchTags tags).
       w' = w @ List.map (EvTag \<circ> tag_request region instanceID) (take k (BatchTags tags)) \<and>
       (if err = None then k = length (BatchTags tags)
        else \<exists>j m. k = Suc j \<and> ans_tag a (tag_request region instanceID (BatchTags tags ! j))
               (w @ List.map (EvTag \<circ> tag_request region instanceID) (take j (BatchTags tags))) = Some m)"
  using assms tag_loop_recorded by (cases "tags = []") (auto simp: TagInstance_def Let_def)

text \<open>A batch is not split again.\<close>

lemma map_lookup_id: "wf_map m \<Longrightarrow> List.map (\<lambda>k. (k, or_else (map_of m k) d)) (List.map fst m) = m"
  by (induction m) (auto simp: wf_map_def image_iff or_else_def intro!: map_idI)

lemma chunks_short: "xs \<noteq> [] \<Longrightarrow> length xs \<le> Suc n \<Longrightarrow> chunks n xs = [xs]"
  by (subst chunks.simps) simp

lemma BatchTags_batch:
  assumes "b \<noteq> []" "length b \<le> MaxTagsPerRequest" "wf_map b" "sorted (List.map fst b)"
  shows "BatchTags b = [b]"
proof -
  have "sort (List.map fst b) = List.map fst b"
    using assms(4) by (simp add: sorted_sort_id)
  moreover have "chunks (MaxTagsPerRequest - 1) (List.map fst b) = [List.map fst b]"
    using assms(1,2) by (intro chunks_short) (auto simp: MaxTagsPerRequest_def)
  ultimately show ?thesis using map_lookup_id [OF assms(3)] by (simp add: BatchTags_def)
qed

lemma sorted_concat_part: "sorted (concat xss) \<Longrightarrow> xs \<in> set xss \<Longrightarrow> sorted xs"
  by (induction xss) (auto simp: sorted_append)

lemma distinct_concat_part: "distinct (concat xss) \<Longrightarrow> xs \<in> set xss \<Longrightarrow> distinct xs"
  by (induction xss) auto

lemma BatchTags_member:
  assumes "wf_map tags" "b \<in> set (BatchTags tags)"
  shows "b \<noteq> []" "length b \<le> MaxTagsPerRequest" "wf_map b" "sorted (List.map fst b)"
proof -
  let ?ks = "chunks (MaxTagsPerRequest - 1) (sort (List.map fst tags))"
  obtain ks where ks: "ks \<in> set ?ks" "b = List.map (\<lambda>k. (k, or_else (map_of tags k) '''')) ks"
    using assms(2) by (auto simp: BatchTags_def Let_def)
  have "List.map fst b = ks" by (simp add: ks(2) comp_def)
  moreover have "distinct (concat ?ks)" "sorted (concat ?ks)"
    using assms(1) by (simp_all add: wf_map_def)
  ultimately show "wf_map b" "sorted (List.map fst b)"
    using ks(1) distinct_concat_part sorted_concat_part unfolding wf_map_def by metis+
  from chunks_size [OF ks(1)] show "b \<noteq> []" "length b \<le> MaxTagsPerRequest"
    by (auto simp: ks(2) MaxTagsPerRequest_def)
qed

lemma apply_deferred_recorded:
  "(\<And>b. b \<in> set bs \<Longrightarrow> BatchTags b = [b]) \<Longrightarrow>
   apply_deferred (recording a) region instanceID bs w =
     w @ List.map (EvTag \<circ> tag_request region instanceID) bs"
proof (induction bs arbitrary: w)
  case (Cons b bs)
  obtain err w' where t: "TagInstance (recording a) region instanceID b w = (err, w')"
    by (metis surj_pair)
  have "b \<noteq> []" using Cons.prems [of b] by auto
  then have "w' = w @ [EvTag (tag_request region instanceID b)]"
    using t Cons.prems [of b]
    by (auto simp: TagInstance_def split: option.splits)
  with Cons show ?case by (simp add: t)
qed simp

lemma deferred_batches:
  assumes "wf_map tags" "b \<in> set (deferredTagBatches tags)"
  shows "BatchTags b = [b]" "length b \<le> MaxTagsPerRequest"
proof -
  have "b \<in> set (BatchTags tags)"
    using assms(2) by (auto simp: deferredTagBatches_def split: if_splits dest: in_set_dropD)
  note BatchTags_member [OF assms(1) this]
  then show "BatchTags b = [b]" "length b \<le> MaxTagsPerRequest"
    by (simp_all add: BatchTags_batch)
qed

lemma request_tags [simp]:
  "rr_Tag (create_request region opts sgs) = first_tag_batch (co_Tags opts)"
  "rr_SecurityGroupIds (create_request region opts sgs) = sgs"
  by (cases "co_MetadataOptions opts")
     (auto simp: create_request_def applyMetadataOptions_def empty_run_request_def first_tag_batch_def
       Let_def split: option.splits)

lemma first_and_deferred:
  "first_tag_batch tags @ concat (deferredTagBatches tags) = concat (BatchTags tags)"
  by (cases "BatchTags tags") (auto simp: first_tag_batch_def deferredTagBatches_def)

lemma first_batch_length: "wf_map tags \<Longrightarrow> length (first_tag_batch tags) \<le> MaxTagsPerRequest"
  using BatchTags_member(2) [of tags] by (cases "BatchTags tags") (auto simp: first_tag_batch_def)

lemma CreateInst_success:
  assumes "wf_map (co_Tags opts)" "CreateInst (recording a) region opts w = (Inr instanceID, w')"
  shows "NormalizeIDs (co_SecurityGroupIDs opts) \<noteq> []" "'''' \<notin> set (NormalizeIDs (co_SecurityGroupIDs opts))"
    "w' = w @ EvRun (create_request region opts (NormalizeIDs (co_SecurityGroupIDs opts)))
             # List.map (EvTag \<circ> tag_request region instanceID) (deferredTagBatches (co_Tags opts))"
  using assms deferred_batches(1) [OF assms(1)]
  by (auto simp: CreateInst_def Let_def apply_deferred_recorded split: if_splits sum.splits option.splits list.splits)

section \<open>Properties\<close>

text \<open>
  C14: Creating an instance loses no tag.  When Create returns an
  instance ID, the provider has made one RunInstances call, whose security groups are
  the deduplicated, sorted, non-empty IDs of the options, followed by TagResources calls for
  exactly that instance; every call carries at most 20 tags, no key is sent
  twice, and together they carry exactly the tags of the options - also when
  calls after the first fail.
\<close>
theorem Create_sends_every_tag:
  assumes "wf_map (co_Tags opts)"
    and "CreateInst (recording a) region opts w = (Inr instanceID, w')"
  shows "\<exists>req reqs. w' = w @ EvRun req # List.map EvTag reqs \<and>
     sorted (rr_SecurityGroupIds req) \<and> distinct (rr_SecurityGroupIds req) \<and>
     rr_SecurityGroupIds req \<noteq> [] \<and> '''' \<notin> set (rr_SecurityGroupIds req) \<and>
     (\<forall>r \<in> set reqs. tr_ResourceId r = [instanceID] \<and> length (tr_Tag r) \<le> MaxTagsPerRequest) \<and>
     length (rr_Tag req) \<le> MaxTagsPerRequest \<and>
     distinct (List.map fst (rr_Tag req @ concat (List.map tr_Tag reqs))) \<and>
     map_of (rr_Tag req @ concat (List.map tr_Tag reqs)) = map_of (co_Tags opts)"
proof -
  let ?req = "create_request region opts (NormalizeIDs (co_SecurityGroupIDs opts))"
  let ?reqs = "List.map (tag_request region instanceID) (deferredTagBatches (co_Tags opts))"
  note s = CreateInst_success [OF assms]
  have tags: "rr_Tag ?req @ concat (List.map tr_Tag ?reqs) = concat (BatchTags (co_Tags opts))"
    using first_and_deferred [of "co_Tags opts"] by (simp add: tag_request_def comp_def)
  show ?thesis
  proof (intro exI [of _ ?req] exI [of _ ?reqs] conjI)
    show "w' = w @ EvRun ?req # List.map EvTag ?reqs" using s(3) by simp
    show "\<forall>r \<in> set ?reqs. tr_ResourceId r = [instanceID] \<and> length (tr_Tag r) \<le> MaxTagsPerRequest"
      using deferred_batches(2) [OF assms(1)] by (auto simp: tag_request_def)
    show "length (rr_Tag ?req) \<le> MaxTagsPerRequest" using first_batch_length [OF assms(1)] by simp
    show "distinct (List.map fst (rr_Tag ?req @ concat (List.map tr_Tag ?reqs)))"
      unfolding tags by (rule distinct_BatchTags [OF assms(1)])
    show "map_of (rr_Tag ?req @ concat (List.map tr_Tag ?reqs)) = map_of (co_Tags opts)"
      unfolding tags by (rule map_of_concat_BatchTags)
  qed (use s(1,2) in \<open>simp_all add: NormalizeIDs_def sorted_sort_dedup\<close>)
qed

definition sample_options :: CreateOptions where
  "sample_options = \<lparr>co_InstanceType = ''ecs.g6.large'', co_ImageID = ''m-1'', co_VSwitchID = ''vsw-1'',
     co_SecurityGroupIDs = [''sg-2'', ''sg-1'', ''sg-2''], co_UserData = [],
     co_Tags = [(''b'', ''2''), (''a'', ''1'')],
     co_SystemDisk = \<lparr>isd_Category = ''cloud_essd'', isd_Size = 40, isd_PerformanceLevel = [],
       isd_Encrypted = None, isd_KMSKeyID = []\<rparr>,
     co_DataDisks = [], co_SpotStrategy = [], co_SpotPriceLimit = 0, co_RAMRoleName = [],
     co_MetadataOptions = None, co_InstanceStorePolicy = None, co_Ipv6AddressCount = None\<rparr>"

definition sample_answers :: "(TagReq \<Rightarrow> api_event list \<Rightarrow> string option) \<Rightarrow> api_answers" where
  "sample_answers tagf = \<lparr>ans_run = (\<lambda>r w. Inr (Some [Some ''i-1''])), ans_describe = (\<lambda>r w. Inl ''no''),
     ans_delete = (\<lambda>r w. None), ans_tag = tagf, ans_clk = (\<lambda>w. 0)\<rparr>"

theorem Create_sends_every_tag_witness:
  "\<exists>w' req reqs. CreateInst (recording (sample_answers (\<lambda>r w. Some ''Throttling''))) ''cn-a'' sample_options [] =
       (Inr ''i-1'', w') \<and> w' = EvRun req # List.map EvTag reqs \<and>
     map_of (rr_Tag req @ concat (List.map tr_Tag reqs)) = map_of [(''b'', ''2''), (''a'', ''1'')]"
proof -
  let ?a = "sample_answers (\<lambda>r w. Some ''Throttling'')"
  obtain r w' where c: "CreateInst (recording ?a) ''cn-a'' sample_options [] = (r, w')"
    by (metis surj_pair)
  have "NormalizeIDs (co_SecurityGroupIDs sample_options) \<noteq> []"
    "'''' \<notin> set (NormalizeIDs (co_SecurityGroupIDs sample_options))"
    by (simp_all add: NormalizeIDs_def sample_options_def)
  with c have r: "r = Inr ''i-1''" by (simp add: CreateInst_def sample_answers_def Let_def)
  have wf: "wf_map (co_Tags sample_options)" by (simp add: sample_options_def wf_map_def)
  from Create_sends_every_tag [OF wf c [unfolded r]] c r show ?thesis
    by (auto simp: sample_options_def)
qed

text \<open>
  TagInstance sends the batches of the tags in order, each for the one
  instance, and stops at the first that fails: it returns nil exactly when
  all batches were sent and answered, otherwise the last call sent is the one
  the API refused.
\<close>
theorem TagInstance_stops_at_error:
  "\<exists>k err. TagInstance (recording a) region instanceID tags w =
       (err, w @ List.map (EvTag \<circ> tag_request region instanceID) (take k (BatchTags tags))) \<and>
     k \<le> length (BatchTags tags) \<and>
     (if err = None then k = length (BatchTags tags)
      else \<exists>j m. k = Suc j \<and> ans_tag a (tag_request region instanceID (BatchTags tags ! j))
             (w @ List.map (EvTag \<circ> tag_request region instanceID) (take j (BatchTags tags))) = Some m)"
proof -
  obtain err w' where t: "TagInstance (recording a) region instanceID tags w = (err, w')"
    by (metis surj_pair)
  from TagInstance_recorded [OF t] t show ?thesis by auto
qed


lemma BatchDescribeInstances_single:
  "BatchDescribeInstances group_do [i] fn w =
     (case group_do (''describe-instances-'' @ show_strings [i]) (fn [i]) w of
        (Inl e, w') \<Rightarrow> (Inl e, w') | (Inr r, w') \<Rightarrow> (Inr [r], w'))"
  by (simp add: BatchDescribeInstances_def chunks_short Do_def split: prod.split sum.split)

lemma get_cached_hit:
  assumes "map_of c k = Some e" "t \<le> ExpiresAt e"
  shows "getCachedInstance k t c = (Some (Value e), c)"
  using assms by (simp add: getCachedInstance_def getCachedValue_def cache_read_def)

text \<open>
  A look-up that went to the API is served from the cache for thirty
  seconds: any later look-up of the same instance within that time returns the same
  instance and makes no call; after the thirty seconds, and after an accepted deletion,
  the look-up asks the API again.
\<close>
theorem Get_cached_for_ttl:
  assumes "GetInst group_do api region instanceID True c w = (Inr i, c1, w1)"
  shows "(if clk api w2 \<le> clk api w1 + cacheTTL
          then GetInst group_do api region instanceID False c1 w2 = (Inr i, c1, w2)
          else \<exists>c2. GetInst group_do api region instanceID False c1 w2 =
                 GetInst group_do api region instanceID True c2 w2) \<and>
     GetInst group_do api region instanceID False (deleteCachedInstance instanceID c1) w2 =
       GetInst group_do api region instanceID True (deleteCachedInstance instanceID c1) w2"
proof (intro conjI)
  have c1: "c1 = setCachedInstance instanceID i (clk api w1) c"
    using assms by (auto simp: GetInst_def split: prod.splits sum.splits list.splits)
  then have m: "map_of c1 instanceID = Some \<lparr>Value = i, ExpiresAt = clk api w1 + cacheTTL\<rparr>"
    by (simp add: setCachedInstance_def setCachedValue_def map_of_update)
  show "if clk api w2 \<le> clk api w1 + cacheTTL
          then GetInst group_do api region instanceID False c1 w2 = (Inr i, c1, w2)
          else \<exists>c2. GetInst group_do api region instanceID False c1 w2 =
                 GetInst group_do api region instanceID True c2 w2"
  proof (cases "clk api w2 \<le> clk api w1 + cacheTTL")
    case True
    with get_cached_hit [OF m] show ?thesis by (simp add: GetInst_def)
  next
    case False
    then have "getCachedInstance instanceID (clk api w2) c1 =
        (None, cache_evict instanceID (clk api w2) c1)"
      by (simp add: getCachedInstance_def getCachedValue_def cache_read_def m)
    with False show ?thesis
      by (intro if_not_P [THEN iffD2] exI [of _ "cache_evict instanceID (clk api w2) c1"])
         (auto simp: GetInst_def)
  qed
  have "map_of (deleteCachedInstance instanceID c1) instanceID = None"
    by (simp add: deleteCachedInstance_def deleteCached_def map_of_delete)
  then have "getCachedInstance instanceID (clk api w2) (deleteCachedInstance instanceID c1) =
      (None, deleteCachedInstance instanceID c1)"
    by (simp add: getCachedInstance_def getCachedValue_def cache_read_def)
  then show "GetInst group_do api region instanceID False (deleteCachedInstance instanceID c1) w2 =
       GetInst group_do api region instanceID True (deleteCachedInstance instanceID c1) w2"
    by (simp add: GetInst_def)
qed

definition sample_instance :: EcsInstance where
  "sample_instance = \<lparr>ei_InstanceId = Some ''i-1'', ei_RegionId = Some ''cn-a'', ei_ZoneId = Some ''cn-a-b'',
     ei_InstanceType = Some ''ecs.g6.large'', ei_ImageId = Some ''m-1'', ei_Cpu = Some 2, ei_Memory = Some 8192,
     ei_GPUAmount = None, ei_GPUSpec = None, ei_InstanceChargeType = Some ''PostPaid'', ei_SpotStrategy = None,
     ei_Status = Some ''Running'', ei_CreationTime = Some ''2024-01-01T00:00Z'', ei_SecurityGroupIds = None,
     ei_VSwitchId = Some ''vsw-1'', ei_Tags = None\<rparr>"

definition sample_describe :: "EcsInstance option list \<Rightarrow> api_answers" where
  "sample_describe insts = (sample_answers (\<lambda>r w. None))\<lparr>ans_describe := (\<lambda>r w.
     Inr (Some \<lparr>db_Instances = Some insts, db_TotalCount = Some (int (length insts)),
       db_PageNumber = Some 1, db_PageSize = Some 10\<rparr>))\<rparr>"

theorem Get_cached_for_ttl_witness:
  "\<exists>i c w. GetInst (\<lambda>key f. f) (recording (sample_describe [Some sample_instance])) ''cn-a'' ''i-1'' True [] [] =
       (Inr i, c, w) \<and> length w = 1 \<and> ins_CPU i = 2 \<and>
     GetInst (\<lambda>key f. f) (recording (sample_describe [Some sample_instance])) ''cn-a'' ''i-1'' False c w = (Inr i, c, w)"
proof -
  let ?api = "recording (sample_describe [Some sample_instance])"
  obtain r c w where g: "GetInst (\<lambda>key f. f) ?api ''cn-a'' ''i-1'' True [] [] = (r, c, w)"
    by (metis surj_pair)
  have clk: "clk ?api v = 0" for v
    by (simp add: recording_def sample_describe_def sample_answers_def)
  obtain i where r: "r = Inr i" "length w = 1" "ins_CPU i = 2"
    using g by (auto simp: GetInst_def BatchDescribeInstances_single describe_fn_def describeInstances_def
        sample_describe_def get_result_def get_fields_present_def sample_instance_def convert_instance_def)
  from Get_cached_for_ttl [OF g [unfolded r(1)], of w] g r show ?thesis
    by (auto simp: clk cacheTTL_def)
qed

section \<open>Pagination\<close>

text \<open>The instances that List reports: those with CPU and memory, in order.\<close>

definition listed :: "EcsInstance list \<Rightarrow> Instance list" where
  "listed insts = List.map_filter (\<lambda>inst. case (ei_Cpu inst, ei_Memory inst) of
     (Some cpu, Some mem) \<Rightarrow> Some (convert_instance inst cpu mem) | _ \<Rightarrow> None) insts"

lemma listed_simps [simp]:
  "listed [] = []"
  "listed (xs @ ys) = listed xs @ listed ys"
  by (simp_all add: listed_def List.map_filter_def)

lemma listed_Cons:
  "listed (inst # insts) = (case (ei_Cpu inst, ei_Memory inst) of
     (Some cpu, Some mem) \<Rightarrow> convert_instance inst cpu mem # listed insts | _ \<Rightarrow> listed insts)"
  by (simp add: listed_def List.map_filter_def split: option.split)

lemma list_page_listed:
  "\<exists>c'. list_page (List.map Some insts) now acc c = Some (acc @ listed insts, c')"
proof (induction insts arbitrary: acc c)
  case (Cons inst insts)
  show ?case
    using Cons.IH [of "acc @ [convert_instance inst (the (ei_Cpu inst)) (the (ei_Memory inst))]"] Cons.IH [of acc]
    by (cases "ei_Cpu inst"; cases "ei_Memory inst") (simp_all add: listed_Cons Let_def)
qed simp

text \<open>A server that holds a fixed list and answers page n with the n-th hundred of it.\<close>

definition serves :: "'w EcsApi \<Rightarrow> string \<Rightarrow> gomap \<Rightarrow> EcsInstance list \<Rightarrow> bool" where
  "serves api region tags fleet \<longleftrightarrow> (\<forall>n w. \<exists>body w'.
     DescribeInstances api (list_request region tags (int n + 1)) w = (Inr (Some body), w') \<and>
     db_Instances body = Some (List.map Some (take 100 (drop (100 * n) fleet))) \<and>
     db_TotalCount body = Some (int (length fleet)))"

lemma serves_page:
  assumes "serves api region tags fleet"
  obtains body w' where
    "DescribeInstances api (list_request region tags (int n + 1)) w = (Inr (Some body), w')"
    "db_Instances body = Some (List.map Some (take 100 (drop (100 * n) fleet)))"
    "db_TotalCount body = Some (int (length fleet))"
  using assms unfolding serves_def by blast

lemma last_page_exact:
  assumes "int (length fleet) < 2 ^ 31 - 100" "100 * n \<le> length fleet"
  shows "last_page (int n + 1) (int (length fleet)) \<longleftrightarrow> length fleet \<le> 100 * n + 100"
proof -
  have "wrap32 ((int n + 1) * 100) = int (100 * n + 100)"
    using assms by (subst wrap32_id) auto
  then show ?thesis unfolding last_page_def by linarith
qed

lemma list_loop_pages:
  assumes "serves api region tags fleet" "int (length fleet) < 2 ^ 31 - 100" "100 * n \<le> length fleet"
  shows "\<exists>c' w'. list_loop api region tags (int n + 1) acc c w =
    Some (Inr (acc @ listed (drop (100 * n) fleet)), c', w')"
  using assms(3)
proof (induction "length fleet - 100 * n" arbitrary: n acc c w rule: less_induct)
  case less
  let ?page = "take 100 (drop (100 * n) fleet)"
  obtain body w1 where b:
    "DescribeInstances api (list_request region tags (int n + 1)) w = (Inr (Some body), w1)"
    "db_Instances body = Some (List.map Some ?page)" "db_TotalCount body = Some (int (length fleet))"
    using serves_page [OF assms(1)] by metis
  obtain c1 where p: "list_page (List.map Some ?page) (clk api w1) acc c = Some (acc @ listed ?page, c1)"
    using list_page_listed by metis
  have step: "list_loop api region tags (int n + 1) acc c w =
      (if last_page (int n + 1) (int (length fleet)) then Some (Inr (acc @ listed ?page), c1, w1)
       else list_loop api region tags (wrap32 (int n + 1 + 1)) (acc @ listed ?page) c1 w1)"
    by (subst list_loop.simps) (simp add: b p)
  show ?case
  proof (cases "length fleet \<le> 100 * n + 100")
    case True
    with step less.prems last_page_exact [OF assms(2)] show ?thesis by simp
  next
    case False
    have w: "wrap32 (int n + 1 + 1) = int (Suc n) + 1"
      using assms(2) False by (subst wrap32_id) auto
    have "drop (100 * n) fleet = ?page @ drop (100 * Suc n) fleet"
      by (metis append_take_drop_id add.commute drop_drop mult_Suc_right)
    then have l: "listed (drop (100 * n) fleet) = listed ?page @ listed (drop (100 * Suc n) fleet)"
      by (metis listed_simps(2))
    have "\<exists>c' w'. list_loop api region tags (int (Suc n) + 1) (acc @ listed ?page) c1 w1 =
        Some (Inr ((acc @ listed ?page) @ listed (drop (100 * Suc n) fleet)), c', w')"
      using False by (intro less.hyps) auto
    with step less.prems last_page_exact [OF assms(2)] w l False show ?thesis by simp
  qed
qed

text \<open>
  C16: Listing ends and is complete: against a server that holds a fixed fleet and
  answers the n-th page with its n-th hundred instances, List returns every
  instance of the fleet that reports CPU and memory exactly once and in order, for fleets
  up to the limit below which the 32-bit page counter cannot wrap around.
\<close>
theorem List_returns_whole_fleet:
  assumes "serves api region tags fleet" "int (length fleet) < 2 ^ 31 - 100"
  shows "\<exists>c' w'. ListInst api region tags c w = Some (Inr (listed fleet), c', w')"
  using list_loop_pages [OF assms, of 0 "[]" c w] by (simp add: ListInst_def)

definition fleet_api :: "EcsInstance list \<Rightarrow> unit EcsApi" where
  "fleet_api fleet = \<lparr>RunInstances = (\<lambda>r w. (Inl [], w)),
     DescribeInstances = (\<lambda>r w. (Inr (Some \<lparr>db_Instances =
         Some (List.map Some (take 100 (drop (100 * nat (or_else (dr_PageNumber r) 1 - 1)) fleet))),
         db_TotalCount = Some (int (length fleet)), db_PageNumber = dr_PageNumber r,
         db_PageSize = dr_PageSize r\<rparr>), w)),
     DeleteInstances = (\<lambda>r ids f w. (None, w)), TagResources = (\<lambda>r w. (None, w)), clk = (\<lambda>w. 0)\<rparr>"

theorem List_returns_whole_fleet_witness:
  "\<exists>c'. ListInst (fleet_api (replicate 250 sample_instance)) ''cn-a'' [] [] () =
     Some (Inr (listed (replicate 250 sample_instance)), c', ())"
proof -
  have "serves (fleet_api (replicate 250 sample_instance)) ''cn-a'' [] (replicate 250 sample_instance)"
    by (auto simp: serves_def fleet_api_def list_request_def)
  from List_returns_whole_fleet [OF this] show ?thesis by auto
qed

end
