(* ===== verification/NodeCapacity.thy ===== *)
theory NodeCapacity
  imports KubeTypes OperatorOptions ClusterNetwork TypeLabels InstanceProvider
begin

text \<open>
  Capacity, overhead and labels of nodes (pkg/cloudprovider/cloudprovider.go:
  calculateOverhead, calculateCapacityAndAllocatable, the quantity helpers,
  instanceLabelsFromInstance, resolveArchitecture, BuildInstanceTags).

  parse is resource.ParseQuantity.  The float64 product of memory and percentage is
  taken exactly.
\<close>

definition DefaultPodsLimit :: int where "DefaultPodsLimit = 110"
definition ResourcePodsForExclusiveEniEnabled :: string where
  "ResourcePodsForExclusiveEniEnabled = ''alibabacloud.com/exclusive-eni''"

section \<open>Overhead\<close>

definition memoryOverhead :: "Options \<Rightarrow> (string \<Rightarrow> rat option) \<Rightarrow> int \<Rightarrow> rat" where
  "memoryOverhead opts parse mem =
     (let overhead = of_int \<lceil>of_int mem * o_VMMemoryOverheadPercent opts\<rceil>;
          fixedOverhead = or_else (parse (o_VMMemoryOverhead opts)) (100 * 2 ^ 20) in
      if overhead < fixedOverhead then fixedOverhead else overhead)"

definition calculateOverhead :: "Options \<Rightarrow> (string \<Rightarrow> rat option) \<Rightarrow> InstanceType \<Rightarrow> resources" where
  "calculateOverhead opts parse it =
     [(ResourceCPU, 1 / 10),
      (ResourceMemory, case it_Memory it of None \<Rightarrow> 0 | Some mem \<Rightarrow> memoryOverhead opts parse mem)]"

definition subtractQuantity :: "rat \<Rightarrow> rat \<Rightarrow> rat" where
  "subtractQuantity a b = (if a - b < 0 then 0 else a - b)"

definition divideQuantity :: "rat \<Rightarrow> int \<Rightarrow> rat" where
  "divideQuantity q divisor = (if divisor = 0 then 0 else of_int (go_div (qty_value q) divisor))"

definition resourcesSubtract :: "resources \<Rightarrow> resources \<Rightarrow> resources" where
  "resourcesSubtract lhs rhs = List.map (\<lambda>(k, v). (k, case map_of rhs k of Some r \<Rightarrow> v - r | None \<Rightarrow> v)) lhs"

section \<open>Capacity\<close>

definition put_gpu :: "GPU option \<Rightarrow> resources \<Rightarrow> resources" where
  "put_gpu gpu cap = (case gpu of None \<Rightarrow> cap
   | Some g \<Rightarrow>
      (let cap1 = (case gpu_Count g of Some n \<Rightarrow> if n > 0 then AList.update ResourceGPU (of_int n) cap else cap
                   | None \<Rightarrow> cap) in
       case gpu_Memory g of Some m \<Rightarrow> if m > 0 then AList.update ResourceGPUMemory (of_int m) cap1 else cap1
       | None \<Rightarrow> cap1))"

definition put_pods :: "NetworkConfig option \<Rightarrow> InstanceType \<Rightarrow> resources \<Rightarrow> resources" where
  "put_pods nc it cap = (case nc of None \<Rightarrow> cap
   | Some n \<Rightarrow>
      if ClusterNetwork n = ''terway-eniip'' then
        AList.update ResourcePodsForExclusiveEniEnabled (of_int (it_EniQuantity it - 1 + 3))
          (AList.update ResourcePods
            (of_int ((it_EniQuantity it - 1) * it_EniPrivateIpAddressQuantity it + 3)) cap)
      else if ClusterNetwork n = ''kube-flannel-ds'' \<or> ClusterNetwork n = ''kube-flannel-ds-vxlan'' then
        (if MaxPods n > 0 then AList.update ResourcePods (of_int (MaxPods n)) cap else cap)
      else cap)"

definition calculateCapacityAndAllocatable :: "NetworkConfig option \<Rightarrow> Options \<Rightarrow> (string \<Rightarrow> rat option) \<Rightarrow>
    InstanceType \<Rightarrow> string + resources \<times> resources" where
  "calculateCapacityAndAllocatable nc opts parse it = (case (it_CPU it, it_Memory it) of
     (Some cpu, Some mem) \<Rightarrow>
       (let capacity = put_pods nc it (put_gpu (it_GPU it)
              [(ResourceCPU, of_int cpu), (ResourceMemory, of_int mem), (ResourcePods, of_int DefaultPodsLimit)]) in
        Inr (capacity, resourcesSubtract capacity (calculateOverhead opts parse it)))
   | _ \<Rightarrow> Inl (''instance type '' @ it_Name it @ '' has nil CPU or Memory''))"

section \<open>Labels and tags\<close>

definition resolveArchitecture :: "Instance \<Rightarrow> InstanceType option \<Rightarrow> string" where
  "resolveArchitecture inst it = (case it of
     Some t \<Rightarrow> if it_Architecture t \<noteq> '''' then KubeArchitecture (it_Architecture t)
               else ArchitectureFromInstanceType (ins_InstanceType inst)
   | None \<Rightarrow> ArchitectureFromInstanceType (ins_InstanceType inst))"

definition quantityLabelValue :: "int \<Rightarrow> string" where
  "quantityLabelValue q = (if q \<le> 0 then [] else itoa q)"

definition quantityLabelValueMiB :: "int \<Rightarrow> string" where
  "quantityLabelValueMiB q = (if q \<le> 0 then [] else itoa (go_div q (1024 * 1024)))"

definition fallback_labels :: "Instance \<Rightarrow> (string \<times> string) list" where
  "fallback_labels inst =
     [(LabelInstanceCPU, quantityLabelValue (ins_CPU inst)),
      (LabelInstanceMemory, quantityLabelValueMiB (ins_Memory inst)),
      (LabelInstanceGPUName, NormalizeLabelValue (ins_GPUSpec inst)),
      (LabelInstanceGPUCount, quantityLabelValue (ins_GPU inst))]"

definition put_missing :: "(string \<times> string) list \<Rightarrow> gomap \<Rightarrow> gomap" where
  "put_missing kvs m = fold (\<lambda>(k, v) m. if v = '''' \<or> map_of m k \<noteq> None then m else AList.update k v m) kvs m"

definition instanceLabelsFromInstance :: "Instance \<Rightarrow> InstanceType option \<Rightarrow> gomap" where
  "instanceLabelsFromInstance inst it =
     (let base = [(LabelTopologyRegion, ins_Region inst), (LabelTopologyZone, ins_Zone inst),
                  (LabelCapacityType, ins_CapacityType inst), (LabelArchStable, resolveArchitecture inst it),
                  (LabelOSStable, ''linux''), (LabelInstanceTypeStable, ins_InstanceType inst)];
          labels = put_missing (fallback_labels inst) (copy_into (ResolvedLabels it) base) in
      case map_of (ins_Tags inst) TagNodePool of
        Some v \<Rightarrow> AList.update NodePoolLabelKey v labels | None \<Rightarrow> labels)"

definition BuildInstanceTags :: "NodeClaim \<Rightarrow> ECSNodeClass \<Rightarrow> gomap" where
  "BuildInstanceTags nodeClaim nodeClass =
     (let tags = [(TagManagedBy, TagManagedByValue)];
          tags = (if nc_ClusterID (k_Spec nodeClass) \<noteq> ''''
                  then AList.update TagClusterID (nc_ClusterID (k_Spec nodeClass)) tags else tags);
          tags = (case map_of (ncl_Labels nodeClaim) NodePoolLabelKey of
                    Some v \<Rightarrow> AList.update TagNodePool v tags | None \<Rightarrow> tags);
          tags = (if ncl_Name nodeClaim \<noteq> '''' then AList.update TagNodeClaim (ncl_Name nodeClaim) tags else tags)
      in copy_into (nc_Tags (k_Spec nodeClass)) tags)"

section \<open>Properties of the capacity\<close>

lemma memoryOverhead_bounds:
  "of_int mem * o_VMMemoryOverheadPercent opts \<le> memoryOverhead opts parse mem"
  "or_else (parse (o_VMMemoryOverhead opts)) (100 * 2 ^ 20) \<le> memoryOverhead opts parse mem"
  by (auto simp: memoryOverhead_def Let_def intro: order_trans [OF le_of_int_ceiling])

lemma map_of_resourcesSubtract:
  "map_of (resourcesSubtract lhs rhs) k =
     map_option (\<lambda>v. case map_of rhs k of Some r \<Rightarrow> v - r | None \<Rightarrow> v) (map_of lhs k)"
  by (cases "map_of rhs k"; induction lhs) (auto simp: resourcesSubtract_def)

lemma resource_names_distinct:
  "ResourceCPU \<noteq> ResourceMemory" "ResourceCPU \<noteq> ResourcePods" "ResourceMemory \<noteq> ResourcePods"
  "ResourceMemory \<noteq> ResourceCPU"
  "ResourceGPU \<notin> {ResourceCPU, ResourceMemory, ResourcePods}"
  "ResourceGPUMemory \<notin> {ResourceCPU, ResourceMemory, ResourcePods}"
  "ResourcePodsForExclusiveEniEnabled \<notin> {ResourceCPU, ResourceMemory, ResourcePods}"
  by (simp_all add: resource_name_defs ResourceGPU_def ResourceGPUMemory_def ResourcePodsForExclusiveEniEnabled_def)

lemma capacity_cpu_memory:
  assumes "calculateCapacityAndAllocatable nc opts parse it = Inr (cap, alloc)"
  obtains cpu mem where "it_CPU it = Some cpu" "it_Memory it = Some mem"
    "map_of cap ResourceCPU = Some (of_int cpu)" "map_of cap ResourceMemory = Some (of_int mem)"
    "alloc = resourcesSubtract cap (calculateOverhead opts parse it)"
proof -
  obtain cpu mem where c: "it_CPU it = Some cpu" "it_Memory it = Some mem"
    using assms by (auto simp: calculateCapacityAndAllocatable_def split: option.splits)
  let ?base = "[(ResourceCPU, of_int cpu :: rat), (ResourceMemory, of_int mem), (ResourcePods, of_int DefaultPodsLimit)]"
  have g: "map_of (put_gpu g b) k = map_of b k" if "k \<in> {ResourceCPU, ResourceMemory}" for g b k
    using that resource_names_distinct by (auto simp: put_gpu_def map_of_update Let_def split: option.splits)
  have p: "map_of (put_pods nc it b) k = map_of b k" if "k \<in> {ResourceCPU, ResourceMemory}" for b k
    using that resource_names_distinct by (auto simp: put_pods_def map_of_update split: option.splits)
  have cap: "cap = put_pods nc it (put_gpu (it_GPU it) ?base)"
    "alloc = resourcesSubtract cap (calculateOverhead opts parse it)"
    using assms c by (auto simp: calculateCapacityAndAllocatable_def Let_def)
  show ?thesis
    by (rule that [OF c]) (simp_all add: cap g p resource_names_distinct)
qed


definition sample_type :: InstanceType where
  "sample_type = \<lparr>it_Name = ''ecs.g6.large'', it_Architecture = ''amd64'', it_CPU = Some 2,
     it_Memory = Some (8 * 2 ^ 30), it_Storage = Some 0, it_GPU = None,
     it_Zones = [(''cn-a-b'', \<lparr>zi_Available = True, zi_CapacityTypes = [''spot''],
       zi_KnownCapacityTypes = [''on-demand'', ''spot'']\<rparr>)],
     it_EniQuantity = 2, it_EniPrivateIpAddressQuantity = 6\<rparr>"


text \<open>
  The scheduler plans with more CPU than a node has.  The overhead that is
  reported with an instance type is made of three thirds of the total overhead, but a third of 100 millicores is
  computed on whole cores and is zero: the CPU the scheduler sets aside is nothing, while the
  allocatable CPU of the node is 100 millicores below its capacity.
\<close>
theorem planned_cpu_overhead_vanishes:
  "divideQuantity (or_else (map_of (calculateOverhead opts parse it) ResourceCPU) 0) 3 = 0 \<and>
   or_else (map_of (calculateOverhead opts parse it) ResourceCPU) 0 = 1 / 10"
  by (simp add: calculateOverhead_def divideQuantity_def qty_value_def go_div_def ceiling_unique)

section \<open>Properties of tags and labels\<close>

lemma wf_BuildInstanceTags [simp]: "wf_map (BuildInstanceTags nodeClaim nodeClass)"
  by (auto simp: BuildInstanceTags_def Let_def intro!: wf_copy_into split: option.split) (auto simp: wf_map_def)

lemma managed_tag_keys:
  "distinct [TagManagedBy, TagClusterID, TagNodePool, TagNodeClaim]"
  by (simp add: label_defs)

lemmas managed_tag_neq = managed_tag_keys [simplified]

text \<open>
  Instances stay identifiable.  With the tags of an admitted node class the tags of a
  new instance carry karpenter's own: it is marked as managed (the tag by which List finds
  it), and bears the cluster ID, node pool and NodeClaim it was created for, whatever
  the user configured; the user's tags are all there too.
\<close>
theorem BuildInstanceTags_keeps_managed_tags:
  assumes "wf_map (nc_Tags (k_Spec nodeClass))"
    and "fst ` set (nc_Tags (k_Spec nodeClass)) \<inter>
         {TagManagedBy, TagClusterID, TagNodePool, TagNodeClaim} = {}"
  shows "map_of (BuildInstanceTags nodeClaim nodeClass) TagManagedBy = Some TagManagedByValue \<and>
     map_of (BuildInstanceTags nodeClaim nodeClass) TagClusterID =
       (if nc_ClusterID (k_Spec nodeClass) = [] then None else Some (nc_ClusterID (k_Spec nodeClass))) \<and>
     map_of (BuildInstanceTags nodeClaim nodeClass) TagNodePool = map_of (ncl_Labels nodeClaim) NodePoolLabelKey \<and>
     map_of (BuildInstanceTags nodeClaim nodeClass) TagNodeClaim =
       (if ncl_Name nodeClaim = [] then None else Some (ncl_Name nodeClaim)) \<and>
     (\<forall>k v. map_of (nc_Tags (k_Spec nodeClass)) k = Some v \<longrightarrow>
        map_of (BuildInstanceTags nodeClaim nodeClass) k = Some v)"
proof -
  let ?u = "nc_Tags (k_Spec nodeClass)"
  have none: "map_of ?u k = None" if "k \<in> {TagManagedBy, TagClusterID, TagNodePool, TagNodeClaim}" for k
  proof -
    have "k \<notin> fst ` set ?u" using assms(2) that by blast
    then show ?thesis by (simp add: map_of_eq_None_iff)
  qed
  note [simp] = none [of TagManagedBy, simplified] none [of TagClusterID, simplified]
    none [of TagNodePool, simplified] none [of TagNodeClaim, simplified]
  show ?thesis
    using managed_tag_neq
    by (auto simp: BuildInstanceTags_def Let_def map_of_copy_into [OF assms(1)] map_of_update map_add_def
        split: option.split)
qed

theorem BuildInstanceTags_keeps_managed_tags_witness:
  "map_of (BuildInstanceTags (emptyNodeClaim\<lparr>ncl_Name := ''nc-1''\<rparr>)
     \<lparr>k_Name = ''default'', k_Generation = 1, k_Annotations = [],
      k_Spec = emptySpec\<lparr>nc_ClusterID := ''c-1'', nc_Tags := [(''team'', ''a'')]\<rparr>,
      k_Status = \<lparr>st_Ready = True, st_VSwitches = [], st_SecurityGroups = [], st_Images = [],
        st_RAMRole = None, st_Conditions = []\<rparr>\<rparr>) TagNodeClaim = Some ''nc-1''"
proof -
  let ?k = "\<lparr>k_Name = ''default'', k_Generation = 1, k_Annotations = [],
      k_Spec = emptySpec\<lparr>nc_ClusterID := ''c-1'', nc_Tags := [(''team'', ''a'')]\<rparr>,
      k_Status = \<lparr>st_Ready = True, st_VSwitches = [], st_SecurityGroups = [], st_Images = [],
        st_RAMRole = None, st_Conditions = []\<rparr>\<rparr>"
  have "wf_map (nc_Tags (k_Spec ?k))"
    "fst ` set (nc_Tags (k_Spec ?k)) \<inter> {TagManagedBy, TagClusterID, TagNodePool, TagNodeClaim} = {}"
    by (simp_all add: wf_map_def label_defs)
  from BuildInstanceTags_keeps_managed_tags [OF this] show ?thesis by simp
qed

text \<open>Labels that the fallback does not touch.\<close>

lemma map_of_put_missing:
  "map_of m k \<noteq> None \<Longrightarrow> map_of (put_missing kvs m) k = map_of m k"
  unfolding put_missing_def
  by (induction kvs arbitrary: m) (auto simp: map_of_update)

lemma map_of_put_missing_key:
  "k \<notin> fst ` set kvs \<Longrightarrow> map_of (put_missing kvs m) k = map_of m k"
  unfolding put_missing_def
  by (induction kvs arbitrary: m) (auto simp: map_of_update)

lemma wf_put_nonempty: "wf_map m \<Longrightarrow> wf_map (put_nonempty kvs m)"
proof (induction kvs arbitrary: m)
  case (Cons kv kvs)
  obtain k v where kv: "kv = (k, v)" by (cases kv)
  have "put_nonempty (kv # kvs) m = put_nonempty kvs (if v = '''' then m else AList.update k v m)"
    by (simp add: put_nonempty_def kv)
  also have "wf_map \<dots>" using Cons.prems by (intro Cons.IH) simp
  finally show ?case .
qed (simp add: put_nonempty_def)

lemma wf_ResolvedLabels [simp]: "wf_map (ResolvedLabels it)"
proof (cases it)
  case (Some t)
  show ?thesis
    unfolding ResolvedLabels_def InstanceTypeLabels_def Some option.case by (intro wf_put_nonempty wf_map_Nil)
qed (simp add: ResolvedLabels_def)

definition core_label_keys :: "string list" where
  "core_label_keys = [LabelTopologyRegion, LabelTopologyZone, LabelCapacityType, LabelArchStable,
     LabelOSStable, LabelInstanceTypeStable]"

definition resolved_keys :: "string list" where
  "resolved_keys = [LabelInstanceFamily, LabelInstanceFamilyCanonical, LabelInstanceCategory,
     LabelInstanceGeneration, LabelInstanceSize, LabelInstanceSizeCanonical, LabelInstanceCPU,
     LabelInstanceMemory, LabelInstanceGPUName, LabelInstanceGPUManufacturer, LabelInstanceGPUCount,
     LabelInstanceGPUMemory]"

lemma resolved_values_keys: "List.map fst (resolved_values t) = resolved_keys"
  by (simp add: resolved_values_def resolved_keys_def)

lemma core_keys_distinct: "distinct (NodePoolLabelKey # core_label_keys)"
  by (simp add: core_label_keys_def kube_label_defs label_defs)

lemma core_keys_not_resolved: "list_all (\<lambda>k. k \<notin> set resolved_keys) (NodePoolLabelKey # core_label_keys)"
  by (simp add: core_label_keys_def resolved_keys_def kube_label_defs label_defs)

lemma fallback_keys: "fst ` set (fallback_labels inst) \<subseteq> set resolved_keys"
  by (simp add: fallback_labels_def resolved_keys_def)

lemma resolved_not_core:
  "k \<in> set (NodePoolLabelKey # core_label_keys) \<Longrightarrow> map_of (ResolvedLabels it) k = None"
proof (cases it)
  case (Some t)
  assume "k \<in> set (NodePoolLabelKey # core_label_keys)"
  then have "k \<notin> set (List.map fst (resolved_values t))"
    using core_keys_not_resolved unfolding resolved_values_keys list_all_iff by blast
  then have "map_of (resolved_values t) k = None" by (simp add: map_of_eq_None_iff)
  with Some show ?thesis by (simp add: map_of_ResolvedLabels)
qed (simp add: ResolvedLabels_def)

lemma fallback_not_core:
  "k \<in> set (NodePoolLabelKey # core_label_keys) \<Longrightarrow> k \<notin> fst ` set (fallback_labels inst)"
  using core_keys_not_resolved fallback_keys unfolding list_all_iff by blast



end
