(* ===== verification/BootstrapTemplates.thy ===== *)
theory BootstrapTemplates
  imports Prelude
begin

text \<open>
  The two text templates of pkg/providers/bootstrap (kubeadm.go and the
  self-managed script of bootstrap.go) as trees of text, fields, conditionals
  and ranges, after the white space next to the trim markers is gone, and
  the part of text/template that they use: a field that the data does not have
  prints as the text no value in angle brackets, a condition holds for a
  non-empty string, a non-empty list and any pointer but nil, a pointer prints what it
  points to.
\<close>

datatype tnode =
    Text string
  | Field string
  | If string "tnode list"
  | Range string "tnode list"

datatype tval =
    VStr string
  | VPtr "string option"
  | VList "(string \<times> string) list list"

definition tval_true :: "tval \<Rightarrow> bool" where
  "tval_true v = (case v of VStr s \<Rightarrow> s \<noteq> [] | VPtr p \<Rightarrow> p \<noteq> None | VList l \<Rightarrow> l \<noteq> [])"

definition no_value :: string where "no_value = ''<no value>''"

definition show_field :: "(string \<times> tval) list \<Rightarrow> string \<Rightarrow> string" where
  "show_field env k = (case map_of env k of
     Some (VStr s) \<Rightarrow> s | Some (VPtr (Some s)) \<Rightarrow> s | Some (VPtr None) \<Rightarrow> ''<nil>''
   | Some (VList l) \<Rightarrow> ''[]'' | None \<Rightarrow> no_value)"

definition field_true :: "(string \<times> tval) list \<Rightarrow> string \<Rightarrow> bool" where
  "field_true env k = (case map_of env k of Some v \<Rightarrow> tval_true v | None \<Rightarrow> False)"

definition range_items :: "(string \<times> tval) list \<Rightarrow> string \<Rightarrow> (string \<times> tval) list list" where
  "range_items env k = (case map_of env k of
     Some (VList l) \<Rightarrow> List.map (List.map (\<lambda>(n, s). (n, VStr s))) l | _ \<Rightarrow> [])"

primrec exec_node :: "tnode \<Rightarrow> (string \<times> tval) list \<Rightarrow> string" where
  "exec_node (Text s) env = s"
| "exec_node (Field k) env = show_field env k"
| "exec_node (If k body) env =
     (if field_true env k then concat (List.map (\<lambda>f. f env) (List.map exec_node body)) else [])"
| "exec_node (Range k body) env =
     concat (List.map (\<lambda>item. concat (List.map (\<lambda>f. f item) (List.map exec_node body))) (range_items env k))"

definition exec_template :: "tnode list \<Rightarrow> (string \<times> tval) list \<Rightarrow> string" where
  "exec_template t env = concat (List.map (\<lambda>n. exec_node n env) t)"

abbreviation nl :: string where "nl \<equiv> [CHR 0x0A]"
abbreviation dq :: string where "dq \<equiv> [CHR 0x22]"
abbreviation sq :: string where "sq \<equiv> [CHR 0x27]"
abbreviation bs :: string where "bs \<equiv> [CHR 0x5C]"

section \<open>kubeadm.go\<close>

definition kubeadm_header :: string where
  "kubeadm_header =
     ''#!/bin/bash'' @ nl @ ''set -euo pipefail'' @ nl @ nl @ ''# Kubeadm Node Bootstrap Script'' @ nl @
     ''# Generated by Karpenter Alibaba Cloud Provider'' @ nl @ nl @
     ''NODE_NAME='' @ dq"

definition kubeadm_install :: string where
  "kubeadm_install =
     dq @ nl @ ''LOG_FILE='' @ dq @ ''/var/log/karpenter-bootstrap.log'' @ dq @ nl @
     nl @ ''# Logging function'' @ nl @ ''log() {'' @ nl @ ''    echo '' @ dq @ ''$(date '' @ sq @
     ''+%Y-%m-%d %H:%M:%S'' @ sq @ '') - $1'' @ dq @ '' | tee -a ${LOG_FILE}'' @ nl @
     ''}'' @ nl @ nl @ ''log '' @ dq @ ''Starting Kubeadm node bootstrap'' @ dq @ nl @
     nl @ ''# 1. Set hostname'' @ nl @ ''log '' @ dq @ ''Setting hostname to ${NODE_NAME}'' @ dq @ nl @
     ''hostnamectl set-hostname ${NODE_NAME}'' @ nl @ nl @ ''# 2. Disable swap (required by Kubernetes)'' @
     nl @ ''log '' @ dq @ ''Disabling swap'' @ dq @ nl @ ''swapoff -a'' @ nl @
     ''sed -i '' @ sq @ ''/swap/d'' @ sq @ '' /etc/fstab'' @ nl @
     nl @ ''# 3. Load required kernel modules'' @ nl @ ''log '' @ dq @ ''Loading required kernel modules'' @
     dq @ nl @ ''cat > /etc/modules-load.d/k8s.conf <<EOF'' @ nl @
     ''overlay'' @ nl @ ''br_netfilter'' @ nl @ ''EOF'' @ nl @ nl @
     ''modprobe overlay'' @ nl @ ''modprobe br_netfilter'' @ nl @
     nl @ ''# 4. Configure sysctl for Kubernetes'' @ nl @ ''log '' @ dq @
     ''Configuring sysctl parameters'' @ dq @ nl @ ''cat > /etc/sysctl.d/k8s.conf <<EOF'' @ nl @
     ''net.bridge.bridge-nf-call-iptables  = 1'' @ nl @ ''net.bridge.bridge-nf-call-ip6tables = 1'' @ nl @
     ''net.ipv4.ip_forward                 = 1'' @ nl @ ''EOF'' @ nl @
     nl @ ''sysctl --system'' @ nl @ nl @ ''# 5. Install container runtime'' @ nl @
     ''log '' @ dq @ ''Installing container runtime: ${CONTAINER_RUNTIME}'' @ dq @ nl @
     nl @ ''if [ '' @ dq @ ''${CONTAINER_RUNTIME}'' @ dq @ '' = '' @ dq @ ''containerd'' @ dq @
     '' ] || [ '' @ dq @ ''${CONTAINER_RUNTIME}'' @ dq @ '' = '' @ dq @ dq @ '' ]; then'' @ nl @
     ''    log '' @ dq @ ''Installing containerd'' @ dq @ nl @
     ''    yum install -y yum-utils device-mapper-persistent-data lvm2'' @ nl @
     ''    yum-config-manager --add-repo https://mirrors.aliyun.com/docker-ce/linux/centos/docker-ce.repo'' @
     nl @ ''    yum install -y containerd.io'' @ nl @ nl @ ''    # Configure containerd'' @ nl @
     ''    mkdir -p /etc/containerd'' @ nl @
     ''    containerd config default > /etc/containerd/config.toml'' @ nl @
     nl @ ''    # Enable systemd cgroup driver'' @ nl @ ''    sed -i '' @ sq @
     ''s/SystemdCgroup = false/SystemdCgroup = true/g'' @ sq @ '' /etc/containerd/config.toml'' @ nl @
     nl @ ''    # Configure Alibaba Cloud mirror for better performance in China regions'' @ nl @
     ''    sed -i '' @ sq @ ''s|registry.k8s.io|registry.aliyuncs.com/google_containers|g'' @ sq @
     '' /etc/containerd/config.toml'' @ nl @ nl @ ''    systemctl enable containerd'' @ nl @
     ''    systemctl restart containerd'' @ nl @ ''    log '' @ dq @
     ''Containerd installed and configured'' @ dq @ nl @ ''    '' @ nl @
     ''elif [ '' @ dq @ ''${CONTAINER_RUNTIME}'' @ dq @ '' = '' @ dq @ ''docker'' @ dq @ '' ]; then'' @ nl @
     ''    log '' @ dq @ ''Installing Docker (legacy support)'' @ dq @ nl @
     ''    yum install -y yum-utils device-mapper-persistent-data lvm2'' @ nl @
     ''    yum-config-manager --add-repo https://mirrors.aliyun.com/docker-ce/linux/centos/docker-ce.repo'' @
     nl @ ''    yum install -y docker-ce docker-ce-cli'' @ nl @ ''    '' @ nl @
     ''    # Configure Docker daemon'' @ nl @ ''    mkdir -p /etc/docker'' @ nl @
     ''    cat > /etc/docker/daemon.json <<EOF'' @ nl @ ''{'' @ nl @
     ''  '' @ dq @ ''exec-opts'' @ dq @ '': ['' @ dq @ ''native.cgroupdriver=systemd'' @ dq @ ''],'' @ nl @
     ''  '' @ dq @ ''log-driver'' @ dq @ '': '' @ dq @ ''json-file'' @ dq @ '','' @ nl @
     ''  '' @ dq @ ''log-opts'' @ dq @ '': {'' @ nl @ ''    '' @ dq @ ''max-size'' @ dq @ '': '' @ dq @
     ''100m'' @ dq @ nl @ ''  },'' @ nl @ ''  '' @ dq @ ''storage-driver'' @ dq @ '': '' @ dq @
     ''overlay2'' @ dq @ '','' @ nl @ ''  '' @ dq @ ''registry-mirrors'' @ dq @ '': ['' @ dq @
     ''https://registry.aliyuncs.com'' @ dq @ '']'' @ nl @ ''}'' @ nl @
     ''EOF'' @ nl @ ''    '' @ nl @ ''    systemctl enable docker'' @ nl @
     ''    systemctl restart docker'' @ nl @ ''    log '' @ dq @ ''Docker installed and configured'' @ dq @
     nl @ ''else'' @ nl @ ''    log '' @ dq @
     ''ERROR: Unsupported container runtime: ${CONTAINER_RUNTIME}'' @ dq @ nl @
     ''    exit 1'' @ nl @ ''fi'' @ nl @ nl @ ''# 6. Install kubeadm, kubelet, kubectl'' @ nl @
     ''log '' @ dq @ ''Installing Kubernetes components'' @ dq @ nl @
     ''cat > /etc/yum.repos.d/kubernetes.repo <<EOF'' @ nl @ ''[kubernetes]'' @ nl @
     ''name=Kubernetes'' @ nl @
     ''baseurl=https://mirrors.aliyun.com/kubernetes/yum/repos/kubernetes-el7-x86_64/'' @ nl @
     ''enabled=1'' @ nl @ ''gpgcheck=1'' @ nl @ ''repo_gpgcheck=1'' @ nl @
     ''gpgkey=https://mirrors.aliyun.com/kubernetes/yum/doc/yum-key.gpg https://mirrors.aliyun.com/kubernetes/yum/doc/rpm-package-key.gpg'' @
     nl @ ''EOF'' @ nl @ nl @
     ''yum install -y kubelet kubeadm kubectl --disableexcludes=kubernetes 2>&1 | tee -a ${LOG_FILE}'' @
     nl @ ''systemctl enable kubelet'' @ nl @ ''log '' @ dq @ ''Kubernetes components installed'' @ dq @
     nl @ nl @ ''# 7. Configure kubelet'' @ nl @ ''log '' @ dq @ ''Configuring kubelet'' @ dq @ nl @
     ''cat > /etc/sysconfig/kubelet <<EOF'' @ nl @ ''KUBELET_EXTRA_ARGS='' @ dq @ ''--node-ip='' @ bs @
     ''$(hostname -I | awk '' @ sq @ ''{print '' @ bs @ ''$1}'' @ sq @ '')''"

definition kubeadm_join_config :: string where
  "kubeadm_join_config =
     dq @ nl @ ''EOF'' @ nl @ nl @ ''# 8. Create kubeadm join configuration'' @ nl @
     ''log '' @ dq @ ''Creating kubeadm join configuration'' @ dq @ nl @
     ''cat > /tmp/kubeadm-join-config.yaml <<EOF'' @ nl @ ''apiVersion: kubeadm.k8s.io/v1beta3'' @ nl @
     ''kind: JoinConfiguration'' @ nl @ ''nodeRegistration:'' @ nl @
     ''  name: ${NODE_NAME}'' @ nl @ ''  kubeletExtraArgs:'' @ nl @
     ''    node-ip: '' @ bs @ ''$(hostname -I | awk '' @ sq @ ''{print '' @ bs @ ''$1}'' @ sq @ '')''"

definition kubeadm_discovery :: string where
  "kubeadm_discovery =
     nl @ ''  taints: []'' @ nl @ ''discovery:'' @ nl @ ''  bootstrapToken:'' @ nl @
     ''    apiServerEndpoint: '' @ dq"

definition kubeadm_join :: string where
  "kubeadm_join =
     dq @ nl @ ''    # Increase timeout for token validation'' @ nl @
     ''    timeout: 5m0s'' @ nl @ ''EOF'' @ nl @ nl @ ''# 9. Join the cluster with retry logic'' @ nl @
     ''log '' @ dq @ ''Joining cluster at ${CLUSTER_ENDPOINT}'' @ dq @ nl @
     ''JOIN_MAX_RETRIES=3'' @ nl @ ''JOIN_RETRY_DELAY=10'' @ nl @
     ''JOIN_RETRY_COUNT=0'' @ nl @ nl @ ''while [ ${JOIN_RETRY_COUNT} -lt ${JOIN_MAX_RETRIES} ]; do'' @ nl @
     ''    if kubeadm join --config /tmp/kubeadm-join-config.yaml 2>&1 | tee -a ${LOG_FILE}; then'' @ nl @
     ''        log '' @ dq @ ''Successfully joined the cluster'' @ dq @ nl @
     ''        break'' @ nl @ ''    fi'' @ nl @ ''    '' @ nl @
     ''    JOIN_RETRY_COUNT=$((JOIN_RETRY_COUNT + 1))'' @ nl @
     ''    if [ ${JOIN_RETRY_COUNT} -lt ${JOIN_MAX_RETRIES} ]; then'' @ nl @
     ''        log '' @ dq @
     ''Join failed (attempt ${JOIN_RETRY_COUNT}/${JOIN_MAX_RETRIES}), retrying in ${JOIN_RETRY_DELAY}s...'' @
     dq @ nl @ ''        sleep ${JOIN_RETRY_DELAY}'' @ nl @ ''    else'' @ nl @
     ''        log '' @ dq @ ''ERROR: Failed to join cluster after ${JOIN_MAX_RETRIES} attempts'' @ dq @
     nl @ ''        exit 1'' @ nl @ ''    fi'' @ nl @ ''done'' @ nl @
     nl @ ''# 10. Verify node joined'' @ nl @ ''log '' @ dq @ ''Waiting for node to be ready...'' @ dq @
     nl @ ''REGISTER_TIMEOUT=300'' @ nl @ ''ELAPSED=0'' @ nl @
     ''while [ ${ELAPSED} -lt ${REGISTER_TIMEOUT} ]; do'' @ nl @
     ''    if kubectl --kubeconfig=/etc/kubernetes/kubelet.conf get node ${NODE_NAME} &>/dev/null; then'' @
     nl @ ''        log '' @ dq @ ''Node ${NODE_NAME} successfully registered'' @ dq @ nl @
     ''        break'' @ nl @ ''    fi'' @ nl @ ''    sleep 5'' @ nl @
     ''    ELAPSED=$((ELAPSED + 5))'' @ nl @ ''    if [ $((ELAPSED % 30)) -eq 0 ]; then'' @ nl @
     ''        log '' @ dq @ ''Still waiting for node registration... (${ELAPSED}s elapsed)'' @ dq @ nl @
     ''    fi'' @ nl @ ''done'' @ nl @ nl @ ''if [ ${ELAPSED} -ge ${REGISTER_TIMEOUT} ]; then'' @ nl @
     ''    log '' @ dq @ ''WARNING: Node registration timed out after ${REGISTER_TIMEOUT}s'' @ dq @ nl @
     ''fi'' @ nl @ nl @ ''# 11. Apply labels and taints if needed'' @ nl"

definition kubeadm_joined :: string where
  "kubeadm_joined =
     nl @ nl @ ''log '' @ dq @ ''Node ${NODE_NAME} successfully joined the cluster!'' @ dq @ nl @
     nl"

definition kubeadm_done :: string where
  "kubeadm_done =
     nl @ nl @ ''log '' @ dq @ ''Bootstrap completed successfully!'' @ dq @ nl @
     ''echo '' @ dq @ ''Bootstrap completed at $(date)'' @ dq @
     '' > /var/lib/karpenter/bootstrap-complete'' @ nl"

definition kubeadmUserDataTemplate :: "tnode list" where
  "kubeadmUserDataTemplate =
     [Text kubeadm_header,
      Field ''NodeName'',
      Text (dq @ nl @ ''CLUSTER_ENDPOINT='' @ dq),
      Field ''ClusterEndpoint'',
      Text (dq @ nl @ ''CONTAINER_RUNTIME='' @ dq),
      Field ''ContainerRuntime'',
      Text kubeadm_install,
      If ''Labels'' [Text ('' --node-labels=''),
        Field ''Labels''],
      If ''Taints'' [Text ('' --register-with-taints=''),
        Field ''Taints''],
      If ''MaxPods'' [Text ('' --max-pods=''),
        Field ''MaxPods''],
      If ''ClusterDNS'' [Text ('' --cluster-dns=''),
        Field ''ClusterDNS''],
      If ''PodSubnet'' [Text ('' --pod-cidr=''),
        Field ''PodSubnet''],
      Text kubeadm_join_config,
      If ''MaxPods'' [Text (nl @ ''    max-pods: '' @ dq),
        Field ''MaxPods'',
        Text (dq)],
      If ''ClusterDNS'' [Text (nl @ ''    cluster-dns: '' @ dq),
        Field ''ClusterDNS'',
        Text (dq)],
      Text kubeadm_discovery,
      Field ''ClusterEndpoint'',
      Text (dq @ nl @ ''    token: '' @ dq),
      Field ''JoinToken'',
      Text (dq @ nl @ ''    caCertHashes:'' @ nl @ ''      - '' @ dq),
      Field ''CACertHash'',
      Text kubeadm_join,
      If ''Labels'' [Text (nl @ ''log '' @ dq @ ''Applying node labels'' @ dq @ nl @
        ''kubectl --kubeconfig=/etc/kubernetes/kubelet.conf label node ${NODE_NAME} ''),
        Field ''Labels'',
        Text ('' --overwrite 2>&1 | tee -a ${LOG_FILE}'' @ nl)],
      Text (nl @ nl),
      If ''Taints'' [Text (nl @ ''log '' @ dq @ ''Applying node taints'' @ dq @ nl @
        ''kubectl --kubeconfig=/etc/kubernetes/kubelet.conf taint node ${NODE_NAME} ''),
        Field ''Taints'',
        Text ('' --overwrite 2>&1 | tee -a ${LOG_FILE}'' @ nl)],
      Text kubeadm_joined,
      If ''CustomUserData'' [Text (nl @ ''# 12. Execute custom user data'' @ nl @ ''log '' @ dq @ ''Executing custom user data...'' @ dq @
        nl),
        Field ''CustomUserData'',
        Text ('' 2>&1 | tee -a ${LOG_FILE}'' @ nl)],
      Text kubeadm_done]"

section \<open>The self-managed script of bootstrap.go\<close>

definition self_managed_header :: string where
  "self_managed_header =
     ''#!/bin/bash'' @ nl @ ''set -ex'' @ nl @ nl @ ''# Install kubeadm, kubelet, and kubectl'' @ nl @
     ''curl -s https://packages.cloud.google.com/apt/doc/apt-key.gpg | apt-key add -'' @ nl @
     ''echo '' @ dq @ ''deb https://apt.kubernetes.io/ kubernetes-xenial main'' @ dq @
     '' > /etc/apt/sources.list.d/kubernetes.list'' @ nl @ ''apt-get update'' @ nl @
     ''apt-get install -y kubelet kubeadm kubectl'' @ nl @ nl @ ''# Configure kubelet'' @ nl @
     ''cat > /var/lib/kubelet/config.yaml << '' @ sq @ ''EOF'' @ sq @ nl @
     ''apiVersion: kubelet.config.k8s.io/v1beta1'' @ nl @ ''kind: KubeletConfiguration''"

definition self_managed_join :: string where
  "self_managed_join =
     nl @ ''EOF'' @ nl @ nl @ ''# Join cluster'' @ nl @ ''kubeadm join ''"

definition scriptTemplate :: "tnode list" where
  "scriptTemplate =
     [Text self_managed_header,
      Range ''KubeletArgs'' [Text (nl),
        Field ''Key'',
        Text ('': ''),
        Field ''Value''],
      Text self_managed_join,
      Field ''ClusterEndpoint'',
      Text ('' '' @ bs @ nl @ ''  --token ''),
      Field ''Token'',
      Text ('' '' @ bs @ nl @ ''  --discovery-token-ca-cert-hash ''),
      Field ''CACertHash'',
      Text ('' '' @ bs @ nl @ ''  --node-name ''),
      Field ''NodeName'',
      Text ('' '' @ bs),
      If ''NodeLabels'' [Text (nl @ ''  --node-labels=''),
        Field ''NodeLabels'',
        Text ('' '' @ bs)],
      If ''NodeTaints'' [Text (nl @ ''  --register-with-taints=''),
        Field ''NodeTaints'',
        Text ('' '' @ bs)],
      Text (nl)]"

end
