(* ===== verification/Bootstrap.thy ===== *)
theory Bootstrap
  imports KubeTypes BootstrapTemplates TtlCache Disks
begin

text \<open>
  User data of new nodes (pkg/providers/bootstrap/bootstrap.go and kubeadm.go).

  The container service client is a parameter, a record of answers in a state
  'w of the cloud; a nil on the way to the cluster version is None.  The
  regular expressions of the file are matchers that consume a prefix of the
  text; the replacement of the runtime is taken literally (the names of container runtimes
  have no dollar sign).
\<close>

definition ACKClusterType :: string where "ACKClusterType = ''cs''"
definition SelfManagedClusterType :: string where "SelfManagedClusterType = ''self-managed''"
definition KubeadmClusterType :: string where "KubeadmClusterType = ''kubeadm''"

lemmas cluster_types = ACKClusterType_def SelfManagedClusterType_def KubeadmClusterType_def

record BootKubelet =
  bk_MaxPods :: "int option"
  bk_PodsPerCore :: "int option"
  bk_CPUCFSQuota :: "bool option"
  bk_SystemReserved :: gomap
  bk_KubeReserved :: gomap
  bk_EvictionHard :: gomap
  bk_EvictionSoft :: gomap
  bk_EvictionSoftGracePeriod :: gomap
  bk_EvictionMaxPodGracePeriod :: "int option"
  bk_ImageGCHighThresholdPercent :: "int option"
  bk_ImageGCLowThresholdPercent :: "int option"
  bk_ClusterDNS :: "string list"

record BootstrapOptions =
  bo_ClusterType :: string
  bo_ClusterID :: string
  bo_ClusterName :: string
  bo_ClusterEndpoint :: string
  bo_NodeName :: string
  bo_KubeletConfig :: "BootKubelet option"
  bo_Labels :: gomap
  bo_Taints :: "Taint list"
  bo_CustomUserData :: "string option"
  bo_ContainerRuntime :: string

record 'w CsApi =
  cs_attach :: "string \<Rightarrow> 'w \<Rightarrow> string + string"
  cs_version :: "string \<Rightarrow> 'w \<Rightarrow> string + string option"
  cs_runtimes :: "string \<Rightarrow> 'w \<Rightarrow> string + (string option \<times> string option) list list"
  cs_clk :: "'w \<Rightarrow> time_ns"

section \<open>Patching the script\<close>

definition re_space :: "char \<Rightarrow> bool" where
  "re_space c \<longleftrightarrow> c \<in> {CHR '' '', CHR 0x09, CHR 0x0A, CHR 0x0C, CHR 0x0D}"

definition re_lit :: "string \<Rightarrow> string \<Rightarrow> string option" where
  "re_lit p s = (if has_prefix s p then Some (drop (length p) s) else None)"

definition re_spaces :: "string \<Rightarrow> string option" where
  "re_spaces s = (let r = dropWhile re_space s in if r = s then None else Some r)"

definition re_word :: "string \<Rightarrow> (string \<times> string) option" where
  "re_word s = (let w = takeWhile (\<lambda>c. \<not> re_space c) s in
     if w = [] then None else Some (w, dropWhile (\<lambda>c. \<not> re_space c) s))"

text \<open>The flags --runtime and --runtime-version with their values: the rest of the text after them.\<close>

definition runtimeRe :: "string \<Rightarrow> string option" where
  "runtimeRe s =
     Option.bind (re_lit ''--runtime'' s) (\<lambda>s1. Option.bind (re_spaces s1) (\<lambda>s2.
     Option.bind (re_word s2) (\<lambda>(_, s3). Option.bind (re_spaces s3) (\<lambda>s4.
     Option.bind (re_lit ''--runtime-version'' s4) (\<lambda>s5. Option.bind (re_spaces s5) (\<lambda>s6.
     Option.bind (re_word s6) (\<lambda>(_, s7). Some s7)))))))"

text \<open>The flag --labels: the spaces after it, its value and the rest.\<close>

definition labelsArgRe :: "string \<Rightarrow> (string \<times> string \<times> string) option" where
  "labelsArgRe s =
     Option.bind (re_lit ''--labels'' s) (\<lambda>s1. Option.bind (re_spaces s1) (\<lambda>s2.
     Option.bind (re_word s2) (\<lambda>(v, s3). Some (''--labels'' @ takeWhile re_space s1, v, s3))))"

text \<open>Replacing all non-overlapping matches from the left; m gives the replacement and the rest.\<close>

function replace_matches :: "(string \<Rightarrow> (string \<times> string) option) \<Rightarrow> string \<Rightarrow> string" where
  "replace_matches m s = (case m s of
     Some (r, rest) \<Rightarrow> if length rest < length s then r @ replace_matches m rest else s
   | None \<Rightarrow> (case s of [] \<Rightarrow> [] | c # cs \<Rightarrow> c # replace_matches m cs))"
  by auto
termination by (relation "measure (length \<circ> snd)") auto
declare replace_matches.simps [simp del]

definition patch_runtime :: "string \<Rightarrow> string \<Rightarrow> string \<Rightarrow> string" where
  "patch_runtime nm ver script = replace_matches (\<lambda>s. case runtimeRe s of None \<Rightarrow> None
     | Some rest \<Rightarrow> Some (''--runtime '' @ nm @ '' --runtime-version '' @ ver, rest)) script"

definition patchRuntimeVersion :: "'w CsApi \<Rightarrow> string \<Rightarrow> string \<Rightarrow> 'w \<Rightarrow> string" where
  "patchRuntimeVersion cs clusterID script w = (case cs_version cs clusterID w of
     Inr (Some k8sVersion) \<Rightarrow> (case cs_runtimes cs k8sVersion w of
        Inr (((Some nm, Some ver) # _) # _) \<Rightarrow> patch_runtime nm ver script
      | _ \<Rightarrow> script)
   | _ \<Rightarrow> script)"

definition is_alpha :: "char \<Rightarrow> bool" where "is_alpha c \<longleftrightarrow> is_upper c \<or> is_lower c"

definition label_char :: "char \<Rightarrow> bool" where
  "label_char c \<longleftrightarrow> is_alnum c \<or> c = CHR ''.'' \<or> c = CHR ''_'' \<or> c = CHR ''-''"

text \<open>One alphanumeric character, or two with up to 61 characters of a set between them.\<close>

definition bounded_name :: "(char \<Rightarrow> bool) \<Rightarrow> (char \<Rightarrow> bool) \<Rightarrow> string \<Rightarrow> bool" where
  "bounded_name edge mid s \<longleftrightarrow> s \<noteq> [] \<and> length s \<le> 63 \<and> edge (hd s) \<and> edge (last s) \<and>
     list_all mid (butlast (tl s))"

definition labelNameRe :: "string \<Rightarrow> bool" where "labelNameRe s = bounded_name is_alnum label_char s"

definition dnsLabelPartRe :: "string \<Rightarrow> bool" where
  "dnsLabelPartRe s = bounded_name (\<lambda>c. is_lower c \<or> is_digit c)
     (\<lambda>c. is_lower c \<or> is_digit c \<or> c = CHR ''-'') s"

definition labelValueRe :: "string \<Rightarrow> bool" where
  "labelValueRe s \<longleftrightarrow> s = [] \<or> bounded_name is_alnum label_char s"

definition isValidLabelName :: "string \<Rightarrow> bool" where
  "isValidLabelName name = (if length name = 0 \<or> length name > 63 then False else labelNameRe name)"

definition isValidDNSSubdomain :: "string \<Rightarrow> bool" where
  "isValidDNSSubdomain s = (if length s = 0 \<or> length s > 253 then False
     else list_all dnsLabelPartRe (split_on CHR ''.'' s))"

definition isValidLabelKey :: "string \<Rightarrow> bool" where
  "isValidLabelKey key = (case split_on CHR ''/'' key of
     [p] \<Rightarrow> isValidLabelName p
   | [p, q] \<Rightarrow> isValidDNSSubdomain p \<and> isValidLabelName q
   | _ \<Rightarrow> False)"

definition isValidLabelValue :: "string \<Rightarrow> bool" where
  "isValidLabelValue v = (if length v > 63 then False else labelValueRe v)"

text \<open>strings.SplitN with limit 2 at the first equals sign.\<close>

definition split_pair :: "string \<Rightarrow> (string \<times> string) option" where
  "split_pair p = (case dropWhile (\<lambda>c. c \<noteq> CHR ''='') p of
     [] \<Rightarrow> None | e # v \<Rightarrow> Some (takeWhile (\<lambda>c. c \<noteq> CHR ''='') p, v))"

definition valid_pair :: "string \<Rightarrow> bool" where
  "valid_pair p = (case split_pair p of None \<Rightarrow> False
     | Some (k, v) \<Rightarrow> isValidLabelKey k \<and> isValidLabelValue v)"

definition sanitize_labels_arg :: "string \<Rightarrow> string \<Rightarrow> string" where
  "sanitize_labels_arg pre labelsVal =
     (let valid = filter valid_pair (split_on CHR '','' labelsVal) in
      if valid = [] then [] else pre @ join_with '','' valid)"

definition sanitizeBootstrapLabels :: "string \<Rightarrow> string" where
  "sanitizeBootstrapLabels script = replace_matches (\<lambda>s. case labelsArgRe s of None \<Rightarrow> None
     | Some (pre, v, rest) \<Rightarrow> Some (sanitize_labels_arg pre v, rest)) script"

text \<open>The taint karpenter.sh/unregistered of the karpenter core.\<close>

definition UnregisteredNoExecuteTaint :: Taint where
  "UnregisteredNoExecuteTaint =
     \<lparr>tnt_Key = ''karpenter.sh/unregistered'', tnt_Value = [], tnt_Effect = ''NoExecute''\<rparr>"

definition convertTaints2String :: "Taint list \<Rightarrow> string" where
  "convertTaints2String taints = join_with '','' (List.map (\<lambda>t.
     let pair = tnt_Key t @ ''='' @ tnt_Value t in
     if tnt_Effect t \<noteq> [] then pair @ '':'' @ tnt_Effect t else pair) taints)"

definition script_with_header :: "string \<Rightarrow> string" where
  "script_with_header script =
     (if \<not> has_prefix script ''#!/bin/bash'' then ''#!/bin/bash'' @ nl @ ''set -ex'' @ nl @ script
      else if \<not> contains_str script ''set -ex'' then
        (case split_on (CHR 0x0A) script of
           l0 # l1 # ls \<Rightarrow> join_with nl (l0 # (''set -ex'' @ nl @ l1) # ls)
         | _ \<Rightarrow> script)
      else script)"

definition ensureScriptHeader :: "string \<Rightarrow> string" where
  "ensureScriptHeader script =
     (if script \<noteq> '''' then
        script_with_header (filter (\<lambda>c. c \<noteq> CHR 0x0D) script) @ '' --taints '' @
          convertTaints2String [UnregisteredNoExecuteTaint]
      else script)"

section \<open>ACK clusters\<close>

definition bootCacheTTL :: int where "bootCacheTTL = 5 * minute_ns"

definition getACKBootstrapScriptByCluster :: "'w CsApi \<Rightarrow> BootstrapOptions \<Rightarrow> string cache \<Rightarrow> 'w \<Rightarrow>
    (string + string) \<times> string cache" where
  "getACKBootstrapScriptByCluster cs opts c w =
     (if bo_ClusterID opts = '''' then (Inl ''cluster ID is required for ACK clusters'', c)
      else let cacheKey = ''cs-bootstrap-script-'' @ bo_ClusterID opts in
      case getCachedValue cacheKey (cs_clk cs w) (cs_clk cs w) c of
        (Some script, c1) \<Rightarrow> (Inr script, c1)
      | (None, c1) \<Rightarrow> (case cs_attach cs (bo_ClusterID opts) w of
          Inl err \<Rightarrow> (Inl (''failed to describe cluster attach scripts: '' @ err), c1)
        | Inr script0 \<Rightarrow>
            (let script = sanitizeBootstrapLabels (patchRuntimeVersion cs (bo_ClusterID opts) script0 w) in
             (Inr script, setCachedValue cacheKey script bootCacheTTL (cs_clk cs w) c1))))"

definition generateACKBootstrapScript :: "'w CsApi \<Rightarrow> BootstrapOptions \<Rightarrow> string cache \<Rightarrow> 'w \<Rightarrow>
    (string + string) \<times> string cache" where
  "generateACKBootstrapScript cs opts c w =
     (if bo_ClusterID opts = '''' then (Inl ''cluster ID is required for ACK clusters'', c)
      else case getACKBootstrapScriptByCluster cs opts c w of
        (Inl err, c1) \<Rightarrow> (Inl (''failed to get ACK bootstrap script: '' @ err), c1)
      | (Inr script, c1) \<Rightarrow> (Inr (if script \<noteq> '''' then ensureScriptHeader script else script), c1))"

definition append_custom :: "string \<Rightarrow> string option \<Rightarrow> string" where
  "append_custom userData custom = (case custom of
     None \<Rightarrow> userData
   | Some cu \<Rightarrow> if cu = '''' then userData else if userData = '''' then cu
       else (if has_suffix userData nl then userData else userData @ nl) @ cu)"

section \<open>Self-managed clusters\<close>

text \<open>The verb %q of fmt: a map prints its entries in the order of the keys.\<close>

definition quote_map :: "gomap \<Rightarrow> string" where
  "quote_map m = ''map['' @ join_with '' '' (List.map (\<lambda>k. go_quote k @ '':'' @ go_quote (or_else (map_of m k) []))
     (sort (List.map fst m))) @ '']''"

definition quote_list :: "string list \<Rightarrow> string" where
  "quote_list xs = ''['' @ join_with '' '' (List.map go_quote xs) @ '']''"

definition arg_int :: "string \<Rightarrow> int option \<Rightarrow> (string \<times> string) list list" where
  "arg_int k v = (case v of None \<Rightarrow> [] | Some i \<Rightarrow> [[(''Key'', k), (''Value'', itoa i)]])"

definition arg_map :: "string \<Rightarrow> gomap \<Rightarrow> (string \<times> string) list list" where
  "arg_map k m = (if m = [] then [] else [[(''Key'', k), (''Value'', quote_map m)]])"

definition buildKubeletArgs :: "BootstrapOptions \<Rightarrow> (string \<times> string) list list" where
  "buildKubeletArgs opts = (case bo_KubeletConfig opts of None \<Rightarrow> []
   | Some kc \<Rightarrow>
       arg_int ''maxPods'' (bk_MaxPods kc) @ arg_int ''podsPerCore'' (bk_PodsPerCore kc) @
       (case bk_CPUCFSQuota kc of None \<Rightarrow> [] | Some b \<Rightarrow> [[(''Key'', ''cpuCFSQuota''), (''Value'', bool_str b)]]) @
       arg_map ''systemReserved'' (bk_SystemReserved kc) @ arg_map ''kubeReserved'' (bk_KubeReserved kc) @
       arg_map ''evictionHard'' (bk_EvictionHard kc) @ arg_map ''evictionSoft'' (bk_EvictionSoft kc) @
       arg_map ''evictionSoftGracePeriod'' (bk_EvictionSoftGracePeriod kc) @
       arg_int ''evictionMaxPodGracePeriod'' (bk_EvictionMaxPodGracePeriod kc) @
       arg_int ''imageGCHighThresholdPercent'' (bk_ImageGCHighThresholdPercent kc) @
       arg_int ''imageGCLowThresholdPercent'' (bk_ImageGCLowThresholdPercent kc) @
       (if bk_ClusterDNS kc = [] then []
        else [[(''Key'', ''clusterDNS''), (''Value'', quote_list (bk_ClusterDNS kc))]]))"

text \<open>Labels and taints as the flags of the kubelet write them.\<close>

definition formatLabels :: "gomap \<Rightarrow> string" where
  "formatLabels labels = (if labels = [] then [] else join_with '','' (List.map (\<lambda>(k, v). k @ ''='' @ v) labels))"

definition formatTaints :: "Taint list \<Rightarrow> string" where
  "formatTaints taints = (if taints = [] then []
     else join_with '','' (List.map (\<lambda>t. tnt_Key t @ ''='' @ tnt_Value t @ '':'' @ tnt_Effect t) taints))"

definition buildNodeLabels :: "BootstrapOptions \<Rightarrow> string" where
  "buildNodeLabels opts = (if bo_Labels opts = [] then []
     else join_with '','' (List.map (\<lambda>(k, v). k @ ''='' @ v) (bo_Labels opts)))"

definition buildNodeTaints :: "BootstrapOptions \<Rightarrow> string" where
  "buildNodeTaints opts = (if bo_Taints opts = [] then []
     else join_with '','' (List.map (\<lambda>t. tnt_Key t @ ''='' @ tnt_Value t @ '':'' @ tnt_Effect t) (bo_Taints opts)))"

definition generateSelfManagedBootstrapScript :: "BootstrapOptions \<Rightarrow> string + string" where
  "generateSelfManagedBootstrapScript opts =
     (if bo_ClusterEndpoint opts = '''' then Inl ''cluster endpoint is required for self-managed clusters''
      else Inr (exec_template scriptTemplate
        [(''ClusterEndpoint'', VStr (bo_ClusterEndpoint opts)), (''NodeName'', VStr (bo_NodeName opts)),
         (''Token'', VStr ''abc.def.ghi''), (''CACertHash'', VStr ''sha256:xyz''),
         (''KubeletArgs'', VList (buildKubeletArgs opts)), (''NodeLabels'', VStr (buildNodeLabels opts)),
         (''NodeTaints'', VStr (buildNodeTaints opts))]))"

section \<open>kubeadm clusters\<close>

definition kubeadm_data :: "BootstrapOptions \<Rightarrow> (string \<times> tval) list" where
  "kubeadm_data opts =
     [(''ClusterEndpoint'', VStr (bo_ClusterEndpoint opts)), (''NodeName'', VStr (bo_NodeName opts)),
      (''Labels'', VStr (formatLabels (bo_Labels opts))), (''Taints'', VStr (formatTaints (bo_Taints opts))),
      (''MaxPods'', VPtr (case bo_KubeletConfig opts of None \<Rightarrow> None
         | Some kc \<Rightarrow> map_option itoa (bk_MaxPods kc))),
      (''CustomUserData'', VPtr (bo_CustomUserData opts)),
      (''ContainerRuntime'', VStr (bo_ContainerRuntime opts))]"

definition kubeadmUserData :: "BootstrapOptions \<Rightarrow> string + string" where
  "kubeadmUserData opts = Inr (exec_template kubeadmUserDataTemplate (kubeadm_data opts))"

definition GenerateUserData :: "'w CsApi \<Rightarrow> BootstrapOptions \<Rightarrow> string cache \<Rightarrow> 'w \<Rightarrow>
    (string + string) \<times> string cache" where
  "GenerateUserData cs opts c w =
     (if bo_ClusterType opts = ACKClusterType then
        (case generateACKBootstrapScript cs opts c w of
           (Inl err, c1) \<Rightarrow> (Inl err, c1)
         | (Inr userData, c1) \<Rightarrow> (Inr (append_custom userData (bo_CustomUserData opts)), c1))
      else if bo_ClusterType opts = SelfManagedClusterType then (generateSelfManagedBootstrapScript opts, c)
      else if bo_ClusterType opts = KubeadmClusterType then (kubeadmUserData opts, c)
      else (Inl (''unsupported cluster type: '' @ bo_ClusterType opts), c))"

section \<open>Properties\<close>

lemma replace_matches_skip:
  assumes "\<And>k. k < length a \<Longrightarrow> m (drop k a @ t) = None"
  shows "replace_matches m (a @ t) = a @ replace_matches m t"
  using assms
proof (induction a)
  case (Cons c a)
  have "m (c # a @ t) = None" using Cons.prems [of 0] by simp
  moreover have "replace_matches m (a @ t) = a @ replace_matches m t"
    using Cons.prems [of "Suc k" for k] by (intro Cons.IH) simp
  ultimately show ?case by (subst replace_matches.simps) simp
qed simp

lemma replace_matches_hit:
  "m t = Some (r, rest) \<Longrightarrow> length rest < length t \<Longrightarrow> replace_matches m t = r @ replace_matches m rest"
  by (subst replace_matches.simps) simp

lemma dropWhile_append_stop:
  "\<forall>c \<in> set v. P c \<Longrightarrow> b = [] \<or> \<not> P (hd b) \<Longrightarrow> dropWhile P (v @ b) = b \<and> takeWhile P (v @ b) = v"
  by (induction v) (auto simp: dropWhile_hd_id takeWhile_eq_Nil_iff)

lemma labelsArgRe_match:
  assumes "v \<noteq> []" "\<forall>c \<in> set v. \<not> re_space c" "b = [] \<or> re_space (hd b)"
  shows "labelsArgRe (''--labels '' @ v @ b) = Some (''--labels '', v, b)"
proof -
  have lit: "re_lit ''--labels'' (''--labels '' @ v @ b) = Some ('' '' @ v @ b)"
    by (simp add: re_lit_def has_prefix_def)
  have sp: "re_space CHR '' ''" by (simp add: re_space_def)
  obtain c cs where v: "v = c # cs" and c: "\<not> re_space c" using assms(1,2) by (cases v) auto
  have spaces: "re_spaces ('' '' @ v @ b) = Some (v @ b)" "takeWhile re_space ('' '' @ v @ b) = '' ''"
    using c sp by (simp_all add: re_spaces_def v Let_def)
  have w: "dropWhile (\<lambda>c. \<not> re_space c) (v @ b) = b \<and> takeWhile (\<lambda>c. \<not> re_space c) (v @ b) = v"
    using assms(2,3) by (intro dropWhile_append_stop) auto
  then have "re_word (v @ b) = Some (v, b)"
    using assms(1) by (simp add: re_word_def Let_def)
  with lit spaces show ?thesis by (simp add: labelsArgRe_def)
qed

lemma split_join_comma:
  "ws \<noteq> [] \<Longrightarrow> \<forall>w \<in> set ws. CHR '','' \<notin> set w \<Longrightarrow> split_on CHR '','' (join_with '','' ws) = ws"
proof (induction ws rule: induct_list012)
  case (3 v w ws)
  then show ?case using split_on_append [of "CHR '',''" v "join_with '','' (w # ws)"] by simp
qed (simp_all add: split_on_no_sep)

text \<open>
  The label argument of a bootstrap script is cleaned: where the script passes a list
  of labels (and no earlier match overlaps it), exactly the pairs with a legal key and a
  legal value remain, in order; the whole argument goes when none is left, and the
  rest of the script is treated in the same way.
\<close>
theorem sanitize_keeps_valid_labels:
  assumes "v \<noteq> []" "\<forall>c \<in> set v. \<not> re_space c" "b = [] \<or> re_space (hd b)"
    and "\<And>k. k < length a \<Longrightarrow> labelsArgRe (drop k a @ ''--labels '' @ v @ b) = None"
  shows "\<exists>arg. sanitizeBootstrapLabels (a @ ''--labels '' @ v @ b) = a @ arg @ sanitizeBootstrapLabels b \<and>
     (if filter valid_pair (split_on CHR '','' v) = [] then arg = []
      else \<exists>l. arg = ''--labels '' @ l \<and> split_on CHR '','' l = filter valid_pair (split_on CHR '','' v))"
proof -
  let ?m = "\<lambda>s. case labelsArgRe s of None \<Rightarrow> None
     | Some (pre, v, rest) \<Rightarrow> Some (sanitize_labels_arg pre v, rest)"
  let ?arg = "sanitize_labels_arg ''--labels '' v"
  let ?ws = "filter valid_pair (split_on CHR '','' v)"
  have "sanitizeBootstrapLabels (a @ ''--labels '' @ v @ b) = a @ replace_matches ?m (''--labels '' @ v @ b)"
    unfolding sanitizeBootstrapLabels_def using assms(4) by (intro replace_matches_skip) simp
  also have "replace_matches ?m (''--labels '' @ v @ b) = ?arg @ replace_matches ?m b"
    using labelsArgRe_match [OF assms(1-3)] assms(1) by (intro replace_matches_hit) simp_all
  finally have s: "sanitizeBootstrapLabels (a @ ''--labels '' @ v @ b) = a @ ?arg @ sanitizeBootstrapLabels b"
    by (simp add: sanitizeBootstrapLabels_def)
  have "split_on CHR '','' (join_with '','' ?ws) = ?ws" if "?ws \<noteq> []"
    using that split_on_pieces [of _ "CHR '',''" v] by (intro split_join_comma) auto
  then show ?thesis
    using s by (intro exI [of _ ?arg]) (auto simp: sanitize_labels_arg_def Let_def)
qed

theorem sanitize_keeps_valid_labels_witness:
  "\<exists>arg l. sanitizeBootstrapLabels ''join --labels a=b,-x=1'' = ''join '' @ arg \<and> arg = ''--labels '' @ l \<and>
     split_on CHR '','' l = [''a=b'']"
proof -
  have none: "labelsArgRe (drop k ''join '' @ ''--labels '' @ ''a=b,-x=1'' @ []) = None"
    if "k < length ''join ''" for k
  proof -
    from that have "k = 0 \<or> k = 1 \<or> k = 2 \<or> k = 3 \<or> k = 4" by auto
    then show ?thesis by (auto simp: labelsArgRe_def re_lit_def has_prefix_def)
  qed
  have f: "filter valid_pair (split_on CHR '','' ''a=b,-x=1'') = [''a=b'']"
    by (simp add: valid_pair_def split_pair_def isValidLabelKey_def isValidLabelName_def labelNameRe_def
        isValidLabelValue_def labelValueRe_def bounded_name_def is_alnum_def is_upper_def is_lower_def is_digit_def)
  have e: "sanitizeBootstrapLabels [] = []"
    by (simp add: sanitizeBootstrapLabels_def replace_matches.simps labelsArgRe_def re_lit_def has_prefix_def)
  have "\<forall>c \<in> set ''a=b,-x=1''. \<not> re_space c" by (simp add: re_space_def)
  from sanitize_keeps_valid_labels [OF _ this _ none] f e show ?thesis by auto
qed

lemma has_prefix_script: "script_with_header s = h \<Longrightarrow> s \<noteq> [] \<Longrightarrow> has_prefix h ''#!/bin/bash''"
proof -
  assume h: "script_with_header s = h"
  show ?thesis
  proof (cases "has_prefix s ''#!/bin/bash''")
    case False
    with h show ?thesis by (auto simp: script_with_header_def has_prefix_def)
  next
    case p: True
    then obtain r where s: "s = ''#!/bin/bash'' @ r" by (auto simp: has_prefix_prefix prefix_def)
    obtain l0 ls where l: "split_on (CHR 0x0A) s = (''#!/bin/bash'' @ l0) # ls"
      by (cases "split_on (CHR 0x0A) r") (auto simp: s)
    then show ?thesis
      using h p by (cases ls) (auto simp: script_with_header_def has_prefix_prefix split: if_splits)
  qed
qed

text \<open>
  The user data of an ACK node is a script that registers the node with the taint
  karpenter expects: when the cluster hands out a non-empty script, the result
  starts with the bash interpreter line, carries the unregistered taint, and
  ends with the custom user data of the node class.
\<close>
theorem ACK_user_data:
  assumes "bo_ClusterType opts = ACKClusterType"
    and "GenerateUserData cs opts c w = (Inr ud, c')"
    and "getACKBootstrapScriptByCluster cs opts c w = (Inr script, c')" "filter (\<lambda>c. c \<noteq> CHR 0x0D) script \<noteq> []"
  shows "has_prefix ud ''#!/bin/bash'' \<and> contains_str ud '' --taints karpenter.sh/unregistered=:NoExecute'' \<and>
     has_suffix ud (or_else (bo_CustomUserData opts) [])"
proof -
  let ?h = "script_with_header (filter (\<lambda>c. c \<noteq> CHR 0x0D) script)"
  have t: "convertTaints2String [UnregisteredNoExecuteTaint] = ''karpenter.sh/unregistered=:NoExecute''"
    by (simp add: convertTaints2String_def UnregisteredNoExecuteTaint_def)
  have "script \<noteq> []" using assms(4) by auto
  then have e: "ensureScriptHeader script = ?h @ '' --taints karpenter.sh/unregistered=:NoExecute''"
    by (simp only: ensureScriptHeader_def t) simp
  have "bo_ClusterID opts \<noteq> []"
    using assms(3) by (auto simp: getACKBootstrapScriptByCluster_def split: if_splits)
  then have ud: "ud = append_custom (ensureScriptHeader script) (bo_CustomUserData opts)"
    using assms(1,2,3) \<open>script \<noteq> []\<close>
    by (auto simp: GenerateUserData_def generateACKBootstrapScript_def)
  have "\<exists>b. ud = ensureScriptHeader script @ b \<and> suffix (or_else (bo_CustomUserData opts) []) ud"
    unfolding ud by (auto simp: append_custom_def e suffix_def split: option.split)
  then obtain b where b: "ud = ensureScriptHeader script @ b" "suffix (or_else (bo_CustomUserData opts) []) ud"
    by blast
  have "has_prefix ?h ''#!/bin/bash''" using has_prefix_script [OF refl assms(4)] .
  then have "has_prefix ud ''#!/bin/bash''"
    unfolding b(1) e has_prefix_prefix by (simp add: prefix_append)
  moreover have "contains_str ud '' --taints karpenter.sh/unregistered=:NoExecute''"
    unfolding b(1) e by (simp only: append_assoc contains_str_infix)
  ultimately show ?thesis using b(2) by (simp add: has_suffix_suffix)
qed

definition sample_cs :: "string \<Rightarrow> unit CsApi" where
  "sample_cs script = \<lparr>cs_attach = (\<lambda>i w. Inr script), cs_version = (\<lambda>i w. Inl ''no''),
     cs_runtimes = (\<lambda>v w. Inl ''no''), cs_clk = (\<lambda>w. 0)\<rparr>"

definition sample_boot :: "string \<Rightarrow> string option \<Rightarrow> BootstrapOptions" where
  "sample_boot ct custom = \<lparr>bo_ClusterType = ct, bo_ClusterID = ''c-1'', bo_ClusterName = [],
     bo_ClusterEndpoint = ''1.2.3.4:6443'', bo_NodeName = ''n'', bo_KubeletConfig = None, bo_Labels = [],
     bo_Taints = [], bo_CustomUserData = custom, bo_ContainerRuntime = []\<rparr>"

theorem ACK_user_data_witness:
  "\<exists>ud c. GenerateUserData (sample_cs ''x'') (sample_boot ACKClusterType (Some ''echo'')) [] () = (Inr ud, c) \<and>
     has_prefix ud ''#!/bin/bash'' \<and> has_suffix ud ''echo''"
proof -
  let ?cs = "sample_cs ''x''" and ?o = "sample_boot ACKClusterType (Some ''echo'')"
  have x: "sanitizeBootstrapLabels ''x'' = ''x''"
    by (simp add: sanitizeBootstrapLabels_def replace_matches.simps labelsArgRe_def re_lit_def has_prefix_def)
  obtain c where s: "getACKBootstrapScriptByCluster ?cs ?o [] () = (Inr ''x'', c)"
    by (simp add: getACKBootstrapScriptByCluster_def sample_cs_def sample_boot_def Let_def x
        getCachedValue_def cache_read_def patchRuntimeVersion_def)
  obtain ud where g: "GenerateUserData ?cs ?o [] () = (Inr ud, c)"
    by (simp add: GenerateUserData_def sample_boot_def generateACKBootstrapScript_def
        s [unfolded sample_boot_def])
  have "bo_ClusterType ?o = ACKClusterType" by (simp add: sample_boot_def)
  from ACK_user_data [OF this g s] g show ?thesis by (simp add: sample_boot_def)
qed

text \<open>
  A kubeadm node can never join with the generated user data: whatever the options,
  the join configuration carries the text for a missing value as its token and as
  the hash of the cluster certificate, because the template uses two fields that the code does not supply.
\<close>
theorem kubeadm_user_data_has_no_token:
  "\<exists>ud. kubeadmUserData opts = Inr ud \<and>
     contains_str ud (''token: '' @ dq @ no_value @ dq) \<and> contains_str ud (''- '' @ dq @ no_value @ dq)"
proof -
  let ?env = "kubeadm_data opts"
  let ?ud = "exec_template kubeadmUserDataTemplate ?env"
  have f: "show_field ?env ''JoinToken'' = no_value" "show_field ?env ''CACertHash'' = no_value"
    by (simp_all add: show_field_def kubeadm_data_def)
  have "kubeadmUserDataTemplate = take 17 kubeadmUserDataTemplate @
      [Text (dq @ nl @ ''    token: '' @ dq), Field ''JoinToken'',
       Text (dq @ nl @ ''    caCertHashes:'' @ nl @ ''      - '' @ dq), Field ''CACertHash'', Text kubeadm_join] @
      drop 22 kubeadmUserDataTemplate"
    by (simp add: kubeadmUserDataTemplate_def)
  then obtain a b where t: "kubeadmUserDataTemplate = a @ [Text (dq @ nl @ ''    token: '' @ dq), Field ''JoinToken'',
      Text (dq @ nl @ ''    caCertHashes:'' @ nl @ ''      - '' @ dq), Field ''CACertHash'', Text kubeadm_join] @ b"
    by blast
  obtain j where j: "kubeadm_join = dq @ j" by (simp add: kubeadm_join_def)
  have u: "?ud = exec_template a ?env @ (dq @ nl @ ''    token: '' @ dq) @ no_value @
      (dq @ nl @ ''    caCertHashes:'' @ nl @ ''      - '' @ dq) @ no_value @ (dq @ j) @ exec_template b ?env"
    unfolding t exec_template_def j [symmetric] using f by simp
  have "?ud = (exec_template a ?env @ dq @ nl @ ''    '') @ (''token: '' @ dq @ no_value @ dq) @
      (nl @ ''    caCertHashes:'' @ nl @ ''      - '' @ dq @ no_value @ dq @ j @ exec_template b ?env)"
    unfolding u by simp
  moreover have "?ud = (exec_template a ?env @ dq @ nl @ ''    token: '' @ dq @ no_value @
      dq @ nl @ ''    caCertHashes:'' @ nl @ ''      '') @ (''- '' @ dq @ no_value @ dq) @ (j @ exec_template b ?env)"
    unfolding u by simp
  ultimately have "contains_str ?ud (''token: '' @ dq @ no_value @ dq)" "contains_str ?ud (''- '' @ dq @ no_value @ dq)"
    by (metis contains_str_infix)+
  then show ?thesis by (simp add: kubeadmUserData_def)
qed

end
