(* ===== verification/CreatePlan.thy ===== *)
theory CreatePlan
  imports Fallback NodeCapacity Bootstrap
begin

text \<open>
  Choosing and launching an instance (pkg/cloudprovider/cloudprovider.go:
  createInstanceWithRetry, vswitchFallbackCreate and what they call).

  The creation call is an argument, as in the source (createFn), acting on a
  state 'w of the cloud; sort.Slice, which is not stable, is the parameter
  sort_vsw: a permutation ordered by descending number of free addresses.
\<close>

section \<open>What is read off a NodeClaim\<close>

definition capacityTypeFromRequirements :: "NodeSelectorRequirement list \<Rightarrow> string" where
  "capacityTypeFromRequirements reqs =
     (if list_ex (\<lambda>req. nsr_Key req = LabelCapacityType \<and> nsr_Operator req = NodeSelectorOpIn \<and>
          CapacityTypeSpot \<in> set (nsr_Values req)) reqs
      then CapacityTypeSpot else CapacityTypeOnDemand)"

definition zonesFromRequirements :: "NodeSelectorRequirement list \<Rightarrow> string list" where
  "zonesFromRequirements requirements =
     (case find (\<lambda>req. nsr_Key req = LabelTopologyZone \<and> nsr_Operator req = NodeSelectorOpIn) requirements of
        Some req \<Rightarrow> nsr_Values req | None \<Rightarrow> [])"

definition vswitch_zone :: "VSwitch \<Rightarrow> string" where
  "vswitch_zone vs = (if vsw_ZoneID vs = '''' then vsw_Zone vs else vsw_ZoneID vs)"

definition filterVSwitchesByZones :: "VSwitch list \<Rightarrow> string list \<Rightarrow> VSwitch list" where
  "filterVSwitchesByZones vswitches allowedZones =
     (if allowedZones = [] then vswitches
      else filter (\<lambda>vs. vswitch_zone vs \<in> set allowedZones) vswitches)"

definition convert_operator :: "string \<Rightarrow> string option" where
  "convert_operator op =
     (if op = NodeSelectorOpIn then Some OperatorIn
      else if op = NodeSelectorOpNotIn then Some OperatorNotIn
      else if op = NodeSelectorOpExists then Some OperatorExists
      else if op = NodeSelectorOpDoesNotExist then Some OperatorDoesNotExist
      else None)"

definition convert_requirement :: "NodeSelectorRequirement \<Rightarrow> InstanceTypeRequirement option" where
  "convert_requirement req = (case convert_operator (nsr_Operator req) of None \<Rightarrow> None
   | Some op \<Rightarrow> Some \<lparr>req_Key = nsr_Key req, req_Operator = op, req_Values = nsr_Values req\<rparr>)"

definition filterInstanceTypesByRequirements :: "string \<Rightarrow> InstanceType list \<Rightarrow> NodeSelectorRequirement list \<Rightarrow>
    InstanceType list" where
  "filterInstanceTypesByRequirements region its requirements =
     FilterTypes region its (List.map_filter convert_requirement requirements)"

section \<open>What is read off a NodeClass\<close>

definition determineClusterType :: "ECSNodeClass \<Rightarrow> string" where
  "determineClusterType nodeClass =
     (if nc_ClusterID (k_Spec nodeClass) \<noteq> '''' then ACKClusterType else KubeadmClusterType)"

definition getCustomUserData :: "ECSNodeClass \<Rightarrow> string" where
  "getCustomUserData nodeClass = or_else (nc_UserData (k_Spec nodeClass)) []"

definition convertToCoreTaints :: "Taint list \<Rightarrow> Taint list" where
  "convertToCoreTaints taints = taints"

definition convertKubeletConfigToBootstrap :: "KubeletConfiguration option \<Rightarrow> BootKubelet option" where
  "convertKubeletConfigToBootstrap config = (case config of None \<Rightarrow> None
   | Some kc \<Rightarrow> Some \<lparr>bk_MaxPods = kc_MaxPods kc, bk_PodsPerCore = kc_PodsPerCore kc,
       bk_CPUCFSQuota = kc_CPUCFSQuota kc, bk_SystemReserved = kc_SystemReserved kc,
       bk_KubeReserved = kc_KubeReserved kc, bk_EvictionHard = kc_EvictionHard kc,
       bk_EvictionSoft = kc_EvictionSoft kc, bk_EvictionSoftGracePeriod = kc_EvictionSoftGracePeriod kc,
       bk_EvictionMaxPodGracePeriod = kc_EvictionMaxPodGracePeriod kc,
       bk_ImageGCHighThresholdPercent = kc_ImageGCHighThresholdPercent kc,
       bk_ImageGCLowThresholdPercent = kc_ImageGCLowThresholdPercent kc,
       bk_ClusterDNS = kc_ClusterDNS kc\<rparr>)"

definition convertMetadataOptions :: "MetadataOptions option \<Rightarrow> InstMetadataOptions option" where
  "convertMetadataOptions opts = (case opts of None \<Rightarrow> None
   | Some m \<Rightarrow> Some \<lparr>imo_HttpEndpoint = nonempty_opt (mo_HttpEndpoint m),
       imo_HttpTokens = nonempty_str (mo_HttpTokens m),
       imo_HttpPutResponseHopLimit = mo_HttpPutResponseHopLimit m\<rparr>)"

definition validateRAMRoleForCreate :: "ECSNodeClass \<Rightarrow> string + string" where
  "validateRAMRoleForCreate nodeClass = (case nc_Role (k_Spec nodeClass) of
     None \<Rightarrow> Inr []
   | Some role \<Rightarrow> (case st_RAMRole (k_Status nodeClass) of
       None \<Rightarrow> Inl (''nodeclass status.ramRole is not resolved for spec.role '' @ go_quote role)
     | Some r \<Rightarrow>
         if r \<noteq> role then Inl (''nodeclass status.ramRole '' @ go_quote r @ '' does not match spec.role '' @
             go_quote role @ ''; status may be stale'')
         else Inr r))"

text \<open>The first image of the architecture, otherwise the first image; without images the code panics.\<close>

definition selectImageForArchitecture :: "Image list \<Rightarrow> string \<Rightarrow> Image option" where
  "selectImageForArchitecture images targetArch =
     (case find (\<lambda>img. KubeArchitecture (img_Architecture img) = targetArch) images of
        Some img \<Rightarrow> Some img
      | None \<Rightarrow> (case images of [] \<Rightarrow> None | img # _ \<Rightarrow> Some img))"

definition inst_data_disk :: "NormalizedDataDisk \<Rightarrow> InstDataDisk" where
  "inst_data_disk d = \<lparr>idd_Category = ndd_Category d, idd_Size = ndd_Size d,
     idd_PerformanceLevel = ndd_PerformanceLevel d, idd_Encrypted = ndd_Encrypted d,
     idd_KMSKeyID = ndd_KMSKeyID d, idd_SnapshotID = ndd_SnapshotID d,
     idd_DeleteWithInstance = ndd_DeleteWithInstance d, idd_Device = ndd_Device d\<rparr>"

definition inst_system_disk :: "NormalizedSystemDisk \<Rightarrow> InstSystemDisk" where
  "inst_system_disk d = \<lparr>isd_Category = nsd_Category d, isd_Size = nsd_Size d,
     isd_PerformanceLevel = nsd_PerformanceLevel d, isd_Encrypted = nsd_Encrypted d,
     isd_KMSKeyID = nsd_KMSKeyID d\<rparr>"

text \<open>What does not depend on the candidate: the parts shared by all attempts.\<close>

record LaunchPlan =
  lp_Images :: "Image list"
  lp_SecurityGroupIDs :: "string list"
  lp_UserData :: string
  lp_Tags :: gomap
  lp_RAMRoleName :: string
  lp_Disks :: NormalizedDisks
  lp_CapacityType :: string
  lp_DualStack :: bool

definition baseOpts :: "ECSNodeClass \<Rightarrow> LaunchPlan \<Rightarrow> InstanceType \<Rightarrow> CreateOptions" where
  "baseOpts nodeClass plan it =
     \<lparr>co_InstanceType = it_Name it,
      co_ImageID = (case selectImageForArchitecture (lp_Images plan) (it_Architecture it) of
                      Some img \<Rightarrow> img_ID img | None \<Rightarrow> []),
      co_VSwitchID = [],
      co_SecurityGroupIDs = lp_SecurityGroupIDs plan,
      co_UserData = lp_UserData plan,
      co_Tags = lp_Tags plan,
      co_SystemDisk = inst_system_disk (nd_SystemDisk (lp_Disks plan)),
      co_DataDisks = List.map inst_data_disk (nd_DataDisks (lp_Disks plan)),
      co_SpotStrategy = SpotStrategyForCapacityType (lp_CapacityType plan) (nc_SpotStrategy (k_Spec nodeClass)),
      co_SpotPriceLimit = (if lp_CapacityType plan = CapacityTypeSpot
                           then or_else (nc_SpotPriceLimit (k_Spec nodeClass)) 0 else 0),
      co_RAMRoleName = lp_RAMRoleName plan,
      co_MetadataOptions = convertMetadataOptions (nc_MetadataOptions (k_Spec nodeClass)),
      co_InstanceStorePolicy = nd_InstanceStorePolicy (lp_Disks plan),
      co_Ipv6AddressCount = (if lp_DualStack plan then Some 1 else None)\<rparr>"

section \<open>The two loops\<close>

type_synonym 'w create_fn = "CreateOptions \<Rightarrow> 'w \<Rightarrow> (string + string) \<times> 'w"

definition last_error :: "string option \<Rightarrow> string" where
  "last_error e = or_else e ''%!w(<nil>)''"

definition capacity_error :: "string \<Rightarrow> bool" where
  "capacity_error e = IsInsufficientCapacityError (Some e)"

fun vswitch_loop :: "'w create_fn \<Rightarrow> CreateOptions \<Rightarrow> VSwitch list \<Rightarrow> string option \<Rightarrow> 'w \<Rightarrow>
    (string + string) \<times> 'w" where
  "vswitch_loop createFn base [] lastErr w = (Inl (''all vSwitches exhausted, last error: '' @ last_error lastErr), w)"
| "vswitch_loop createFn base (vsw # rest) lastErr w =
     (case createFn (base\<lparr>co_VSwitchID := vsw_ID vsw\<rparr>) w of
        (Inr instanceID, w') \<Rightarrow> (Inr instanceID, w')
      | (Inl err, w') \<Rightarrow>
          if capacity_error err then vswitch_loop createFn base rest (Some err) w'
          else (Inl (''failed to create instance: '' @ err), w'))"

definition vswitchFallbackCreate :: "(VSwitch list \<Rightarrow> VSwitch list) \<Rightarrow> 'w create_fn \<Rightarrow> CreateOptions \<Rightarrow>
    VSwitch list \<Rightarrow> 'w \<Rightarrow> (string + string) \<times> 'w" where
  "vswitchFallbackCreate sort_vsw createFn base vswitches w =
     vswitch_loop createFn base (sort_vsw vswitches) None w"

fun types_loop :: "(VSwitch list \<Rightarrow> VSwitch list) \<Rightarrow> 'w create_fn \<Rightarrow> ECSNodeClass \<Rightarrow> LaunchPlan \<Rightarrow>
    VSwitch list \<Rightarrow> nat \<Rightarrow> InstanceType list \<Rightarrow> string option \<Rightarrow> 'w \<Rightarrow> (string + string) \<times> 'w" where
  "types_loop sort_vsw createFn nodeClass plan vswitches n [] lastErr w =
     (Inl (''all instance types exhausted across all zones ('' @ itoa (int n) @ '' types tried), last error: '' @
        last_error lastErr), w)"
| "types_loop sort_vsw createFn nodeClass plan vswitches n (it # rest) lastErr w =
     (case vswitchFallbackCreate sort_vsw createFn (baseOpts nodeClass plan it) vswitches w of
        (Inr instanceID, w') \<Rightarrow> (Inr instanceID, w')
      | (Inl err, w') \<Rightarrow>
          if capacity_error err then types_loop sort_vsw createFn nodeClass plan vswitches n rest (Some err) w'
          else (Inl (''failed to create instance: '' @ err), w'))"

definition createInstanceWithRetry :: "(VSwitch list \<Rightarrow> VSwitch list) \<Rightarrow> 'w create_fn \<Rightarrow> NetworkConfig option \<Rightarrow>
    NodeClaim \<Rightarrow> ECSNodeClass \<Rightarrow> InstanceType list \<Rightarrow> Image list \<Rightarrow> VSwitch list \<Rightarrow> SecurityGroup list \<Rightarrow>
    string \<Rightarrow> gomap \<Rightarrow> 'w \<Rightarrow> (string + string) \<times> 'w" where
  "createInstanceWithRetry sort_vsw createFn netcfg nodeClaim nodeClass its images vswitches securityGroups
      userData tags w =
     (if its = [] \<or> images = [] \<or> vswitches = [] \<or> securityGroups = []
      then (Inl ''missing required parameters for instance creation'', w)
      else case validateRAMRoleForCreate nodeClass of
        Inl err \<Rightarrow> (Inl err, w)
      | Inr ramRoleName \<Rightarrow> (case NormalizeDisks (k_Spec nodeClass) of
          Inl err \<Rightarrow> (Inl err, w)
        | Inr disks \<Rightarrow>
            (let plan = \<lparr>lp_Images = images, lp_SecurityGroupIDs = NormalizeIDs (List.map sg_ID securityGroups),
                         lp_UserData = userData, lp_Tags = tags, lp_RAMRoleName = ramRoleName, lp_Disks = disks,
                         lp_CapacityType = capacityTypeFromRequirements (ncl_Requirements nodeClaim),
                         lp_DualStack = (case netcfg of Some nc \<Rightarrow> DualStack nc | None \<Rightarrow> False)\<rparr> in
             types_loop sort_vsw createFn nodeClass plan vswitches (length its) its None w)))"

text \<open>Both loops are fallback loops.\<close>

interpretation vsw: fallback_loop "vswitch_loop createFn base"
    "\<lambda>v. createFn (base\<lparr>co_VSwitchID := vsw_ID v\<rparr>)" capacity_error
    "\<lambda>e. ''failed to create instance: '' @ e"
    "\<lambda>l. ''all vSwitches exhausted, last error: '' @ last_error l"
  for createFn :: "'w create_fn" and base
  by unfold_locales simp_all

interpretation types: fallback_loop "types_loop sort_vsw createFn nodeClass plan vswitches n"
    "\<lambda>it. vswitchFallbackCreate sort_vsw createFn (baseOpts nodeClass plan it) vswitches" capacity_error
    "\<lambda>e. ''failed to create instance: '' @ e"
    "\<lambda>l. ''all instance types exhausted across all zones ('' @ itoa (int n) @ '' types tried), last error: '' @
        last_error l"
  for sort_vsw and createFn :: "'w create_fn" and nodeClass plan vswitches n
  by unfold_locales simp_all

section \<open>The reference: first fit over all pairs\<close>

fun first_fit :: "'w create_fn \<Rightarrow> CreateOptions list \<Rightarrow> string option \<Rightarrow> 'w \<Rightarrow> (string + string) \<times> 'w" where
  "first_fit createFn [] lst w = (Inl (last_error lst), w)"
| "first_fit createFn (opts # rest) lst w = (case createFn opts w of
     (Inr instanceID, w') \<Rightarrow> (Inr instanceID, w')
   | (Inl err, w') \<Rightarrow> if capacity_error err then first_fit createFn rest (Some err) w' else (Inl err, w'))"

interpretation fit: fallback_loop "first_fit createFn" createFn capacity_error "\<lambda>e. e" last_error
  for createFn :: "'w create_fn"
  by unfold_locales simp_all

definition launch_candidates :: "(VSwitch list \<Rightarrow> VSwitch list) \<Rightarrow> ECSNodeClass \<Rightarrow> LaunchPlan \<Rightarrow> VSwitch list \<Rightarrow>
    InstanceType list \<Rightarrow> CreateOptions list" where
  "launch_candidates sort_vsw nodeClass plan vswitches its =
     concat (List.map (\<lambda>it. List.map (\<lambda>v. (baseOpts nodeClass plan it)\<lparr>co_VSwitchID := vsw_ID v\<rparr>)
       (sort_vsw vswitches)) its)"

text \<open>A prefix that ends with a space neither hides nor fakes an error code.\<close>

lemma contains_after_space:
  assumes "CHR '' '' \<notin> set code" "\<not> contains_str (q @ '' '') code"
  shows "contains_str (q @ '' '' @ e) code \<longleftrightarrow> contains_str e code"
proof -
  have "\<not> sublist code (q @ '' '')" using assms(2) by (simp add: contains_str_sublist)
  moreover have "prefix x2 e \<Longrightarrow> suffix x1 (q @ '' '') \<Longrightarrow> code = x1 @ x2 \<Longrightarrow> sublist code e" for x1 x2
    using assms(1) by (cases x1 rule: rev_cases) (auto simp: suffix_def)
  ultimately show ?thesis
    using sublist_append [of code "q @ '' ''" e] by (auto simp: contains_str_sublist)
qed

lemma error_codes_no_space:
  "list_all (\<lambda>c. CHR '' '' \<notin> set c) [ErrCodeNoStock, ErrCodeZoneNotOnSale, ErrCodeResourceTypeNotSupported,
     ErrCodeVSwitchIPNotEnough]"
  by (simp add: err_code_defs)

lemma capacity_error_failed:
  "capacity_error (''failed to create instance: '' @ e) = capacity_error e"
proof -
  have n: "\<not> contains_str (''failed to create instance:'' @ '' '') c"
    if "c \<in> {ErrCodeNoStock, ErrCodeZoneNotOnSale, ErrCodeResourceTypeNotSupported, ErrCodeVSwitchIPNotEnough}" for c
    using that by (auto simp: err_code_defs has_prefix_def)
  have "contains_str (''failed to create instance: '' @ e) c = contains_str e c"
    if "c \<in> {ErrCodeNoStock, ErrCodeZoneNotOnSale, ErrCodeResourceTypeNotSupported, ErrCodeVSwitchIPNotEnough}" for c
    using contains_after_space [OF _ n [OF that], of e] that error_codes_no_space by auto
  then show ?thesis by (simp add: capacity_error_def IsInsufficientCapacityError_def)
qed

lemmas capacity_error_failed_chars [simp] = capacity_error_failed [simplified]

lemma capacity_error_suffix: "capacity_error e \<Longrightarrow> capacity_error (p @ e)"
  using contains_str_trans [OF _ contains_str_infix [of p e "[]"]]
  by (auto simp: capacity_error_def IsInsufficientCapacityError_def)

lemma first_fit_append:
  assumes "xs \<noteq> []"
  shows "first_fit createFn (xs @ ys) lst w = (case first_fit createFn xs lst w of
     (Inr i, w') \<Rightarrow> (Inr i, w')
   | (Inl e, w') \<Rightarrow> if capacity_error e then first_fit createFn ys (Some e) w' else (Inl e, w'))"
  using assms
proof (induction xs arbitrary: lst w)
  case (Cons x xs)
  then show ?case
    by (cases xs; cases "createFn x w"; cases "fst (createFn x w)") (auto simp: last_error_def)
qed simp

lemma vswitch_loop_first_fit:
  assumes "vs \<noteq> [] \<or> capacity_error (last_error lst)"
  shows "case first_fit createFn (List.map (\<lambda>v. base\<lparr>co_VSwitchID := vsw_ID v\<rparr>) vs) lst w of
     (Inr i, w') \<Rightarrow> vswitch_loop createFn base vs lst w = (Inr i, w')
   | (Inl e, w') \<Rightarrow> \<exists>m. vswitch_loop createFn base vs lst w = (Inl m, w') \<and> capacity_error m = capacity_error e"
  using assms
proof (induction vs arbitrary: lst w)
  case Nil
  then have "capacity_error (''all vSwitches exhausted, last error: '' @ last_error lst)"
    by (intro capacity_error_suffix) simp
  with Nil show ?case by simp
next
  case (Cons v vs)
  obtain a w1 where a: "createFn (base\<lparr>co_VSwitchID := vsw_ID v\<rparr>) w = (a, w1)" by (metis surj_pair)
  show ?case
  proof (cases "\<exists>e. a = Inl e \<and> capacity_error e")
    case True
    then obtain e where e: "a = Inl e" "capacity_error e" by blast
    then show ?thesis
      using Cons.IH [of "Some e" w1] a by (auto simp: last_error_def split: prod.splits sum.splits)
  next
    case False
    with a show ?thesis by (cases a) auto
  qed
qed

lemma first_fit_last:
  "os \<noteq> [] \<Longrightarrow> first_fit createFn os lst w = first_fit createFn os None w"
  by (cases os) simp_all

text \<open>The loop over instance types is a first fit over all pairs of type and vSwitch.\<close>

lemma types_loop_first_fit:
  assumes "sort_vsw vswitches \<noteq> []" "its \<noteq> [] \<or> capacity_error (last_error lst)"
  shows "case first_fit createFn (launch_candidates sort_vsw nodeClass plan vswitches its) lst w of
     (Inr i, w') \<Rightarrow> types_loop sort_vsw createFn nodeClass plan vswitches n its lst w = (Inr i, w')
   | (Inl e, w') \<Rightarrow> \<exists>m. types_loop sort_vsw createFn nodeClass plan vswitches n its lst w = (Inl m, w') \<and>
       capacity_error m = capacity_error e"
  using assms(2)
proof (induction its arbitrary: lst w)
  case Nil
  have "capacity_error ((''all instance types exhausted across all zones ('' @ itoa (int n) @
      '' types tried), last error: '') @ last_error lst)"
    using Nil by (intro capacity_error_suffix) simp
  with Nil show ?case by (simp add: launch_candidates_def)
next
  case (Cons it its)
  let ?base = "baseOpts nodeClass plan it"
  let ?os = "List.map (\<lambda>v. ?base\<lparr>co_VSwitchID := vsw_ID v\<rparr>) (sort_vsw vswitches)"
  have ne: "?os \<noteq> []" using assms(1) by simp
  obtain a w1 where f: "first_fit createFn ?os None w = (a, w1)" by (metis surj_pair)
  have v: "case (a, w1) of
     (Inr i, w') \<Rightarrow> vswitchFallbackCreate sort_vsw createFn ?base vswitches w = (Inr i, w')
   | (Inl e, w') \<Rightarrow> \<exists>m. vswitchFallbackCreate sort_vsw createFn ?base vswitches w = (Inl m, w') \<and>
       capacity_error m = capacity_error e"
    using vswitch_loop_first_fit [of "sort_vsw vswitches" None createFn ?base w] assms(1)
    unfolding vswitchFallbackCreate_def f by simp
  have c: "first_fit createFn (launch_candidates sort_vsw nodeClass plan vswitches (it # its)) lst w =
    (case (a, w1) of (Inr i, w') \<Rightarrow> (Inr i, w')
     | (Inl e, w') \<Rightarrow> if capacity_error e
         then first_fit createFn (launch_candidates sort_vsw nodeClass plan vswitches its) (Some e) w'
         else (Inl e, w'))"
    using first_fit_append [OF ne, of createFn "launch_candidates sort_vsw nodeClass plan vswitches its" lst w]
    unfolding first_fit_last [OF ne, of createFn lst] f by (simp add: launch_candidates_def)
  show ?case
  proof (cases a)
    case (Inr i)
    with v c show ?thesis by simp
  next
    case (Inl e)
    with v obtain m where m: "vswitchFallbackCreate sort_vsw createFn ?base vswitches w = (Inl m, w1)"
      "capacity_error m = capacity_error e" by auto
    show ?thesis
    proof (cases "capacity_error e")
      case True
      have "capacity_error (last_error (Some m))" using True m(2) by (simp add: last_error_def)
      show ?thesis
      proof (cases "its = []")
        case True
        have "capacity_error ((''all instance types exhausted across all zones ('' @ itoa (int n) @
            '' types tried), last error: '') @ m)"
          using m(2) \<open>capacity_error e\<close> by (intro capacity_error_suffix) simp
        with True Inl c m \<open>capacity_error e\<close> show ?thesis
          by (simp add: launch_candidates_def last_error_def)
      next
        case False
        have "launch_candidates sort_vsw nodeClass plan vswitches its \<noteq> []"
          using False assms(1) by (cases its) (auto simp: launch_candidates_def)
        note l = first_fit_last [OF this, of createFn]
        from c Inl \<open>capacity_error e\<close>
        have "first_fit createFn (launch_candidates sort_vsw nodeClass plan vswitches (it # its)) lst w =
            first_fit createFn (launch_candidates sort_vsw nodeClass plan vswitches its) None w1"
          by (simp add: l [of "Some e"])
        then show ?thesis
          using Cons.IH [of "Some m" w1] False m \<open>capacity_error e\<close>
          unfolding l [of "Some m"] by (simp split: prod.splits sum.splits)
      qed
    next
      case False
      with Inl c m show ?thesis by simp
    qed
  qed
qed

section \<open>Properties\<close>

text \<open>A creation call whose state is the list of the attempts so far.\<close>

definition logged :: "(CreateOptions \<Rightarrow> CreateOptions list \<Rightarrow> string + string) \<Rightarrow> CreateOptions list create_fn" where
  "logged ans opts tried = (ans opts tried, tried @ [opts])"

lemma after_logged [simp]: "fallback_loop.after (logged ans) os tried = tried @ os"
  by (induction os arbitrary: tried) (simp_all add: fit.after_Nil fit.after_Cons logged_def)

definition launch_plan :: "NetworkConfig option \<Rightarrow> NodeClaim \<Rightarrow> Image list \<Rightarrow> SecurityGroup list \<Rightarrow> string \<Rightarrow> gomap \<Rightarrow>
    string \<Rightarrow> NormalizedDisks \<Rightarrow> LaunchPlan" where
  "launch_plan netcfg nodeClaim images securityGroups userData tags role disks =
     \<lparr>lp_Images = images, lp_SecurityGroupIDs = NormalizeIDs (List.map sg_ID securityGroups),
      lp_UserData = userData, lp_Tags = tags, lp_RAMRoleName = role, lp_Disks = disks,
      lp_CapacityType = capacityTypeFromRequirements (ncl_Requirements nodeClaim),
      lp_DualStack = (case netcfg of Some nc \<Rightarrow> DualStack nc | None \<Rightarrow> False)\<rparr>"

lemma createInstanceWithRetry_loop:
  assumes "its \<noteq> []" "images \<noteq> []" "vswitches \<noteq> []" "securityGroups \<noteq> []"
    and "validateRAMRoleForCreate nodeClass = Inr role" "NormalizeDisks (k_Spec nodeClass) = Inr disks"
  shows "createInstanceWithRetry sort_vsw createFn netcfg nodeClaim nodeClass its images vswitches securityGroups
      userData tags w =
    types_loop sort_vsw createFn nodeClass (launch_plan netcfg nodeClaim images securityGroups userData tags role disks)
      vswitches (length its) its None w"
  using assms by (simp add: createInstanceWithRetry_def launch_plan_def Let_def)

lemma first_fit_logged:
  assumes "first_fit (logged ans) os None [] = (r, tried)" "os \<noteq> []"
  shows "\<exists>rest. os = tried @ rest \<and> tried \<noteq> [] \<and>
     (\<forall>i < length tried - 1. \<exists>e. ans (tried ! i) (take i tried) = Inl e \<and> capacity_error e) \<and>
     (case r of Inr i \<Rightarrow> ans (List.last tried) (butlast tried) = Inr i
      | Inl e \<Rightarrow> if capacity_error e
          then rest = [] \<and> (\<forall>i < length tried. \<exists>e. ans (tried ! i) (take i tried) = Inl e \<and> capacity_error e)
          else ans (List.last tried) (butlast tried) = Inl e)"
  using fit.loop_trace [OF assms(1)]
proof
  assume "\<exists>ys y zs. os = ys @ y # zs \<and> fallback_loop.gives_up (logged ans) capacity_error ys [] \<and>
      tried = fallback_loop.after (logged ans) (ys @ [y]) [] \<and>
      (case fst (logged ans y (fallback_loop.after (logged ans) ys [])) of
         Inl e \<Rightarrow> \<not> capacity_error e \<and> r = Inl e | Inr b \<Rightarrow> r = Inr b)"
  then obtain ys y zs where t: "os = ys @ y # zs" "fallback_loop.gives_up (logged ans) capacity_error ys []"
    "tried = ys @ [y]" "case ans y ys of Inl e \<Rightarrow> \<not> capacity_error e \<and> r = Inl e | Inr b \<Rightarrow> r = Inr b"
    by (auto simp: logged_def)
  then have "\<forall>i < length ys. \<exists>e. ans (ys ! i) (take i ys) = Inl e \<and> capacity_error e"
    by (simp add: fit.gives_up_def logged_def)
  with t show ?thesis by (intro exI [of _ zs]) (auto simp: nth_append split: sum.splits)
next
  assume "fallback_loop.gives_up (logged ans) capacity_error os [] \<and>
      tried = fallback_loop.after (logged ans) os [] \<and> (\<exists>l. r = Inl (last_error l) \<and>
        (if os = [] then l = None
         else \<exists>e. fst (logged ans (List.last os) (fallback_loop.after (logged ans) (butlast os) [])) = Inl e \<and>
           l = Some e))"
  then obtain e where t: "tried = os" "r = Inl e" "ans (List.last os) (butlast os) = Inl e"
    "\<forall>i < length os. \<exists>e. ans (os ! i) (take i os) = Inl e \<and> capacity_error e"
    using assms(2) by (auto simp: fit.gives_up_def logged_def last_error_def)
  have "length os - 1 < length os" using assms(2) by simp
  with t(4) have "capacity_error e"
    using t(3) assms(2) by (metis Inl_inject butlast_conv_take last_conv_nth)
  with t assms(2) show ?thesis by auto
qed

text \<open>What sort.Slice with the comparison of the code promises.\<close>

definition sorts_by_free_addresses :: "(VSwitch list \<Rightarrow> VSwitch list) \<Rightarrow> bool" where
  "sorts_by_free_addresses sort_vsw \<longleftrightarrow> (\<forall>vs. mset (sort_vsw vs) = mset vs \<and>
     sorted_wrt (\<lambda>a b. vsw_AvailableIPAddressCount a \<ge> vsw_AvailableIPAddressCount b) (sort_vsw vs))"

lemma sorts_set: "sorts_by_free_addresses sort_vsw \<Longrightarrow> set (sort_vsw vs) = set vs"
  unfolding sorts_by_free_addresses_def by (metis set_mset_mset)

lemma sort_key_sorts: "sorts_by_free_addresses (sort_key (\<lambda>v. - vsw_AvailableIPAddressCount v))"
  using sorted_sort_key [of "\<lambda>v :: VSwitch. - vsw_AvailableIPAddressCount v"]
  by (simp add: sorts_by_free_addresses_def sorted_map)

text \<open>
  C9: Launching tries the instance types in karpenter's order and, within a type, the
  vSwitches by descending number of free addresses: the calls made are an initial part of
  that list of pairs, every call before the last one failed for lack of capacity, and
  the result is the outcome of the last call: the new instance, or an error; an
  error that counts as lack of capacity is returned only after every pair was tried.
\<close>
theorem create_tries_in_order:
  assumes "sorts_by_free_addresses sort_vsw"
    and "its \<noteq> []" "images \<noteq> []" "vswitches \<noteq> []" "securityGroups \<noteq> []"
    and "validateRAMRoleForCreate nodeClass = Inr role" "NormalizeDisks (k_Spec nodeClass) = Inr disks"
    and "createInstanceWithRetry sort_vsw (logged ans) netcfg nodeClaim nodeClass its images vswitches
           securityGroups userData tags [] = (r, tried)"
  shows "\<exists>rest. launch_candidates sort_vsw nodeClass
       (launch_plan netcfg nodeClaim images securityGroups userData tags role disks) vswitches its = tried @ rest \<and>
     tried \<noteq> [] \<and>
     (\<forall>i < length tried - 1. \<exists>e. ans (tried ! i) (take i tried) = Inl e \<and> capacity_error e) \<and>
     (case r of Inr i \<Rightarrow> ans (List.last tried) (butlast tried) = Inr i
      | Inl m \<Rightarrow> if capacity_error m
          then rest = [] \<and> (\<forall>i < length tried. \<exists>e. ans (tried ! i) (take i tried) = Inl e \<and> capacity_error e)
          else \<exists>e. ans (List.last tried) (butlast tried) = Inl e \<and> \<not> capacity_error e)"
proof -
  let ?plan = "launch_plan netcfg nodeClaim images securityGroups userData tags role disks"
  let ?os = "launch_candidates sort_vsw nodeClass ?plan vswitches its"
  have sv: "sort_vsw vswitches \<noteq> []"
    using sorts_set [OF assms(1), of vswitches] assms(4) by (metis set_empty)
  then have os: "?os \<noteq> []" using assms(2) by (cases its) (auto simp: launch_candidates_def)
  obtain a w where f: "first_fit (logged ans) ?os None [] = (a, w)" by (metis surj_pair)
  from types_loop_first_fit [where sort_vsw = sort_vsw and vswitches = vswitches and its = its and lst = None
      and createFn = "logged ans" and nodeClass = nodeClass and plan = ?plan and w = "[]" and n = "length its"]
    sv assms(2,8) f
  have "case a of Inr i \<Rightarrow> (r, tried) = (Inr i, w)
      | Inl e \<Rightarrow> \<exists>m. (r, tried) = (Inl m, w) \<and> capacity_error m = capacity_error e"
    unfolding createInstanceWithRetry_loop [OF assms(2-7)] by (auto split: sum.splits)
  then show ?thesis
    using first_fit_logged [OF f os] by (cases a) (auto split: if_splits)
qed

definition sample_vswitches :: "VSwitch list" where
  "sample_vswitches = [\<lparr>vsw_ID = ''vsw-1'', vsw_Zone = ''cn-a-b'', vsw_ZoneID = ''cn-a-b'', vsw_AvailableIPAddressCount = 3\<rparr>,
     \<lparr>vsw_ID = ''vsw-2'', vsw_Zone = ''cn-a-c'', vsw_ZoneID = ''cn-a-c'', vsw_AvailableIPAddressCount = 9\<rparr>]"

definition sample_class :: ECSNodeClass where
  "sample_class = \<lparr>k_Name = ''default'', k_Generation = 1, k_Annotations = [],
     k_Spec = emptySpec\<lparr>nc_ClusterID := ''c-1''\<rparr>,
     k_Status = \<lparr>st_Ready = True, st_VSwitches = sample_vswitches,
        st_SecurityGroups = [\<lparr>sg_ID = ''sg-1'', sg_Name = []\<rparr>],
        st_Images = [\<lparr>img_ID = ''m-1'', img_Name = [], img_Architecture = ''x86_64''\<rparr>],
        st_RAMRole = None, st_Conditions = []\<rparr>\<rparr>"

lemma sample_class_disks: "\<exists>disks. NormalizeDisks (k_Spec sample_class) = Inr disks"
  by (simp add: sample_class_def NormalizeDisks_def normalizeSystemDisk_def emptySpec_def disk_consts
        validateDiskCategoryAndSize_def diskCategoryConstraints_def sizes_def
        normalizeDiskPerformance_def isValidPerformanceLevel_def)

theorem create_tries_in_order_witness:
  "\<exists>tried. createInstanceWithRetry (sort_key (\<lambda>v. - vsw_AvailableIPAddressCount v))
       (logged (\<lambda>o' t. if co_VSwitchID o' = ''vsw-2'' then Inl ''OperationDenied.NoStock'' else Inr ''i-9''))
       None emptyNodeClaim sample_class [sample_type] (st_Images (k_Status sample_class)) sample_vswitches
       (st_SecurityGroups (k_Status sample_class)) [] [] [] = (Inr ''i-9'', tried) \<and>
     List.map co_VSwitchID tried = [''vsw-2'', ''vsw-1'']"
proof -
  let ?s = "sort_key (\<lambda>v. - vsw_AvailableIPAddressCount v)"
  let ?ans = "\<lambda>o' t. if co_VSwitchID o' = ''vsw-2'' then Inl ''OperationDenied.NoStock'' else Inr ''i-9''"
  obtain disks where d: "NormalizeDisks (k_Spec sample_class) = Inr disks" using sample_class_disks by blast
  have role: "validateRAMRoleForCreate sample_class = Inr []"
    by (simp add: validateRAMRoleForCreate_def sample_class_def emptySpec_def)
  have sorted: "?s sample_vswitches = rev sample_vswitches" by (simp add: sample_vswitches_def)
  have ne: "[sample_type] \<noteq> []" "st_Images (k_Status sample_class) \<noteq> []" "sample_vswitches \<noteq> []"
    "st_SecurityGroups (k_Status sample_class) \<noteq> []"
    by (simp_all add: sample_class_def sample_vswitches_def)
  obtain r tried where c: "createInstanceWithRetry ?s (logged ?ans) None emptyNodeClaim sample_class [sample_type]
       (st_Images (k_Status sample_class)) sample_vswitches (st_SecurityGroups (k_Status sample_class)) [] [] [] = (r, tried)"
    by (metis surj_pair)
  have cap: "capacity_error ''OperationDenied.NoStock''"
    by (simp add: capacity_error_def IsInsufficientCapacityError_def ErrCodeNoStock_def has_prefix_def)
  have r: "r = Inr ''i-9''"
    using c cap sorted
    unfolding createInstanceWithRetry_loop [OF ne role d]
    by (simp add: vswitchFallbackCreate_def logged_def sample_vswitches_def)
  from create_tries_in_order [OF sort_key_sorts ne role d c] obtain rest where
    p: "launch_candidates ?s sample_class (launch_plan None emptyNodeClaim (st_Images (k_Status sample_class))
          (st_SecurityGroups (k_Status sample_class)) [] [] [] disks) sample_vswitches [sample_type] = tried @ rest"
      "tried \<noteq> []" "?ans (List.last tried) (butlast tried) = Inr ''i-9''"
    by (auto simp: r)
  have ids: "List.map co_VSwitchID (tried @ rest) = [''vsw-2'', ''vsw-1'']"
    unfolding p(1) [symmetric] by (simp add: launch_candidates_def sorted) (simp add: sample_vswitches_def)
  have "co_VSwitchID (List.last tried) \<noteq> ''vsw-2''" using p(3) by (auto split: if_splits)
  then have "rest = []" using ids p(2) by (cases tried; cases "tl tried") auto
  with ids c r show ?thesis by (intro exI [of _ tried]) auto
qed

end
