(* ===== verification/Drift.thy ===== *)
theory Drift
  imports CreatePlan
begin

text \<open>
  Drift detection (pkg/cloudprovider/cloudprovider.go: IsDrifted and its helpers,
  calculateNodeClassHash).  JSON encoding and SHA-256 are one parameter, sha:
  it gives the digest of the hashed fields, or None when the encoding fails.
\<close>

definition ImageDrift :: string where "ImageDrift = ''ImageDrift''"
definition VSwitchDrift :: string where "VSwitchDrift = ''VSwitchDrift''"
definition SecurityGroupDrift :: string where "SecurityGroupDrift = ''SecurityGroupDrift''"
definition NodeClassDrift :: string where "NodeClassDrift = ''NodeClassDrift''"

lemmas drift_reasons = ImageDrift_def VSwitchDrift_def SecurityGroupDrift_def NodeClassDrift_def

record NodeClassHashInput =
  hi_VSwitchSelectorTerms :: "VSwitchSelectorTerm list"
  hi_SecurityGroupSelectorTerms :: "SecurityGroupSelectorTerm list"
  hi_ImageSelectorTerms :: "ImageSelectorTerm list"
  hi_ImageFamily :: "string option"
  hi_UserData :: "string option"
  hi_Kubelet :: "KubeletConfiguration option"
  hi_Tags :: gomap
  hi_Role :: "string option"
  hi_MetadataOptions :: "MetadataOptions option"
  hi_SystemDisk :: "SystemDiskSpec option"
  hi_DataDisks :: "DataDiskSpec list"
  hi_InstanceStorePolicy :: "string option"

definition hashInput :: "ECSNodeClassSpec \<Rightarrow> NodeClassHashInput" where
  "hashInput s = \<lparr>hi_VSwitchSelectorTerms = nc_VSwitchSelectorTerms s,
     hi_SecurityGroupSelectorTerms = nc_SecurityGroupSelectorTerms s,
     hi_ImageSelectorTerms = nc_ImageSelectorTerms s, hi_ImageFamily = None, hi_UserData = nc_UserData s,
     hi_Kubelet = nc_Kubelet s, hi_Tags = nc_Tags s, hi_Role = nc_Role s,
     hi_MetadataOptions = nc_MetadataOptions s, hi_SystemDisk = nc_SystemDisk s,
     hi_DataDisks = nc_DataDisks s, hi_InstanceStorePolicy = nc_InstanceStorePolicy s\<rparr>"

definition calculateNodeClassHash :: "(NodeClassHashInput \<Rightarrow> string option) \<Rightarrow> ECSNodeClass \<Rightarrow> string" where
  "calculateNodeClassHash sha nodeClass = (case sha (hashInput (k_Spec nodeClass)) of
     None \<Rightarrow> ''error-'' @ itoa (k_Generation nodeClass) | Some h \<Rightarrow> h)"

definition setNodeClassHashAnnotation :: "NodeClaim \<Rightarrow> string \<Rightarrow> NodeClaim" where
  "setNodeClassHashAnnotation nodeClaim hash = nodeClaim\<lparr>ncl_Annotations :=
     AList.update AnnotationECSNodeClassHashVersion ''v1''
       (AList.update AnnotationECSNodeClassHash hash (ncl_Annotations nodeClaim))\<rparr>"

definition isImageAllowed :: "string \<Rightarrow> Image list \<Rightarrow> bool" where
  "isImageAllowed imageID allowed = list_ex (\<lambda>img. img_ID img = imageID) allowed"

definition isVSwitchAllowed :: "string \<Rightarrow> VSwitch list \<Rightarrow> bool" where
  "isVSwitchAllowed vswitchID allowed = list_ex (\<lambda>vs. vsw_ID vs = vswitchID) allowed"

definition isSecurityGroupAllowed :: "string list \<Rightarrow> SecurityGroup list \<Rightarrow> bool" where
  "isSecurityGroupAllowed instanceSGs allowedSGs = EqualIDs instanceSGs (List.map sg_ID allowedSGs)"

text \<open>The checks of IsDrifted once node class and instance are known; the empty reason means no drift.\<close>

definition drift_reason :: "(NodeClassHashInput \<Rightarrow> string option) \<Rightarrow> NodeClaim \<Rightarrow> ECSNodeClass \<Rightarrow> Instance \<Rightarrow> string" where
  "drift_reason sha nodeClaim nodeClass inst =
     (let currentHash = calculateNodeClassHash sha nodeClass;
          annotatedHash = or_else (map_of (ncl_Annotations nodeClaim) AnnotationECSNodeClassHash) [] in
      if currentHash \<noteq> annotatedHash then NodeClassDrift
      else if \<not> isImageAllowed (ins_ImageID inst) (st_Images (k_Status nodeClass)) then ImageDrift
      else if \<not> isVSwitchAllowed (ins_VSwitchID inst) (st_VSwitches (k_Status nodeClass)) then VSwitchDrift
      else if \<not> isSecurityGroupAllowed (ins_SecurityGroupIDs inst) (st_SecurityGroups (k_Status nodeClass))
      then SecurityGroupDrift
      else [])"

definition fromProviderID :: "string \<Rightarrow> string" where
  "fromProviderID providerID =
     (if providerID = '''' then []
      else let parts = split_on CHR ''.'' providerID in
        if length parts < 2 then [] else List.last parts)"

definition providerID_of :: "Instance \<Rightarrow> string" where
  "providerID_of inst = ins_Region inst @ ''.'' @ ins_InstanceID inst"

section \<open>Lemmas\<close>

lemma split_on_last:
  "d \<notin> set b \<Longrightarrow> List.last (split_on d (a @ d # b)) = b \<and> 2 \<le> length (split_on d (a @ d # b))"
proof (induction a)
  case Nil
  then show ?case by (simp add: split_on_no_sep)
next
  case (Cons c a)
  then show ?case by (cases "split_on d (a @ d # b)") (auto split: if_splits)
qed

lemma fromProviderID_region:
  "CHR ''.'' \<notin> set i \<Longrightarrow> fromProviderID (region @ ''.'' @ i) = i"
  using split_on_last [of "CHR ''.''" i region] by (auto simp: fromProviderID_def Let_def)

lemma annotated_hash:
  "map_of (ncl_Annotations (setNodeClassHashAnnotation nodeClaim hash)) AnnotationECSNodeClassHash = Some hash"
  by (simp add: setNodeClassHashAnnotation_def map_of_update label_defs)

lemma drift_reason_empty:
  "drift_reason sha nodeClaim nodeClass inst = [] \<longleftrightarrow>
     calculateNodeClassHash sha nodeClass =
       or_else (map_of (ncl_Annotations nodeClaim) AnnotationECSNodeClassHash) [] \<and>
     isImageAllowed (ins_ImageID inst) (st_Images (k_Status nodeClass)) \<and>
     isVSwitchAllowed (ins_VSwitchID inst) (st_VSwitches (k_Status nodeClass)) \<and>
     isSecurityGroupAllowed (ins_SecurityGroupIDs inst) (st_SecurityGroups (k_Status nodeClass))"
  by (auto simp: drift_reason_def Let_def drift_reasons)

lemma find_SomeD: "find P xs = Some x \<Longrightarrow> x \<in> set xs \<and> P x"
  by (induction xs) (auto split: if_splits)

lemma select_image_in: "images \<noteq> [] \<Longrightarrow> \<exists>img \<in> set images. selectImageForArchitecture images a = Some img"
  by (cases images) (auto simp: selectImageForArchitecture_def split: option.splits dest: find_SomeD)



section \<open>Properties\<close>

text \<open>
  C29: A provider ID identifies its instance: the ID that is written on a NodeClaim
  (region, a dot, instance ID) gives the instance ID back, for every region name
  and every instance ID without a dot, and two instances never share one.
\<close>
theorem providerID_roundtrip:
  assumes "CHR ''.'' \<notin> set (ins_InstanceID i)" "CHR ''.'' \<notin> set (ins_InstanceID j)"
  shows "fromProviderID (providerID_of i) = ins_InstanceID i \<and>
     (providerID_of i = providerID_of j \<longleftrightarrow> ins_Region i = ins_Region j \<and> ins_InstanceID i = ins_InstanceID j)"
proof -
  note r = fromProviderID_region [OF assms(1)] fromProviderID_region [OF assms(2)]
  have "providerID_of i = providerID_of j \<Longrightarrow> ins_InstanceID i = ins_InstanceID j"
    using r by (metis providerID_of_def)
  then show ?thesis using r(1) by (auto simp: providerID_of_def)
qed

theorem providerID_roundtrip_witness:
  "fromProviderID (providerID_of (convert_instance sample_instance 2 8192)) = ''i-1''"
proof -
  have "ins_InstanceID (convert_instance sample_instance 2 8192) = ''i-1''"
    by (simp add: convert_instance_def sample_instance_def derefString_def)
  then show ?thesis
    using providerID_roundtrip [of "convert_instance sample_instance 2 8192" "convert_instance sample_instance 2 8192"]
    by simp
qed

text \<open>
  What is launched is not drifted.  An instance that runs with the image, vSwitch and
  security groups of any launch candidate of a node class is not reported as
  drifted on a NodeClaim annotated with the hash of that node class, as long as hash and
  resolved resources of the node class stay the same.
\<close>
lemma launched_instance_is_not_drifted:
  assumes "opts \<in> set (launch_candidates sort_vsw nodeClass
       (launch_plan netcfg nodeClaim (st_Images (k_Status nodeClass)) (st_SecurityGroups (k_Status nodeClass))
          userData tags role disks)
       (filterVSwitchesByZones (st_VSwitches (k_Status nodeClass)) zones) its)"
    and "sorts_by_free_addresses sort_vsw" "st_Images (k_Status nodeClass) \<noteq> []"
    and "ins_ImageID inst = co_ImageID opts" "ins_VSwitchID inst = co_VSwitchID opts"
    and "set (ins_SecurityGroupIDs inst) = set (co_SecurityGroupIDs opts)"
  shows "drift_reason sha (setNodeClassHashAnnotation claim (calculateNodeClassHash sha nodeClass)) nodeClass inst = []"
proof -
  let ?st = "k_Status nodeClass"
  let ?plan = "launch_plan netcfg nodeClaim (st_Images ?st) (st_SecurityGroups ?st) userData tags role disks"
  obtain it v where v: "v \<in> set (filterVSwitchesByZones (st_VSwitches ?st) zones)"
    "opts = (baseOpts nodeClass ?plan it)\<lparr>co_VSwitchID := vsw_ID v\<rparr>"
    using assms(1) sorts_set [OF assms(2)] unfolding launch_candidates_def by auto
  then have o: "v \<in> set (filterVSwitchesByZones (st_VSwitches ?st) zones)" "co_VSwitchID opts = vsw_ID v"
    "co_SecurityGroupIDs opts = NormalizeIDs (List.map sg_ID (st_SecurityGroups ?st))"
    "co_ImageID opts = (case selectImageForArchitecture (st_Images ?st) (it_Architecture it) of
       Some img \<Rightarrow> img_ID img | None \<Rightarrow> [])"
    by (simp_all add: baseOpts_def launch_plan_def)
  have "isImageAllowed (ins_ImageID inst) (st_Images ?st)"
    using select_image_in [OF assms(3), of "it_Architecture it"] o(4) assms(4)
    by (auto simp: isImageAllowed_def list_ex_iff)
  moreover have "isVSwitchAllowed (ins_VSwitchID inst) (st_VSwitches ?st)"
    using o(1,2) assms(5)
    by (auto simp: isVSwitchAllowed_def list_ex_iff filterVSwitchesByZones_def split: if_splits)
  moreover have "isSecurityGroupAllowed (ins_SecurityGroupIDs inst) (st_SecurityGroups ?st)"
    using assms(6) o(3)
    by (simp add: isSecurityGroupAllowed_def EqualIDs_NormalizeIDs NormalizeIDs_sort_dedup sort_dedup_eq_iff)
  ultimately show ?thesis by (simp add: drift_reason_empty annotated_hash)
qed

text \<open>The fields of a spec that the hash covers.\<close>

definition same_hashed_fields :: "ECSNodeClassSpec \<Rightarrow> ECSNodeClassSpec \<Rightarrow> bool" where
  "same_hashed_fields s t \<longleftrightarrow>
     nc_VSwitchSelectorTerms s = nc_VSwitchSelectorTerms t \<and>
     nc_SecurityGroupSelectorTerms s = nc_SecurityGroupSelectorTerms t \<and>
     nc_ImageSelectorTerms s = nc_ImageSelectorTerms t \<and> nc_UserData s = nc_UserData t \<and>
     nc_Kubelet s = nc_Kubelet t \<and> nc_Tags s = nc_Tags t \<and> nc_Role s = nc_Role t \<and>
     nc_MetadataOptions s = nc_MetadataOptions t \<and> nc_SystemDisk s = nc_SystemDisk t \<and>
     nc_DataDisks s = nc_DataDisks t \<and> nc_InstanceStorePolicy s = nc_InstanceStorePolicy t"

text \<open>
  C10: A change of the node class replaces nodes exactly when it touches a hashed field:
  when both can be encoded and their digests do not collide, an
  instance annotated with the hash of the old node class is reported as NodeClassDrift
  under the new one if and only if one of the eleven hashed fields differs.  In
  particular spot strategy, price limit, capacity reservations, launch template and
  cluster of the node class can change without any drift.
\<close>
theorem node_class_drift_iff_hashed_change:
  assumes "sha (hashInput (k_Spec old)) = Some h" "sha (hashInput (k_Spec new)) = Some h'"
    and "h = h' \<Longrightarrow> hashInput (k_Spec old) = hashInput (k_Spec new)"
  shows "drift_reason sha (setNodeClassHashAnnotation claim (calculateNodeClassHash sha old)) new inst = NodeClassDrift
     \<longleftrightarrow> \<not> same_hashed_fields (k_Spec old) (k_Spec new)"
proof -
  have "calculateNodeClassHash sha new = calculateNodeClassHash sha old \<longleftrightarrow>
      h = h'"
    using assms(1,2) by (auto simp: calculateNodeClassHash_def)
  also have "\<dots> \<longleftrightarrow> hashInput (k_Spec new) = hashInput (k_Spec old)" using assms by auto
  also have "\<dots> \<longleftrightarrow> same_hashed_fields (k_Spec old) (k_Spec new)"
    by (auto simp: hashInput_def same_hashed_fields_def)
  finally show ?thesis by (simp add: drift_reason_def annotated_hash Let_def drift_reasons)
qed

theorem node_class_drift_iff_hashed_change_witness:
  "drift_reason (\<lambda>x. Some (or_else (hi_UserData x) []))
     (setNodeClassHashAnnotation emptyNodeClaim
       (calculateNodeClassHash (\<lambda>x. Some (or_else (hi_UserData x) [])) sample_class))
     (sample_class\<lparr>k_Spec := (k_Spec sample_class)\<lparr>nc_UserData := Some ''x''\<rparr>\<rparr>)
     (convert_instance sample_instance 2 8192) = NodeClassDrift"
proof -
  let ?sha = "\<lambda>x. Some (or_else (hi_UserData x) [])"
  let ?new = "sample_class\<lparr>k_Spec := (k_Spec sample_class)\<lparr>nc_UserData := Some ''x''\<rparr>\<rparr>"
  have "?sha (hashInput (k_Spec sample_class)) = Some []" "?sha (hashInput (k_Spec ?new)) = Some ''x''"
    by (simp_all add: hashInput_def sample_class_def emptySpec_def)
  from node_class_drift_iff_hashed_change [of ?sha, OF this] show ?thesis
    by (simp add: same_hashed_fields_def sample_class_def emptySpec_def)
qed

end
