(* ===== verification/CloudProvider.thy ===== *)
theory CloudProvider
  imports Drift
begin

text \<open>
  The cloud provider that karpenter calls (pkg/cloudprovider/cloudprovider.go: Create,
  Delete, Get, List, GetInstanceTypes, IsDrifted).

  The environment is a record of parameters: the ECS and container service clients, the
  reader of node classes, the condition set of the status library (ready gives status and
  message of the Ready condition), JSON and SHA-256, quantity and time parsers,
  sort.Slice and the options of the context.  The state is made of the caches of the
  providers and the state 'w of the cloud.
\<close>

record 'w CpEnv =
  env_api :: "'w EcsApi"
  env_types :: "'w \<Rightarrow> EcsTypesApi"
  env_cs :: "'w CsApi"
  env_flight :: "('w, DescribeBody option) flight"
  env_region :: string
  env_nodeclass :: "string \<Rightarrow> 'w \<Rightarrow> string + ECSNodeClass"
  env_ready :: "ECSNodeClass \<Rightarrow> ConditionStatus \<times> string"
  env_sha :: "NodeClassHashInput \<Rightarrow> string option"
  env_parse_quantity :: "string \<Rightarrow> rat option"
  env_parse_time :: "string \<Rightarrow> time_ns option"
  env_sort_vsw :: "VSwitch list \<Rightarrow> VSwitch list"
  env_options :: "Options option"
  env_netcfg :: "NetworkConfig option"

record 'w CpState =
  sta_types :: "cached cache"
  sta_instances :: "Instance cache"
  sta_scripts :: "string cache"
  sta_world :: 'w

section \<open>Shared steps\<close>

definition list_types :: "'w CpEnv \<Rightarrow> 'w CpState \<Rightarrow> (string + InstanceType list) \<times> 'w CpState" where
  "list_types env s = (case ListTypes (env_types env (sta_world s)) (clk (env_api env) (sta_world s)) (sta_types s) of
     (r, c) \<Rightarrow> (r, s\<lparr>sta_types := c\<rparr>))"

definition get_instance :: "'w CpEnv \<Rightarrow> string \<Rightarrow> 'w CpState \<Rightarrow> (kerr + Instance) \<times> 'w CpState" where
  "get_instance env instanceID s =
     (case GetInst (env_flight env) (env_api env) (env_region env) instanceID False (sta_instances s) (sta_world s) of
        (r, c, w) \<Rightarrow> (r, s\<lparr>sta_instances := c, sta_world := w\<rparr>))"

text \<open>The three guards on the readiness of a node class.\<close>

definition readiness_error :: "'w CpEnv \<Rightarrow> ECSNodeClass \<Rightarrow> kerr option" where
  "readiness_error env nodeClass = (case env_ready env nodeClass of
     (ConditionFalse, msg) \<Rightarrow> Some (NodeClassNotReadyError (Msg (''node class is not ready: '' @ msg)))
   | (ConditionUnknown, msg) \<Rightarrow> Some (CreateError
        (Msg (''resolving nodeclass readiness, nodeclass is in Ready=Unknown: '' @ msg))
        ''NodeClassReadinessUnknown'' ''NodeClass is in Ready=Unknown'')
   | (ConditionTrue, msg) \<Rightarrow> None)"

definition capacity_of :: "'w CpEnv \<Rightarrow> InstanceType \<Rightarrow> string + resources \<times> resources" where
  "capacity_of env it = calculateCapacityAndAllocatable (env_netcfg env) (FromContext (env_options env))
     (env_parse_quantity env) it"

definition parseLaunchTime :: "'w CpEnv \<Rightarrow> string \<Rightarrow> 'w \<Rightarrow> time_ns" where
  "parseLaunchTime env creationTime w = (case env_parse_time env creationTime of
     Some t \<Rightarrow> t | None \<Rightarrow> clk (env_api env) w)"

text \<open>The type of an instance in a list of types, with capacity and allocatable; errors leave both nil.\<close>

definition find_type :: "InstanceType list \<Rightarrow> string \<Rightarrow> InstanceType option" where
  "find_type its nm = find (\<lambda>it. it_Name it = nm) its"

definition type_resources :: "'w CpEnv \<Rightarrow> InstanceType option \<Rightarrow> resources \<times> resources" where
  "type_resources env matchedIT = (case matchedIT of None \<Rightarrow> ([], [])
   | Some it \<Rightarrow> (case capacity_of env it of Inl err \<Rightarrow> ([], []) | Inr ca \<Rightarrow> ca))"

section \<open>Create\<close>

definition convertInstanceToNodeClaim :: "'w CpEnv \<Rightarrow> Instance \<Rightarrow> NodeClaim \<Rightarrow> InstanceType list \<Rightarrow> NodeClaim" where
  "convertInstanceToNodeClaim env inst original its =
     (let matchedIT = find_type its (ins_InstanceType inst); ca = type_resources env matchedIT in
      original\<lparr>ncl_ProviderID := providerID_of inst, ncl_Capacity := fst ca, ncl_Allocatable := snd ca,
        ncl_ImageID := ins_ImageID inst, ncl_Labels := instanceLabelsFromInstance inst matchedIT\<rparr>)"

definition bootstrap_options :: "NodeClaim \<Rightarrow> ECSNodeClass \<Rightarrow> BootstrapOptions" where
  "bootstrap_options nodeClaim nodeClass =
     \<lparr>bo_ClusterType = determineClusterType nodeClass, bo_ClusterID = nc_ClusterID (k_Spec nodeClass),
      bo_ClusterName = nc_ClusterName (k_Spec nodeClass), bo_ClusterEndpoint = nc_ClusterEndpoint (k_Spec nodeClass),
      bo_NodeName = ncl_Name nodeClaim,
      bo_KubeletConfig = convertKubeletConfigToBootstrap (nc_Kubelet (k_Spec nodeClass)),
      bo_Labels = ncl_Labels nodeClaim, bo_Taints = convertToCoreTaints (ncl_Taints nodeClaim),
      bo_CustomUserData = Some (getCustomUserData nodeClass), bo_ContainerRuntime = []\<rparr>"

definition launch :: "'w CpEnv \<Rightarrow> NodeClaim \<Rightarrow> ECSNodeClass \<Rightarrow> InstanceType list \<Rightarrow> VSwitch list \<Rightarrow> string \<Rightarrow>
    'w CpState \<Rightarrow> (kerr + NodeClaim) \<times> 'w CpState" where
  "launch env nodeClaim nodeClass filteredTypes vswitches userData s =
     (case createInstanceWithRetry (env_sort_vsw env) (CreateInst (env_api env) (env_region env)) (env_netcfg env)
          nodeClaim nodeClass filteredTypes (st_Images (k_Status nodeClass)) vswitches
          (st_SecurityGroups (k_Status nodeClass)) userData (BuildInstanceTags nodeClaim nodeClass) (sta_world s) of
        (Inl err, w1) \<Rightarrow> (Inl (Wrapped ''failed to create instance: '' (Msg err)), s\<lparr>sta_world := w1\<rparr>)
      | (Inr instanceID, w1) \<Rightarrow>
          (case get_instance env instanceID (s\<lparr>sta_world := w1\<rparr>) of
             (Inl e, s1) \<Rightarrow> (Inl (Wrapped ''failed to get created instance: '' e), s1)
           | (Inr inst, s1) \<Rightarrow>
               (Inr (setNodeClassHashAnnotation (convertInstanceToNodeClaim env inst nodeClaim filteredTypes)
                  (calculateNodeClassHash (env_sha env) nodeClass)), s1)))"

definition Create :: "'w CpEnv \<Rightarrow> NodeClaim \<Rightarrow> 'w CpState \<Rightarrow> (kerr + NodeClaim) \<times> 'w CpState" where
  "Create env nodeClaim s =
     (case env_nodeclass env (ncl_NodeClassRef nodeClaim) (sta_world s) of
        Inl err \<Rightarrow> (Inl (Wrapped (''failed to get nodeclass '' @ ncl_NodeClassRef nodeClaim @ '': '') (Msg err)), s)
      | Inr nodeClass \<Rightarrow> (case readiness_error env nodeClass of Some e \<Rightarrow> (Inl e, s) | None \<Rightarrow>
         (case list_types env s of
            (Inl err, s1) \<Rightarrow> (Inl (Wrapped ''failed to list instance types: '' (Msg err)), s1)
          | (Inr its, s1) \<Rightarrow>
             (let filteredTypes = filterInstanceTypesByRequirements (env_region env) its (ncl_Requirements nodeClaim);
                  vswitches = filterVSwitchesByZones (st_VSwitches (k_Status nodeClass))
                    (zonesFromRequirements (ncl_Requirements nodeClaim)) in
              if filteredTypes = [] then (Inl (Msg ''no instance types match the requirements''), s1)
              else if st_Images (k_Status nodeClass) = [] then (Inl (Msg ''no images available in nodeclass status''), s1)
              else if vswitches = [] then (Inl (Msg ''no vswitches available matching the zone requirements''), s1)
              else if st_SecurityGroups (k_Status nodeClass) = []
                then (Inl (Msg ''no security groups available in nodeclass status''), s1)
              else case GenerateUserData (env_cs env) (bootstrap_options nodeClaim nodeClass) (sta_scripts s1) (sta_world s1) of
                (Inl err, c) \<Rightarrow> (Inl (Wrapped ''failed to generate user data: '' (Msg err)), s1\<lparr>sta_scripts := c\<rparr>)
              | (Inr userData, c) \<Rightarrow>
                  launch env nodeClaim nodeClass filteredTypes vswitches userData (s1\<lparr>sta_scripts := c\<rparr>)))))"

section \<open>Delete, Get, List\<close>

definition DeleteClaim :: "'w CpEnv \<Rightarrow> NodeClaim \<Rightarrow> 'w CpState \<Rightarrow> kerr option \<times> 'w CpState" where
  "DeleteClaim env nodeClaim s =
     (let instanceID = fromProviderID (ncl_ProviderID nodeClaim) in
      if instanceID = '''' then (None, s)
      else case DeleteInst (env_api env) (env_region env) instanceID (sta_instances s) (sta_world s) of
        (err, c, w) \<Rightarrow> (err, s\<lparr>sta_instances := c, sta_world := w\<rparr>))"

definition claim_of_instance :: "'w CpEnv \<Rightarrow> Instance \<Rightarrow> InstanceType option \<Rightarrow> resources \<times> resources \<Rightarrow> 'w \<Rightarrow> NodeClaim" where
  "claim_of_instance env inst matchedIT ca w =
     emptyNodeClaim\<lparr>ncl_Name := ins_InstanceID inst, ncl_Labels := instanceLabelsFromInstance inst matchedIT,
       ncl_CreationTimestamp := parseLaunchTime env (ins_CreationTime inst) w,
       ncl_ProviderID := providerID_of inst, ncl_Capacity := fst ca, ncl_Allocatable := snd ca,
       ncl_ImageID := ins_ImageID inst\<rparr>"

definition GetClaim :: "'w CpEnv \<Rightarrow> string \<Rightarrow> 'w CpState \<Rightarrow> (kerr + NodeClaim) \<times> 'w CpState" where
  "GetClaim env providerID s =
     (let instanceID = fromProviderID providerID in
      if instanceID = '''' then (Inl (Msg (''invalid providerID: '' @ providerID)), s)
      else case get_instance env instanceID s of
        (Inl e, s1) \<Rightarrow> (Inl e, s1)
      | (Inr inst, s1) \<Rightarrow> (case list_types env s1 of
          (Inl err, s2) \<Rightarrow> (Inl (Wrapped ''failed to list instance types: '' (Msg err)), s2)
        | (Inr its, s2) \<Rightarrow>
            (case find_type its (ins_InstanceType inst) of
               None \<Rightarrow> (Inr (claim_of_instance env inst None ([], []) (sta_world s2)), s2)
             | Some it \<Rightarrow> (case capacity_of env it of
                  Inl err \<Rightarrow> (Inl (Msg err), s2)
                | Inr ca \<Rightarrow> (Inr (claim_of_instance env inst (Some it) ca (sta_world s2)), s2)))))"

text \<open>The map from names to types keeps the last type of a name.\<close>

definition last_type :: "InstanceType list \<Rightarrow> string \<Rightarrow> InstanceType option" where
  "last_type its nm = find (\<lambda>it. it_Name it = nm) (rev its)"

definition ListClaims :: "'w CpEnv \<Rightarrow> 'w CpState \<Rightarrow> ((kerr + NodeClaim list) \<times> 'w CpState) option" where
  "ListClaims env s =
     (case ListInst (env_api env) (env_region env) [(TagManagedBy, TagManagedByValue)] (sta_instances s) (sta_world s) of
        None \<Rightarrow> None
      | Some (Inl e, c, w) \<Rightarrow> Some (Inl e, s\<lparr>sta_instances := c, sta_world := w\<rparr>)
      | Some (Inr insts, c, w) \<Rightarrow>
          (case list_types env (s\<lparr>sta_instances := c, sta_world := w\<rparr>) of
             (Inl err, s2) \<Rightarrow> Some (Inl (Wrapped ''failed to list instance types: '' (Msg err)), s2)
           | (Inr its, s2) \<Rightarrow> Some (Inr (List.map (\<lambda>inst.
               let matchedIT = last_type its (ins_InstanceType inst) in
               claim_of_instance env inst matchedIT (type_resources env matchedIT) (sta_world s2)) insts), s2)))"

section \<open>IsDrifted\<close>

definition IsDrifted :: "'w CpEnv \<Rightarrow> NodeClaim \<Rightarrow> 'w CpState \<Rightarrow> (kerr + string) \<times> 'w CpState" where
  "IsDrifted env nodeClaim s =
     (case env_nodeclass env (ncl_NodeClassRef nodeClaim) (sta_world s) of
        Inl err \<Rightarrow> (Inl (Wrapped ''failed to get nodeclass: '' (Msg err)), s)
      | Inr nodeClass \<Rightarrow>
         (let instanceID = fromProviderID (ncl_ProviderID nodeClaim) in
          if instanceID = '''' then (Inl (Msg (''invalid providerID: '' @ ncl_ProviderID nodeClaim)), s)
          else case get_instance env instanceID s of
            (Inl e, s1) \<Rightarrow> (Inl (Wrapped ''failed to get instance: '' e), s1)
          | (Inr inst, s1) \<Rightarrow> (Inr (drift_reason (env_sha env) nodeClaim nodeClass inst), s1)))"

definition RepairPolicies :: "string list" where "RepairPolicies = []"
definition ProviderName :: string where "ProviderName = ''alibabacloud''"

section \<open>Lemmas\<close>

text \<open>A successful fallback loop ends with a successful attempt.\<close>

context fallback_loop begin

lemma loop_success:
  "loop xs lst w = (Inr b, w') \<Longrightarrow> \<exists>x v. x \<in> set xs \<and> attempt x v = (Inr b, w')"
proof (induction xs arbitrary: lst w)
  case (Cons x xs)
  obtain a v where a: "attempt x w = (a, v)" by (metis surj_pair)
  show ?case
  proof (cases a)
    case (Inl e)
    then have "loop xs (Some e) v = (Inr b, w')" using Cons.prems a by (auto simp: loop_cons split: if_splits)
    from Cons.IH [OF this] show ?thesis by auto
  next
    case (Inr b')
    then have "attempt x w = (Inr b, w')" using Cons.prems a by (simp add: loop_cons)
    then show ?thesis by auto
  qed
qed (simp add: loop_nil)

end

lemma created_from_candidate:
  assumes "createInstanceWithRetry sort_vsw createFn netcfg nodeClaim nodeClass its images vswitches securityGroups
      userData tags w = (Inr instanceID, w')"
  obtains role disks opts v where "validateRAMRoleForCreate nodeClass = Inr role"
    "NormalizeDisks (k_Spec nodeClass) = Inr disks"
    "opts \<in> set (launch_candidates sort_vsw nodeClass
       (launch_plan netcfg nodeClaim images securityGroups userData tags role disks) vswitches its)"
    "createFn opts v = (Inr instanceID, w')"
proof -
  have ne: "its \<noteq> []" "images \<noteq> []" "vswitches \<noteq> []" "securityGroups \<noteq> []"
    using assms by (auto simp: createInstanceWithRetry_def split: if_splits)
  obtain role disks where rd: "validateRAMRoleForCreate nodeClass = Inr role"
    "NormalizeDisks (k_Spec nodeClass) = Inr disks"
    using assms ne by (auto simp: createInstanceWithRetry_def split: sum.splits)
  let ?plan = "launch_plan netcfg nodeClaim images securityGroups userData tags role disks"
  have "types_loop sort_vsw createFn nodeClass ?plan vswitches (length its) its None w = (Inr instanceID, w')"
    using assms unfolding createInstanceWithRetry_loop [OF ne rd] .
  from types.loop_success [OF this] obtain it v where it: "it \<in> set its"
    "vswitchFallbackCreate sort_vsw createFn (baseOpts nodeClass ?plan it) vswitches v = (Inr instanceID, w')"
    by blast
  from vsw.loop_success [OF it(2) [unfolded vswitchFallbackCreate_def]] obtain vs u where
    "vs \<in> set (sort_vsw vswitches)"
    "createFn ((baseOpts nodeClass ?plan it)\<lparr>co_VSwitchID := vsw_ID vs\<rparr>) u = (Inr instanceID, w')" by blast
  with it(1) that [OF rd] show ?thesis by (auto simp: launch_candidates_def)
qed

lemma list_types_keeps [simp]:
  "list_types env s = (r, s') \<Longrightarrow> sta_world s' = sta_world s"
  "list_types env s = (r, s') \<Longrightarrow> sta_instances s' = sta_instances s"
  by (auto simp: list_types_def split: prod.splits)

text \<open>What a successful Create went through.\<close>

lemma Create_InrD:
  assumes "Create env nodeClaim s = (Inr claim', s')"
  obtains nodeClass its s1 role disks userData opts v w inst t instanceID where
    "env_nodeclass env (ncl_NodeClassRef nodeClaim) (sta_world s) = Inr nodeClass"
    "fst (env_ready env nodeClass) = ConditionTrue"
    "list_types env s = (Inr its, s1)"
    "st_Images (k_Status nodeClass) \<noteq> []"
    "validateRAMRoleForCreate nodeClass = Inr role" "NormalizeDisks (k_Spec nodeClass) = Inr disks"
    "opts \<in> set (launch_candidates (env_sort_vsw env) nodeClass
       (launch_plan (env_netcfg env) nodeClaim (st_Images (k_Status nodeClass))
          (st_SecurityGroups (k_Status nodeClass)) userData (BuildInstanceTags nodeClaim nodeClass) role disks)
       (filterVSwitchesByZones (st_VSwitches (k_Status nodeClass))
          (zonesFromRequirements (ncl_Requirements nodeClaim)))
       (filterInstanceTypesByRequirements (env_region env) its (ncl_Requirements nodeClaim)))"
    "CreateInst (env_api env) (env_region env) opts v = (Inr instanceID, w)"
    "get_instance env instanceID t = (Inr inst, s')" "sta_world t = w" "sta_instances t = sta_instances s"
    "claim' = setNodeClassHashAnnotation (convertInstanceToNodeClaim env inst nodeClaim
       (filterInstanceTypesByRequirements (env_region env) its (ncl_Requirements nodeClaim)))
       (calculateNodeClassHash (env_sha env) nodeClass)"
proof -
  obtain cls where c: "env_nodeclass env (ncl_NodeClassRef nodeClaim) (sta_world s) = Inr cls"
    "readiness_error env cls = None"
    using assms by (auto simp: Create_def split: sum.splits option.splits)
  obtain its s1 where l: "list_types env s = (Inr its, s1)"
    using assms c by (auto simp: Create_def split: sum.splits prod.splits)
  let ?its = "filterInstanceTypesByRequirements (env_region env) its (ncl_Requirements nodeClaim)"
  let ?vs = "filterVSwitchesByZones (st_VSwitches (k_Status cls)) (zonesFromRequirements (ncl_Requirements nodeClaim))"
  obtain userData cc where u: "st_Images (k_Status cls) \<noteq> []"
    "launch env nodeClaim cls ?its ?vs userData (s1\<lparr>sta_scripts := cc\<rparr>) = (Inr claim', s')"
    using assms c l by (auto simp: Create_def Let_def split: sum.splits prod.splits if_splits)
  then obtain i w where ci: "createInstanceWithRetry (env_sort_vsw env) (CreateInst (env_api env) (env_region env))
      (env_netcfg env) nodeClaim cls ?its (st_Images (k_Status cls)) ?vs
      (st_SecurityGroups (k_Status cls)) userData (BuildInstanceTags nodeClaim cls) (sta_world s1) = (Inr i, w)"
    by (auto simp: launch_def split: sum.splits prod.splits)
  with u(2) obtain inst where g: "get_instance env i (s1\<lparr>sta_scripts := cc, sta_world := w\<rparr>) = (Inr inst, s')"
    "claim' = setNodeClassHashAnnotation (convertInstanceToNodeClaim env inst nodeClaim ?its)
       (calculateNodeClassHash (env_sha env) cls)"
    by (auto simp: launch_def split: sum.splits prod.splits)
  from created_from_candidate [OF ci] obtain role disks opts v where
    rd: "validateRAMRoleForCreate cls = Inr role" "NormalizeDisks (k_Spec cls) = Inr disks" and
    opts: "opts \<in> set (launch_candidates (env_sort_vsw env) cls
       (launch_plan (env_netcfg env) nodeClaim (st_Images (k_Status cls))
          (st_SecurityGroups (k_Status cls)) userData (BuildInstanceTags nodeClaim cls) role disks) ?vs ?its)" and
    ce: "CreateInst (env_api env) (env_region env) opts v = (Inr i, w)"
    by metis
  have "fst (env_ready env cls) = ConditionTrue"
    using c(2) by (auto simp: readiness_error_def split: prod.splits ConditionStatus.splits)
  then show thesis
    using that [OF c(1) _ l u(1) rd opts ce g(1) _ _ g(2)] list_types_keeps(2) [OF l] by simp
qed

text \<open>The choices of a launch candidate.\<close>

lemma spot_strategy_iff: "IsSpotStrategy (SpotStrategyForCapacityType ct r) \<longleftrightarrow> ct = CapacityTypeSpot"
  using SpotStrategy_cases [of CapacityTypeSpot r]
  by (auto simp: SpotStrategyForCapacityType_def IsValidSpotStrategy_def Let_def split: option.splits)

lemma candidate_choices:
  assumes "opts \<in> set (launch_candidates sort_vsw nodeClass
       (launch_plan netcfg nodeClaim (st_Images (k_Status nodeClass)) (st_SecurityGroups (k_Status nodeClass))
          userData tags role disks)
       (filterVSwitchesByZones (st_VSwitches (k_Status nodeClass)) zones) its)"
    and "sorts_by_free_addresses sort_vsw" "st_Images (k_Status nodeClass) \<noteq> []"
  shows "\<exists>it \<in> set its. co_InstanceType opts = it_Name it \<and>
       map_option img_ID (selectImageForArchitecture (st_Images (k_Status nodeClass)) (it_Architecture it)) =
         Some (co_ImageID opts)"
    "\<exists>vs \<in> set (st_VSwitches (k_Status nodeClass)). co_VSwitchID opts = vsw_ID vs \<and>
       (zones = [] \<or> vswitch_zone vs \<in> set zones)"
    "\<exists>img \<in> set (st_Images (k_Status nodeClass)). co_ImageID opts = img_ID img"
    "set (co_SecurityGroupIDs opts) = sg_ID ` set (st_SecurityGroups (k_Status nodeClass))"
    "co_Tags opts = tags" "co_RAMRoleName opts = role"
    "co_SystemDisk opts = inst_system_disk (nd_SystemDisk disks)"
    "co_DataDisks opts = List.map inst_data_disk (nd_DataDisks disks)"
    "IsSpotStrategy (co_SpotStrategy opts) \<longleftrightarrow> (\<exists>req \<in> set (ncl_Requirements nodeClaim). nsr_Key req = LabelCapacityType \<and>
       nsr_Operator req = NodeSelectorOpIn \<and> CapacityTypeSpot \<in> set (nsr_Values req))"
proof -
  let ?st = "k_Status nodeClass"
  let ?plan = "launch_plan netcfg nodeClaim (st_Images ?st) (st_SecurityGroups ?st) userData tags role disks"
  obtain it v where it: "it \<in> set its" "v \<in> set (filterVSwitchesByZones (st_VSwitches ?st) zones)"
    "opts = (baseOpts nodeClass ?plan it)\<lparr>co_VSwitchID := vsw_ID v\<rparr>"
    using assms(1) sorts_set [OF assms(2)] unfolding launch_candidates_def by auto
  from select_image_in [OF assms(3)] obtain img where img: "img \<in> set (st_Images ?st)"
    "selectImageForArchitecture (st_Images ?st) (it_Architecture it) = Some img" by blast
  show "\<exists>it \<in> set its. co_InstanceType opts = it_Name it \<and>
       map_option img_ID (selectImageForArchitecture (st_Images ?st) (it_Architecture it)) = Some (co_ImageID opts)"
    using it(1) img(2) unfolding it(3) by (intro bexI [of _ it]) (simp_all add: baseOpts_def launch_plan_def)
  show "co_Tags opts = tags" "co_RAMRoleName opts = role" "co_SystemDisk opts = inst_system_disk (nd_SystemDisk disks)"
    "co_DataDisks opts = List.map inst_data_disk (nd_DataDisks disks)"
    using it by (simp_all add: baseOpts_def launch_plan_def)
  show "IsSpotStrategy (co_SpotStrategy opts) \<longleftrightarrow> (\<exists>req \<in> set (ncl_Requirements nodeClaim). nsr_Key req = LabelCapacityType \<and>
       nsr_Operator req = NodeSelectorOpIn \<and> CapacityTypeSpot \<in> set (nsr_Values req))"
    using it by (simp add: baseOpts_def launch_plan_def spot_strategy_iff capacityTypeFromRequirements_def list_ex_iff
        CapacityTypeSpot_def CapacityTypeOnDemand_def)
  show "\<exists>img \<in> set (st_Images ?st). co_ImageID opts = img_ID img"
    using it img by (auto simp: baseOpts_def launch_plan_def)
  show "\<exists>vs \<in> set (st_VSwitches ?st). co_VSwitchID opts = vsw_ID vs \<and> (zones = [] \<or> vswitch_zone vs \<in> set zones)"
    using it by (auto simp: filterVSwitchesByZones_def split: if_splits)
  show "set (co_SecurityGroupIDs opts) = sg_ID ` set (st_SecurityGroups ?st)"
    using it by (simp add: baseOpts_def launch_plan_def NormalizeIDs_sort_dedup)
qed

section \<open>Properties\<close>

text \<open>
  C1: A NodeClaim that Create returns is backed by an instance launched as the node class
  and the claim demand.  The node class was Ready; the launch request that ECS accepted
  names a listed instance type that meets every requirement of the claim, the resolved image that
  is selected for the architecture of that type, a resolved vSwitch of the node class in one of the zones the claim
  asks for, exactly the resolved security groups, the normalised disks and the role of the spec and the tags of the
  claim, and it is a spot request exactly when a requirement lists spot as a capacity type; and the claim
  carries the provider ID of that instance and the hash of that node class.
\<close>
theorem Create_launches_what_is_demanded:
  assumes "Create env nodeClaim s = (Inr claim', s')" "sorts_by_free_addresses (env_sort_vsw env)"
  shows "\<exists>cls opts v w i inst t.
     env_nodeclass env (ncl_NodeClassRef nodeClaim) (sta_world s) = Inr cls \<and>
     fst (env_ready env cls) = ConditionTrue \<and>
     CreateInst (env_api env) (env_region env) opts v = (Inr i, w) \<and>
     (\<exists>its s1 it. list_types env s = (Inr its, s1) \<and> it \<in> set its \<and> co_InstanceType opts = it_Name it \<and>
        list_all (matchesRequirement (env_region env) it)
          (List.map_filter convert_requirement (ncl_Requirements nodeClaim)) \<and>
        map_option img_ID (selectImageForArchitecture (st_Images (k_Status cls)) (it_Architecture it)) =
          Some (co_ImageID opts)) \<and>
     (\<exists>disks. NormalizeDisks (k_Spec cls) = Inr disks \<and> co_SystemDisk opts = inst_system_disk (nd_SystemDisk disks) \<and>
        co_DataDisks opts = List.map inst_data_disk (nd_DataDisks disks)) \<and>
     (IsSpotStrategy (co_SpotStrategy opts) \<longleftrightarrow> (\<exists>req \<in> set (ncl_Requirements nodeClaim). nsr_Key req = LabelCapacityType \<and>
        nsr_Operator req = NodeSelectorOpIn \<and> CapacityTypeSpot \<in> set (nsr_Values req))) \<and>
     (\<exists>vs \<in> set (st_VSwitches (k_Status cls)). co_VSwitchID opts = vsw_ID vs \<and>
        (zonesFromRequirements (ncl_Requirements nodeClaim) = [] \<or>
         vswitch_zone vs \<in> set (zonesFromRequirements (ncl_Requirements nodeClaim)))) \<and>
     (\<exists>img \<in> set (st_Images (k_Status cls)). co_ImageID opts = img_ID img) \<and>
     set (co_SecurityGroupIDs opts) = sg_ID ` set (st_SecurityGroups (k_Status cls)) \<and>
     co_Tags opts = BuildInstanceTags nodeClaim cls \<and>
     co_RAMRoleName opts = or_else (nc_Role (k_Spec cls)) [] \<and>
     get_instance env i t = (Inr inst, s') \<and> sta_world t = w \<and> ncl_ProviderID claim' = providerID_of inst \<and>
     map_of (ncl_Annotations claim') AnnotationECSNodeClassHash = Some (calculateNodeClassHash (env_sha env) cls) \<and>
     ncl_Name claim' = ncl_Name nodeClaim"
proof -
  obtain cls its s1 role disks userData opts v w inst t i where
    c: "env_nodeclass env (ncl_NodeClassRef nodeClaim) (sta_world s) = Inr cls"
      "fst (env_ready env cls) = ConditionTrue" and l: "list_types env s = (Inr its, s1)" and
    im: "st_Images (k_Status cls) \<noteq> []" and role: "validateRAMRoleForCreate cls = Inr role" and
    dsk: "NormalizeDisks (k_Spec cls) = Inr disks" and
    o': "opts \<in> set (launch_candidates (env_sort_vsw env) cls
       (launch_plan (env_netcfg env) nodeClaim (st_Images (k_Status cls))
          (st_SecurityGroups (k_Status cls)) userData (BuildInstanceTags nodeClaim cls) role disks)
       (filterVSwitchesByZones (st_VSwitches (k_Status cls)) (zonesFromRequirements (ncl_Requirements nodeClaim)))
       (filterInstanceTypesByRequirements (env_region env) its (ncl_Requirements nodeClaim)))" and
    ce: "CreateInst (env_api env) (env_region env) opts v = (Inr i, w)" and
    g: "get_instance env i t = (Inr inst, s')" "sta_world t = w" and
    cl: "claim' = setNodeClassHashAnnotation (convertInstanceToNodeClaim env inst nodeClaim
       (filterInstanceTypesByRequirements (env_region env) its (ncl_Requirements nodeClaim)))
       (calculateNodeClassHash (env_sha env) cls)"
    by (rule Create_InrD [OF assms(1)])
  note ch = candidate_choices [OF o' assms(2) im]
  have r: "role = or_else (nc_Role (k_Spec cls)) []"
    using role by (auto simp: validateRAMRoleForCreate_def split: option.splits if_splits)
  from ch(1) obtain it where it: "it \<in> set (filterInstanceTypesByRequirements (env_region env) its (ncl_Requirements nodeClaim))"
    "co_InstanceType opts = it_Name it"
    "map_option img_ID (selectImageForArchitecture (st_Images (k_Status cls)) (it_Architecture it)) = Some (co_ImageID opts)"
    by blast
  have "it \<in> set its" "list_all (matchesRequirement (env_region env) it)
      (List.map_filter convert_requirement (ncl_Requirements nodeClaim))"
    using it(1) by (auto simp: filterInstanceTypesByRequirements_def FilterTypes_def)
  with l it(2,3) have "\<exists>its s1 it. list_types env s = (Inr its, s1) \<and> it \<in> set its \<and> co_InstanceType opts = it_Name it \<and>
        list_all (matchesRequirement (env_region env) it)
          (List.map_filter convert_requirement (ncl_Requirements nodeClaim)) \<and>
        map_option img_ID (selectImageForArchitecture (st_Images (k_Status cls)) (it_Architecture it)) =
          Some (co_ImageID opts)"
    by blast
  moreover have "ncl_ProviderID claim' = providerID_of inst" "ncl_Name claim' = ncl_Name nodeClaim"
    by (simp_all add: cl setNodeClassHashAnnotation_def convertInstanceToNodeClaim_def Let_def)
  moreover have "map_of (ncl_Annotations claim') AnnotationECSNodeClassHash = Some (calculateNodeClassHash (env_sha env) cls)"
    unfolding cl by (rule annotated_hash)
  ultimately show ?thesis
    using c ce ch(2-9) dsk g r by (intro exI [of _ cls] exI [of _ opts] exI [of _ v] exI [of _ w] exI [of _ i]
        exI [of _ inst] exI [of _ t]) simp
qed

text \<open>A small environment: one cached type, a fleet, a kubeadm node class that is ready.\<close>

definition kubeadm_class :: ECSNodeClass where
  "kubeadm_class = sample_class\<lparr>k_Spec := emptySpec\<rparr>"

definition sample_cloud :: "EcsInstance list \<Rightarrow> unit EcsApi" where
  "sample_cloud fleet = (fleet_api fleet)\<lparr>RunInstances := (\<lambda>r w. (Inr (Some [Some ''i-1'']), w)),
     DescribeInstances := (\<lambda>r w. (Inr (Some \<lparr>db_Instances =
         Some (List.map Some (take 100 (drop (100 * nat (or_else (dr_PageNumber r) 1 - 1)) fleet))),
         db_TotalCount = Some (int (length fleet)), db_PageNumber = Some (or_else (dr_PageNumber r) 1),
         db_PageSize = Some 100\<rparr>), w))\<rparr>"

definition sample_env :: "EcsInstance list \<Rightarrow> ECSNodeClass \<Rightarrow> unit CpEnv" where
  "sample_env fleet cls = \<lparr>env_api = sample_cloud fleet,
     env_types = (\<lambda>w. \<lparr>DescribeZones = Inl [], DescribeAvailableResource = (\<lambda>_. Inl []),
        DescribeInstanceTypes = (\<lambda>_. Inl [])\<rparr>),
     env_cs = sample_cs [], env_flight = (\<lambda>key f. f), env_region = ''cn-a'',
     env_nodeclass = (\<lambda>name w. Inr cls), env_ready = (\<lambda>c. (ConditionTrue, [])),
     env_sha = (\<lambda>h. Some ''d1''), env_parse_quantity = (\<lambda>s. None), env_parse_time = (\<lambda>s. None),
     env_sort_vsw = sort_key (\<lambda>v. - vsw_AvailableIPAddressCount v), env_options = None, env_netcfg = None\<rparr>"

definition sample_state :: "unit CpState" where
  "sample_state = \<lparr>sta_types = [(''instance-types'', \<lparr>Value = CachedTypes [sample_type], ExpiresAt = 1\<rparr>)],
     sta_instances = [], sta_scripts = [], sta_world = ()\<rparr>"

definition launched_instance :: EcsInstance where
  "launched_instance = sample_instance\<lparr>ei_VSwitchId := Some ''vsw-2'',
     ei_SecurityGroupIds := Some [Some ''sg-1'']\<rparr>"

lemma sample_list_types: "list_types (sample_env fleet cls) sample_state = (Inr [sample_type], sample_state)"
  by (simp add: list_types_def sample_state_def ListTypes_def getCachedValue_def cache_read_def
      sample_env_def sample_cloud_def fleet_api_def)

lemma sample_env_fields [simp]:
  "env_api (sample_env fleet cls) = sample_cloud fleet" "env_region (sample_env fleet cls) = ''cn-a''"
  "env_netcfg (sample_env fleet cls) = None" "env_nodeclass (sample_env fleet cls) = (\<lambda>name w. Inr cls)"
  "env_ready (sample_env fleet cls) = (\<lambda>c. (ConditionTrue, []))"
  "env_sort_vsw (sample_env fleet cls) = sort_key (\<lambda>v. - vsw_AvailableIPAddressCount v)"
  by (simp_all add: sample_env_def)

lemma sample_state_fields [simp]:
  "sta_instances sample_state = []" "sta_world sample_state = ()"
  by (simp_all add: sample_state_def)

lemma kubeadm_class_fields [simp]:
  "k_Spec kubeadm_class = emptySpec" "k_Status kubeadm_class = k_Status sample_class"
  by (simp_all add: kubeadm_class_def)

lemma empty_spec_disks: "\<exists>disks. NormalizeDisks emptySpec = Inr disks"
  by (simp add: NormalizeDisks_def normalizeSystemDisk_def emptySpec_def disk_consts
        validateDiskCategoryAndSize_def diskCategoryConstraints_def sizes_def
        normalizeDiskPerformance_def isValidPerformanceLevel_def)

lemma sample_get_instance:
  "get_instance (sample_env (launched_instance # fleet) cls) i s = (r, s') \<Longrightarrow> sta_instances s = [] \<Longrightarrow>
     r = Inr (convert_instance launched_instance 2 8192) \<and> sta_instances s' \<noteq> []"
  by (auto simp: get_instance_def sample_env_def GetInst_def getCachedInstance_def getCachedValue_def cache_read_def
      setCachedInstance_def setCachedValue_def
      sample_cloud_def fleet_api_def describe_fn_def describeInstances_def describe_request_def BatchDescribeInstances_single get_result_def
      get_fields_present_def launched_instance_def sample_instance_def)

lemma sample_create:
  "\<exists>claim s'. Create (sample_env (launched_instance # fleet) kubeadm_class) emptyNodeClaim sample_state = (Inr claim, s')"
proof -
  let ?env = "sample_env (launched_instance # fleet) kubeadm_class"
  obtain disks where d: "NormalizeDisks (k_Spec kubeadm_class) = Inr disks" using empty_spec_disks by auto
  have role: "validateRAMRoleForCreate kubeadm_class = Inr []"
    by (simp add: validateRAMRoleForCreate_def emptySpec_def)
  have ne: "[sample_type] \<noteq> []" "st_Images (k_Status kubeadm_class) \<noteq> []" "sample_vswitches \<noteq> []"
    "st_SecurityGroups (k_Status kubeadm_class) \<noteq> []"
    by (simp_all add: sample_class_def sample_vswitches_def)
  have sorted: "env_sort_vsw ?env sample_vswitches = rev sample_vswitches"
    by (simp add: sample_vswitches_def sample_env_def)
  have run: "\<exists>w. CreateInst (env_api ?env) (env_region ?env)
      ((baseOpts kubeadm_class (launch_plan n c i (st_SecurityGroups (k_Status sample_class)) u t r dd) it)\<lparr>co_VSwitchID := v\<rparr>) () = (Inr ''i-1'', w)"
    for n c i u t r dd it v
    by (simp add: CreateInst_def Let_def baseOpts_def launch_plan_def sample_class_def sample_env_def
        sample_cloud_def NormalizeIDs_sort_dedup sort_dedup_def)
  have cr: "\<exists>w. createInstanceWithRetry (env_sort_vsw ?env) (CreateInst (env_api ?env) (env_region ?env)) None
      emptyNodeClaim kubeadm_class [sample_type] (st_Images (k_Status kubeadm_class)) sample_vswitches
      (st_SecurityGroups (k_Status kubeadm_class)) ud tags () = (Inr ''i-1'', w)" for ud tags
    unfolding createInstanceWithRetry_loop [OF ne role d]
    using run by (simp add: vswitchFallbackCreate_def sorted) (auto simp: sample_vswitches_def split: prod.splits)
  have "\<exists>claim s'. launch ?env emptyNodeClaim kubeadm_class [sample_type] sample_vswitches ud
      (sample_state\<lparr>sta_scripts := c\<rparr>) = (Inr claim, s')" for ud c
  proof -
    obtain r s' where g: "get_instance ?env ''i-1'' (sample_state\<lparr>sta_scripts := c, sta_world := ()\<rparr>) = (r, s')"
      by (metis surj_pair)
    moreover have "sta_instances (sample_state\<lparr>sta_scripts := c, sta_world := ()\<rparr>) = []" by simp
    ultimately show ?thesis
      using sample_get_instance [OF g] cr [of ud "BuildInstanceTags emptyNodeClaim kubeadm_class"]
      by (auto simp: launch_def)
  qed
  moreover have "filterInstanceTypesByRequirements (env_region ?env) [sample_type] (ncl_Requirements emptyNodeClaim) = [sample_type]"
    by (simp add: filterInstanceTypesByRequirements_def FilterTypes_def emptyNodeClaim_def List.map_filter_def)
  moreover have "\<exists>ud c. GenerateUserData (env_cs ?env) (bootstrap_options emptyNodeClaim kubeadm_class)
      (sta_scripts sample_state) (sta_world sample_state) = (Inr ud, c)"
    by (simp add: GenerateUserData_def bootstrap_options_def determineClusterType_def emptySpec_def
        kubeadmUserData_def ACKClusterType_def SelfManagedClusterType_def KubeadmClusterType_def)
  moreover have "st_VSwitches (k_Status sample_class) = sample_vswitches" by (simp add: sample_class_def)
  ultimately show ?thesis
    using ne
    by (auto simp: Create_def sample_list_types Let_def readiness_error_def filterVSwitchesByZones_def
        zonesFromRequirements_def emptyNodeClaim_def)
qed

lemma sample_claim:
  assumes "Create (sample_env (launched_instance # fleet) kubeadm_class) emptyNodeClaim sample_state = (Inr claim', s')"
  shows "ncl_ProviderID claim' = providerID_of (convert_instance launched_instance 2 8192)"
proof -
  let ?env = "sample_env (launched_instance # fleet) kubeadm_class"
  obtain nodeClass its inst t instanceID where
    g: "get_instance ?env instanceID t = (Inr inst, s')" and t: "sta_instances t = sta_instances sample_state" and
    cl: "claim' = setNodeClassHashAnnotation (convertInstanceToNodeClaim ?env inst emptyNodeClaim
       (filterInstanceTypesByRequirements (env_region ?env) its (ncl_Requirements emptyNodeClaim)))
       (calculateNodeClassHash (env_sha ?env) nodeClass)"
    by (rule Create_InrD [OF assms]) blast
  have "sta_instances t = []" using t by simp
  from sample_get_instance [OF g this] show ?thesis
    by (simp add: cl setNodeClassHashAnnotation_def convertInstanceToNodeClaim_def Let_def)
qed

theorem Create_launches_what_is_demanded_witness:
  "\<exists>claim' s' opts v w i. Create (sample_env [launched_instance] kubeadm_class) emptyNodeClaim sample_state = (Inr claim', s') \<and>
     CreateInst (sample_cloud [launched_instance]) ''cn-a'' opts v = (Inr i, w) \<and>
     (\<exists>vs \<in> set sample_vswitches. co_VSwitchID opts = vsw_ID vs) \<and> ncl_Name claim' = []"
proof -
  obtain claim' s' where c:
    "Create (sample_env [launched_instance] kubeadm_class) emptyNodeClaim sample_state = (Inr claim', s')"
    using sample_create [of "[]"] by auto
  have "st_VSwitches (k_Status sample_class) = sample_vswitches" by (simp add: sample_class_def)
  with Create_launches_what_is_demanded [OF c] sort_key_sorts c show ?thesis
    by (fastforce simp: emptyNodeClaim_def)
qed

text \<open>
  C2: What Create launches is not drifted.  For the claim that Create returns there is an accepted
  launch request such that, at any later time at which the node class is the same, when the
  look-up of the instance still reports the image, vSwitch and security groups of
  that request, IsDrifted reports no drift.
\<close>
theorem created_claim_is_not_drifted:
  assumes "Create env nodeClaim s = (Inr claim', s')" "sorts_by_free_addresses (env_sort_vsw env)"
    and "fromProviderID (ncl_ProviderID claim') \<noteq> []"
    and "env_nodeclass env (ncl_NodeClassRef nodeClaim) (sta_world t) =
         env_nodeclass env (ncl_NodeClassRef nodeClaim) (sta_world s)"
  shows "\<exists>opts v i w. CreateInst (env_api env) (env_region env) opts v = (Inr i, w) \<and>
     (\<forall>inst t'. get_instance env (fromProviderID (ncl_ProviderID claim')) t = (Inr inst, t') \<and>
        ins_ImageID inst = co_ImageID opts \<and> ins_VSwitchID inst = co_VSwitchID opts \<and>
        set (ins_SecurityGroupIDs inst) = set (co_SecurityGroupIDs opts) \<longrightarrow>
        IsDrifted env claim' t = (Inr [], t'))"
proof -
  obtain cls its s1 role disks userData opts v w inst u i where
    c: "env_nodeclass env (ncl_NodeClassRef nodeClaim) (sta_world s) = Inr cls" and
    im: "st_Images (k_Status cls) \<noteq> []" and
    o': "opts \<in> set (launch_candidates (env_sort_vsw env) cls
       (launch_plan (env_netcfg env) nodeClaim (st_Images (k_Status cls))
          (st_SecurityGroups (k_Status cls)) userData (BuildInstanceTags nodeClaim cls) role disks)
       (filterVSwitchesByZones (st_VSwitches (k_Status cls)) (zonesFromRequirements (ncl_Requirements nodeClaim)))
       (filterInstanceTypesByRequirements (env_region env) its (ncl_Requirements nodeClaim)))" and
    ce: "CreateInst (env_api env) (env_region env) opts v = (Inr i, w)" and
    cl: "claim' = setNodeClassHashAnnotation (convertInstanceToNodeClaim env inst nodeClaim
       (filterInstanceTypesByRequirements (env_region env) its (ncl_Requirements nodeClaim)))
       (calculateNodeClassHash (env_sha env) cls)"
    by (rule Create_InrD [OF assms(1)]) blast
  have "ncl_NodeClassRef claim' = ncl_NodeClassRef nodeClaim"
    by (simp add: cl setNodeClassHashAnnotation_def convertInstanceToNodeClaim_def Let_def)
  then have "IsDrifted env claim' t = (Inr [], t')"
    if "get_instance env (fromProviderID (ncl_ProviderID claim')) t = (Inr j, t')"
      "ins_ImageID j = co_ImageID opts" "ins_VSwitchID j = co_VSwitchID opts"
      "set (ins_SecurityGroupIDs j) = set (co_SecurityGroupIDs opts)" for j t'
    using that(1) assms(3,4) c launched_instance_is_not_drifted [OF o' assms(2) im that(2-4), of "env_sha env"]
    by (simp add: IsDrifted_def Let_def) (simp add: cl)
  with ce show ?thesis by blast
qed

theorem created_claim_is_not_drifted_witness:
  "\<exists>claim' s'. Create (sample_env [launched_instance] kubeadm_class) emptyNodeClaim sample_state = (Inr claim', s') \<and>
     (\<exists>opts v i w. CreateInst (sample_cloud [launched_instance]) ''cn-a'' opts v = (Inr i, w))"
proof -
  obtain claim' s' where c:
    "Create (sample_env [launched_instance] kubeadm_class) emptyNodeClaim sample_state = (Inr claim', s')"
    using sample_create [of "[]"] by auto
  have "ncl_ProviderID claim' = providerID_of (convert_instance launched_instance 2 8192)"
    by (rule sample_claim [OF c])
  then have "fromProviderID (ncl_ProviderID claim') \<noteq> []"
    by (simp add: providerID_of_def convert_instance_def launched_instance_def sample_instance_def derefString_def
        fromProviderID_def Let_def)
  with created_claim_is_not_drifted [OF c, of sample_state] sort_key_sorts c show ?thesis by auto
qed



end
