(* ===== verification/Offerings.thy ===== *)
theory Offerings
  imports CloudProvider
begin

text \<open>
  GetInstanceTypes (pkg/cloudprovider/cloudprovider.go): the instance types a node pool can
  use, with one offering per zone and capacity type.  Requirements of the
  scheduling library are lists of keys with the allowed values.
\<close>

record Offering =
  off_Zone :: string
  off_CapacityType :: string
  off_Price :: rat
  off_Available :: bool

record CoreInstanceType =
  cit_Name :: string
  cit_Capacity :: resources
  cit_Offerings :: "Offering list"
  cit_Requirements :: "(string \<times> string list) list"
  cit_EvictionThreshold :: resources
  cit_KubeReserved :: resources
  cit_SystemReserved :: resources

definition ecsArchToKubernetesArch :: "string \<Rightarrow> string" where
  "ecsArchToKubernetesArch ecsArch = KubeArchitecture ecsArch"

definition availableZones :: "VSwitch list \<Rightarrow> string list" where
  "availableZones vswitches = List.map vswitch_zone vswitches"

text \<open>Known capacity types start as out of stock, those with stock are overwritten.\<close>

definition capTypeAvailability :: "ZoneInfo \<Rightarrow> (string \<times> bool) list" where
  "capTypeAvailability zi = fold (\<lambda>ct. AList.update ct True) (zi_CapacityTypes zi)
     (fold (\<lambda>ct. AList.update ct False) (zi_KnownCapacityTypes zi) [])"

definition zone_offerings :: "string \<Rightarrow> ZoneInfo \<Rightarrow> Offering list" where
  "zone_offerings zoneID zi = List.map (\<lambda>(ct, available).
     \<lparr>off_Zone = zoneID, off_CapacityType = ct, off_Price = 0, off_Available = available\<rparr>) (capTypeAvailability zi)"

definition offerings_of :: "string list \<Rightarrow> InstanceType \<Rightarrow> Offering list" where
  "offerings_of zones it = concat (List.map (\<lambda>(zoneID, zi).
     if zoneID \<in> set zones then zone_offerings zoneID zi else []) (it_Zones it))"

definition buildInstanceTypeRequirements :: "InstanceType \<Rightarrow> string \<Rightarrow> string list \<Rightarrow> string list \<Rightarrow>
    (string \<times> string list) list" where
  "buildInstanceTypeRequirements it region zones capacityTypes =
     [(LabelInstanceTypeStable, [it_Name it]), (LabelArchStable, [ecsArchToKubernetesArch (it_Architecture it)]),
      (LabelOSStable, [''linux'']), (LabelTopologyRegion, [region]), (LabelTopologyZone, zones),
      (CapacityTypeLabelKey, capacityTypes)] @ List.map (\<lambda>(k, v). (k, [v])) (ResolvedLabels (Some it))"

definition overhead_third :: "resources \<Rightarrow> resources" where
  "overhead_third overhead =
     [(ResourceMemory, divideQuantity (or_else (map_of overhead ResourceMemory) 0) 3),
      (ResourceCPU, divideQuantity (or_else (map_of overhead ResourceCPU) 0) 3)]"

definition core_type :: "'w CpEnv \<Rightarrow> string list \<Rightarrow> InstanceType \<Rightarrow> CoreInstanceType option" where
  "core_type env zones it =
     (if it_CPU it = None \<or> it_Memory it = None then None
      else case capacity_of env it of Inl err \<Rightarrow> None
      | Inr (capacity, _) \<Rightarrow>
         (let offerings = offerings_of zones it;
              overhead = calculateOverhead (FromContext (env_options env)) (env_parse_quantity env) it in
          if offerings = [] then None
          else Some \<lparr>cit_Name = it_Name it, cit_Capacity = capacity, cit_Offerings = offerings,
            cit_Requirements = buildInstanceTypeRequirements it (o_Region (FromContext (env_options env)))
              (remdups (List.map off_Zone offerings)) (remdups (List.map off_CapacityType offerings)),
            cit_EvictionThreshold = overhead_third overhead, cit_KubeReserved = overhead_third overhead,
            cit_SystemReserved = overhead_third overhead\<rparr>))"

definition GetInstanceTypes :: "'w CpEnv \<Rightarrow> NodePool \<Rightarrow> 'w CpState \<Rightarrow> (kerr + CoreInstanceType list) \<times> 'w CpState" where
  "GetInstanceTypes env nodePool s =
     (case env_nodeclass env (np_NodeClassRef nodePool) (sta_world s) of
        Inl err \<Rightarrow> (Inl (Wrapped ''failed to get nodeclass: '' (Msg err)), s)
      | Inr nodeClass \<Rightarrow> (case readiness_error env nodeClass of Some e \<Rightarrow> (Inl e, s) | None \<Rightarrow>
         if st_VSwitches (k_Status nodeClass) = []
         then (Inl (NodeClassNotReadyError (Msg (''nodeclass '' @ k_Name nodeClass @
                 '' has no vswitches - status not ready''))), s)
         else case list_types env s of
            (Inl err, s1) \<Rightarrow> (Inl (Wrapped ''failed to list instance types: '' (Msg err)), s1)
          | (Inr its, s1) \<Rightarrow>
             (let filteredTypes = filterInstanceTypesByRequirements (env_region env) its (np_Requirements nodePool);
                  coreInstanceTypes = List.map_filter
                    (core_type env (availableZones (st_VSwitches (k_Status nodeClass)))) filteredTypes in
              if coreInstanceTypes = [] then (Inl (Msg ''no instance types available matching requirements''), s1)
              else (Inr coreInstanceTypes, s1))))"

section \<open>Lemmas\<close>

lemma fold_update_const:
  "map_of (fold (\<lambda>ct. AList.update ct b) cts m) k = (if k \<in> set cts then Some b else map_of m k)"
  by (induction cts arbitrary: m) (auto simp: map_of_update)

lemma wf_fold_update_const: "wf_map m \<Longrightarrow> wf_map (fold (\<lambda>ct. AList.update ct b) cts m)"
  by (induction cts arbitrary: m) auto

lemma wf_capTypeAvailability [simp]: "wf_map (capTypeAvailability zi)"
  by (simp add: capTypeAvailability_def wf_fold_update_const)

lemma map_of_capTypeAvailability:
  "map_of (capTypeAvailability zi) ct =
     (if ct \<in> set (zi_CapacityTypes zi) then Some True
      else if ct \<in> set (zi_KnownCapacityTypes zi) then Some False else None)"
  by (simp add: capTypeAvailability_def fold_update_const)

lemma offering_in_zone:
  "off \<in> set (zone_offerings z zi) \<longleftrightarrow> off_Zone off = z \<and> off_Price off = 0 \<and>
     map_of (capTypeAvailability zi) (off_CapacityType off) = Some (off_Available off)"
proof -
  have "off \<in> set (zone_offerings z zi) \<longleftrightarrow>
      off_Zone off = z \<and> off_Price off = 0 \<and> (off_CapacityType off, off_Available off) \<in> set (capTypeAvailability zi)"
    by (cases off) (force simp: zone_offerings_def image_iff)
  moreover have "(ct, b) \<in> set m \<longleftrightarrow> map_of m ct = Some b" if "wf_map m" for ct b and m :: "(string \<times> bool) list"
    using that by (simp add: wf_map_def)
  ultimately show ?thesis by simp
qed

lemma offering_of_type:
  "off \<in> set (offerings_of zones it) \<longleftrightarrow>
     (\<exists>zi. (off_Zone off, zi) \<in> set (it_Zones it) \<and> off_Zone off \<in> set zones \<and>
        off_Price off = 0 \<and> map_of (capTypeAvailability zi) (off_CapacityType off) = Some (off_Available off))"
proof -
  have "off \<in> set (offerings_of zones it) \<longleftrightarrow>
      (\<exists>z zi. (z, zi) \<in> set (it_Zones it) \<and> z \<in> set zones \<and> off \<in> set (zone_offerings z zi))"
    by (auto simp: offerings_of_def split: if_splits)
  then show ?thesis unfolding offering_in_zone by auto
qed

lemma core_type_Some:
  "core_type env zones it = Some cit \<Longrightarrow>
     cit_Name cit = it_Name it \<and> cit_Offerings cit = offerings_of zones it \<and> offerings_of zones it \<noteq> []"
  by (auto simp: core_type_def Let_def split: if_splits sum.splits prod.splits)

lemma GetInstanceTypes_InrD:
  assumes "GetInstanceTypes env nodePool s = (Inr cits, s')"
  obtains cls its s1 where "env_nodeclass env (np_NodeClassRef nodePool) (sta_world s) = Inr cls"
    "list_types env s = (Inr its, s1)"
    "cits = List.map_filter (core_type env (availableZones (st_VSwitches (k_Status cls))))
       (filterInstanceTypesByRequirements (env_region env) its (np_Requirements nodePool))"
proof -
  obtain cls where cls: "env_nodeclass env (np_NodeClassRef nodePool) (sta_world s) = Inr cls"
    "readiness_error env cls = None" "st_VSwitches (k_Status cls) \<noteq> []"
    using assms by (auto simp: GetInstanceTypes_def split: sum.splits option.splits if_splits)
  obtain its s1 where l: "list_types env s = (Inr its, s1)"
    using assms cls by (auto simp: GetInstanceTypes_def split: sum.splits prod.splits)
  have "cits = List.map_filter (core_type env (availableZones (st_VSwitches (k_Status cls))))
       (filterInstanceTypesByRequirements (env_region env) its (np_Requirements nodePool))"
    using assms cls l by (auto simp: GetInstanceTypes_def Let_def split: if_splits)
  with cls(1) l that show thesis by blast
qed

section \<open>Properties\<close>

text \<open>
  C11: The offerings of an instance type are exactly its known stock: for each type that
  is returned there is an offering for a zone and capacity type if and only if
  the zone is one of the node class's vSwitch zones and the inventory of the type
  knows that capacity type there, in stock or not; it is available if and only if there
  is stock.  So a zone that runs out of stock keeps its offerings.
\<close>
theorem offerings_cover_known_stock:
  assumes "GetInstanceTypes env nodePool s = (Inr cits, s')" "cit \<in> set cits"
  shows "\<exists>cls its it s1. env_nodeclass env (np_NodeClassRef nodePool) (sta_world s) = Inr cls \<and>
     list_types env s = (Inr its, s1) \<and> it \<in> set its \<and> cit_Name cit = it_Name it \<and>
     (\<forall>z ct b. (\<exists>off \<in> set (cit_Offerings cit). off_Zone off = z \<and> off_CapacityType off = ct \<and> off_Available off = b)
        \<longleftrightarrow> z \<in> set (availableZones (st_VSwitches (k_Status cls))) \<and>
            (\<exists>zi. (z, zi) \<in> set (it_Zones it) \<and>
               ct \<in> set (zi_CapacityTypes zi) \<union> set (zi_KnownCapacityTypes zi) \<and>
               b = (ct \<in> set (zi_CapacityTypes zi))))"
proof -
  obtain cls its s1 where cls: "env_nodeclass env (np_NodeClassRef nodePool) (sta_world s) = Inr cls"
    and l: "list_types env s = (Inr its, s1)"
    and cits: "cits = List.map_filter (core_type env (availableZones (st_VSwitches (k_Status cls))))
       (filterInstanceTypesByRequirements (env_region env) its (np_Requirements nodePool))"
    by (rule GetInstanceTypes_InrD [OF assms(1)])
  let ?zones = "availableZones (st_VSwitches (k_Status cls))"
  let ?f = "filterInstanceTypesByRequirements (env_region env) its (np_Requirements nodePool)"
  from cits assms(2) obtain it where it: "it \<in> set ?f" "core_type env ?zones it = Some cit"
    by (auto simp: map_filter_in)
  have "it \<in> set its"
    using it(1) by (auto simp: filterInstanceTypesByRequirements_def FilterTypes_def)
  moreover note core_type_Some [OF it(2)]
  moreover have "(\<exists>off \<in> set (offerings_of ?zones it). off_Zone off = z \<and> off_CapacityType off = ct \<and> off_Available off = b)
        \<longleftrightarrow> z \<in> set ?zones \<and> (\<exists>zi. (z, zi) \<in> set (it_Zones it) \<and>
               map_of (capTypeAvailability zi) ct = Some b)" for z ct b
  proof
    assume "z \<in> set ?zones \<and> (\<exists>zi. (z, zi) \<in> set (it_Zones it) \<and> map_of (capTypeAvailability zi) ct = Some b)"
    then have "\<lparr>off_Zone = z, off_CapacityType = ct, off_Price = 0, off_Available = b\<rparr> \<in> set (offerings_of ?zones it)"
      by (auto simp: offering_of_type)
    then show "\<exists>off \<in> set (offerings_of ?zones it). off_Zone off = z \<and> off_CapacityType off = ct \<and> off_Available off = b"
      by force
  qed (auto simp: offering_of_type)
  ultimately show ?thesis
    using cls l by (auto simp: map_of_capTypeAvailability) 
qed

lemma sample_core_type:
  "\<exists>cit. core_type (sample_env [launched_instance] kubeadm_class) [''cn-a-b'', ''cn-a-c''] sample_type = Some cit"
proof -
  obtain cap where "capacity_of (sample_env [launched_instance] kubeadm_class) sample_type = Inr cap"
    by (simp add: capacity_of_def calculateCapacityAndAllocatable_def sample_type_def Let_def)
  moreover have "offerings_of [''cn-a-b'', ''cn-a-c''] sample_type \<noteq> []"
    by (simp add: offerings_of_def sample_type_def zone_offerings_def capTypeAvailability_def)
  moreover have "it_CPU sample_type \<noteq> None" "it_Memory sample_type \<noteq> None" by (simp_all add: sample_type_def)
  ultimately show ?thesis by (cases cap) (simp add: core_type_def Let_def)
qed

lemma sample_GetInstanceTypes:
  assumes "filterInstanceTypesByRequirements ''cn-a'' [sample_type] reqs = [sample_type]"
  shows "\<exists>cit. GetInstanceTypes (sample_env [launched_instance] kubeadm_class)
     \<lparr>np_Name = ''default'', np_NodeClassRef = ''default'', np_Requirements = reqs\<rparr> sample_state =
       (Inr [cit], sample_state) \<and> cit_Name cit = ''ecs.g6.large''"
proof -
  obtain cit where c: "core_type (sample_env [launched_instance] kubeadm_class) [''cn-a-b'', ''cn-a-c''] sample_type = Some cit"
    using sample_core_type by blast
  have "cit_Name cit = ''ecs.g6.large''" using core_type_Some [OF c] by (simp add: sample_type_def)
  moreover have "availableZones (st_VSwitches (k_Status sample_class)) = [''cn-a-b'', ''cn-a-c'']"
    "st_VSwitches (k_Status sample_class) \<noteq> []"
    by (simp_all add: availableZones_def sample_class_def sample_vswitches_def vswitch_zone_def)
  ultimately show ?thesis
    using assms c by (simp add: GetInstanceTypes_def readiness_error_def sample_list_types Let_def List.map_filter_def)
qed

theorem offerings_cover_known_stock_witness:
  "\<exists>cit. fst (GetInstanceTypes (sample_env [launched_instance] kubeadm_class)
     \<lparr>np_Name = ''default'', np_NodeClassRef = ''default'', np_Requirements = []\<rparr> sample_state) = Inr [cit] \<and>
     (\<exists>off \<in> set (cit_Offerings cit). off_Zone off = ''cn-a-b'' \<and> off_CapacityType off = ''on-demand'' \<and> \<not> off_Available off)"
proof -
  obtain cit where g: "GetInstanceTypes (sample_env [launched_instance] kubeadm_class)
     \<lparr>np_Name = ''default'', np_NodeClassRef = ''default'', np_Requirements = []\<rparr> sample_state =
       (Inr [cit], sample_state)"
    using sample_GetInstanceTypes [of "[]"]
    by (auto simp: filterInstanceTypesByRequirements_def FilterTypes_def List.map_filter_def)
  have z: "''cn-a-b'' \<in> set (availableZones (st_VSwitches (k_Status sample_class)))"
    by (simp add: availableZones_def sample_class_def sample_vswitches_def vswitch_zone_def)
  from offerings_cover_known_stock [OF g, of cit] obtain cls its it s1 where
    c: "cls = kubeadm_class" "list_types (sample_env [launched_instance] kubeadm_class) sample_state = (Inr its, s1)"
       "it \<in> set its" and
    offs: "\<forall>z ct b. (\<exists>off \<in> set (cit_Offerings cit). off_Zone off = z \<and> off_CapacityType off = ct \<and> off_Available off = b)
        \<longleftrightarrow> z \<in> set (availableZones (st_VSwitches (k_Status cls))) \<and>
            (\<exists>zi. (z, zi) \<in> set (it_Zones it) \<and>
               ct \<in> set (zi_CapacityTypes zi) \<union> set (zi_KnownCapacityTypes zi) \<and>
               b = (ct \<in> set (zi_CapacityTypes zi)))"
    by (auto simp del: ex_simps)
  have "it = sample_type" using c(2,3) unfolding sample_list_types by auto
  then have "\<exists>off \<in> set (cit_Offerings cit). off_Zone off = ''cn-a-b'' \<and> off_CapacityType off = ''on-demand'' \<and> off_Available off = False"
    using offs [rule_format, of "''cn-a-b''" "''on-demand''" False] z c(1) by (simp add: sample_type_def)
  with g show ?thesis by auto
qed

text \<open>
  A zone requirement of a node pool is decided by current stock, not by known
  offerings.  When the pool demands one of some zones, only types with stock in one of them are
  returned, so a type that runs out of stock there disappears together with its
  unavailable offerings, which is what its nodes need to escape a false drift; and when the pool excludes
  zones, every type with stock in an excluded zone disappears, whatever it
  offers elsewhere.
\<close>
theorem zone_requirement_hides_stockouts:
  assumes "GetInstanceTypes env nodePool s = (Inr cits, s')" "cit \<in> set cits"
    and "req \<in> set (np_Requirements nodePool)" "nsr_Key req = LabelTopologyZone"
  shows "\<exists>its it s1. list_types env s = (Inr its, s1) \<and> it \<in> set its \<and> cit_Name cit = it_Name it \<and>
     (nsr_Operator req = NodeSelectorOpIn \<longrightarrow> (\<exists>z \<in> set (nsr_Values req). zone_available it z)) \<and>
     (nsr_Operator req = NodeSelectorOpNotIn \<longrightarrow> \<not> (\<exists>z \<in> set (nsr_Values req). zone_available it z))"
proof -
  obtain cls its s1 where "env_nodeclass env (np_NodeClassRef nodePool) (sta_world s) = Inr cls" and
    l: "list_types env s = (Inr its, s1)"
    "cits = List.map_filter (core_type env (availableZones (st_VSwitches (k_Status cls))))
       (filterInstanceTypesByRequirements (env_region env) its (np_Requirements nodePool))"
    by (rule GetInstanceTypes_InrD [OF assms(1)])
  with assms(2) obtain it where it: "core_type env (availableZones (st_VSwitches (k_Status cls))) it = Some cit"
    "it \<in> set (filterInstanceTypesByRequirements (env_region env) its (np_Requirements nodePool))"
    by (auto simp: map_filter_in)
  have "matchesRequirement (env_region env) it r" if "convert_requirement req = Some r" for r
    using it(2) assms(3) that
    by (force simp: filterInstanceTypesByRequirements_def FilterTypes_def list_all_iff map_filter_in)
  then have "(nsr_Operator req = NodeSelectorOpIn \<longrightarrow> (\<exists>z \<in> set (nsr_Values req). zone_available it z)) \<and>
     (nsr_Operator req = NodeSelectorOpNotIn \<longrightarrow> \<not> (\<exists>z \<in> set (nsr_Values req). zone_available it z))"
    using assms(4)
    by (auto simp: convert_requirement_def convert_operator_def selector_defs matchesRequirement_def Let_def
        label_defs kube_label_defs matchesZoneRequirement_def operator_defs list_ex_iff)
  with l(1) it core_type_Some [OF it(1)] show ?thesis
    by (auto simp: filterInstanceTypesByRequirements_def FilterTypes_def)
qed

theorem zone_requirement_hides_stockouts_witness:
  "\<exists>cit its it s1. fst (GetInstanceTypes (sample_env [launched_instance] kubeadm_class)
       \<lparr>np_Name = ''default'', np_NodeClassRef = ''default'',
        np_Requirements = [\<lparr>nsr_Key = LabelTopologyZone, nsr_Operator = NodeSelectorOpIn, nsr_Values = [''cn-a-b'']\<rparr>]\<rparr>
       sample_state) = Inr [cit] \<and>
     list_types (sample_env [launched_instance] kubeadm_class) sample_state = (Inr its, s1) \<and> it \<in> set its \<and>
     zone_available it ''cn-a-b''"
proof -
  let ?req = "\<lparr>nsr_Key = LabelTopologyZone, nsr_Operator = NodeSelectorOpIn, nsr_Values = [''cn-a-b'']\<rparr>"
  have "filterInstanceTypesByRequirements ''cn-a'' [sample_type] [?req] = [sample_type]"
    by (simp add: filterInstanceTypesByRequirements_def FilterTypes_def List.map_filter_def convert_requirement_def
        convert_operator_def matchesRequirement_def Let_def label_defs kube_label_defs matchesZoneRequirement_def
        operator_defs selector_defs zone_available_def sample_type_def)
  from sample_GetInstanceTypes [OF this] obtain cit where g:
    "GetInstanceTypes (sample_env [launched_instance] kubeadm_class)
       \<lparr>np_Name = ''default'', np_NodeClassRef = ''default'', np_Requirements = [?req]\<rparr> sample_state =
       (Inr [cit], sample_state)" by blast
  from zone_requirement_hides_stockouts [OF g, of cit ?req] g show ?thesis by auto
qed

end
