(* ===== verification/CloudClients.thy ===== *)
theory CloudClients
  imports ClusterNetwork Disks "HOL-Library.Word"
begin

text \<open>
  The client layer (pkg/clients/ecs.go, vpc.go): how requests are built and how
  the image list is paged.  The SDK is a parameter: one function per call, from request and
  state of the cloud to response and state.  A nil anywhere on the way to the
  list of items is None.
\<close>

section \<open>Requests and responses of the SDK\<close>

record VSwitchesReq =
  vq_RegionId :: string
  vq_VSwitchId :: "string option"
  vq_ZoneId :: "string option"
  vq_Tag :: gomap
  vq_PageNumber :: "int option"
  vq_PageSize :: "int option"

record VSwitchItem =
  vi_VSwitchId :: "string option"
  vi_ZoneId :: "string option"
  vi_AvailableIpAddressCount :: "int option"

record SecurityGroupsReq =
  gq_RegionId :: string
  gq_SecurityGroupId :: "string option"
  gq_SecurityGroupName :: "string option"
  gq_Tag :: gomap
  gq_PageNumber :: "int option"
  gq_PageSize :: "int option"

record SecurityGroupItem =
  gi_SecurityGroupId :: "string option"
  gi_SecurityGroupName :: "string option"

record ImagesReq =
  iq_RegionId :: string
  iq_ShowExpired :: bool
  iq_ImageId :: "string option"
  iq_ImageFamily :: "string option"
  iq_ImageName :: "string option"
  iq_ImageOwnerAlias :: "string option"
  iq_ImageOwnerId :: "int option"
  iq_Tag :: gomap
  iq_PageNumber :: "int option"
  iq_PageSize :: "int option"

record ImageItem =
  ii_ImageId :: "string option"
  ii_ImageName :: "string option"
  ii_Architecture :: "string option"
  ii_Status :: "string option"

record ImagesBody =
  ib_Images :: "ImageItem option list option"
  ib_TotalCount :: "32 word option"

record ReservationsReq =
  rq_RegionId :: string
  rq_PrivatePoolIds :: "string option"

record ReservationItem =
  ri_PrivatePoolOptionsId :: "string option"
  ri_PrivatePoolOptionsName :: "string option"

record 'w Sdk =
  sdk_vswitches :: "VSwitchesReq \<Rightarrow> 'w \<Rightarrow> (string + VSwitchItem option list option) \<times> 'w"
  sdk_security_groups :: "SecurityGroupsReq \<Rightarrow> 'w \<Rightarrow> (string + SecurityGroupItem option list option) \<times> 'w"
  sdk_images :: "ImagesReq \<Rightarrow> 'w \<Rightarrow> (string + ImagesBody option) \<times> 'w"
  sdk_reservations :: "ReservationsReq \<Rightarrow> 'w \<Rightarrow> (string + ReservationItem list) \<times> 'w"

section \<open>Building requests\<close>

definition nonempty_tags :: "gomap \<Rightarrow> gomap" where
  "nonempty_tags tags = filter (\<lambda>(k, v). \<not> (k = '''' \<or> v = '''')) tags"

definition set_if :: "string \<Rightarrow> string option" where
  "set_if s = (if s \<noteq> '''' then Some s else None)"

definition buildDescribeVSwitchesRequest :: "string \<Rightarrow> string \<Rightarrow> gomap \<Rightarrow> string \<Rightarrow> VSwitchesReq" where
  "buildDescribeVSwitchesRequest region vSwitchID tags zoneID =
     \<lparr>vq_RegionId = region, vq_VSwitchId = set_if vSwitchID, vq_ZoneId = set_if zoneID,
      vq_Tag = nonempty_tags tags, vq_PageNumber = None, vq_PageSize = None\<rparr>"

definition buildDescribeSecurityGroupsRequest :: "string \<Rightarrow> string \<Rightarrow> string \<Rightarrow> gomap \<Rightarrow> SecurityGroupsReq" where
  "buildDescribeSecurityGroupsRequest region ident name tags =
     \<lparr>gq_RegionId = region, gq_SecurityGroupId = set_if ident, gq_SecurityGroupName = set_if name,
      gq_Tag = nonempty_tags tags, gq_PageNumber = None, gq_PageSize = None\<rparr>"

text \<open>The tag filters of an image query carry a prefix in the filter map.\<close>

definition image_tags :: "gomap \<Rightarrow> gomap" where
  "image_tags filters = nonempty_tags (List.map (\<lambda>(k, v). (trim_prefix k ''tag:'', v))
     (filter (\<lambda>(k, v). has_prefix k ''tag:'') filters))"

definition buildDescribeImagesRequest :: "string \<Rightarrow> string list \<Rightarrow> gomap \<Rightarrow> string + ImagesReq" where
  "buildDescribeImagesRequest region imageIDs filters =
     (let req = \<lparr>iq_RegionId = region, iq_ShowExpired = True,
            iq_ImageId = (if imageIDs \<noteq> [] then Some (join_with '','' imageIDs) else None),
            iq_ImageFamily = map_of filters ''ImageFamily'', iq_ImageName = map_of filters ''ImageName'',
            iq_ImageOwnerAlias = map_of filters ''ImageOwnerAlias'', iq_ImageOwnerId = None,
            iq_Tag = image_tags filters, iq_PageNumber = None, iq_PageSize = None\<rparr> in
      case map_of filters ''ImageOwnerID'' of
        None \<Rightarrow> Inr req
      | Some imageOwnerID \<Rightarrow> (case atoi imageOwnerID of
          None \<Rightarrow> Inl (''invalid ImageOwnerID '' @ go_quote imageOwnerID)
        | Some ownerID \<Rightarrow>
            if ownerID \<le> 0 then Inl (''invalid ImageOwnerID '' @ go_quote imageOwnerID)
            else Inr (req\<lparr>iq_ImageOwnerId := Some ownerID\<rparr>)))"

section \<open>Calls\<close>

definition DescribeVSwitches :: "'w Sdk \<Rightarrow> string \<Rightarrow> string \<Rightarrow> gomap \<Rightarrow> string \<Rightarrow> 'w \<Rightarrow>
    (string + VSwitchItem option list option) \<times> 'w" where
  "DescribeVSwitches sdk region vSwitchID tags zoneID w =
     sdk_vswitches sdk (buildDescribeVSwitchesRequest region vSwitchID tags zoneID) w"

definition DescribeSecurityGroups :: "'w Sdk \<Rightarrow> string \<Rightarrow> string \<Rightarrow> string \<Rightarrow> gomap \<Rightarrow> 'w \<Rightarrow>
    (string + SecurityGroupItem option list option) \<times> 'w" where
  "DescribeSecurityGroups sdk region ident name tags w =
     sdk_security_groups sdk (buildDescribeSecurityGroupsRequest region ident name tags) w"

definition DescribeCapacityReservations :: "'w Sdk \<Rightarrow> string \<Rightarrow> string \<Rightarrow> gomap \<Rightarrow> 'w \<Rightarrow>
    (string + ReservationItem list) \<times> 'w" where
  "DescribeCapacityReservations sdk region ident tags w = sdk_reservations sdk
     \<lparr>rq_RegionId = region, rq_PrivatePoolIds = (if ident \<noteq> '''' then Some (''['' @ [CHR 0x22] @ ident @ [CHR 0x22] @ '']'') else None)\<rparr> w"

definition maxPageSize :: int where "maxPageSize = 100"

definition available_images :: "ImageItem option list \<Rightarrow> ImageItem list" where
  "available_images imgs = List.map_filter (\<lambda>io. case io of None \<Rightarrow> None
     | Some img \<Rightarrow> (case ii_Status img of
         Some st \<Rightarrow> if st \<noteq> ''Available'' then None else Some img | None \<Rightarrow> Some img)) imgs"

text \<open>
  The loop over the pages.  The total count of a response is a 32-bit integer, so
  that the page number, which grows by one, stays below 21474837: the loop ends
  whatever the server answers.
\<close>

definition total_of :: "ImagesBody \<Rightarrow> int" where
  "total_of body = (case ib_TotalCount body of Some c \<Rightarrow> sint c | None \<Rightarrow> 0)"

lemma total_of_bound: "total_of body < 2 ^ 31"
  using sint_lt [where 'a = 32] by (simp add: total_of_def split: option.split)

lemma page_bound: "\<not> (total_of body + maxPageSize - 1) div maxPageSize \<le> p \<Longrightarrow> p < 21474837"
proof -
  assume "\<not> (total_of body + maxPageSize - 1) div maxPageSize \<le> p"
  moreover have "total_of body < 2147483648" using total_of_bound [of body] by simp
  ultimately show "p < 21474837" unfolding maxPageSize_def by linarith
qed

function images_loop :: "'w Sdk \<Rightarrow> ImagesReq \<Rightarrow> int \<Rightarrow> ImageItem list \<Rightarrow> 'w \<Rightarrow>
    (string + ImageItem list) \<times> 'w" where
  "images_loop sdk request pageNumber allImages w =
     (case sdk_images sdk (request\<lparr>iq_PageNumber := Some (wrap32 pageNumber)\<rparr>) w of
        (Inl err, w1) \<Rightarrow> (Inl (''failed to describe images (page '' @ itoa pageNumber @ ''): '' @ err), w1)
      | (Inr None, w1) \<Rightarrow> (Inr allImages, w1)
      | (Inr (Some body), w1) \<Rightarrow> (case ib_Images body of
           None \<Rightarrow> (Inr allImages, w1)
         | Some imgs \<Rightarrow>
             if total_of body \<le> 0 then (Inr (allImages @ available_images imgs), w1)
             else if pageNumber \<ge> (total_of body + maxPageSize - 1) div maxPageSize
             then (Inr (allImages @ available_images imgs), w1)
             else images_loop sdk request (pageNumber + 1) (allImages @ available_images imgs) w1))"
  by pat_completeness auto

termination
  by (relation "measure (\<lambda>(sdk, request, pageNumber, allImages, w). nat (21474837 - pageNumber))")
     (auto dest: page_bound)

declare images_loop.simps [simp del]

definition DescribeImages :: "'w Sdk \<Rightarrow> string \<Rightarrow> string list \<Rightarrow> gomap \<Rightarrow> 'w \<Rightarrow>
    (string + ImageItem list) \<times> 'w" where
  "DescribeImages sdk region imageIDs filters w =
     (case buildDescribeImagesRequest region imageIDs filters of
        Inl err \<Rightarrow> (Inl err, w)
      | Inr request \<Rightarrow> images_loop sdk (request\<lparr>iq_PageSize := Some maxPageSize\<rparr>) 1 [] w)"

section \<open>Paging\<close>

lemma available_images_append [simp]:
  "available_images (xs @ ys) = available_images xs @ available_images ys"
  by (simp add: available_images_def List.map_filter_def)

text \<open>
  A server that holds a fixed list and answers page n with the n-th hundred of
  it; tick is what one call does to its state.
\<close>

definition serves_images :: "('w \<Rightarrow> 'w) \<Rightarrow> 'w Sdk \<Rightarrow> ImagesReq \<Rightarrow> ImageItem list \<Rightarrow> bool" where
  "serves_images tick sdk request store \<longleftrightarrow> (\<forall>n w.
     sdk_images sdk (request\<lparr>iq_PageNumber := Some (int n + 1)\<rparr>) w =
       (Inr (Some \<lparr>ib_Images = Some (List.map Some (take 100 (drop (100 * n) store))),
                   ib_TotalCount = Some (word_of_int (int (length store)))\<rparr>), tick w))"

lemma total_of_length:
  assumes "n < 2 ^ 31"
  shows "total_of \<lparr>ib_Images = imgs, ib_TotalCount = Some (word_of_nat n)\<rparr> = int n"
proof -
  have "sint (word_of_int (int n) :: 32 word) = int n" using assms by (subst sint_sbintrunc', subst signed_take_bit_int_eq_self) auto
  then show ?thesis by (simp add: total_of_def)
qed

definition pages_from :: "nat \<Rightarrow> 'a list \<Rightarrow> nat" where
  "pages_from n store = max 1 ((length store - 100 * n + 99) div 100)"

lemma images_loop_pages:
  assumes "serves_images tick sdk request store" "length store < 2 ^ 31" "100 * n \<le> length store"
  shows "images_loop sdk request (int n + 1) acc w =
    (Inr (acc @ available_images (List.map Some (drop (100 * n) store))), (tick ^^ pages_from n store) w)"
  using assms(3)
proof (induction "length store - 100 * n" arbitrary: n acc w rule: less_induct)
  case less
  let ?page = "List.map Some (take 100 (drop (100 * n) store))"
  have wr: "wrap32 (int n + 1) = int n + 1" using less.prems assms(2) by (subst wrap32_id) auto
  have b: "sdk_images sdk (request\<lparr>iq_PageNumber := Some (int n + 1)\<rparr>) w =
       (Inr (Some \<lparr>ib_Images = Some ?page, ib_TotalCount = Some (word_of_int (int (length store)))\<rparr>), tick w)"
    using assms(1) unfolding serves_images_def by blast
  have more: "int n + 1 \<ge> (int (length store) + maxPageSize - 1) div maxPageSize \<longleftrightarrow> length store \<le> 100 * n + 100"
    unfolding maxPageSize_def by linarith
  have step: "images_loop sdk request (int n + 1) acc w =
      (if length store \<le> 100 * n + 100 then (Inr (acc @ available_images ?page), tick w)
       else images_loop sdk request (int (Suc n) + 1) (acc @ available_images ?page) (tick w))"
  proof -
    have "int (Suc n) + 1 = int n + 1 + 1" by simp
    with more assms(2) show ?thesis
      by (subst images_loop.simps) (simp add: b wr total_of_length)
  qed
  show ?case
  proof (cases "length store \<le> 100 * n + 100")
    case True
    then have "pages_from n store = 1" unfolding pages_from_def by linarith
    with True step show ?thesis by simp
  next
    case False
    have "drop (100 * n) store = take 100 (drop (100 * n) store) @ drop (100 * Suc n) store"
      by (metis append_take_drop_id add.commute drop_drop mult_Suc_right)
    then have "available_images (List.map Some (drop (100 * n) store)) =
        available_images ?page @ available_images (List.map Some (drop (100 * Suc n) store))"
      by (metis available_images_append map_append)
    moreover have "images_loop sdk request (int (Suc n) + 1) (acc @ available_images ?page) (tick w) =
        (Inr ((acc @ available_images ?page) @ available_images (List.map Some (drop (100 * Suc n) store))),
         (tick ^^ pages_from (Suc n) store) (tick w))"
      using False by (intro less.hyps) auto
    moreover have "pages_from n store = Suc (pages_from (Suc n) store)"
      using False unfolding pages_from_def by (simp add: max_def) linarith
    ultimately show ?thesis using step False by (simp only: if_False funpow_Suc_right o_apply append_assoc)
  qed
qed

text \<open>
  C28: Listing images is complete and takes no more calls than it must.  Against a
  server that holds a fixed list of images and pages it by hundreds, DescribeImages
  returns exactly the images of the list that are available, in order, after one call
  per hundred (one call for an empty list).
\<close>
theorem DescribeImages_complete:
  assumes "buildDescribeImagesRequest region imageIDs filters = Inr request"
    and "serves_images tick sdk (request\<lparr>iq_PageSize := Some maxPageSize\<rparr>) store" "length store < 2 ^ 31"
  shows "DescribeImages sdk region imageIDs filters w =
     (Inr (filter (\<lambda>img. ii_Status img \<in> {None, Some ''Available''}) store),
      (tick ^^ max 1 ((length store + 99) div 100)) w)"
proof -
  have "available_images (List.map Some xs) = filter (\<lambda>img. ii_Status img \<in> {None, Some ''Available''}) xs" for xs
    by (induction xs) (auto simp: available_images_def List.map_filter_def split: option.splits)
  then show ?thesis
    using images_loop_pages [OF assms(2,3), of 0 "[]" w] assms(1) by (simp add: DescribeImages_def pages_from_def)
qed

text \<open>A cloud that pages its lists (ten items by default) and counts the calls.\<close>

definition page_of :: "int option \<Rightarrow> int option \<Rightarrow> 'a list \<Rightarrow> 'a list" where
  "page_of number sz store =
     (let n = nat (or_else sz 10) in take n (drop (n * nat (or_else number 1 - 1)) store))"

definition paging_sdk :: "VSwitchItem list \<Rightarrow> SecurityGroupItem list \<Rightarrow> ImageItem list \<Rightarrow> ReservationItem list \<Rightarrow> nat Sdk" where
  "paging_sdk vs gs ims rs =
     \<lparr>sdk_vswitches = (\<lambda>r w. (Inr (Some (List.map Some (page_of (vq_PageNumber r) (vq_PageSize r) vs))), Suc w)),
      sdk_security_groups = (\<lambda>r w. (Inr (Some (List.map Some (page_of (gq_PageNumber r) (gq_PageSize r) gs))), Suc w)),
      sdk_images = (\<lambda>r w. (Inr (Some \<lparr>ib_Images = Some (List.map Some (page_of (iq_PageNumber r) (iq_PageSize r) ims)),
        ib_TotalCount = Some (word_of_int (int (length ims)))\<rparr>), Suc w)),
      sdk_reservations = (\<lambda>r w. (Inr rs, Suc w))\<rparr>"

theorem DescribeImages_complete_witness:
  "DescribeImages (paging_sdk [] [] (replicate 250 \<lparr>ii_ImageId = Some ''m-1'', ii_ImageName = None,
       ii_Architecture = None, ii_Status = Some ''Available''\<rparr>) []) ''cn-a'' [] [] 0 =
     (Inr (replicate 250 \<lparr>ii_ImageId = Some ''m-1'', ii_ImageName = None,
       ii_Architecture = None, ii_Status = Some ''Available''\<rparr>), 3)"
proof -
  let ?img = "\<lparr>ii_ImageId = Some ''m-1'', ii_ImageName = None, ii_Architecture = None, ii_Status = Some ''Available''\<rparr>"
  let ?sdk = "paging_sdk [] [] (replicate 250 ?img) []"
  obtain req where r: "buildDescribeImagesRequest ''cn-a'' [] [] = Inr req" "iq_PageSize (req\<lparr>iq_PageSize := Some maxPageSize\<rparr>) = Some 100"
    by (simp add: buildDescribeImagesRequest_def Let_def maxPageSize_def)
  have "serves_images Suc ?sdk (req\<lparr>iq_PageSize := Some maxPageSize\<rparr>) (replicate 250 ?img)"
    unfolding serves_images_def by (simp add: paging_sdk_def page_of_def maxPageSize_def Let_def)
  from DescribeImages_complete [OF r(1) this, of 0] show ?thesis by (simp add: filter_replicate)
qed

text \<open>Owner IDs that validation accepts can still be too large for the request.\<close>

lemma long_owner_id_rejected:
  "buildDescribeImagesRequest region ids [(''ImageOwnerID'', ''99999999999999999999'')] =
     Inl (''invalid ImageOwnerID '' @ go_quote ''99999999999999999999'')"
  by (simp add: buildDescribeImagesRequest_def atoi_def digits_value_def is_digit_def Let_def)

end
