(* ===== verification/Resolvers.thy ===== *)
theory Resolvers
  imports CloudClients TtlCache ApiTypes Validation
begin

text \<open>
  The resolvers of selector terms: vswitches (pkg/providers/vswitch/vswitch.go),
  security groups (pkg/providers/securitygroup/securitygroup.go) and images
  (pkg/providers/imagefamily/imagefamily.go).  They share one shape: a query per term, results
  joined, deduplicated by identifier and sorted, and a cache with a time to live of
  two hours.  The text of the terms in the cache key (the verb %v, which prints pointers
  as addresses) is an argument.
\<close>

section \<open>The shared shape\<close>

record 'i ResolverState =
  rs_cache :: "'i list cache"
  rs_cacheTTL :: int

definition NewResolver :: "'i ResolverState" where
  "NewResolver = \<lparr>rs_cache = [], rs_cacheTTL = 2 * hour_ns\<rparr>"

definition SetCacheTTL :: "int \<Rightarrow> 'i ResolverState \<Rightarrow> 'i ResolverState" where
  "SetCacheTTL ttl s = s\<lparr>rs_cacheTTL := ttl\<rparr>"

definition ClearResolverCache :: "'i ResolverState \<Rightarrow> 'i ResolverState" where
  "ClearResolverCache s = s\<lparr>rs_cache := []\<rparr>"

lemma NewResolver_simps [simp]:
  "rs_cache NewResolver = []" "rs_cacheTTL NewResolver = 2 * hour_ns" "NewResolver\<lparr>rs_cache := []\<rparr> = NewResolver"
  by (simp_all add: NewResolver_def)

text \<open>The moments of one call: reading the cache, evicting an entry, storing the result.\<close>

record Moments =
  at_read :: time_ns
  at_evict :: time_ns
  at_store :: time_ns

fun resolve_loop :: "string \<Rightarrow> ('t \<Rightarrow> 'w \<Rightarrow> (string + 'i list) \<times> 'w) \<Rightarrow> nat \<Rightarrow> 't list \<Rightarrow> 'i list \<Rightarrow> 'w \<Rightarrow>
    (string + 'i list) \<times> 'w" where
  "resolve_loop field query i [] acc w = (Inr acc, w)"
| "resolve_loop field query i (term # terms) acc w = (case query term w of
     (Inl err, w1) \<Rightarrow> (Inl (''resolve '' @ field @ ''['' @ itoa (int i) @ '']: '' @ err), w1)
   | (Inr found, w1) \<Rightarrow> resolve_loop field query (Suc i) terms (acc @ found) w1)"

definition resolve_through :: "('i list \<Rightarrow> bool) \<Rightarrow> ('w \<Rightarrow> (string + 'i list) \<times> 'w) \<Rightarrow> string \<Rightarrow> Moments \<Rightarrow>
    'i ResolverState \<Rightarrow> 'w \<Rightarrow> (string + 'i list) \<times> 'i ResolverState \<times> 'w" where
  "resolve_through keep compute key m s w =
     (case getCachedValue key (at_read m) (at_evict m) (rs_cache s) of
        (Some v, c) \<Rightarrow> (Inr v, s\<lparr>rs_cache := c\<rparr>, w)
      | (None, c) \<Rightarrow> (case compute w of
          (Inl err, w1) \<Rightarrow> (Inl err, s\<lparr>rs_cache := c\<rparr>, w1)
        | (Inr v, w1) \<Rightarrow> (Inr v, s\<lparr>rs_cache :=
            (if keep v then setCachedValue key v (rs_cacheTTL s) (at_store m) c else c)\<rparr>, w1)))"

text \<open>The first item of every non-empty identifier.\<close>

fun dedup_ids :: "('i \<Rightarrow> string) \<Rightarrow> string list \<Rightarrow> 'i list \<Rightarrow> 'i list" where
  "dedup_ids id_of seen [] = []"
| "dedup_ids id_of seen (x # xs) =
     (if id_of x \<noteq> '''' \<and> id_of x \<notin> set seen then x # dedup_ids id_of (id_of x # seen) xs
      else dedup_ids id_of seen xs)"

section \<open>VSwitches\<close>

record VSwitchQuery =
  vqy_ID :: string
  vqy_Tags :: gomap
  vqy_ZoneID :: string

definition vSwitchQueryFromTerm :: "VSwitchSelectorTerm \<Rightarrow> VSwitchQuery" where
  "vSwitchQueryFromTerm term = \<lparr>vqy_ID = or_else (vst_ID term) '''', vqy_Tags = vst_Tags term,
     vqy_ZoneID = or_else (vst_ZoneID term) ''''\<rparr>"

definition vswitch_of_item :: "VSwitchItem option \<Rightarrow> VSwitch option" where
  "vswitch_of_item v = (case v of None \<Rightarrow> None | Some vsw \<Rightarrow> (case vi_VSwitchId vsw of None \<Rightarrow> None
     | Some ident \<Rightarrow> Some \<lparr>vsw_ID = ident, vsw_Zone = or_else (vi_ZoneId vsw) '''',
         vsw_ZoneID = or_else (vi_ZoneId vsw) '''',
         vsw_AvailableIPAddressCount = or_else (vi_AvailableIpAddressCount vsw) 0\<rparr>))"

definition vswitch_getByQuery :: "'w Sdk \<Rightarrow> string \<Rightarrow> VSwitchQuery \<Rightarrow> 'w \<Rightarrow> (string + VSwitch list) \<times> 'w" where
  "vswitch_getByQuery sdk region query w =
     (case DescribeVSwitches sdk region (vqy_ID query) (vqy_Tags query) (vqy_ZoneID query) w of
        (Inl err, w1) \<Rightarrow> (Inl (''failed to describe VSwitches: '' @ err), w1)
      | (Inr response, w1) \<Rightarrow> (Inr (List.map_filter vswitch_of_item (or_else response [])), w1))"

definition vswitch_getByID :: "'w Sdk \<Rightarrow> string \<Rightarrow> string \<Rightarrow> 'w \<Rightarrow> (string + VSwitch) \<times> 'w" where
  "vswitch_getByID sdk region ident w =
     (case vswitch_getByQuery sdk region \<lparr>vqy_ID = ident, vqy_Tags = [], vqy_ZoneID = ''''\<rparr> w of
        (Inl err, w1) \<Rightarrow> (Inl err, w1)
      | (Inr [], w1) \<Rightarrow> (Inl (''VSwitch '' @ ident @ '' not found''), w1)
      | (Inr (v # vs), w1) \<Rightarrow> (Inr v, w1))"

definition vswitch_getByTags :: "'w Sdk \<Rightarrow> string \<Rightarrow> gomap \<Rightarrow> 'w \<Rightarrow> (string + VSwitch list) \<times> 'w" where
  "vswitch_getByTags sdk region tags w =
     vswitch_getByQuery sdk region \<lparr>vqy_ID = '''', vqy_Tags = tags, vqy_ZoneID = ''''\<rparr> w"

definition removeDuplicateVSwitches :: "VSwitch list \<Rightarrow> VSwitch list" where
  "removeDuplicateVSwitches vsws = sort_key vsw_ID (dedup_ids vsw_ID [] vsws)"

definition query_vswitches :: "'w Sdk \<Rightarrow> string \<Rightarrow> VSwitchSelectorTerm list \<Rightarrow> 'w \<Rightarrow> (string + VSwitch list) \<times> 'w" where
  "query_vswitches sdk region terms w =
     (case resolve_loop ''vSwitchSelectorTerms'' (\<lambda>term. vswitch_getByQuery sdk region (vSwitchQueryFromTerm term))
             0 terms [] w of
        (Inl err, w1) \<Rightarrow> (Inl err, w1)
      | (Inr vswitches, w1) \<Rightarrow> (Inr (removeDuplicateVSwitches vswitches), w1))"

text \<open>Only a non-empty result is kept in the cache.\<close>

definition ResolveVSwitches :: "'w Sdk \<Rightarrow> string \<Rightarrow> (VSwitchSelectorTerm list \<Rightarrow> string) \<Rightarrow> Moments \<Rightarrow>
    VSwitchSelectorTerm list \<Rightarrow> VSwitch ResolverState \<Rightarrow> 'w \<Rightarrow> (string + VSwitch list) \<times> VSwitch ResolverState \<times> 'w" where
  "ResolveVSwitches sdk region shown m terms s w =
     (if terms = [] then (Inr [], s, w)
      else resolve_through (\<lambda>vswitches. vswitches \<noteq> []) (query_vswitches sdk region terms)
             (''vswitches-'' @ shown terms) m s w)"

section \<open>Security groups\<close>

record SecurityGroupQuery =
  sgq_ID :: string
  sgq_Name :: string
  sgq_Tags :: gomap

definition securityGroupQueryFromTerm :: "SecurityGroupSelectorTerm \<Rightarrow> SecurityGroupQuery" where
  "securityGroupQueryFromTerm term = \<lparr>sgq_ID = or_else (sgt_ID term) '''',
     sgq_Name = or_else (sgt_Name term) '''', sgq_Tags = sgt_Tags term\<rparr>"

definition group_of_item :: "SecurityGroupItem option \<Rightarrow> SecurityGroup option" where
  "group_of_item g = (case g of None \<Rightarrow> None | Some sg \<Rightarrow> (case gi_SecurityGroupId sg of None \<Rightarrow> None
     | Some ident \<Rightarrow> Some \<lparr>sg_ID = ident, sg_Name = or_else (gi_SecurityGroupName sg) ''''\<rparr>))"

definition group_getByQuery :: "'w Sdk \<Rightarrow> string \<Rightarrow> SecurityGroupQuery \<Rightarrow> 'w \<Rightarrow> (string + SecurityGroup list) \<times> 'w" where
  "group_getByQuery sdk region query w =
     (case DescribeSecurityGroups sdk region (sgq_ID query) (sgq_Name query) (sgq_Tags query) w of
        (Inl err, w1) \<Rightarrow> (Inl (''failed to describe security groups: '' @ err), w1)
      | (Inr response, w1) \<Rightarrow> (Inr (List.map_filter group_of_item (or_else response [])), w1))"

definition group_getByTags :: "'w Sdk \<Rightarrow> string \<Rightarrow> gomap \<Rightarrow> 'w \<Rightarrow> (string + SecurityGroup list) \<times> 'w" where
  "group_getByTags sdk region tags w =
     group_getByQuery sdk region \<lparr>sgq_ID = '''', sgq_Name = '''', sgq_Tags = tags\<rparr> w"

definition removeDuplicateSecurityGroups :: "SecurityGroup list \<Rightarrow> SecurityGroup list" where
  "removeDuplicateSecurityGroups sgs = sort_key sg_ID (dedup_ids sg_ID [] sgs)"

definition query_groups :: "'w Sdk \<Rightarrow> string \<Rightarrow> SecurityGroupSelectorTerm list \<Rightarrow> 'w \<Rightarrow>
    (string + SecurityGroup list) \<times> 'w" where
  "query_groups sdk region terms w =
     (case resolve_loop ''securityGroupSelectorTerms''
             (\<lambda>term. group_getByQuery sdk region (securityGroupQueryFromTerm term)) 0 terms [] w of
        (Inl err, w1) \<Rightarrow> (Inl err, w1)
      | (Inr groups, w1) \<Rightarrow> (Inr (removeDuplicateSecurityGroups groups), w1))"

definition ResolveSecurityGroups :: "'w Sdk \<Rightarrow> string \<Rightarrow> (SecurityGroupSelectorTerm list \<Rightarrow> string) \<Rightarrow> Moments \<Rightarrow>
    SecurityGroupSelectorTerm list \<Rightarrow> SecurityGroup ResolverState \<Rightarrow> 'w \<Rightarrow>
    (string + SecurityGroup list) \<times> SecurityGroup ResolverState \<times> 'w" where
  "ResolveSecurityGroups sdk region shown m terms s w =
     (if terms = [] then (Inr [], s, w)
      else resolve_through (\<lambda>_. True) (query_groups sdk region terms) (''security-groups-'' @ shown terms) m s w)"

section \<open>Images\<close>

record ImageQuery =
  imq_ID :: string
  imq_ImageFamily :: string
  imq_Name :: string
  imq_ImageOwnerAlias :: string
  imq_ImageOwnerID :: string
  imq_Tags :: gomap

definition imageQueryFromTerm :: "ImageSelectorTerm \<Rightarrow> ImageQuery" where
  "imageQueryFromTerm term = \<lparr>imq_ID = or_else (ist_ID term) '''',
     imq_ImageFamily = or_else (ist_ImageFamily term) '''', imq_Name = or_else (ist_Name term) '''',
     imq_ImageOwnerAlias = or_else (ist_ImageOwnerAlias term) '''',
     imq_ImageOwnerID = or_else (ist_ImageOwnerID term) '''', imq_Tags = ist_Tags term\<rparr>"

text \<open>The filter map: four named filters, then the tags with their prefix.\<close>

definition image_filters :: "ImageQuery \<Rightarrow> gomap" where
  "image_filters query =
     copy_into (List.map (\<lambda>(k, v). (''tag:'' @ k, v)) (imq_Tags query))
       (filter (\<lambda>(k, v). v \<noteq> '''')
          [(''ImageFamily'', imq_ImageFamily query), (''ImageName'', imq_Name query),
           (''ImageOwnerAlias'', imq_ImageOwnerAlias query), (''ImageOwnerID'', imq_ImageOwnerID query)])"

definition image_of_item :: "ImageItem \<Rightarrow> Image option" where
  "image_of_item img = (case ii_ImageId img of None \<Rightarrow> None
     | Some ident \<Rightarrow> Some \<lparr>img_ID = ident, img_Name = or_else (ii_ImageName img) '''',
         img_Architecture = or_else (ii_Architecture img) ''''\<rparr>)"

definition image_getByQuery :: "'w Sdk \<Rightarrow> string \<Rightarrow> ImageQuery \<Rightarrow> 'w \<Rightarrow> (string + Image list) \<times> 'w" where
  "image_getByQuery sdk region query w =
     (case DescribeImages sdk region (if imq_ID query \<noteq> '''' then [imq_ID query] else []) (image_filters query) w of
        (Inl err, w1) \<Rightarrow> (Inl (''failed to describe images: '' @ err), w1)
      | (Inr images, w1) \<Rightarrow> (Inr (List.map_filter image_of_item images), w1))"

definition image_term :: "'w Sdk \<Rightarrow> string \<Rightarrow> ImageSelectorTerm \<Rightarrow> 'w \<Rightarrow> (string + Image list) \<times> 'w" where
  "image_term sdk region term w =
     (let query = imageQueryFromTerm term in
      if imq_ImageOwnerID query \<noteq> '''' \<and> \<not> imageOwnerIDRegex (imq_ImageOwnerID query)
      then (Inl (''imageOwnerID '' @ go_quote (imq_ImageOwnerID query) @ '' is invalid''), w)
      else image_getByQuery sdk region query w)"

definition removeDuplicateImages :: "Image list \<Rightarrow> Image list" where
  "removeDuplicateImages images = sort_key img_ID (dedup_ids img_ID [] images)"

definition query_images :: "'w Sdk \<Rightarrow> string \<Rightarrow> ImageSelectorTerm list \<Rightarrow> 'w \<Rightarrow> (string + Image list) \<times> 'w" where
  "query_images sdk region terms w =
     (case resolve_loop ''imageSelectorTerms'' (image_term sdk region) 0 terms [] w of
        (Inl err, w1) \<Rightarrow> (Inl err, w1)
      | (Inr images, w1) \<Rightarrow> (Inr (removeDuplicateImages images), w1))"

definition ResolveImages :: "'w Sdk \<Rightarrow> string \<Rightarrow> (ImageSelectorTerm list \<Rightarrow> string) \<Rightarrow> Moments \<Rightarrow>
    ImageSelectorTerm list \<Rightarrow> Image ResolverState \<Rightarrow> 'w \<Rightarrow> (string + Image list) \<times> Image ResolverState \<times> 'w" where
  "ResolveImages sdk region shown m terms s w =
     (if terms = [] then (Inr [], s, w)
      else resolve_through (\<lambda>_. True) (query_images sdk region terms) (''images-'' @ shown terms) m s w)"

section \<open>Deduplication\<close>

lemma dedup_ids_in: "x \<in> set (dedup_ids id_of seen xs) \<Longrightarrow> x \<in> set xs \<and> id_of x \<noteq> '''' \<and> id_of x \<notin> set seen"
  by (induction xs arbitrary: seen) (fastforce split: if_splits)+

lemma dedup_ids_keys: "id_of ` set (dedup_ids id_of seen xs) = id_of ` set xs - insert '''' (set seen)"
  by (induction xs arbitrary: seen) auto

lemma dedup_ids_distinct: "distinct (List.map id_of (dedup_ids id_of seen xs))"
proof (induction xs arbitrary: seen)
  case (Cons x xs)
  then show ?case using dedup_ids_in [of _ id_of "id_of x # seen" xs] by fastforce
qed simp

locale id_dedup =
  fixes id_of :: "'i \<Rightarrow> string" and dedup :: "'i list \<Rightarrow> 'i list"
  assumes dedup_sub: "set (dedup xs) \<subseteq> set xs"
    and dedup_keys: "id_of ` set (dedup xs) = id_of ` set xs - {''''}"
    and dedup_sorted: "sorted (List.map id_of (dedup xs))"
    and dedup_distinct: "distinct (List.map id_of (dedup xs))"
begin

lemma keys_unique: "set xs = set ys \<Longrightarrow> List.map id_of (dedup xs) = List.map id_of (dedup ys)"
  by (metis dedup_distinct dedup_keys dedup_sorted set_map sorted_distinct_set_unique)

text \<open>When an identifier names one item, the result depends on the set of found items only.\<close>

lemma result_unique:
  assumes "inj_on id_of (set xs)" "set xs = set ys"
  shows "dedup xs = dedup ys"
proof (rule map_inj_on)
  show "List.map id_of (dedup xs) = List.map id_of (dedup ys)" using assms(2) by (rule keys_unique)
  show "inj_on id_of (set (dedup xs) \<union> set (dedup ys))"
    using assms dedup_sub by (metis inj_on_subset sup.bounded_iff)
qed

lemma resolved:
  assumes "resolve_loop field query i terms acc w = (Inr xs, w')"
    and "\<And>t v. t \<in> set terms \<Longrightarrow> \<exists>v'. query t v = (Inr (found t), v')"
  shows "id_of ` set (dedup xs) = (id_of ` set acc \<union> (\<Union>t \<in> set terms. id_of ` set (found t))) - {''''}"
proof -
  have "set xs = set acc \<union> (\<Union>t \<in> set terms. set (found t))"
    using assms
  proof (induction terms arbitrary: i acc w)
    case (Cons t ts)
    obtain v where "query t w = (Inr (found t), v)" using Cons.prems(2) by force
    with Cons.prems have "resolve_loop field query (Suc i) ts (acc @ found t) v = (Inr xs, w')" by simp
    from Cons.IH [OF this] Cons.prems(2) show ?case by auto
  qed simp
  then show ?thesis by (simp only: dedup_keys image_Un image_UN)
qed

end

lemma sorted_dedup_laws:
  "set (sort_key id_of (dedup_ids id_of [] xs)) \<subseteq> set xs"
  "id_of ` set (sort_key id_of (dedup_ids id_of [] xs)) = id_of ` set xs - {''''}"
  "sorted (List.map id_of (sort_key id_of (dedup_ids id_of [] xs)))"
  "distinct (List.map id_of (sort_key id_of (dedup_ids id_of [] xs)))"
  using dedup_ids_distinct [of id_of "[]" xs]
  by (auto simp: dedup_ids_keys distinct_map dest: dedup_ids_in)

interpretation vsw: id_dedup vsw_ID removeDuplicateVSwitches
  by unfold_locales (simp_all only: removeDuplicateVSwitches_def sorted_dedup_laws)

interpretation sg: id_dedup sg_ID removeDuplicateSecurityGroups
  by unfold_locales (simp_all only: removeDuplicateSecurityGroups_def sorted_dedup_laws)

interpretation img: id_dedup img_ID removeDuplicateImages
  by unfold_locales (simp_all only: removeDuplicateImages_def sorted_dedup_laws)

section \<open>Resolution\<close>

lemma resolve_loop_answers:
  assumes "\<And>t v. t \<in> set terms \<Longrightarrow> \<exists>v'. query t v = (Inr (found t), v')"
  shows "\<exists>w'. resolve_loop field query i terms acc w = (Inr (acc @ concat (List.map found terms)), w')"
  using assms
proof (induction terms arbitrary: i acc w)
  case (Cons t ts)
  obtain v where "query t w = (Inr (found t), v)" using Cons.prems by force
  with Cons.IH [of "Suc i" "acc @ found t" v] Cons.prems show ?case by simp
qed simp

text \<open>
  C27: What a vswitch selector resolves to.  When the cloud answers every term and the
  result is not cached, the vswitches are found vswitches with distinct
  identifiers in increasing order, one for every non-empty identifier that some term
  found; they are cached for the time to live unless there is none.
\<close>
theorem ResolveVSwitches_result:
  assumes "terms \<noteq> []"
    and "getCachedValue (''vswitches-'' @ shown terms) (at_read m) (at_evict m) (rs_cache s) = (None, c)"
    and "\<And>t v. t \<in> set terms \<Longrightarrow>
       \<exists>v'. vswitch_getByQuery sdk region (vSwitchQueryFromTerm t) v = (Inr (found t), v')"
  shows "\<exists>vs w'. ResolveVSwitches sdk region shown m terms s w =
      (Inr vs, s\<lparr>rs_cache := (if vs = [] then c
          else setCachedValue (''vswitches-'' @ shown terms) vs (rs_cacheTTL s) (at_store m) c)\<rparr>, w')
    \<and> sorted_wrt (<) (List.map vsw_ID vs)
    \<and> set vs \<subseteq> (\<Union>t \<in> set terms. set (found t))
    \<and> vsw_ID ` set vs = (\<Union>t \<in> set terms. vsw_ID ` set (found t)) - {''''}"
proof -
  let ?query = "\<lambda>t. vswitch_getByQuery sdk region (vSwitchQueryFromTerm t)"
  obtain w' where l: "resolve_loop ''vSwitchSelectorTerms'' ?query 0 terms [] w =
      (Inr (concat (List.map found terms)), w')"
    using resolve_loop_answers [of terms ?query found "''vSwitchSelectorTerms''" 0 "[]" w] assms(3) by auto
  let ?vs = "removeDuplicateVSwitches (concat (List.map found terms))"
  have "ResolveVSwitches sdk region shown m terms s w = (Inr ?vs, s\<lparr>rs_cache := (if ?vs = [] then c
      else setCachedValue (''vswitches-'' @ shown terms) ?vs (rs_cacheTTL s) (at_store m) c)\<rparr>, w')"
    using assms(1,2) by (simp add: ResolveVSwitches_def resolve_through_def query_vswitches_def l)
  moreover have "sorted_wrt (<) (List.map vsw_ID ?vs)"
    using vsw.dedup_sorted vsw.dedup_distinct by (simp add: strict_sorted_iff)
  moreover have "set ?vs \<subseteq> (\<Union>t \<in> set terms. set (found t))"
    using vsw.dedup_sub [of "concat (List.map found terms)"] by simp
  moreover have "vsw_ID ` set ?vs = (\<Union>t \<in> set terms. vsw_ID ` set (found t)) - {''''}"
    using vsw.resolved [OF l, of found] assms(3) by simp
  ultimately show ?thesis by blast
qed

lemma resolve_through_fresh:
  "resolve_through keep compute key m NewResolver w =
     (case compute w of (Inl err, w1) \<Rightarrow> (Inl err, NewResolver, w1)
      | (Inr v, w1) \<Rightarrow> (Inr v, NewResolver\<lparr>rs_cache :=
          (if keep v then [(key, \<lparr>Value = v, ExpiresAt = at_store m + 2 * hour_ns\<rparr>)] else [])\<rparr>, w1))"
  by (simp add: resolve_through_def getCachedValue_def cache_read_def setCachedValue_def
      split: prod.split sum.split)

lemma resolve_through_hit:
  "at_read m \<le> e \<Longrightarrow> resolve_through keep compute key m (NewResolver\<lparr>rs_cache := [(key, \<lparr>Value = v, ExpiresAt = e\<rparr>)]\<rparr>) w =
     (Inr v, NewResolver\<lparr>rs_cache := [(key, \<lparr>Value = v, ExpiresAt = e\<rparr>)]\<rparr>, w)"
  by (simp add: resolve_through_def getCachedValue_def cache_read_def)

lemma resolve_through_again:
  assumes "resolve_through (\<lambda>_. True) compute key m NewResolver w = (Inr v, s, w1)"
    and "at_read m2 \<le> at_store m + 2 * hour_ns"
  shows "resolve_through (\<lambda>_. True) compute' key m2 s w2 = (Inr v, s, w2)"
proof -
  have "s = NewResolver\<lparr>rs_cache := [(key, \<lparr>Value = v, ExpiresAt = at_store m + 2 * hour_ns\<rparr>)]\<rparr>"
    using assms(1) unfolding resolve_through_fresh by (auto split: prod.splits sum.splits)
  with resolve_through_hit [OF assms(2)] show ?thesis by simp
qed

text \<open>
  Asking again.  Right after a resolution that found nothing, a second call within the
  time to live asks the cloud again for vswitches (the cache does not hold
  empty results), but returns the stored empty list for security groups and images
  without asking.
\<close>
theorem empty_results_asked_again:
  assumes "m2 = m\<lparr>at_read := t\<rparr>" "at_store m \<le> t" "t \<le> at_store m + 2 * hour_ns"
    and "vterms \<noteq> []" "gterms \<noteq> []" "iterms \<noteq> []"
    and "ResolveVSwitches sdk region vshown m vterms NewResolver w = (Inr [], vs, w1)"
    and "ResolveSecurityGroups sdk region gshown m gterms NewResolver w = (Inr [], gs, w2)"
    and "ResolveImages sdk region ishown m iterms NewResolver w = (Inr [], ims, w3)"
  shows "ResolveVSwitches sdk region vshown m2 vterms vs w1 = ResolveVSwitches sdk region vshown m2 vterms NewResolver w1
    \<and> ResolveSecurityGroups sdk region gshown m2 gterms gs w2 = (Inr [], gs, w2)
    \<and> ResolveImages sdk region ishown m2 iterms ims w3 = (Inr [], ims, w3)"
proof (intro conjI)
  show "ResolveVSwitches sdk region vshown m2 vterms vs w1 = ResolveVSwitches sdk region vshown m2 vterms NewResolver w1"
  proof -
    have "vs = NewResolver" using assms(4,7)
      unfolding ResolveVSwitches_def resolve_through_fresh by (auto split: prod.splits sum.splits)
    then show ?thesis by simp
  qed
  show "ResolveSecurityGroups sdk region gshown m2 gterms gs w2 = (Inr [], gs, w2)"
    using resolve_through_again [of _ _ m w "[]" gs w2 m2] assms(1,3,5,8)
    by (simp add: ResolveSecurityGroups_def)
  show "ResolveImages sdk region ishown m2 iterms ims w3 = (Inr [], ims, w3)"
    using resolve_through_again [of _ _ m w "[]" ims w3 m2] assms(1,3,6,9)
    by (simp add: ResolveImages_def)
qed

text \<open>Requests without a page number: only the first page of the answer is ever seen.\<close>

lemma only_first_page_of_vswitches:
  "fst (vswitch_getByQuery (paging_sdk vs gs ims rs) region query w) =
     Inr (List.map_filter vswitch_of_item (List.map Some (take 10 vs)))"
  by (simp add: vswitch_getByQuery_def DescribeVSwitches_def buildDescribeVSwitchesRequest_def
      paging_sdk_def page_of_def Let_def)

lemma paged_vswitch_answers:
  assumes "length vs \<le> 10"
  shows "\<exists>v'. vswitch_getByQuery (paging_sdk vs gs ims rs) region query v =
     (Inr (List.map_filter vswitch_of_item (List.map Some vs)), v')"
proof -
  obtain r v' where q: "vswitch_getByQuery (paging_sdk vs gs ims rs) region query v = (r, v')"
    by (cases "vswitch_getByQuery (paging_sdk vs gs ims rs) region query v")
  with only_first_page_of_vswitches [of vs gs ims rs region query v] assms show ?thesis by simp
qed

lemma only_first_page_of_groups:
  "fst (group_getByQuery (paging_sdk vs gs ims rs) region query w) =
     Inr (List.map_filter group_of_item (List.map Some (take 10 gs)))"
  by (simp add: group_getByQuery_def DescribeSecurityGroups_def buildDescribeSecurityGroupsRequest_def
      paging_sdk_def page_of_def Let_def)

definition sample_switch_term :: VSwitchSelectorTerm where
  "sample_switch_term = \<lparr>vst_Tags = [(''env'', ''a'')], vst_ID = None, vst_ZoneID = None\<rparr>"

definition sample_switch_item :: "string \<Rightarrow> VSwitchItem" where
  "sample_switch_item ident = \<lparr>vi_VSwitchId = Some ident, vi_ZoneId = Some ''cn-a'', vi_AvailableIpAddressCount = Some 9\<rparr>"

definition sample_moments :: Moments where
  "sample_moments = \<lparr>at_read = 0, at_evict = 0, at_store = 5\<rparr>"

theorem ResolveVSwitches_result_witness:
  "\<exists>vs s w'. ResolveVSwitches (paging_sdk [sample_switch_item ''vsw-2'', sample_switch_item ''vsw-1''] [] [] [])
       ''cn'' (\<lambda>_. '''') sample_moments [sample_switch_term, sample_switch_term] NewResolver 0 = (Inr vs, s, w')
     \<and> sorted_wrt (<) (List.map vsw_ID vs) \<and> vsw_ID ` set vs = {''vsw-1'', ''vsw-2''}"
proof -
  let ?items = "[sample_switch_item ''vsw-2'', sample_switch_item ''vsw-1'']"
  let ?T = "[sample_switch_term, sample_switch_term]"
  let ?found = "List.map_filter vswitch_of_item (List.map Some ?items)"
  have keys: "vsw_ID ` set ?found = {''vsw-1'', ''vsw-2''}"
    by (auto simp: List.map_filter_def vswitch_of_item_def sample_switch_item_def)
  have answers: "\<exists>v'. vswitch_getByQuery (paging_sdk ?items [] [] []) ''cn'' (vSwitchQueryFromTerm t) v = (Inr ?found, v')" for t v
    by (rule paged_vswitch_answers) simp
  have miss: "getCachedValue (''vswitches-'' @ (\<lambda>_. '''') ?T) (at_read sample_moments) (at_evict sample_moments)
      (rs_cache NewResolver) = (None, [])"
    by (simp add: getCachedValue_def cache_read_def)
  have ne: "?T \<noteq> []" by simp
  from ResolveVSwitches_result [OF ne miss answers, of 0] show ?thesis
  proof (elim exE conjE, goal_cases)
    case (1 vs w')
    have "vsw_ID ` set vs = {''vsw-1'', ''vsw-2''}" unfolding 1(4) keys by auto
    with 1(1,2) show ?case by (intro exI conjI)
  qed
qed

definition sample_group_term :: SecurityGroupSelectorTerm where
  "sample_group_term = \<lparr>sgt_Tags = [], sgt_ID = None, sgt_Name = Some ''nodes''\<rparr>"

definition sample_image_term :: ImageSelectorTerm where
  "sample_image_term = \<lparr>ist_ImageOwnerAlias = None, ist_Tags = [], ist_ID = None, ist_Name = Some ''base'',
     ist_ImageOwnerID = None, ist_ImageFamily = None\<rparr>"

theorem empty_results_asked_again_witness:
  "ResolveImages (paging_sdk [] [] [] []) ''cn'' (\<lambda>_. '''') (sample_moments\<lparr>at_read := 7\<rparr>) [sample_image_term]
     (fst (snd (ResolveImages (paging_sdk [] [] [] []) ''cn'' (\<lambda>_. '''') sample_moments [sample_image_term] NewResolver 0))) 1
   = (Inr [], fst (snd (ResolveImages (paging_sdk [] [] [] []) ''cn'' (\<lambda>_. '''') sample_moments [sample_image_term] NewResolver 0)), 1)"
proof -
  let ?sdk = "paging_sdk [] [] [] []"
  have v: "ResolveVSwitches ?sdk ''cn'' (\<lambda>_. '''') sample_moments [sample_switch_term] NewResolver 0 = (Inr [], NewResolver, 1)"
    by (simp add: ResolveVSwitches_def resolve_through_def query_vswitches_def vswitch_getByQuery_def
        DescribeVSwitches_def paging_sdk_def page_of_def removeDuplicateVSwitches_def getCachedValue_def
        cache_read_def List.map_filter_def Let_def)
  obtain gs where g: "ResolveSecurityGroups ?sdk ''cn'' (\<lambda>_. '''') sample_moments [sample_group_term] NewResolver 0 = (Inr [], gs, 1)"
    by (simp add: ResolveSecurityGroups_def resolve_through_def query_groups_def group_getByQuery_def
        DescribeSecurityGroups_def paging_sdk_def page_of_def removeDuplicateSecurityGroups_def getCachedValue_def
        cache_read_def List.map_filter_def Let_def)
  have d: "DescribeImages ?sdk ''cn'' [] [(''ImageName'', ''base'')] 0 = (Inr [], 1)"
    by (simp add: DescribeImages_def buildDescribeImagesRequest_def images_loop.simps total_of_def
        paging_sdk_def page_of_def available_images_def List.map_filter_def Let_def)
  obtain ims where i: "ResolveImages ?sdk ''cn'' (\<lambda>_. '''') sample_moments [sample_image_term] NewResolver 0 = (Inr [], ims, 1)"
    by (simp add: ResolveImages_def resolve_through_def query_images_def image_term_def image_getByQuery_def
        imageQueryFromTerm_def image_filters_def copy_into_def sample_image_term_def d removeDuplicateImages_def
        getCachedValue_def cache_read_def List.map_filter_def Let_def)
  show ?thesis
    using empty_results_asked_again [OF refl, of sample_moments 7, OF _ _ _ _ _ v g i]
    unfolding i by (simp add: sample_moments_def)
qed

end
