(* ===== verification/Reservations.thy ===== *)
theory Reservations
  imports CloudClients ApiTypes KubeErrors
begin

text \<open>
  Capacity reservations (pkg/providers/capacityreservation/capacityreservation.go) over
  the client of CloudClients, and the placeholder prices of
  pkg/providers/pricing/pricing.go.
\<close>

section \<open>Capacity reservations\<close>

definition reservation_of_item :: "ReservationItem \<Rightarrow> kerr + CapacityReservation" where
  "reservation_of_item cr = (case (ri_PrivatePoolOptionsId cr, ri_PrivatePoolOptionsName cr) of
     (Some ident, Some name) \<Rightarrow> Inr \<lparr>cr_ID = ident, cr_Name = name\<rparr> | _ \<Rightarrow> Inl GoPanic)"

definition reservation_getByID :: "'w Sdk \<Rightarrow> string \<Rightarrow> string \<Rightarrow> 'w \<Rightarrow> (kerr + CapacityReservation) \<times> 'w" where
  "reservation_getByID sdk region ident w = (case DescribeCapacityReservations sdk region ident [] w of
     (Inl err, w1) \<Rightarrow> (Inl (Msg (''failed to describe capacity reservation '' @ ident @ '': '' @ err)), w1)
   | (Inr [], w1) \<Rightarrow> (Inl (Msg (''capacity reservation '' @ ident @ '' not found'')), w1)
   | (Inr (cr # _), w1) \<Rightarrow> (reservation_of_item cr, w1))"

fun reservations_of :: "ReservationItem list \<Rightarrow> kerr + CapacityReservation list" where
  "reservations_of [] = Inr []"
| "reservations_of (cr # crs) = (case reservation_of_item cr of Inl e \<Rightarrow> Inl e
     | Inr r \<Rightarrow> (case reservations_of crs of Inl e \<Rightarrow> Inl e | Inr rs \<Rightarrow> Inr (r # rs)))"

definition reservation_getByTags :: "'w Sdk \<Rightarrow> string \<Rightarrow> gomap \<Rightarrow> 'w \<Rightarrow> (kerr + CapacityReservation list) \<times> 'w" where
  "reservation_getByTags sdk region tags w = (case DescribeCapacityReservations sdk region '''' tags w of
     (Inl err, w1) \<Rightarrow> (Inl (Msg (''failed to describe capacity reservations by tags: '' @ err)), w1)
   | (Inr crs, w1) \<Rightarrow> (reservations_of crs, w1))"

definition reservation_wrap :: "string \<Rightarrow> kerr \<Rightarrow> kerr" where
  "reservation_wrap pre e = (if e = GoPanic then GoPanic else Wrapped pre e)"

fun reservation_loop :: "'w Sdk \<Rightarrow> string \<Rightarrow> CapacityReservationSelectorTerm list \<Rightarrow> CapacityReservation list \<Rightarrow> 'w \<Rightarrow>
    (kerr + CapacityReservation list) \<times> 'w" where
  "reservation_loop sdk region [] acc w = (Inr acc, w)"
| "reservation_loop sdk region (term # terms) acc w = (case crt_ID term of
     Some ident \<Rightarrow> (case reservation_getByID sdk region ident w of
         (Inl e, w1) \<Rightarrow> (Inl (reservation_wrap (''failed to get capacity reservation '' @ ident @ '': '') e), w1)
       | (Inr cr, w1) \<Rightarrow> reservation_loop sdk region terms (acc @ [cr]) w1)
   | None \<Rightarrow>
       if crt_Tags term \<noteq> [] then (case reservation_getByTags sdk region (crt_Tags term) w of
         (Inl e, w1) \<Rightarrow> (Inl (reservation_wrap ''failed to get capacity reservations by tags: '' e), w1)
       | (Inr crs, w1) \<Rightarrow> reservation_loop sdk region terms (acc @ crs) w1)
       else reservation_loop sdk region terms acc w)"

definition ResolveReservations :: "'w Sdk \<Rightarrow> string \<Rightarrow> CapacityReservationSelectorTerm list \<Rightarrow> 'w \<Rightarrow>
    (kerr + CapacityReservation list) \<times> 'w" where
  "ResolveReservations sdk region selectorTerms w =
     (if selectorTerms = [] then (Inr [], w) else reservation_loop sdk region selectorTerms [] w)"

text \<open>The tags of a term never reach the request: every tag selects the same reservations.\<close>

lemma reservation_tags_ignored:
  "reservation_getByTags sdk region tags w = reservation_getByTags sdk region tags' w"
  by (simp add: reservation_getByTags_def DescribeCapacityReservations_def)

section \<open>Prices\<close>

text \<open>Prices are rational numbers; the last update is None before the first one.\<close>

record PricingProvider =
  pp_cache :: "(string \<times> rat) list"
  pp_lastUpdate :: "time_ns option"

definition NewPricing :: PricingProvider where
  "NewPricing = \<lparr>pp_cache = [], pp_lastUpdate = None\<rparr>"

definition placeholder_prices :: "(string \<times> rat) list" where
  "placeholder_prices = [(''ecs.g6.large'', 12 / 100), (''ecs.g6.xlarge'', 24 / 100),
     (''ecs.c6.large'', 9 / 100), (''ecs.c6.xlarge'', 18 / 100)]"

definition refreshPricing :: "time_ns \<Rightarrow> PricingProvider \<Rightarrow> (string \<times> rat) list \<times> PricingProvider" where
  "refreshPricing now p = (placeholder_prices,
     p\<lparr>pp_cache := placeholder_prices, pp_lastUpdate := Some now\<rparr>)"

definition GetPricing :: "time_ns \<Rightarrow> time_ns \<Rightarrow> PricingProvider \<Rightarrow> (string \<times> rat) list \<times> PricingProvider" where
  "GetPricing now now2 p = (case pp_lastUpdate p of
     Some t \<Rightarrow> if now - t < hour_ns then (pp_cache p, p) else refreshPricing now2 p
   | None \<Rightarrow> refreshPricing now2 p)"

definition GetInstanceTypePrice :: "time_ns \<Rightarrow> time_ns \<Rightarrow> string \<Rightarrow> PricingProvider \<Rightarrow> rat \<times> PricingProvider" where
  "GetInstanceTypePrice now now2 instanceType p =
     (let (pricing, p1) = GetPricing now now2 p in (or_else (map_of pricing instanceType) 0, p1))"

definition GetSpotPricing :: "time_ns \<Rightarrow> time_ns \<Rightarrow> PricingProvider \<Rightarrow> (string \<times> rat) list \<times> PricingProvider" where
  "GetSpotPricing now now2 p =
     (let (pricing, p1) = GetPricing now now2 p in (List.map (\<lambda>(t, price). (t, price * (8 / 10))) pricing, p1))"

definition pricing_ok :: "PricingProvider \<Rightarrow> bool" where
  "pricing_ok p \<longleftrightarrow> (pp_lastUpdate p \<noteq> None \<longrightarrow> pp_cache p = placeholder_prices)"

text \<open>Whatever was asked before, the prices are the four of the table and unknown types are free.\<close>

lemma GetPricing_placeholder:
  "pricing_ok p \<Longrightarrow> fst (GetPricing now now2 p) = placeholder_prices \<and> pricing_ok (snd (GetPricing now now2 p))"
  by (auto simp: GetPricing_def pricing_ok_def refreshPricing_def split: option.splits)

lemma GetInstanceTypePrice_unknown:
  "pricing_ok p \<Longrightarrow> t \<notin> fst ` set placeholder_prices \<Longrightarrow> fst (GetInstanceTypePrice now now2 t p) = 0"
  using GetPricing_placeholder [of p now now2] map_of_eq_None_iff [of placeholder_prices t]
  by (simp add: GetInstanceTypePrice_def split_beta)

end
