(* ===== verification/RoleProviders.thy ===== *)
theory RoleProviders
  imports KubeErrors EcsUtil
begin

text \<open>
  The two providers of RAM roles: pkg/providers/ramrole/ramrole.go, which the status
  controller uses, and pkg/providers/instanceprofile/instanceprofile.go.  The RAM client is a
  parameter; so is the JSON parser, from the text of a policy to a value.  How the
  value is decoded into the structs of the code is written out: a key is matched
  without regard to case, null leaves the zero value, a value of another type is an
  error.  The keys of an object are taken to be distinct up to case.
\<close>

datatype json = JNull | JBool bool | JNum int | JStr string | JArr "json list" | JObj "(string \<times> json) list"

fun json_field :: "string \<Rightarrow> (string \<times> json) list \<Rightarrow> json" where
  "json_field field [] = JNull"
| "json_field field ((k, v) # kvs) = (if to_lower k = to_lower field then v else json_field field kvs)"

fun decode_string :: "json \<Rightarrow> string option" where
  "decode_string JNull = Some ''''"
| "decode_string (JStr s) = Some s"
| "decode_string _ = None"

fun decode_list :: "(json \<Rightarrow> 'a option) \<Rightarrow> json \<Rightarrow> 'a list option" where
  "decode_list dec JNull = Some []"
| "decode_list dec (JArr xs) = those (List.map dec xs)"
| "decode_list dec _ = None"

fun decode_struct :: "((string \<times> json) list \<Rightarrow> 'a option) \<Rightarrow> json \<Rightarrow> 'a option" where
  "decode_struct dec JNull = dec []"
| "decode_struct dec (JObj kvs) = dec kvs"
| "decode_struct dec _ = None"

section \<open>The RAM client\<close>

record RoleBody =
  rb_Arn :: "string option"
  rb_AssumeRolePolicyDocument :: "string option"

text \<open>None is a response without body or role, which the code dereferences.\<close>

type_synonym 'w get_role = "string \<Rightarrow> 'w \<Rightarrow> (string + RoleBody option) \<times> 'w"

section \<open>Validation by the status controller\<close>

record ValidateRoleResult =
  vr_Valid :: bool
  vr_Reason :: string
  vr_Message :: string

record RoleStatement =
  rst_Effect :: string
  rst_Service :: "string list"
  rst_Action :: string

definition decode_statement :: "json \<Rightarrow> RoleStatement option" where
  "decode_statement = decode_struct (\<lambda>kvs.
     Option.bind (decode_string (json_field ''Effect'' kvs)) (\<lambda>eff.
     Option.bind (decode_struct (\<lambda>ps. decode_list decode_string (json_field ''Service'' ps))
                    (json_field ''Principal'' kvs)) (\<lambda>services.
     Option.bind (decode_string (json_field ''Action'' kvs)) (\<lambda>action.
     Some \<lparr>rst_Effect = eff, rst_Service = services, rst_Action = action\<rparr>))))"

definition decode_policy :: "json \<Rightarrow> RoleStatement list option" where
  "decode_policy = decode_struct (\<lambda>kvs. decode_list decode_statement (json_field ''Statement'' kvs))"

definition ecs_service :: string where "ecs_service = ''ecs.aliyuncs.com''"

definition role_valid :: "string \<Rightarrow> ValidateRoleResult" where
  "role_valid roleName = \<lparr>vr_Valid = True, vr_Reason = ''RAMRoleResolved'',
     vr_Message = ''RAM role '' @ roleName @ '' is valid''\<rparr>"

definition role_invalid :: "string \<Rightarrow> string \<Rightarrow> ValidateRoleResult" where
  "role_invalid reason message = \<lparr>vr_Valid = False, vr_Reason = reason, vr_Message = message\<rparr>"

text \<open>The result None is a run-time panic.\<close>

definition ValidateRole :: "'w get_role \<Rightarrow> (string \<Rightarrow> json option) \<Rightarrow> string \<Rightarrow> 'w \<Rightarrow> ValidateRoleResult option \<times> 'w" where
  "ValidateRole get_role parse roleName w =
     (if roleName = '''' then (Some (role_valid roleName), w)
      else case get_role roleName w of
        (Inl err, w1) \<Rightarrow> (Some (role_invalid ''RoleNotFound'' (''RAM role '' @ roleName @ '' does not exist'')), w1)
      | (Inr None, w1) \<Rightarrow> (None, w1)
      | (Inr (Some role), w1) \<Rightarrow> (case rb_AssumeRolePolicyDocument role of
          None \<Rightarrow> (None, w1)
        | Some document \<Rightarrow> (case Option.bind (parse document) decode_policy of
            None \<Rightarrow> (Some (role_invalid ''InvalidPolicy'' ''Failed to parse AssumeRolePolicy''), w1)
          | Some policy \<Rightarrow>
              if \<not> list_ex (\<lambda>stmt. list_ex (\<lambda>svc. svc = ecs_service) (rst_Service stmt)) policy
              then (Some (role_invalid ''InvalidAssumePolicy'' ''Role cannot be assumed by ECS service''), w1)
              else (Some (role_valid roleName), w1))))"

section \<open>Instance profiles\<close>

definition ip_getByRole :: "'w get_role \<Rightarrow> string \<Rightarrow> 'w \<Rightarrow> (kerr + string) \<times> 'w" where
  "ip_getByRole get_role roleName w = (case get_role roleName w of
     (Inl err, w1) \<Rightarrow> (Inl (Msg (''failed to get role '' @ roleName @ '': '' @ err)), w1)
   | (Inr None, w1) \<Rightarrow> (Inl GoPanic, w1)
   | (Inr (Some role), w1) \<Rightarrow> (case rb_Arn role of None \<Rightarrow> (Inl GoPanic, w1) | Some arn \<Rightarrow> (Inr arn, w1)))"

definition ip_wrap :: "string \<Rightarrow> kerr \<Rightarrow> kerr" where
  "ip_wrap pre e = (if e = GoPanic then GoPanic else Wrapped pre e)"

definition ip_Resolve :: "'w get_role \<Rightarrow> string option \<Rightarrow> string option \<Rightarrow> 'w \<Rightarrow> (kerr + string) \<times> 'w" where
  "ip_Resolve get_role role instanceProfile w = (case instanceProfile of
     Some p \<Rightarrow> (Inr p, w)
   | None \<Rightarrow> (case role of
       Some r \<Rightarrow> (case ip_getByRole get_role r w of
           (Inl err, w1) \<Rightarrow> (Inl (ip_wrap (''failed to get instance profile for role '' @ r @ '': '') err), w1)
         | (Inr profile, w1) \<Rightarrow> (Inr profile, w1))
     | None \<Rightarrow> (Inr '''', w)))"

fun isArrayWithItem :: "json \<Rightarrow> string \<Rightarrow> bool" where
  "isArrayWithItem (JArr v) item = list_ex (\<lambda>elem. elem = JStr item) v"
| "isArrayWithItem _ item = False"

fun principalContainsECSService :: "json \<Rightarrow> bool" where
  "principalContainsECSService (JStr v) = (v = ecs_service)"
| "principalContainsECSService (JArr v) = list_ex (\<lambda>elem. elem = JStr ecs_service) v"
| "principalContainsECSService _ = False"

text \<open>A statement: its action and the service of its principal, of any type.\<close>

definition decode_any_statement :: "json \<Rightarrow> (json \<times> json) option" where
  "decode_any_statement = decode_struct (\<lambda>kvs.
     Option.bind (decode_struct (\<lambda>ps. Some (json_field ''Service'' ps)) (json_field ''Principal'' kvs))
       (\<lambda>service. Some (json_field ''Action'' kvs, service)))"

definition decode_document :: "json \<Rightarrow> (json \<times> json) list option" where
  "decode_document = decode_struct (\<lambda>kvs. decode_list decode_any_statement (json_field ''Statement'' kvs))"

definition validateTrustPolicy :: "(string \<Rightarrow> json option) \<Rightarrow> string \<Rightarrow> kerr option" where
  "validateTrustPolicy parse policyDocument =
     (case Option.bind (parse policyDocument) decode_document of
        None \<Rightarrow> Some (Msg ''failed to parse trust policy document'')
      | Some policy \<Rightarrow>
          if list_ex (\<lambda>(action, service). (action = JStr ''sts:AssumeRole'' \<or> isArrayWithItem action ''sts:AssumeRole'')
               \<and> principalContainsECSService service) policy
          then None else Some (Msg ''trust policy does not allow ECS service to assume the role''))"

definition ip_validateRole :: "'w get_role \<Rightarrow> (string \<Rightarrow> json option) \<Rightarrow> string \<Rightarrow> 'w \<Rightarrow> kerr option \<times> 'w" where
  "ip_validateRole get_role parse roleName w = (case get_role roleName w of
     (Inl err, w1) \<Rightarrow> (Some (Msg (''role '' @ roleName @ '' does not exist: '' @ err)), w1)
   | (Inr None, w1) \<Rightarrow> (Some GoPanic, w1)
   | (Inr (Some role), w1) \<Rightarrow> (case rb_AssumeRolePolicyDocument role of
       None \<Rightarrow> (Some GoPanic, w1)
     | Some document \<Rightarrow> (case validateTrustPolicy parse document of
         Some err \<Rightarrow> (Some (Wrapped (''role '' @ roleName @ '' has invalid trust policy: '') err), w1)
       | None \<Rightarrow> (None, w1))))"

text \<open>The loop from the end of the text to the last slash, as an index.\<close>

fun last_slash :: "string \<Rightarrow> nat \<Rightarrow> nat option" where
  "last_slash arn 0 = None"
| "last_slash arn (Suc i) = (if arn ! i = CHR ''/'' then Some i else last_slash arn i)"

definition parseRoleNameFromARN :: "string \<Rightarrow> string + string" where
  "parseRoleNameFromARN arn = (case last_slash arn (length arn) of
     None \<Rightarrow> Inl (''invalid ARN format: '' @ arn)
   | Some lastSlash \<Rightarrow>
       if Suc lastSlash = length arn then Inl (''invalid ARN format: '' @ arn)
       else if \<not> has_prefix arn ''acs:ramrole::'' \<or> \<not> contains_str arn '':role/''
       then Inl (''invalid RAM role ARN format: '' @ arn)
       else Inr (drop (Suc lastSlash) arn))"

definition ip_Validate :: "'w get_role \<Rightarrow> (string \<Rightarrow> json option) \<Rightarrow> string \<Rightarrow> 'w \<Rightarrow> kerr option \<times> 'w" where
  "ip_Validate get_role parse instanceProfile w =
     (if instanceProfile = '''' then (None, w)
      else case parseRoleNameFromARN instanceProfile of
        Inl err \<Rightarrow> (Some (Msg (''invalid instance profile ARN '' @ instanceProfile @ '': '' @ err)), w)
      | Inr roleName \<Rightarrow> (case ip_validateRole get_role parse roleName w of
          (Some err, w1) \<Rightarrow> (Some (ip_wrap (''invalid role '' @ roleName @ '': '') err), w1)
        | (None, w1) \<Rightarrow> (None, w1)))"

section \<open>Role names\<close>

lemma last_slash_append:
  assumes "CHR ''/'' \<notin> set name"
  shows "last_slash (p @ CHR ''/'' # name) (length p + 1 + length name) = Some (length p)"
proof -
  have "i \<le> length name \<Longrightarrow> last_slash (p @ CHR ''/'' # name) (length p + 1 + i) = Some (length p)" for i
  proof (induction i)
    case (Suc i)
    have "(p @ CHR ''/'' # name) ! (length p + 1 + i) = name ! i" by (simp add: nth_append)
    moreover have "name ! i \<noteq> CHR ''/''" using assms Suc.prems by (metis Suc_le_lessD nth_mem)
    ultimately show ?case using Suc by simp
  qed simp
  then show ?thesis by simp
qed

text \<open>
  The name of a role is read back from its ARN: for every account and
  every non-empty name without a slash, parsing the ARN that Alibaba Cloud writes
  returns the name, and the role that is then asked for is the one of that name.
\<close>
theorem role_name_roundtrip:
  assumes "name \<noteq> ''''" "CHR ''/'' \<notin> set name"
  shows "parseRoleNameFromARN (''acs:ramrole::'' @ account @ '':role/'' @ name) = Inr name"
proof -
  let ?p = "''acs:ramrole::'' @ account @ '':role''"
  let ?arn = "''acs:ramrole::'' @ account @ '':role/'' @ name"
  have arn: "?arn = ?p @ CHR ''/'' # name" by simp
  have "last_slash ?arn (length ?arn) = Some (length ?p)"
    unfolding arn using last_slash_append [OF assms(2), of ?p] by simp
  moreover have "Suc (length ?p) \<noteq> length ?arn" using assms(1) by simp
  moreover have "has_prefix ?arn ''acs:ramrole::''" by (rule has_prefix_append)
  moreover have "contains_str ?arn '':role/''"
    using contains_str_infix [of "''acs:ramrole::'' @ account" "'':role/''" name] by simp
  moreover have "drop (Suc (length ?p)) ?arn = name" unfolding arn by simp
  ultimately show ?thesis unfolding parseRoleNameFromARN_def by simp
qed

theorem role_name_roundtrip_witness:
  "parseRoleNameFromARN (''acs:ramrole::'' @ ''1234'' @ '':role/'' @ ''Worker'') = Inr ''Worker''"
  by (rule role_name_roundtrip) simp_all

section \<open>Policies\<close>

definition ecs_policy :: "string \<Rightarrow> json \<Rightarrow> json" where
  "ecs_policy eff action = JObj [(''Statement'', JArr [JObj [(''Action'', action), (''Effect'', JStr eff),
     (''Principal'', JObj [(''Service'', JArr [JStr ''ecs.aliyuncs.com''])])]])]"

text \<open>The effect of a statement is not looked at: a statement that denies validates the role.\<close>

lemma deny_statement_validates:
  assumes "get_role ''r'' w = (Inr (Some \<lparr>rb_Arn = arn, rb_AssumeRolePolicyDocument = Some doc\<rparr>), w')"
    and "parse doc = Some (ecs_policy ''Deny'' (JStr ''sts:AssumeRole''))"
  shows "ValidateRole get_role parse ''r'' w = (Some (role_valid ''r''), w')"
  using assms
  by (simp add: ValidateRole_def ecs_policy_def decode_policy_def decode_statement_def to_lower_def
      lower_char_def is_upper_def ecs_service_def)

text \<open>An action given as a list is valid for one provider and a parse error for the other.\<close>

lemma action_list_accepted_by_one:
  assumes "get_role ''r'' w = (Inr (Some \<lparr>rb_Arn = arn, rb_AssumeRolePolicyDocument = Some doc\<rparr>), w')"
    and "parse doc = Some (ecs_policy ''Allow'' (JArr [JStr ''sts:AssumeRole'']))"
  shows "ValidateRole get_role parse ''r'' w = (Some (role_invalid ''InvalidPolicy'' ''Failed to parse AssumeRolePolicy''), w')"
    and "ip_validateRole get_role parse ''r'' w = (None, w')"
  using assms
  by (simp_all add: ValidateRole_def ecs_policy_def decode_policy_def decode_statement_def to_lower_def
      lower_char_def is_upper_def ecs_service_def ip_validateRole_def validateTrustPolicy_def
      decode_document_def decode_any_statement_def)

end
