(* ===== verification/LaunchTemplates.thy ===== *)
theory LaunchTemplates
  imports KubeTypes ClusterNetwork
begin

text \<open>
  Launch templates (pkg/providers/launchtemplate/launchtemplate.go).  The calls of
  the ECS client are parameters; the responses have the fields the code reads, a nil
  pointer is None, and a result Inl GoPanic is the dereference of one.  The items of the lists
  of a response are not nil.
\<close>

record LaunchTemplate =
  lt_ID :: string
  lt_Name :: string
  lt_Version :: string

record LaunchTemplateData =
  ltd_ImageID :: string
  ltd_InstanceType :: string
  ltd_VSwitchID :: string
  ltd_ZoneID :: string
  ltd_SecurityGroupIDs :: "string list"

record LtSystemDisk =
  lts_Category :: "string option"
  lts_Size :: "int option"

record CreateLtReq =
  clt_LaunchTemplateName :: string
  clt_RegionId :: string
  clt_ImageId :: "string option"
  clt_SecurityGroupIds :: "string list"
  clt_VSwitchId :: "string option"
  clt_UserData :: "string option"
  clt_SpotStrategy :: "string option"
  clt_SystemDisk :: "LtSystemDisk option"

record DescribeVersionsReq =
  dvr_RegionId :: string
  dvr_LaunchTemplateId :: string
  dvr_DetailFlag :: bool
  dvr_PageSize :: int
  dvr_LaunchTemplateVersion :: "int list"
  dvr_DefaultVersion :: "bool option"

record LtNetworkInterface =
  lni_VSwitchId :: "string option"
  lni_SecurityGroupId :: "string option"
  lni_SecurityGroupIds :: "string option list option"

record LtVersionData =
  lvd_ImageId :: "string option"
  lvd_InstanceType :: "string option"
  lvd_VSwitchId :: "string option"
  lvd_ZoneId :: "string option"
  lvd_SecurityGroupId :: "string option"
  lvd_SecurityGroupIds :: "string option list option"
  lvd_NetworkInterfaces :: "LtNetworkInterface list option"

record 'w LtClient =
  lc_create :: "CreateLtReq \<Rightarrow> 'w \<Rightarrow> (string + string option \<times> int option) \<times> 'w"
  lc_describe :: "string \<Rightarrow> 'w \<Rightarrow> (string + (string option \<times> string option \<times> int option) list) \<times> 'w"
  lc_versions :: "(DescribeVersionsReq \<Rightarrow> 'w \<Rightarrow> (string + LtVersionData option list option) \<times> 'w) option"
  lc_delete :: "string \<Rightarrow> 'w \<Rightarrow> string option \<times> 'w"

section \<open>Creating, reading and deleting\<close>

text \<open>The cast int32 of the size; the clock is an argument, in seconds.\<close>

definition lt_create_request :: "string \<Rightarrow> int \<Rightarrow> ECSNodeClass \<Rightarrow> string \<Rightarrow> CreateLtReq" where
  "lt_create_request region unix nodeClass userData =
     \<lparr>clt_LaunchTemplateName = ''karpenter-'' @ k_Name nodeClass @ ''-'' @ itoa unix,
      clt_RegionId = region,
      clt_ImageId = (case st_Images (k_Status nodeClass) of [] \<Rightarrow> None | im # _ \<Rightarrow> Some (img_ID im)),
      clt_SecurityGroupIds = List.map sg_ID (st_SecurityGroups (k_Status nodeClass)),
      clt_VSwitchId = (case st_VSwitches (k_Status nodeClass) of [] \<Rightarrow> None | v # _ \<Rightarrow> Some (vsw_ID v)),
      clt_UserData = (if userData \<noteq> '''' then Some userData else None),
      clt_SpotStrategy = (case nc_SpotStrategy (k_Spec nodeClass) of
         Some sp \<Rightarrow> if IsValidSpotStrategy sp then Some sp else None | None \<Rightarrow> None),
      clt_SystemDisk = (case nc_SystemDisk (k_Spec nodeClass) of None \<Rightarrow> None
         | Some d \<Rightarrow> Some \<lparr>lts_Category = (if sds_Category d \<noteq> '''' then Some (sds_Category d) else None),
             lts_Size = map_option wrap32 (sds_Size d)\<rparr>)\<rparr>"

definition lt_Create :: "'w LtClient \<Rightarrow> string \<Rightarrow> int \<Rightarrow> ECSNodeClass \<Rightarrow> string \<Rightarrow> 'w \<Rightarrow> (kerr + LaunchTemplate) \<times> 'w" where
  "lt_Create client region unix nodeClass userData w =
     (let request = lt_create_request region unix nodeClass userData in
      case lc_create client request w of
        (Inl err, w1) \<Rightarrow> (Inl (Msg (''failed to create launch template: '' @ err)), w1)
      | (Inr (Some ident, Some version), w1) \<Rightarrow>
          (Inr \<lparr>lt_ID = ident, lt_Name = clt_LaunchTemplateName request, lt_Version = itoa version\<rparr>, w1)
      | (Inr _, w1) \<Rightarrow> (Inl GoPanic, w1))"

definition lt_Get :: "'w LtClient \<Rightarrow> string \<Rightarrow> 'w \<Rightarrow> (kerr + LaunchTemplate) \<times> 'w" where
  "lt_Get client ident w = (case lc_describe client ident w of
     (Inl err, w1) \<Rightarrow> (Inl (Msg (''failed to describe launch template '' @ ident @ '': '' @ err)), w1)
   | (Inr [], w1) \<Rightarrow> (Inl (Msg (''launch template '' @ ident @ '' not found'')), w1)
   | (Inr ((Some i, Some n, Some v) # _), w1) \<Rightarrow> (Inr \<lparr>lt_ID = i, lt_Name = n, lt_Version = itoa v\<rparr>, w1)
   | (Inr _, w1) \<Rightarrow> (Inl GoPanic, w1))"

definition lt_Delete :: "'w LtClient \<Rightarrow> string \<Rightarrow> 'w \<Rightarrow> string option \<times> 'w" where
  "lt_Delete client ident w = (case lc_delete client ident w of
     (Some err, w1) \<Rightarrow> (Some (''failed to delete launch template '' @ ident @ '': '' @ err), w1)
   | (None, w1) \<Rightarrow> (None, w1))"

definition lt_Resolve :: "'w LtClient \<Rightarrow> string \<Rightarrow> int \<Rightarrow> ECSNodeClass \<Rightarrow> 'w \<Rightarrow> (kerr + LaunchTemplate) \<times> 'w" where
  "lt_Resolve client region unix nodeClass w = (case nc_LaunchTemplateID (k_Spec nodeClass) of
     Some ident \<Rightarrow> lt_Get client ident w
   | None \<Rightarrow> lt_Create client region unix nodeClass '''' w)"

section \<open>The data of a version\<close>

definition lt_versions_request :: "string \<Rightarrow> string \<Rightarrow> int option \<Rightarrow> DescribeVersionsReq" where
  "lt_versions_request region ident version =
     \<lparr>dvr_RegionId = region, dvr_LaunchTemplateId = ident, dvr_DetailFlag = True, dvr_PageSize = 1,
      dvr_LaunchTemplateVersion = (case version of Some v \<Rightarrow> [v] | None \<Rightarrow> []),
      dvr_DefaultVersion = (case version of Some v \<Rightarrow> None | None \<Rightarrow> Some True)\<rparr>"

definition opt_list :: "'a option \<Rightarrow> 'a list" where
  "opt_list x = (case x of Some a \<Rightarrow> [a] | None \<Rightarrow> [])"

definition some_ids :: "string option list option \<Rightarrow> string list" where
  "some_ids ids = List.map_filter (\<lambda>i. i) (or_else ids [])"

definition lt_data_of :: "LtVersionData \<Rightarrow> LaunchTemplateData" where
  "lt_data_of data =
     (let vsw = or_else (lvd_VSwitchId data) '''';
          sgs = opt_list (lvd_SecurityGroupId data) @ some_ids (lvd_SecurityGroupIds data) in
      case lvd_NetworkInterfaces data of
        Some (ni # _) \<Rightarrow>
          \<lparr>ltd_ImageID = or_else (lvd_ImageId data) '''', ltd_InstanceType = or_else (lvd_InstanceType data) '''',
           ltd_VSwitchID = (if vsw = '''' then or_else (lni_VSwitchId ni) '''' else vsw),
           ltd_ZoneID = or_else (lvd_ZoneId data) '''',
           ltd_SecurityGroupIDs = sgs @ opt_list (lni_SecurityGroupId ni) @ some_ids (lni_SecurityGroupIds ni)\<rparr>
      | _ \<Rightarrow>
          \<lparr>ltd_ImageID = or_else (lvd_ImageId data) '''', ltd_InstanceType = or_else (lvd_InstanceType data) '''',
           ltd_VSwitchID = vsw, ltd_ZoneID = or_else (lvd_ZoneId data) '''', ltd_SecurityGroupIDs = sgs\<rparr>)"

definition lt_GetData :: "'w LtClient \<Rightarrow> string \<Rightarrow> string \<Rightarrow> int option \<Rightarrow> 'w \<Rightarrow> (string + LaunchTemplateData) \<times> 'w" where
  "lt_GetData client region ident version w = (case lc_versions client of
     None \<Rightarrow> (Inl ''ECS client does not support DescribeLaunchTemplateVersions'', w)
   | Some describer \<Rightarrow> (case describer (lt_versions_request region ident version) w of
       (Inl err, w1) \<Rightarrow> (Inl (''describe launch template versions: '' @ err), w1)
     | (Inr (Some (Some data # _)), w1) \<Rightarrow> (Inr (lt_data_of data), w1)
     | (Inr _, w1) \<Rightarrow> (Inl ''launch template version not found'', w1)))"

text \<open>The security groups of a version are those of its two fields and of its first interface.\<close>

lemma lt_data_groups:
  "set (ltd_SecurityGroupIDs (lt_data_of d)) =
     {g. lvd_SecurityGroupId d = Some g} \<union> {g. Some g \<in> set (or_else (lvd_SecurityGroupIds d) [])} \<union>
     (case lvd_NetworkInterfaces d of Some (ni # _) \<Rightarrow>
        {g. lni_SecurityGroupId ni = Some g} \<union> {g. Some g \<in> set (or_else (lni_SecurityGroupIds ni) [])}
      | _ \<Rightarrow> {})"
  by (auto simp: lt_data_of_def Let_def opt_list_def some_ids_def map_filter_in
      split: option.splits list.splits)

end
