(* ===== verification/NodeClassStatus.thy ===== *)
theory NodeClassStatus
  imports Resolvers RoleProviders LaunchTemplates CloudProvider
begin

text \<open>
  The status controller of node classes (pkg/controllers/nodeclass/status/controller.go).
  The environment is a record of parameters: the Kubernetes client, the resolvers, the launch
  template reader (None when it is not configured), the role validator (None is a run-time
  panic), the clock and the random number generator.  The state 'w is the world all
  of them share; status_env wires the resolvers and providers of this development.
\<close>

record 'w StatusEnv =
  se_get :: "string \<Rightarrow> 'w \<Rightarrow> (kube_error + ECSNodeClass) \<times> 'w"
  se_update :: "ECSNodeClass \<Rightarrow> 'w \<Rightarrow> kube_error option \<times> 'w"
  se_vswitches :: "VSwitchSelectorTerm list \<Rightarrow> 'w \<Rightarrow> (string + VSwitch list) \<times> 'w"
  se_groups :: "SecurityGroupSelectorTerm list \<Rightarrow> 'w \<Rightarrow> (string + SecurityGroup list) \<times> 'w"
  se_images :: "ImageSelectorTerm list \<Rightarrow> 'w \<Rightarrow> (string + Image list) \<times> 'w"
  se_data :: "(string \<Rightarrow> int option \<Rightarrow> 'w \<Rightarrow> (string + LaunchTemplateData) \<times> 'w) option"
  se_role :: "string \<Rightarrow> 'w \<Rightarrow> ValidateRoleResult option \<times> 'w"
  se_now :: "'w \<Rightarrow> time_ns"
  se_rand :: "int \<Rightarrow> 'w \<Rightarrow> int"

definition successfulRequeueBase :: int where "successfulRequeueBase = 15 * minute_ns"
definition successfulRequeueJitter :: int where "successfulRequeueJitter = 5 * minute_ns"
definition failedResolutionRequeueBase :: int where "failedResolutionRequeueBase = 5 * minute_ns"
definition failedResolutionRequeueJitter :: int where "failedResolutionRequeueJitter = minute_ns"
definition defaultSecurityGroupAttachLimit :: nat where "defaultSecurityGroupAttachLimit = 5"

section \<open>Conditions\<close>

fun set_cond :: "time_ns \<Rightarrow> string \<Rightarrow> ConditionStatus \<Rightarrow> string \<Rightarrow> string \<Rightarrow> Condition list \<Rightarrow> Condition list" where
  "set_cond now typ st reason message [] =
     [\<lparr>cond_Type = typ, cond_Status = st, cond_Reason = reason, cond_Message = message,
       cond_ObservedGeneration = 0, cond_LastTransitionTime = now\<rparr>]"
| "set_cond now typ st reason message (c # cs) =
     (if cond_Type c = typ then
        (if cond_Status c = st then c\<lparr>cond_Reason := reason, cond_Message := message\<rparr>
         else c\<lparr>cond_Status := st, cond_Reason := reason, cond_Message := message,
                cond_LastTransitionTime := now\<rparr>) # cs
      else c # set_cond now typ st reason message cs)"

definition setCondition :: "time_ns \<Rightarrow> string \<Rightarrow> ConditionStatus \<Rightarrow> string \<Rightarrow> string \<Rightarrow> ECSNodeClass \<Rightarrow> ECSNodeClass" where
  "setCondition now typ st reason message nodeClass =
     nodeClass\<lparr>k_Status := (k_Status nodeClass)\<lparr>st_Conditions :=
       set_cond now typ st reason message (st_Conditions (k_Status nodeClass))\<rparr>\<rparr>"

definition getCondition :: "ECSNodeClass \<Rightarrow> string \<Rightarrow> Condition option" where
  "getCondition nodeClass typ = find (\<lambda>c. cond_Type c = typ) (st_Conditions (k_Status nodeClass))"

definition required_conditions :: "string list" where
  "required_conditions = [ConditionTypeVSwitchResolved, ConditionTypeSecurityGroupResolved,
     ConditionTypeImageResolved, ConditionTypeRAMRoleResolved]"

definition isReady :: "ECSNodeClass \<Rightarrow> bool" where
  "isReady nodeClass = list_all (\<lambda>typ. case getCondition nodeClass typ of
     None \<Rightarrow> False | Some c \<Rightarrow> cond_Status c = ConditionTrue) required_conditions"

text \<open>A failed resource: its condition, then Ready.\<close>

definition set_failed :: "time_ns \<Rightarrow> string \<Rightarrow> string \<Rightarrow> string \<Rightarrow> string \<Rightarrow> ECSNodeClass \<Rightarrow> ECSNodeClass" where
  "set_failed now typ reason message ready_message nodeClass =
     setCondition now ConditionTypeReady ConditionFalse ''ResourceResolutionFailed'' ready_message
       (setCondition now typ ConditionFalse reason message nodeClass)"

definition validateResolvedSecurityGroupAttachLimit :: "SecurityGroup list \<Rightarrow> string option" where
  "validateResolvedSecurityGroupAttachLimit securityGroups =
     (if length securityGroups < 1 then Some ''securityGroupSelectorTerms resolved zero security groups''
      else if length securityGroups > defaultSecurityGroupAttachLimit
      then Some (''securityGroupSelectorTerms resolved '' @ itoa (int (length securityGroups)) @
             '' security groups, exceeding attach limit '' @ itoa (int defaultSecurityGroupAttachLimit))
      else None)"

section \<open>Resolving the selectors of the spec\<close>

definition first_error :: "string option \<Rightarrow> string \<Rightarrow> string option" where
  "first_error resolveErr err = (case resolveErr of None \<Rightarrow> Some err | Some e \<Rightarrow> Some e)"

definition vswitches_step :: "'w StatusEnv \<Rightarrow> ECSNodeClass \<Rightarrow> 'w \<Rightarrow> ECSNodeClass \<times> string option \<times> 'w" where
  "vswitches_step env nodeClass w =
     (case se_vswitches env (nc_VSwitchSelectorTerms (k_Spec nodeClass)) w of
        (Inl err, w1) \<Rightarrow> (set_failed (se_now env w1) ConditionTypeVSwitchResolved ''VSwitchResolutionFailed'' err
            ''VSwitch resolution failed'' nodeClass, Some (''failed to resolve vswitches: '' @ err), w1)
      | (Inr vswitches, w1) \<Rightarrow>
          if vswitches = [] then (set_failed (se_now env w1) ConditionTypeVSwitchResolved ''VSwitchResolutionFailed''
              ''vSwitchSelectorTerms resolved zero VSwitches'' ''VSwitch resolution failed'' nodeClass,
            Some ''no vswitches found matching selector terms'', w1)
          else (setCondition (se_now env w1) ConditionTypeVSwitchResolved ConditionTrue ''VSwitchResolved''
              (''Resolved '' @ itoa (int (length vswitches)) @ '' VSwitches'')
              (nodeClass\<lparr>k_Status := (k_Status nodeClass)\<lparr>st_VSwitches := vswitches\<rparr>\<rparr>), None, w1))"

definition groups_step :: "'w StatusEnv \<Rightarrow> ECSNodeClass \<Rightarrow> string option \<Rightarrow> 'w \<Rightarrow> ECSNodeClass \<times> string option \<times> 'w" where
  "groups_step env nodeClass resolveErr w =
     (case se_groups env (nc_SecurityGroupSelectorTerms (k_Spec nodeClass)) w of
        (Inl err, w1) \<Rightarrow> (set_failed (se_now env w1) ConditionTypeSecurityGroupResolved
            ''SecurityGroupResolutionFailed'' err ''SecurityGroup resolution failed'' nodeClass,
            first_error resolveErr (''failed to resolve security groups: '' @ err), w1)
      | (Inr securityGroups, w1) \<Rightarrow>
          if securityGroups = [] then (set_failed (se_now env w1) ConditionTypeSecurityGroupResolved
              ''SecurityGroupResolutionFailed'' ''securityGroupSelectorTerms resolved zero security groups''
              ''SecurityGroup resolution failed'' nodeClass,
            first_error resolveErr ''no security groups found matching selector terms'', w1)
          else (case validateResolvedSecurityGroupAttachLimit securityGroups of
            Some err \<Rightarrow> (set_failed (se_now env w1) ConditionTypeSecurityGroupResolved
                ''SecurityGroupResolutionFailed'' err ''SecurityGroup resolution failed'' nodeClass,
              first_error resolveErr err, w1)
          | None \<Rightarrow> (setCondition (se_now env w1) ConditionTypeSecurityGroupResolved ConditionTrue
                ''SecurityGroupResolved'' (''Resolved '' @ itoa (int (length securityGroups)) @ '' SecurityGroups'')
                (nodeClass\<lparr>k_Status := (k_Status nodeClass)\<lparr>st_SecurityGroups := securityGroups\<rparr>\<rparr>),
              resolveErr, w1)))"

definition images_step :: "'w StatusEnv \<Rightarrow> ECSNodeClass \<Rightarrow> string option \<Rightarrow> 'w \<Rightarrow> ECSNodeClass \<times> string option \<times> 'w" where
  "images_step env nodeClass resolveErr w =
     (case se_images env (nc_ImageSelectorTerms (k_Spec nodeClass)) w of
        (Inl err, w1) \<Rightarrow> (set_failed (se_now env w1) ConditionTypeImageResolved ''ImageResolutionFailed'' err
            ''Image resolution failed'' nodeClass, first_error resolveErr (''failed to resolve images: '' @ err), w1)
      | (Inr images, w1) \<Rightarrow>
          if images = [] then (set_failed (se_now env w1) ConditionTypeImageResolved ''ImageResolutionFailed''
              ''imageSelectorTerms resolved zero images'' ''Image resolution failed'' nodeClass,
            first_error resolveErr ''no images found matching selector terms'', w1)
          else (setCondition (se_now env w1) ConditionTypeImageResolved ConditionTrue ''ImageResolved''
              (''Resolved '' @ itoa (int (length images)) @ '' Images'')
              (nodeClass\<lparr>k_Status := (k_Status nodeClass)\<lparr>st_Images := images\<rparr>\<rparr>), resolveErr, w1))"

definition resolveSelectorResources :: "'w StatusEnv \<Rightarrow> ECSNodeClass \<Rightarrow> 'w \<Rightarrow> ECSNodeClass \<times> string option \<times> 'w" where
  "resolveSelectorResources env nodeClass w =
     (case vswitches_step env nodeClass w of (n1, e1, w1) \<Rightarrow>
      case groups_step env n1 e1 w1 of (n2, e2, w2) \<Rightarrow> images_step env n2 e2 w2)"

section \<open>Resolving a launch template\<close>

definition setSelectorConditionsFromLaunchTemplateError :: "time_ns \<Rightarrow> string \<Rightarrow> ECSNodeClass \<Rightarrow> ECSNodeClass" where
  "setSelectorConditionsFromLaunchTemplateError now message nodeClass =
     setCondition now ConditionTypeReady ConditionFalse ''ResourceResolutionFailed'' ''Launch template resolution failed''
      (setCondition now ConditionTypeImageResolved ConditionFalse ''LaunchTemplateResolutionFailed'' message
       (setCondition now ConditionTypeSecurityGroupResolved ConditionFalse ''LaunchTemplateResolutionFailed'' message
        (setCondition now ConditionTypeVSwitchResolved ConditionFalse ''LaunchTemplateResolutionFailed'' message
          nodeClass)))"

definition lt_vswitch_term :: "string \<Rightarrow> VSwitchSelectorTerm" where
  "lt_vswitch_term ident = \<lparr>vst_Tags = [], vst_ID = Some ident, vst_ZoneID = None\<rparr>"

definition lt_failed :: "time_ns \<Rightarrow> string \<Rightarrow> ECSNodeClass \<Rightarrow> ECSNodeClass" where
  "lt_failed now message nodeClass = set_failed now ConditionTypeVSwitchResolved
     ''LaunchTemplateResolutionFailed'' message ''Launch template VSwitch resolution failed'' nodeClass"

definition lt_resolved :: "time_ns \<Rightarrow> LaunchTemplateData \<Rightarrow> VSwitch list \<Rightarrow> ECSNodeClass \<Rightarrow> ECSNodeClass" where
  "lt_resolved now data vswitches nodeClass =
     setCondition now ConditionTypeImageResolved ConditionTrue ''LaunchTemplateResolved''
       ''Resolved Image from launch template''
      (setCondition now ConditionTypeSecurityGroupResolved ConditionTrue ''LaunchTemplateResolved''
         (''Resolved '' @ itoa (int (length (ltd_SecurityGroupIDs data))) @ '' SecurityGroups from launch template'')
       (setCondition now ConditionTypeVSwitchResolved ConditionTrue ''LaunchTemplateResolved''
         ''Resolved VSwitch from launch template''
         (nodeClass\<lparr>k_Status := (k_Status nodeClass)\<lparr>st_VSwitches := vswitches,
            st_SecurityGroups := List.map (\<lambda>ident. \<lparr>sg_ID = ident, sg_Name = ''''\<rparr>) (ltd_SecurityGroupIDs data)\<rparr>\<rparr>)))"

definition resolveLaunchTemplate :: "'w StatusEnv \<Rightarrow> string \<Rightarrow> ECSNodeClass \<Rightarrow> 'w \<Rightarrow>
    ECSNodeClass \<times> string option \<times> 'w" where
  "resolveLaunchTemplate env templateID nodeClass w = (case se_data env of
     None \<Rightarrow> (setSelectorConditionsFromLaunchTemplateError (se_now env w) ''launch template provider is required'' nodeClass,
        Some ''launch template provider is required'', w)
   | Some get_data \<Rightarrow> (case get_data templateID (nc_LaunchTemplateVersion (k_Spec nodeClass)) w of
       (Inl err, w1) \<Rightarrow> (setSelectorConditionsFromLaunchTemplateError (se_now env w1) err nodeClass,
          Some (''failed to resolve launch template: '' @ err), w1)
     | (Inr data, w1) \<Rightarrow>
         if ltd_ImageID data = '''' \<or> ltd_VSwitchID data = '''' \<or> ltd_SecurityGroupIDs data = []
         then (setSelectorConditionsFromLaunchTemplateError (se_now env w1)
             ''launch template must specify image, vswitch, and security group'' nodeClass,
           Some ''launch template must specify image, vswitch, and security group'', w1)
         else
           let n1 = nodeClass\<lparr>k_Status := (k_Status nodeClass)\<lparr>st_Images :=
                 [\<lparr>img_ID = ltd_ImageID data, img_Name = '''', img_Architecture = ''''\<rparr>]\<rparr>\<rparr> in
           (case se_vswitches env [lt_vswitch_term (ltd_VSwitchID data)] w1 of
              (Inl err, w2) \<Rightarrow> (lt_failed (se_now env w2) err n1,
                 Some (''failed to resolve launch template vswitch: '' @ err), w2)
            | (Inr vswitches, w2) \<Rightarrow>
                if vswitches = [] then (lt_failed (se_now env w2) ''launch template vswitch not found'' n1,
                   Some ''launch template vswitch not found'', w2)
                else (lt_resolved (se_now env w2) data vswitches n1, None, w2))))"

section \<open>The RAM role and readiness\<close>

definition role_resolved :: "time_ns \<Rightarrow> ECSNodeClass \<Rightarrow> ECSNodeClass" where
  "role_resolved now nodeClass = setCondition now ConditionTypeRAMRoleResolved ConditionTrue ''RAMRoleResolved''
     ''RAM role is valid'' (nodeClass\<lparr>k_Status := (k_Status nodeClass)\<lparr>st_RAMRole := nc_Role (k_Spec nodeClass)\<rparr>\<rparr>)"

definition role_step :: "'w StatusEnv \<Rightarrow> ECSNodeClass \<Rightarrow> string option \<Rightarrow> 'w \<Rightarrow>
    (ECSNodeClass \<times> string option) option \<times> 'w" where
  "role_step env nodeClass resolveErr w = (case nc_Role (k_Spec nodeClass) of
     None \<Rightarrow> (Some (role_resolved (se_now env w) nodeClass, resolveErr), w)
   | Some role \<Rightarrow> (case se_role env role w of
       (None, w1) \<Rightarrow> (None, w1)
     | (Some result, w1) \<Rightarrow>
         if \<not> vr_Valid result
         then (Some (set_failed (se_now env w1) ConditionTypeRAMRoleResolved (vr_Reason result) (vr_Message result)
                  ''RAM role validation failed'' nodeClass,
                first_error resolveErr (''failed to validate RAM role: '' @ vr_Message result)), w1)
         else (Some (role_resolved (se_now env w1) nodeClass, resolveErr), w1)))"

definition ready_step :: "time_ns \<Rightarrow> ECSNodeClass \<Rightarrow> ECSNodeClass" where
  "ready_step now nodeClass = (if isReady nodeClass
     then setCondition now ConditionTypeReady ConditionTrue ''Ready'' ''ECSNodeClass is ready'' nodeClass
     else nodeClass)"

text \<open>The part of Reconcile between reading and writing; None is a panic.\<close>

definition resolve_phase :: "'w StatusEnv \<Rightarrow> ECSNodeClass \<Rightarrow> 'w \<Rightarrow> (ECSNodeClass \<times> string option) option \<times> 'w" where
  "resolve_phase env nodeClass w =
     (case (case nc_LaunchTemplateID (k_Spec nodeClass) of
              Some ident \<Rightarrow> resolveLaunchTemplate env ident nodeClass w
            | None \<Rightarrow> resolveSelectorResources env nodeClass w) of
        (n1, e1, w1) \<Rightarrow> (case role_step env n1 e1 w1 of
           (None, w2) \<Rightarrow> (None, w2)
         | (Some (n2, e2), w2) \<Rightarrow> (Some (ready_step (se_now env w2) n2, e2), w2)))"

section \<open>Reconcile\<close>

definition update_once :: "'w StatusEnv \<Rightarrow> ECSNodeClass \<Rightarrow> 'w \<Rightarrow> kube_error option \<times> 'w" where
  "update_once env nodeClass w = (case se_get env (k_Name nodeClass) w of
     (Inl err, w1) \<Rightarrow> (Some err, w1)
   | (Inr latest, w1) \<Rightarrow> se_update env (latest\<lparr>k_Status := k_Status nodeClass\<rparr>) w1)"

definition updateStatus :: "'w StatusEnv \<Rightarrow> ECSNodeClass \<Rightarrow> 'w \<Rightarrow> kube_error option \<times> 'w" where
  "updateStatus env nodeClass w = retry_on_conflict default_retries (update_once env nodeClass) w"

datatype outcome = Done | Requeue int | Failed string | Panicked

definition requeue_after :: "'w StatusEnv \<Rightarrow> string option \<Rightarrow> 'w \<Rightarrow> outcome" where
  "requeue_after env resolveErr w = (case resolveErr of
     Some e \<Rightarrow> Requeue (failedResolutionRequeueBase + se_rand env failedResolutionRequeueJitter w)
   | None \<Rightarrow> Requeue (successfulRequeueBase + se_rand env successfulRequeueJitter w))"

definition ReconcileStatus :: "'w StatusEnv \<Rightarrow> string \<Rightarrow> 'w \<Rightarrow> outcome \<times> 'w" where
  "ReconcileStatus env name w = (case se_get env name w of
     (Inl err, w1) \<Rightarrow> if is_kube_notfound err then (Done, w1) else (Failed (kube_text err), w1)
   | (Inr stored, w1) \<Rightarrow> (case resolve_phase env stored w1 of
       (None, w2) \<Rightarrow> (Panicked, w2)
     | (Some (nodeClass, resolveErr), w2) \<Rightarrow>
         if stored \<noteq> nodeClass then (case updateStatus env nodeClass w2 of
             (Some err, w3) \<Rightarrow> (Failed (''failed to update ECSNodeClass status: '' @ kube_text err), w3)
           | (None, w3) \<Rightarrow> (requeue_after env resolveErr w3, w3))
         else (requeue_after env resolveErr w2, w2)))"

definition safeErrorMessage :: "string option \<Rightarrow> string \<Rightarrow> string" where
  "safeErrorMessage err defaultMessage = or_else err defaultMessage"

end
