(* ===== verification/StatusSpec.thy ===== *)
theory StatusSpec
  imports NodeClassStatus
begin

text \<open>
  The specification of the status controller and its refinement.  The plan of a pass is a
  pure function of the answers of the cloud and of the spec; the controller of
  NodeClassStatus is shown to implement it, condition by condition, and the
  properties of the controller are read off the plan: readiness, idempotence.
\<close>

section \<open>The abstract specification: a plan computed from the answers\<close>

text \<open>
  What a pass does to the status is a function of the answers it gets: the conditions it
  sets, in order, the lists it replaces and the error.  The plan does not depend on
  the old status, nor on the clock.
\<close>

type_synonym cond_set = "string \<times> ConditionStatus \<times> string \<times> string"

record StatusPlan =
  pl_sets :: "cond_set list"
  pl_vsw :: "VSwitch list option"
  pl_sgs :: "SecurityGroup list option"
  pl_img :: "Image list option"
  pl_role :: "string option option"

definition plan_of_sets :: "cond_set list \<Rightarrow> StatusPlan" where
  "plan_of_sets sets = \<lparr>pl_sets = sets, pl_vsw = None, pl_sgs = None, pl_img = None, pl_role = None\<rparr>"

definition or_opt :: "'a option \<Rightarrow> 'a option \<Rightarrow> 'a option" where
  "or_opt a b = (case a of Some x \<Rightarrow> Some x | None \<Rightarrow> b)"

definition plan_then :: "StatusPlan \<Rightarrow> StatusPlan \<Rightarrow> StatusPlan" where
  "plan_then p q = \<lparr>pl_sets = pl_sets p @ pl_sets q, pl_vsw = or_opt (pl_vsw q) (pl_vsw p),
     pl_sgs = or_opt (pl_sgs q) (pl_sgs p), pl_img = or_opt (pl_img q) (pl_img p), pl_role = or_opt (pl_role q) (pl_role p)\<rparr>"

definition failed_sets :: "string \<Rightarrow> string \<Rightarrow> string \<Rightarrow> string \<Rightarrow> cond_set list" where
  "failed_sets typ reason message ready_message = [(typ, ConditionFalse, reason, message),
     (ConditionTypeReady, ConditionFalse, ''ResourceResolutionFailed'', ready_message)]"

definition vswitches_plan :: "string + VSwitch list \<Rightarrow> StatusPlan \<times> string option" where
  "vswitches_plan answer = (case answer of
     Inl err \<Rightarrow> (plan_of_sets (failed_sets ConditionTypeVSwitchResolved ''VSwitchResolutionFailed'' err
        ''VSwitch resolution failed''), Some (''failed to resolve vswitches: '' @ err))
   | Inr vs \<Rightarrow> if vs = [] then (plan_of_sets (failed_sets ConditionTypeVSwitchResolved ''VSwitchResolutionFailed''
          ''vSwitchSelectorTerms resolved zero VSwitches'' ''VSwitch resolution failed''),
        Some ''no vswitches found matching selector terms'')
      else ((plan_of_sets [(ConditionTypeVSwitchResolved, ConditionTrue, ''VSwitchResolved'',
          ''Resolved '' @ itoa (int (length vs)) @ '' VSwitches'')])\<lparr>pl_vsw := Some vs\<rparr>, None))"

definition groups_plan :: "string + SecurityGroup list \<Rightarrow> string option \<Rightarrow> StatusPlan \<times> string option" where
  "groups_plan answer e = (case answer of
     Inl err \<Rightarrow> (plan_of_sets (failed_sets ConditionTypeSecurityGroupResolved ''SecurityGroupResolutionFailed'' err
        ''SecurityGroup resolution failed''), first_error e (''failed to resolve security groups: '' @ err))
   | Inr gs \<Rightarrow> if gs = [] then (plan_of_sets (failed_sets ConditionTypeSecurityGroupResolved
          ''SecurityGroupResolutionFailed'' ''securityGroupSelectorTerms resolved zero security groups''
          ''SecurityGroup resolution failed''), first_error e ''no security groups found matching selector terms'')
      else (case validateResolvedSecurityGroupAttachLimit gs of
          Some err \<Rightarrow> (plan_of_sets (failed_sets ConditionTypeSecurityGroupResolved ''SecurityGroupResolutionFailed'' err
             ''SecurityGroup resolution failed''), first_error e err)
        | None \<Rightarrow> ((plan_of_sets [(ConditionTypeSecurityGroupResolved, ConditionTrue, ''SecurityGroupResolved'',
            ''Resolved '' @ itoa (int (length gs)) @ '' SecurityGroups'')])\<lparr>pl_sgs := Some gs\<rparr>, e)))"

definition images_plan :: "string + Image list \<Rightarrow> string option \<Rightarrow> StatusPlan \<times> string option" where
  "images_plan answer e = (case answer of
     Inl err \<Rightarrow> (plan_of_sets (failed_sets ConditionTypeImageResolved ''ImageResolutionFailed'' err
        ''Image resolution failed''), first_error e (''failed to resolve images: '' @ err))
   | Inr imgs \<Rightarrow> if imgs = [] then (plan_of_sets (failed_sets ConditionTypeImageResolved ''ImageResolutionFailed''
          ''imageSelectorTerms resolved zero images'' ''Image resolution failed''),
        first_error e ''no images found matching selector terms'')
      else ((plan_of_sets [(ConditionTypeImageResolved, ConditionTrue, ''ImageResolved'',
          ''Resolved '' @ itoa (int (length imgs)) @ '' Images'')])\<lparr>pl_img := Some imgs\<rparr>, e))"

definition lt_error_plan :: "string \<Rightarrow> StatusPlan" where
  "lt_error_plan message = plan_of_sets
     [(ConditionTypeVSwitchResolved, ConditionFalse, ''LaunchTemplateResolutionFailed'', message),
      (ConditionTypeSecurityGroupResolved, ConditionFalse, ''LaunchTemplateResolutionFailed'', message),
      (ConditionTypeImageResolved, ConditionFalse, ''LaunchTemplateResolutionFailed'', message),
      (ConditionTypeReady, ConditionFalse, ''ResourceResolutionFailed'', ''Launch template resolution failed'')]"

definition lt_vswitch_plan :: "string + VSwitch list \<Rightarrow> LaunchTemplateData \<Rightarrow> StatusPlan \<times> string option" where
  "lt_vswitch_plan answer data =
     (let im = Some [\<lparr>img_ID = ltd_ImageID data, img_Name = '''', img_Architecture = ''''\<rparr>];
          failed = (\<lambda>message. (plan_of_sets (failed_sets ConditionTypeVSwitchResolved ''LaunchTemplateResolutionFailed''
             message ''Launch template VSwitch resolution failed''))\<lparr>pl_img := im\<rparr>) in
      case answer of
        Inl err \<Rightarrow> (failed err, Some (''failed to resolve launch template vswitch: '' @ err))
      | Inr vs \<Rightarrow> if vs = [] then (failed ''launch template vswitch not found'', Some ''launch template vswitch not found'')
          else (\<lparr>pl_sets = [(ConditionTypeVSwitchResolved, ConditionTrue, ''LaunchTemplateResolved'',
                  ''Resolved VSwitch from launch template''),
                (ConditionTypeSecurityGroupResolved, ConditionTrue, ''LaunchTemplateResolved'',
                  ''Resolved '' @ itoa (int (length (ltd_SecurityGroupIDs data))) @ '' SecurityGroups from launch template''),
                (ConditionTypeImageResolved, ConditionTrue, ''LaunchTemplateResolved'',
                  ''Resolved Image from launch template'')],
              pl_vsw = Some vs,
              pl_sgs = Some (List.map (\<lambda>ident. \<lparr>sg_ID = ident, sg_Name = ''''\<rparr>) (ltd_SecurityGroupIDs data)),
              pl_img = im, pl_role = None\<rparr>, None))"

text \<open>The answers of one pass.\<close>

record Answers =
  an_vswitches :: "VSwitchSelectorTerm list \<Rightarrow> string + VSwitch list"
  an_groups :: "SecurityGroupSelectorTerm list \<Rightarrow> string + SecurityGroup list"
  an_images :: "ImageSelectorTerm list \<Rightarrow> string + Image list"
  an_data :: "(string \<Rightarrow> int option \<Rightarrow> string + LaunchTemplateData) option"
  an_role :: "string \<Rightarrow> ValidateRoleResult"

definition answering :: "'w StatusEnv \<Rightarrow> Answers \<Rightarrow> bool" where
  "answering env a \<longleftrightarrow> (\<forall>t w. fst (se_vswitches env t w) = an_vswitches a t)
     \<and> (\<forall>t w. fst (se_groups env t w) = an_groups a t) \<and> (\<forall>t w. fst (se_images env t w) = an_images a t)
     \<and> (case (se_data env, an_data a) of (None, None) \<Rightarrow> True
         | (Some f, Some g) \<Rightarrow> \<forall>i v w. fst (f i v w) = g i v | _ \<Rightarrow> False)
     \<and> (\<forall>r w. fst (se_role env r w) = Some (an_role a r))"

definition selector_plan :: "Answers \<Rightarrow> ECSNodeClassSpec \<Rightarrow> StatusPlan \<times> string option" where
  "selector_plan a spec =
     (case vswitches_plan (an_vswitches a (nc_VSwitchSelectorTerms spec)) of (p1, e1) \<Rightarrow>
      case groups_plan (an_groups a (nc_SecurityGroupSelectorTerms spec)) e1 of (p2, e2) \<Rightarrow>
      case images_plan (an_images a (nc_ImageSelectorTerms spec)) e2 of (p3, e3) \<Rightarrow>
        (plan_then (plan_then p1 p2) p3, e3))"

definition lt_plan :: "Answers \<Rightarrow> ECSNodeClassSpec \<Rightarrow> string \<Rightarrow> StatusPlan \<times> string option" where
  "lt_plan a spec ident = (case an_data a of
     None \<Rightarrow> (lt_error_plan ''launch template provider is required'', Some ''launch template provider is required'')
   | Some g \<Rightarrow> (case g ident (nc_LaunchTemplateVersion spec) of
       Inl err \<Rightarrow> (lt_error_plan err, Some (''failed to resolve launch template: '' @ err))
     | Inr data \<Rightarrow>
         if ltd_ImageID data = '''' \<or> ltd_VSwitchID data = '''' \<or> ltd_SecurityGroupIDs data = []
         then (lt_error_plan ''launch template must specify image, vswitch, and security group'',
               Some ''launch template must specify image, vswitch, and security group'')
         else lt_vswitch_plan (an_vswitches a [lt_vswitch_term (ltd_VSwitchID data)]) data))"

definition role_ok_plan :: "ECSNodeClassSpec \<Rightarrow> StatusPlan" where
  "role_ok_plan spec = (plan_of_sets [(ConditionTypeRAMRoleResolved, ConditionTrue, ''RAMRoleResolved'',
     ''RAM role is valid'')])\<lparr>pl_role := Some (nc_Role spec)\<rparr>"

definition role_plan :: "Answers \<Rightarrow> ECSNodeClassSpec \<Rightarrow> string option \<Rightarrow> StatusPlan \<times> string option" where
  "role_plan a spec e = (case nc_Role spec of
     None \<Rightarrow> (role_ok_plan spec, e)
   | Some r \<Rightarrow> let result = an_role a r in
       if \<not> vr_Valid result
       then (plan_of_sets (failed_sets ConditionTypeRAMRoleResolved (vr_Reason result) (vr_Message result)
               ''RAM role validation failed''), first_error e (''failed to validate RAM role: '' @ vr_Message result))
       else (role_ok_plan spec, e))"

definition resources_plan :: "Answers \<Rightarrow> ECSNodeClassSpec \<Rightarrow> StatusPlan \<times> string option" where
  "resources_plan a spec =
     (case (case nc_LaunchTemplateID spec of Some ident \<Rightarrow> lt_plan a spec ident | None \<Rightarrow> selector_plan a spec) of
        (p, e) \<Rightarrow> (case role_plan a spec e of (q, e') \<Rightarrow> (plan_then p q, e')))"

text \<open>Ready is set to true exactly when there was no error.\<close>

definition status_plan :: "Answers \<Rightarrow> ECSNodeClassSpec \<Rightarrow> StatusPlan \<times> string option" where
  "status_plan a spec = (case resources_plan a spec of (p, e) \<Rightarrow>
     (if e = None then plan_then p (plan_of_sets [(ConditionTypeReady, ConditionTrue, ''Ready'', ''ECSNodeClass is ready'')])
      else p, e))"

section \<open>The controller implements the plan\<close>

inductive cond_seq :: "cond_set list \<Rightarrow> Condition list \<Rightarrow> Condition list \<Rightarrow> bool" where
  cond_seq_Nil [intro]: "cond_seq [] cs cs"
| cond_seq_Cons [intro]: "cond_seq ops (set_cond now typ st reason message cs) cs' \<Longrightarrow>
    cond_seq ((typ, st, reason, message) # ops) cs cs'"

inductive_simps cond_seq_simps:
  "cond_seq [] cs cs'"
  "cond_seq ((typ, st, reason, message) # ops) cs cs'"

lemma cond_seq_append: "cond_seq xs a b \<Longrightarrow> cond_seq ys b c \<Longrightarrow> cond_seq (xs @ ys) a c"
  by (induction rule: cond_seq.induct) auto

definition realises :: "StatusPlan \<Rightarrow> ECSNodeClass \<Rightarrow> ECSNodeClass \<Rightarrow> bool" where
  "realises p n n' \<longleftrightarrow> k_Name n' = k_Name n \<and> k_Generation n' = k_Generation n
     \<and> k_Annotations n' = k_Annotations n \<and> k_Spec n' = k_Spec n
     \<and> cond_seq (pl_sets p) (st_Conditions (k_Status n)) (st_Conditions (k_Status n'))
     \<and> st_Ready (k_Status n') = st_Ready (k_Status n)
     \<and> st_VSwitches (k_Status n') = or_else (pl_vsw p) (st_VSwitches (k_Status n))
     \<and> st_SecurityGroups (k_Status n') = or_else (pl_sgs p) (st_SecurityGroups (k_Status n))
     \<and> st_Images (k_Status n') = or_else (pl_img p) (st_Images (k_Status n))
     \<and> st_RAMRole (k_Status n') = or_else (pl_role p) (st_RAMRole (k_Status n))"

lemma plan_of_sets_fields [simp]:
  "pl_sets (plan_of_sets s) = s" "pl_vsw (plan_of_sets s) = None" "pl_sgs (plan_of_sets s) = None"
  "pl_img (plan_of_sets s) = None" "pl_role (plan_of_sets s) = None"
  by (simp_all add: plan_of_sets_def)

lemma or_else_or_opt [simp]: "or_else (or_opt a b) d = or_else a (or_else b d)"
  by (simp add: or_else_def or_opt_def split: option.split)

lemma or_else_idem [simp]: "or_else a (or_else a d) = or_else a d"
  by (simp add: or_else_def split: option.split)

lemma realises_spec: "realises p n n' \<Longrightarrow> k_Spec n' = k_Spec n"
  by (simp add: realises_def)

lemma realises_then: "realises p a b \<Longrightarrow> realises q b c \<Longrightarrow> realises (plan_then p q) a c"
  unfolding realises_def plan_then_def
  by (elim conjE, intro conjI) (auto intro: cond_seq_append)

lemma realises_setCondition:
  "realises (plan_of_sets [(t, st, r, m)]) n (setCondition now t st r m n)"
  by (auto simp: realises_def setCondition_def)

lemma realises_set_failed:
  "realises (plan_of_sets (failed_sets t r m rm)) n (set_failed now t r m rm n)"
  by (auto simp: realises_def setCondition_def set_failed_def failed_sets_def)

lemma realises_set_vswitches:
  "realises ((plan_of_sets [(t, st, r, m)])\<lparr>pl_vsw := Some vs\<rparr>) n
     (setCondition now t st r m (n\<lparr>k_Status := (k_Status n)\<lparr>st_VSwitches := vs\<rparr>\<rparr>))"
  by (auto simp: realises_def setCondition_def)

lemma realises_set_groups:
  "realises ((plan_of_sets [(t, st, r, m)])\<lparr>pl_sgs := Some gs\<rparr>) n
     (setCondition now t st r m (n\<lparr>k_Status := (k_Status n)\<lparr>st_SecurityGroups := gs\<rparr>\<rparr>))"
  by (auto simp: realises_def setCondition_def)

lemma realises_set_images:
  "realises ((plan_of_sets [(t, st, r, m)])\<lparr>pl_img := Some is'\<rparr>) n
     (setCondition now t st r m (n\<lparr>k_Status := (k_Status n)\<lparr>st_Images := is'\<rparr>\<rparr>))"
  by (auto simp: realises_def setCondition_def)

lemma realises_role_resolved: "realises (role_ok_plan (k_Spec n)) n (role_resolved now n)"
  by (auto simp: realises_def setCondition_def role_resolved_def role_ok_plan_def)

lemmas realises_steps = realises_setCondition realises_set_failed realises_set_vswitches realises_set_groups
  realises_set_images realises_role_resolved

lemma vswitches_step_plan:
  "vswitches_step env n w = (n', e, w') \<Longrightarrow> fst (se_vswitches env (nc_VSwitchSelectorTerms (k_Spec n)) w) = ans \<Longrightarrow>
     \<exists>p. vswitches_plan ans = (p, e) \<and> realises p n n'"
  by (auto simp: vswitches_step_def vswitches_plan_def simp del: append.simps intro: realises_steps split: prod.splits sum.splits if_splits)

lemma groups_step_plan:
  "groups_step env n e0 w = (n', e, w') \<Longrightarrow> fst (se_groups env (nc_SecurityGroupSelectorTerms (k_Spec n)) w) = ans \<Longrightarrow>
     \<exists>p. groups_plan ans e0 = (p, e) \<and> realises p n n'"
  by (auto simp: groups_step_def groups_plan_def simp del: append.simps intro: realises_steps split: prod.splits sum.splits if_splits option.splits)

lemma images_step_plan:
  "images_step env n e0 w = (n', e, w') \<Longrightarrow> fst (se_images env (nc_ImageSelectorTerms (k_Spec n)) w) = ans \<Longrightarrow>
     \<exists>p. images_plan ans e0 = (p, e) \<and> realises p n n'"
  by (auto simp: images_step_def images_plan_def simp del: append.simps intro: realises_steps split: prod.splits sum.splits if_splits)

lemma selector_resources_plan:
  assumes "answering env a" "resolveSelectorResources env n w = (n', e, w')"
  shows "\<exists>p. selector_plan a (k_Spec n) = (p, e) \<and> realises p n n'"
proof -
  obtain n1 e1 w1 n2 e2 w2 where s: "vswitches_step env n w = (n1, e1, w1)"
    "groups_step env n1 e1 w1 = (n2, e2, w2)" "images_step env n2 e2 w2 = (n', e, w')"
    using assms(2) by (auto simp: resolveSelectorResources_def split: prod.splits)
  obtain p1 where p1: "vswitches_plan (an_vswitches a (nc_VSwitchSelectorTerms (k_Spec n))) = (p1, e1)" "realises p1 n n1"
    using vswitches_step_plan [OF s(1)] assms(1) by (auto simp: answering_def)
  obtain p2 where p2: "groups_plan (an_groups a (nc_SecurityGroupSelectorTerms (k_Spec n1))) e1 = (p2, e2)" "realises p2 n1 n2"
    using groups_step_plan [OF s(2)] assms(1) by (auto simp: answering_def)
  obtain p3 where p3: "images_plan (an_images a (nc_ImageSelectorTerms (k_Spec n2))) e2 = (p3, e)" "realises p3 n2 n'"
    using images_step_plan [OF s(3)] assms(1) by (auto simp: answering_def)
  have sp: "k_Spec n1 = k_Spec n" "k_Spec n2 = k_Spec n"
    using p1(2) p2(2) by (simp_all add: realises_spec)
  have "realises (plan_then (plan_then p1 p2) p3) n n'"
    using realises_then [OF realises_then [OF p1(2) p2(2)] p3(2)] .
  with p1(1) p2(1) p3(1) show ?thesis by (simp add: selector_plan_def sp)
qed

lemma lt_failed_plan:
  "realises ((plan_of_sets (failed_sets ConditionTypeVSwitchResolved ''LaunchTemplateResolutionFailed'' m
       ''Launch template VSwitch resolution failed''))\<lparr>pl_img := Some is'\<rparr>) n
     (lt_failed now m (n\<lparr>k_Status := (k_Status n)\<lparr>st_Images := is'\<rparr>\<rparr>))"
  by (auto simp: realises_def setCondition_def set_failed_def failed_sets_def lt_failed_def)

lemma lt_error_realises:
  "realises (lt_error_plan m) n (setSelectorConditionsFromLaunchTemplateError now m n)"
  by (simp add: realises_def setCondition_def lt_error_plan_def setSelectorConditionsFromLaunchTemplateError_def
      cond_seq_simps) blast

lemma lt_resolved_realises:
  "realises \<lparr>pl_sets = [(ConditionTypeVSwitchResolved, ConditionTrue, ''LaunchTemplateResolved'',
                  ''Resolved VSwitch from launch template''),
                (ConditionTypeSecurityGroupResolved, ConditionTrue, ''LaunchTemplateResolved'',
                  ''Resolved '' @ itoa (int (length (ltd_SecurityGroupIDs data))) @ '' SecurityGroups from launch template''),
                (ConditionTypeImageResolved, ConditionTrue, ''LaunchTemplateResolved'',
                  ''Resolved Image from launch template'')],
              pl_vsw = Some vs, pl_sgs = Some (List.map (\<lambda>ident. \<lparr>sg_ID = ident, sg_Name = ''''\<rparr>) (ltd_SecurityGroupIDs data)),
              pl_img = Some is', pl_role = None\<rparr> n
     (lt_resolved now data vs (n\<lparr>k_Status := (k_Status n)\<lparr>st_Images := is'\<rparr>\<rparr>))"
  by (auto simp: realises_def setCondition_def lt_resolved_def simp del: append.simps)

lemma launch_template_plan:
  assumes "answering env a" "resolveLaunchTemplate env ident n w = (n', e, w')"
  shows "\<exists>p. lt_plan a (k_Spec n) ident = (p, e) \<and> realises p n n'"
proof (cases "se_data env")
  case None
  then have "an_data a = None" using assms(1) by (auto simp: answering_def split: option.splits)
  with None assms(2) show ?thesis
    by (auto simp: resolveLaunchTemplate_def lt_plan_def lt_error_realises)
next
  case (Some f)
  then obtain g where g: "an_data a = Some g" "\<And>i v w. fst (f i v w) = g i v"
    using assms(1) by (auto simp: answering_def split: option.splits)
  obtain r w1 where f: "f ident (nc_LaunchTemplateVersion (k_Spec n)) w = (r, w1)" by (metis surj_pair)
  have r: "g ident (nc_LaunchTemplateVersion (k_Spec n)) = r" using f g(2) by (metis fst_conv)
  show ?thesis
  proof (cases r)
    case (Inl err)
    with assms(2) Some g(1) f r show ?thesis
      by (auto simp: resolveLaunchTemplate_def lt_plan_def simp del: append.simps intro: lt_error_realises)
  next
    case (Inr data)
    show ?thesis
    proof (cases "ltd_ImageID data = '''' \<or> ltd_VSwitchID data = '''' \<or> ltd_SecurityGroupIDs data = []")
      case True
      with assms(2) Some g(1) f r Inr show ?thesis
        by (auto simp: resolveLaunchTemplate_def lt_plan_def lt_error_realises)
    next
      case False
      obtain q w2 where q: "se_vswitches env [lt_vswitch_term (ltd_VSwitchID data)] w1 = (q, w2)" by (metis surj_pair)
      then have aq: "an_vswitches a [lt_vswitch_term (ltd_VSwitchID data)] = q"
        using assms(1) by (metis answering_def fst_conv)
      have "lt_plan a (k_Spec n) ident = lt_vswitch_plan q data"
        using False g(1) r Inr by (auto simp: lt_plan_def aq)
      moreover have "\<exists>p. lt_vswitch_plan q data = (p, e) \<and> realises p n n'"
        using assms(2) Some f Inr False q
        by (cases q) (auto simp: resolveLaunchTemplate_def lt_vswitch_plan_def Let_def simp del: append.simps
            intro: lt_failed_plan lt_resolved_realises split: if_splits)
      ultimately show ?thesis by simp
    qed
  qed
qed

lemma role_step_plan:
  assumes "answering env a" "role_step env n e0 w = (r, w')"
  shows "\<exists>p e n'. r = Some (n', e) \<and> role_plan a (k_Spec n) e0 = (p, e) \<and> realises p n n'"
proof (cases "nc_Role (k_Spec n)")
  case None
  with assms(2) show ?thesis by (auto simp: role_step_def role_plan_def realises_steps)
next
  case (Some role)
  obtain q w1 where q: "se_role env role w = (q, w1)" by (metis surj_pair)
  then have "q = Some (an_role a role)" using assms(1) by (metis answering_def fst_conv)
  with assms(2) Some q show ?thesis
    by (auto simp: role_step_def role_plan_def Let_def simp del: append.simps intro: realises_steps split: if_splits)
qed

lemma resources_realised:
  assumes "answering env a" "resolve_phase env n w = (r, w')"
  obtains p e n2 where "resources_plan a (k_Spec n) = (p, e)" "realises p n n2"
    "r = Some (ready_step (se_now env w') n2, e)"
proof -
  let ?call = "case nc_LaunchTemplateID (k_Spec n) of
              Some ident \<Rightarrow> resolveLaunchTemplate env ident n w | None \<Rightarrow> resolveSelectorResources env n w"
  obtain n1 e1 w1 where c: "?call = (n1, e1, w1)" by (metis surj_pair)
  obtain p1 where p1: "(case nc_LaunchTemplateID (k_Spec n) of Some ident \<Rightarrow> lt_plan a (k_Spec n) ident
        | None \<Rightarrow> selector_plan a (k_Spec n)) = (p1, e1)" "realises p1 n n1"
  proof (cases "nc_LaunchTemplateID (k_Spec n)")
    case None
    with c selector_resources_plan [OF assms(1), of n w n1 e1 w1] show thesis using that by auto
  next
    case (Some ident)
    with c launch_template_plan [OF assms(1), of ident n w n1 e1 w1] show thesis using that by auto
  qed
  obtain r2 w2 where rs: "role_step env n1 e1 w1 = (r2, w2)" by (metis surj_pair)
  from role_step_plan [OF assms(1) rs] obtain p2 e2 n2 where p2: "r2 = Some (n2, e2)"
    "role_plan a (k_Spec n1) e1 = (p2, e2)" "realises p2 n1 n2" by blast
  have "resources_plan a (k_Spec n) = (plan_then p1 p2, e2)"
    using p1(1) p2(2) realises_spec [OF p1(2)] by (simp add: resources_plan_def)
  moreover have "realises (plan_then p1 p2) n n2" using realises_then [OF p1(2) p2(3)] .
  moreover have "r = Some (ready_step (se_now env w') n2, e2)"
    using assms(2) unfolding resolve_phase_def c by (auto simp: rs p2(1))
  ultimately show thesis using that by blast
qed

section \<open>Conditions after a sequence of settings\<close>

definition status_of :: "Condition list \<Rightarrow> string \<Rightarrow> ConditionStatus option" where
  "status_of cs t = map_option cond_Status (find (\<lambda>c. cond_Type c = t) cs)"

lemma status_of_set_cond: "status_of (set_cond now t st r m cs) t' = (if t' = t then Some st else status_of cs t')"
  by (induction now t st r m cs rule: set_cond.induct) (auto simp: status_of_def)

definition consistent :: "cond_set list \<Rightarrow> bool" where
  "consistent ops \<longleftrightarrow> (\<forall>t st r m st' r' m'. (t, st, r, m) \<in> set ops \<longrightarrow> (t, st', r', m') \<in> set ops \<longrightarrow> st = st')"

lemma consistentD: "consistent ops \<Longrightarrow> (t, st, r, m) \<in> set ops \<Longrightarrow> (t, st', r', m') \<in> set ops \<Longrightarrow> st = st'"
  unfolding consistent_def by blast

lemma consistent_tl: "consistent (x # ops) \<Longrightarrow> consistent ops"
  unfolding consistent_def by (meson list.set_intros(2))

lemma status_of_untouched: "cond_seq ops cs cs' \<Longrightarrow> t \<notin> fst ` set ops \<Longrightarrow> status_of cs' t = status_of cs t"
  by (induction rule: cond_seq.induct) (auto simp: status_of_set_cond)

lemma status_of_touched:
  "cond_seq ops cs cs' \<Longrightarrow> consistent ops \<Longrightarrow> \<exists>r m. (t, st, r, m) \<in> set ops \<Longrightarrow> status_of cs' t = Some st"
proof (induction rule: cond_seq.induct)
  case (cond_seq_Cons ops now ty st' reason message cs cs')
  have c: "consistent ops" using cond_seq_Cons.prems(1) by (rule consistent_tl)
  show ?case
  proof (cases "\<exists>st r m. (t, st, r, m) \<in> set ops")
    case True
    then obtain st1 r1 m1 where o1: "(t, st1, r1, m1) \<in> set ops" by blast
    obtain r m where "(t, st, r, m) \<in> set ((ty, st', reason, message) # ops)" using cond_seq_Cons.prems(2) by blast
    from consistentD [OF cond_seq_Cons.prems(1) list.set_intros(2) [OF o1] this] have "st1 = st" .
    with cond_seq_Cons.IH [OF c] o1 show ?thesis by blast
  next
    case False
    then have "t \<notin> fst ` set ops" by auto
    from status_of_untouched [OF cond_seq_Cons.hyps this] False cond_seq_Cons.prems(2) show ?thesis
      by (simp add: status_of_set_cond)
  qed
qed simp

text \<open>Repeating the settings changes nothing: no text and no transition time.\<close>

fun set_opt :: "time_ns \<Rightarrow> cond_set \<Rightarrow> Condition option \<Rightarrow> Condition option" where
  "set_opt now (t, st, r, m) None = Some \<lparr>cond_Type = t, cond_Status = st, cond_Reason = r, cond_Message = m,
     cond_ObservedGeneration = 0, cond_LastTransitionTime = now\<rparr>"
| "set_opt now (t, st, r, m) (Some c) = Some (if cond_Status c = st then c\<lparr>cond_Reason := r, cond_Message := m\<rparr>
     else c\<lparr>cond_Status := st, cond_Reason := r, cond_Message := m, cond_LastTransitionTime := now\<rparr>)"

lemma find_set_cond: "find (\<lambda>c. cond_Type c = t') (set_cond now t st r m cs) =
    (if t' = t then set_opt now (t, st, r, m) (find (\<lambda>c. cond_Type c = t') cs) else find (\<lambda>c. cond_Type c = t') cs)"
  by (induction now t st r m cs rule: set_cond.induct) auto

lemma types_set_cond: "List.map cond_Type (set_cond now t st r m cs) =
    List.map cond_Type cs @ (if t \<in> cond_Type ` set cs then [] else [t])"
  by (induction now t st r m cs rule: set_cond.induct) auto

lemma set_types_set_cond: "cond_Type ` set (set_cond now t st r m cs) = insert t (cond_Type ` set cs)"
  by (induction now t st r m cs rule: set_cond.induct) auto

lemma types_cond_seq:
  "cond_seq ops cs cs' \<Longrightarrow> distinct (List.map cond_Type cs) \<Longrightarrow>
     distinct (List.map cond_Type cs') \<and> cond_Type ` set cs' = cond_Type ` set cs \<union> fst ` set ops"
proof (induction rule: cond_seq.induct)
  case (cond_seq_Cons ops now ty st reason message cs cs')
  have t: "distinct (List.map cond_Type (set_cond now ty st reason message cs))"
    using cond_seq_Cons.prems by (auto simp: types_set_cond)
  have "cond_Type ` set (set_cond now ty st reason message cs) = insert ty (cond_Type ` set cs)"
    by (rule set_types_set_cond)
  with cond_seq_Cons.IH [OF t] show ?case by auto
qed simp

text \<open>After a sequence, the condition of a type carries the last text set for it.\<close>

definition last_set :: "cond_set list \<Rightarrow> string \<Rightarrow> cond_set option" where
  "last_set ops t = find (\<lambda>op. fst op = t) (rev ops)"

lemma find_append: "find P (xs @ ys) = (case find P xs of Some x \<Rightarrow> Some x | None \<Rightarrow> find P ys)"
  by (induction xs) auto

lemma last_set_Cons: "last_set (op # ops) t =
    (case last_set ops t of Some x \<Rightarrow> Some x | None \<Rightarrow> if fst op = t then Some op else None)"
  by (simp add: last_set_def find_append split: option.split)

abbreviation cond_of :: "Condition list \<Rightarrow> string \<Rightarrow> Condition option" where
  "cond_of cs t \<equiv> find (\<lambda>c. cond_Type c = t) cs"

lemma last_set_None: "last_set ops t = None \<longleftrightarrow> t \<notin> fst ` set ops"
  by (force simp: last_set_def find_None_iff)

lemma last_set_Some: "last_set ops t = Some x \<Longrightarrow> x \<in> set ops \<and> fst x = t"
  by (auto simp: last_set_def find_Some_iff) (metis nth_mem set_rev length_rev)

lemma cond_of_untouched: "cond_seq ops cs cs' \<Longrightarrow> t \<notin> fst ` set ops \<Longrightarrow> cond_of cs' t = cond_of cs t"
  by (induction rule: cond_seq.induct) (auto simp: find_set_cond)

lemma cond_of_last:
  "cond_seq ops cs cs' \<Longrightarrow> consistent ops \<Longrightarrow> last_set ops t = Some (t, st, r, m) \<Longrightarrow>
     \<exists>c. cond_of cs' t = Some c \<and> cond_Status c = st \<and> cond_Reason c = r \<and> cond_Message c = m"
proof (induction rule: cond_seq.induct)
  case (cond_seq_Cons ops now ty st' reason message cs cs')
  show ?case
  proof (cases "last_set ops t")
    case None
    with cond_seq_Cons.prems(2) have "ty = t" "st' = st" "reason = r" "message = m"
      by (auto simp: last_set_Cons split: if_splits)
    moreover have "cond_of cs' t = cond_of (set_cond now ty st' reason message cs) t"
      using cond_of_untouched [OF cond_seq_Cons.hyps] None by (simp add: last_set_None)
    ultimately show ?thesis by (cases "cond_of cs t") (auto simp: find_set_cond)
  next
    case (Some x)
    with cond_seq_Cons show ?thesis by (auto simp: last_set_Cons dest: consistent_tl)
  qed
qed (simp add: last_set_def)

lemma cond_of_again:
  "cond_seq ops cs cs' \<Longrightarrow> (\<And>t st r m. (t, st, r, m) \<in> set ops \<Longrightarrow> status_of cs t = Some st) \<Longrightarrow>
     List.map cond_Type cs' = List.map cond_Type cs \<and>
     cond_of cs' t = (case last_set ops t of None \<Rightarrow> cond_of cs t
        | Some (_, st, r, m) \<Rightarrow> map_option (\<lambda>c. c\<lparr>cond_Reason := r, cond_Message := m\<rparr>) (cond_of cs t))"
proof (induction rule: cond_seq.induct)
  case (cond_seq_Cons ops now ty st reason message cs cs')
  let ?cs1 = "set_cond now ty st reason message cs"
  have s: "status_of cs ty = Some st" by (rule cond_seq_Cons.prems [OF list.set_intros(1)])
  then obtain c where c: "cond_of cs ty = Some c" "cond_Status c = st" by (auto simp: status_of_def)
  then have ty: "ty \<in> cond_Type ` set cs" by (auto simp: find_Some_iff)
  have "status_of ?cs1 t' = Some st'" if "(t', st', r', m') \<in> set ops" for t' st' r' m'
    using cond_seq_Cons.prems [of t' st' r' m'] that s by (auto simp: status_of_set_cond)
  from cond_seq_Cons.IH [OF this]
  have ih: "List.map cond_Type cs' = List.map cond_Type ?cs1"
    "cond_of cs' t = (case last_set ops t of None \<Rightarrow> cond_of ?cs1 t
        | Some (_, st, r, m) \<Rightarrow> map_option (\<lambda>c. c\<lparr>cond_Reason := r, cond_Message := m\<rparr>) (cond_of ?cs1 t))" by auto
  show ?case using ih ty c by (auto simp: types_set_cond last_set_Cons find_set_cond split: option.split)
qed (simp add: last_set_def)

lemma cond_list_eq:
  assumes "distinct (List.map cond_Type cs)" "List.map cond_Type cs' = List.map cond_Type cs"
    and "\<And>t. cond_of cs' t = cond_of cs t"
  shows "cs' = cs"
proof (rule nth_equalityI)
  show len: "length cs' = length cs" using assms(2) by (metis length_map)
  fix i assume i: "i < length cs'"
  have key: "cond_of l (cond_Type (l ! i)) = Some (l ! i)" if "distinct (List.map cond_Type l)" "i < length l" for l
    using that by (auto simp: find_Some_iff distinct_conv_nth intro!: exI [of _ i])
  have "cond_Type (cs' ! i) = cond_Type (cs ! i)" using assms(2) i len by (metis nth_map)
  with key [of cs] key [of cs'] assms i len show "cs' ! i = cs ! i" by (metis option.inject)
qed

lemma cond_seq_idem:
  assumes "cond_seq ops cs cs'" "cond_seq ops cs' cs''" "consistent ops" "distinct (List.map cond_Type cs)"
  shows "cs'' = cs'"
proof (rule cond_list_eq)
  show "distinct (List.map cond_Type cs')" using types_cond_seq [OF assms(1,4)] by blast
  have st: "status_of cs' t = Some s" if "(t, s, r, m) \<in> set ops" for t s r m
    using status_of_touched [OF assms(1,3)] that by blast
  have again: "List.map cond_Type cs'' = List.map cond_Type cs' \<and>
     cond_of cs'' t = (case last_set ops t of None \<Rightarrow> cond_of cs' t
        | Some (_, st, r, m) \<Rightarrow> map_option (\<lambda>c. c\<lparr>cond_Reason := r, cond_Message := m\<rparr>) (cond_of cs' t))" for t
    by (rule cond_of_again [OF assms(2)]) (rule st)
  show "List.map cond_Type cs'' = List.map cond_Type cs'" using again by blast
  fix t
  show "cond_of cs'' t = cond_of cs' t"
  proof (cases "last_set ops t")
    case None
    then show ?thesis using again [of t] by simp
  next
    case (Some x)
    then obtain s r m where x: "x = (t, s, r, m)" using last_set_Some by (metis prod.collapse)
    from cond_of_last [OF assms(1,3)] Some x obtain c where "cond_of cs' t = Some c" "cond_Reason c = r" "cond_Message c = m"
      by blast
    then show ?thesis using again [of t] Some x by simp
  qed
qed

section \<open>What a plan sets\<close>

text \<open>
  A plan for the resources T that starts with the error e0 and ends with the error e:
  without an error every resource is set to true, with a new one some resource
  and Ready are set to false.
\<close>

definition good_plan :: "string set \<Rightarrow> StatusPlan \<Rightarrow> string option \<Rightarrow> string option \<Rightarrow> bool" where
  "good_plan T p e0 e \<longleftrightarrow> consistent (pl_sets p)
     \<and> (\<forall>t st r m. (t, st, r, m) \<in> set (pl_sets p) \<longrightarrow> t \<in> T \<or> t = ConditionTypeReady \<and> st = ConditionFalse)
     \<and> (e = None \<longrightarrow> e0 = None \<and> (\<forall>t \<in> T. \<exists>r m. (t, ConditionTrue, r, m) \<in> set (pl_sets p))
          \<and> (\<forall>st r m. (ConditionTypeReady, st, r, m) \<notin> set (pl_sets p)))
     \<and> (e \<noteq> None \<longrightarrow> e0 \<noteq> None \<or> (\<exists>t \<in> T. \<exists>r m. (t, ConditionFalse, r, m) \<in> set (pl_sets p))
          \<and> (\<exists>r m. (ConditionTypeReady, ConditionFalse, r, m) \<in> set (pl_sets p)))"

lemma types_differ [simp]:
  "ConditionTypeVSwitchResolved \<noteq> ConditionTypeReady" "ConditionTypeSecurityGroupResolved \<noteq> ConditionTypeReady"
  "ConditionTypeImageResolved \<noteq> ConditionTypeReady" "ConditionTypeRAMRoleResolved \<noteq> ConditionTypeReady"
  "ConditionTypeVSwitchResolved \<noteq> ConditionTypeSecurityGroupResolved"
  "ConditionTypeVSwitchResolved \<noteq> ConditionTypeImageResolved"
  "ConditionTypeVSwitchResolved \<noteq> ConditionTypeRAMRoleResolved"
  "ConditionTypeSecurityGroupResolved \<noteq> ConditionTypeImageResolved"
  "ConditionTypeSecurityGroupResolved \<noteq> ConditionTypeRAMRoleResolved"
  "ConditionTypeImageResolved \<noteq> ConditionTypeRAMRoleResolved"
  by (simp_all add: condition_types)

lemmas types_differ' [simp] = types_differ [symmetric]

lemma good_failed: "t \<noteq> ConditionTypeReady \<Longrightarrow> pl_sets p = failed_sets t r m rm \<Longrightarrow> good_plan {t} p e0 (first_error e0 e)"
  by (auto simp: good_plan_def failed_sets_def consistent_def first_error_def split: option.split)

lemma good_set: "t \<noteq> ConditionTypeReady \<Longrightarrow> pl_sets p = [(t, ConditionTrue, r, m)] \<Longrightarrow> good_plan {t} p e e"
  by (auto simp: good_plan_def consistent_def)

lemma good_then:
  assumes "good_plan T p e0 e1" "good_plan U q e1 e2" "T \<inter> U = {}" "ConditionTypeReady \<notin> T \<union> U"
  shows "good_plan (T \<union> U) (plan_then p q) e0 e2"
proof -
  have k: "(t, s, r, m) \<in> set (pl_sets p) \<Longrightarrow> t \<in> T \<or> t = ConditionTypeReady \<and> s = ConditionFalse"
    "(t, s, r, m) \<in> set (pl_sets q) \<Longrightarrow> t \<in> U \<or> t = ConditionTypeReady \<and> s = ConditionFalse" for t s r m
    using assms(1,2) unfolding good_plan_def by blast+
  have "consistent (pl_sets p @ pl_sets q)"
    unfolding consistent_def
  proof (intro allI impI)
    fix t st r m st' r' m'
    assume a: "(t, st, r, m) \<in> set (pl_sets p @ pl_sets q)" "(t, st', r', m') \<in> set (pl_sets p @ pl_sets q)"
    have c: "consistent (pl_sets p)" "consistent (pl_sets q)" using assms by (simp_all add: good_plan_def)
    show "st = st'"
      using a k(1) [of t st r m] k(1) [of t st' r' m'] k(2) [of t st r m] k(2) [of t st' r' m'] assms(3,4)
        consistentD [OF c(1), of t st r m st' r' m'] consistentD [OF c(2), of t st r m st' r' m'] by auto
  qed
  moreover have "\<forall>t st r m. (t, st, r, m) \<in> set (pl_sets p @ pl_sets q) \<longrightarrow>
      t \<in> T \<union> U \<or> t = ConditionTypeReady \<and> st = ConditionFalse"
    using k by (metis Un_iff set_append)
  moreover have "e0 = None \<and> (\<forall>t \<in> T \<union> U. \<exists>r m. (t, ConditionTrue, r, m) \<in> set (pl_sets p @ pl_sets q))
      \<and> (\<forall>st r m. (ConditionTypeReady, st, r, m) \<notin> set (pl_sets p @ pl_sets q))" if "e2 = None"
  proof -
    have "e1 = None" "\<forall>t \<in> U. \<exists>r m. (t, ConditionTrue, r, m) \<in> set (pl_sets q)"
      "\<forall>st r m. (ConditionTypeReady, st, r, m) \<notin> set (pl_sets q)"
      using assms(2) that unfolding good_plan_def by blast+
    moreover from this have "e0 = None" "\<forall>t \<in> T. \<exists>r m. (t, ConditionTrue, r, m) \<in> set (pl_sets p)"
      "\<forall>st r m. (ConditionTypeReady, st, r, m) \<notin> set (pl_sets p)"
      using assms(1) unfolding good_plan_def by blast+
    ultimately show ?thesis unfolding set_append by blast
  qed
  moreover have "e0 \<noteq> None \<or> (\<exists>t \<in> T \<union> U. \<exists>r m. (t, ConditionFalse, r, m) \<in> set (pl_sets p @ pl_sets q))
      \<and> (\<exists>r m. (ConditionTypeReady, ConditionFalse, r, m) \<in> set (pl_sets p @ pl_sets q))" if "e2 \<noteq> None"
  proof (cases "e1 = None")
    case True
    then have "(\<exists>t \<in> U. \<exists>r m. (t, ConditionFalse, r, m) \<in> set (pl_sets q))
        \<and> (\<exists>r m. (ConditionTypeReady, ConditionFalse, r, m) \<in> set (pl_sets q))"
      using assms(2) that unfolding good_plan_def by blast
    then show ?thesis unfolding set_append by blast
  next
    case False
    then have "e0 \<noteq> None \<or> (\<exists>t \<in> T. \<exists>r m. (t, ConditionFalse, r, m) \<in> set (pl_sets p))
        \<and> (\<exists>r m. (ConditionTypeReady, ConditionFalse, r, m) \<in> set (pl_sets p))"
      using assms(1) unfolding good_plan_def by blast
    then show ?thesis unfolding set_append by blast
  qed
  ultimately show ?thesis by (simp add: good_plan_def plan_then_def)
qed

lemma good_vswitches: "vswitches_plan ans = (p, e) \<Longrightarrow> good_plan {ConditionTypeVSwitchResolved} p None e"
  using good_failed [of ConditionTypeVSwitchResolved p _ _ _ None] good_set [of ConditionTypeVSwitchResolved p _ _ None]
  by (auto simp: vswitches_plan_def first_error_def simp del: append.simps split: sum.splits if_splits)

lemma good_groups: "groups_plan ans e0 = (p, e) \<Longrightarrow> good_plan {ConditionTypeSecurityGroupResolved} p e0 e"
  by (auto simp: groups_plan_def simp del: append.simps intro!: good_failed good_set
      split: sum.splits if_splits option.splits)

lemma good_images: "images_plan ans e0 = (p, e) \<Longrightarrow> good_plan {ConditionTypeImageResolved} p e0 e"
  by (auto simp: images_plan_def simp del: append.simps intro!: good_failed good_set split: sum.splits if_splits)

lemma good_role: "role_plan a spec e0 = (p, e) \<Longrightarrow> good_plan {ConditionTypeRAMRoleResolved} p e0 e"
  by (auto simp: role_plan_def role_ok_plan_def Let_def simp del: append.simps intro!: good_failed good_set
      split: option.splits if_splits)

definition resource_types :: "string set" where
  "resource_types = {ConditionTypeVSwitchResolved, ConditionTypeSecurityGroupResolved, ConditionTypeImageResolved}"

lemma good_selectors:
  assumes "selector_plan a spec = (p, e)"
  shows "good_plan resource_types p None e"
proof -
  obtain p1 e1 p2 e2 p3 where s: "vswitches_plan (an_vswitches a (nc_VSwitchSelectorTerms spec)) = (p1, e1)"
    "groups_plan (an_groups a (nc_SecurityGroupSelectorTerms spec)) e1 = (p2, e2)"
    "images_plan (an_images a (nc_ImageSelectorTerms spec)) e2 = (p3, e)" "p = plan_then (plan_then p1 p2) p3"
    using assms by (auto simp: selector_plan_def split: prod.splits)
  have "good_plan (({ConditionTypeVSwitchResolved} \<union> {ConditionTypeSecurityGroupResolved}) \<union> {ConditionTypeImageResolved})
      p None e"
    unfolding s(4) by (intro good_then [OF good_then [OF good_vswitches [OF s(1)] good_groups [OF s(2)]] good_images [OF s(3)]])
      simp_all
  then show ?thesis by (simp add: resource_types_def insert_commute)
qed

lemma good_lt_error: "good_plan resource_types (lt_error_plan m) None (Some e)"
  by (auto simp: good_plan_def lt_error_plan_def resource_types_def consistent_def)

lemma good_lt_vswitch: "lt_vswitch_plan ans data = (p, e) \<Longrightarrow> good_plan resource_types p None e"
  by (auto simp: lt_vswitch_plan_def Let_def good_plan_def failed_sets_def resource_types_def consistent_def
      simp del: append.simps split: sum.splits if_splits)

lemma good_lt: "lt_plan a spec ident = (p, e) \<Longrightarrow> good_plan resource_types p None e"
  by (auto simp: lt_plan_def simp del: append.simps intro: good_lt_error good_lt_vswitch
      split: option.splits sum.splits if_splits)

lemma good_resources:
  assumes "resources_plan a spec = (p, e)"
  shows "good_plan (set required_conditions) p None e"
proof -
  obtain p1 e1 p2 where s: "(case nc_LaunchTemplateID spec of Some ident \<Rightarrow> lt_plan a spec ident
      | None \<Rightarrow> selector_plan a spec) = (p1, e1)" "role_plan a spec e1 = (p2, e)" "p = plan_then p1 p2"
    using assms by (auto simp: resources_plan_def split: prod.splits)
  have g: "good_plan resource_types p1 None e1"
    using s(1) by (auto intro: good_lt good_selectors split: option.splits)
  have "good_plan (resource_types \<union> {ConditionTypeRAMRoleResolved}) p None e"
    unfolding s(3) by (intro good_then [OF g good_role [OF s(2)]]) (simp_all add: resource_types_def)
  then show ?thesis by (simp add: resource_types_def required_conditions_def insert_commute)
qed

section \<open>Properties\<close>

lemma isReady_status: "isReady n \<longleftrightarrow>
    (\<forall>t \<in> set required_conditions. status_of (st_Conditions (k_Status n)) t = Some ConditionTrue)"
  by (auto simp: isReady_def getCondition_def status_of_def list_all_iff split: option.splits)

text \<open>
  Statuses in the order of what they allow: False, Unknown, True.  Readiness is the
  minimum of the required conditions, a missing one counting as Unknown.
\<close>

instantiation ConditionStatus :: linorder
begin

definition status_rank :: "ConditionStatus \<Rightarrow> nat" where
  "status_rank s = (case s of ConditionFalse \<Rightarrow> 0 | ConditionUnknown \<Rightarrow> 1 | ConditionTrue \<Rightarrow> 2)"

definition less_eq_ConditionStatus :: "ConditionStatus \<Rightarrow> ConditionStatus \<Rightarrow> bool" where
  "less_eq_ConditionStatus a b \<longleftrightarrow> status_rank a \<le> status_rank b"

definition less_ConditionStatus :: "ConditionStatus \<Rightarrow> ConditionStatus \<Rightarrow> bool" where
  "less_ConditionStatus a b \<longleftrightarrow> status_rank a < status_rank b"

instance
  by standard (auto simp: less_eq_ConditionStatus_def less_ConditionStatus_def status_rank_def
      split: ConditionStatus.splits)

end

lemma ConditionTrue_top [simp]: "s \<le> ConditionTrue" "ConditionTrue \<le> s \<longleftrightarrow> s = ConditionTrue"
  by (cases s; simp add: less_eq_ConditionStatus_def status_rank_def)+

lemma isReady_minimum:
  "isReady n \<longleftrightarrow> Min ((\<lambda>t. or_else (status_of (st_Conditions (k_Status n)) t) ConditionUnknown) `
     set required_conditions) = ConditionTrue"
proof -
  let ?s = "\<lambda>t. or_else (status_of (st_Conditions (k_Status n)) t) ConditionUnknown"
  have "required_conditions \<noteq> []" by (simp add: required_conditions_def)
  then have "ConditionTrue \<le> Min (?s ` set required_conditions) \<longleftrightarrow>
      (\<forall>t \<in> set required_conditions. ConditionTrue \<le> ?s t)" by (subst Min_ge_iff) auto
  moreover have "?s t = ConditionTrue \<longleftrightarrow> status_of (st_Conditions (k_Status n)) t = Some ConditionTrue" for t
    by (cases "status_of (st_Conditions (k_Status n)) t") simp_all
  ultimately show ?thesis by (simp add: isReady_status)
qed

lemma isReady_realised:
  assumes "resources_plan a spec = (p, e)" "realises p n n'"
  shows "isReady n' \<longleftrightarrow> e = None"
proof -
  have g: "good_plan (set required_conditions) p None e" using good_resources [OF assms(1)] .
  then have c: "consistent (pl_sets p)" by (simp add: good_plan_def)
  have cs: "cond_seq (pl_sets p) (st_Conditions (k_Status n)) (st_Conditions (k_Status n'))"
    using assms(2) by (simp add: realises_def)
  show ?thesis
  proof (cases "e = None")
    case True
    then have "\<forall>t \<in> set required_conditions. \<exists>r m. (t, ConditionTrue, r, m) \<in> set (pl_sets p)"
      using g unfolding good_plan_def by blast
    then show ?thesis using True status_of_touched [OF cs c] by (simp add: isReady_status)
  next
    case False
    then obtain t where t: "t \<in> set required_conditions" "\<exists>r m. (t, ConditionFalse, r, m) \<in> set (pl_sets p)"
      using g unfolding good_plan_def by blast
    from status_of_touched [OF cs c t(2)] t(1) False show ?thesis by (auto simp: isReady_status)
  qed
qed

lemma phase_realises:
  assumes "answering env a" "resolve_phase env n w = (r, w')"
  obtains p e n' where "status_plan a (k_Spec n) = (p, e)" "r = Some (n', e)" "realises p n n'"
proof -
  from resources_realised [OF assms] obtain p e n2 where x: "resources_plan a (k_Spec n) = (p, e)" "realises p n n2"
    "r = Some (ready_step (se_now env w') n2, e)" by blast
  show thesis
  proof (cases "e = None")
    case True
    then have ready: "ready_step (se_now env w') n2 =
        setCondition (se_now env w') ConditionTypeReady ConditionTrue ''Ready'' ''ECSNodeClass is ready'' n2"
      using isReady_realised [OF x(1,2)] by (simp add: ready_step_def)
    have "realises (plan_then p (plan_of_sets [(ConditionTypeReady, ConditionTrue, ''Ready'', ''ECSNodeClass is ready'')])) n
        (ready_step (se_now env w') n2)"
      unfolding ready by (rule realises_then [OF x(2) realises_setCondition])
    from that [OF _ x(3) this] show thesis using True x(1) by (simp add: status_plan_def)
  next
    case False
    then have "ready_step (se_now env w') n2 = n2"
      using isReady_realised [OF x(1,2)] by (auto simp: ready_step_def)
    with False x that [of p e n2] show thesis by (auto simp: status_plan_def)
  qed
qed

text \<open>
  C6: The status controller implements its specification: for every node class, clock and
  state, resolving the resources produces exactly the conditions, lists and error of
  the plan computed from the answers of the cloud and the spec alone, and changes nothing
  else of the object.
\<close>
theorem status_refines_plan:
  assumes "answering env a" "resolve_phase env n w = (r, w')"
  shows "\<exists>p e n'. status_plan a (k_Spec n) = (p, e) \<and> r = Some (n', e) \<and> realises p n n'"
  by (rule phase_realises [OF assms]) blast

lemma consistent_status_plan:
  assumes "status_plan a spec = (p, e)"
  shows "consistent (pl_sets p)"
proof -
  obtain q e' where q: "resources_plan a spec = (q, e')" by (metis surj_pair)
  have g: "good_plan (set required_conditions) q None e'" using good_resources [OF q] .
  show ?thesis
  proof (cases "e' = None")
    case True
    then have "consistent (pl_sets q)" "\<forall>st r m. (ConditionTypeReady, st, r, m) \<notin> set (pl_sets q)"
      using g unfolding good_plan_def by blast+
    then have "consistent (pl_sets q @ [(ConditionTypeReady, ConditionTrue, ''Ready'', ''ECSNodeClass is ready'')])"
      unfolding consistent_def set_append by (auto 0 3) blast+
    then show ?thesis using True assms q by (auto simp: status_plan_def plan_then_def)
  next
    case False
    with assms q g show ?thesis by (simp add: status_plan_def good_plan_def)
  qed
qed

text \<open>What a plan without an error puts into the lists.\<close>

lemma plan_then_fields [simp]:
  "pl_vsw (plan_then p q) = or_opt (pl_vsw q) (pl_vsw p)" "pl_sgs (plan_then p q) = or_opt (pl_sgs q) (pl_sgs p)"
  "pl_img (plan_then p q) = or_opt (pl_img q) (pl_img p)" "pl_role (plan_then p q) = or_opt (pl_role q) (pl_role p)"
  by (simp_all add: plan_then_def)

lemma or_opt_simps [simp]: "or_opt (Some x) b = Some x" "or_opt None b = b" "or_opt b None = b"
  by (simp_all add: or_opt_def split: option.split)

definition launchable :: "bool \<Rightarrow> StatusPlan \<Rightarrow> bool" where
  "launchable selectors p \<longleftrightarrow> (\<exists>vs gs ims. pl_vsw p = Some vs \<and> pl_sgs p = Some gs \<and> pl_img p = Some ims
     \<and> vs \<noteq> [] \<and> gs \<noteq> [] \<and> ims \<noteq> [] \<and> (selectors \<longrightarrow> length gs \<le> defaultSecurityGroupAttachLimit))"

lemma selector_plan_launchable: "selector_plan a spec = (p, None) \<Longrightarrow> launchable True p"
  by (auto simp: selector_plan_def vswitches_plan_def groups_plan_def images_plan_def launchable_def first_error_def
      validateResolvedSecurityGroupAttachLimit_def simp del: append.simps
      split: prod.splits sum.splits if_splits option.splits)

lemma lt_plan_launchable: "lt_plan a spec ident = (p, None) \<Longrightarrow> launchable False p"
  by (auto simp: lt_plan_def lt_vswitch_plan_def launchable_def Let_def simp del: append.simps
      split: sum.splits if_splits option.splits)

lemma role_plan_none: "role_plan a spec e = (q, e') \<Longrightarrow> e' = None \<Longrightarrow>
    e = None \<and> pl_role q = Some (nc_Role spec) \<and> pl_vsw q = None \<and> pl_sgs q = None \<and> pl_img q = None"
  by (auto simp: role_plan_def role_ok_plan_def first_error_def Let_def split: option.splits if_splits)

lemma status_plan_launchable:
  assumes "status_plan a spec = (p, None)"
  shows "launchable (nc_LaunchTemplateID spec = None) p \<and> pl_role p = Some (nc_Role spec)"
proof -
  obtain q where q: "resources_plan a spec = (q, None)"
    and p: "p = plan_then q (plan_of_sets [(ConditionTypeReady, ConditionTrue, ''Ready'', ''ECSNodeClass is ready'')])"
    using assms by (cases "resources_plan a spec") (auto simp: status_plan_def split: if_splits)
  obtain p1 e1 p2 where s: "(case nc_LaunchTemplateID spec of Some ident \<Rightarrow> lt_plan a spec ident
      | None \<Rightarrow> selector_plan a spec) = (p1, e1)" "role_plan a spec e1 = (p2, None)" "q = plan_then p1 p2"
    using q by (auto simp: resources_plan_def split: prod.splits)
  note r = role_plan_none [OF s(2) refl]
  have "launchable (nc_LaunchTemplateID spec = None) p1"
    using s(1) r by (auto intro: selector_plan_launchable lt_plan_launchable split: option.splits)
  with r show ?thesis unfolding p s(3) launchable_def by simp
qed

lemma plan_sets_ready:
  assumes "status_plan a spec = (p, None)"
  shows "\<exists>r m. (ConditionTypeReady, ConditionTrue, r, m) \<in> set (pl_sets p)"
proof -
  obtain q where "p = plan_then q (plan_of_sets [(ConditionTypeReady, ConditionTrue, ''Ready'', ''ECSNodeClass is ready'')])"
    using assms by (auto simp: status_plan_def split: prod.splits if_splits)
  then have "(ConditionTypeReady, ConditionTrue, ''Ready'', ''ECSNodeClass is ready'') \<in> set (pl_sets p)"
    by (simp add: plan_then_def)
  then show ?thesis by blast
qed

lemma plan_decides_ready:
  assumes "status_plan a spec = (p, e)"
  shows "\<exists>r m. (ConditionTypeReady, if e = None then ConditionTrue else ConditionFalse, r, m) \<in> set (pl_sets p)"
proof (cases "e = None")
  case True
  with assms plan_sets_ready show ?thesis by simp
next
  case False
  obtain q e' where q: "resources_plan a spec = (q, e')" by (metis surj_pair)
  with assms False have "q = p" "e' = e" by (auto simp: status_plan_def split: if_splits)
  with good_resources [OF q] False show ?thesis unfolding good_plan_def by auto
qed

text \<open>
  C5: Ready means launchable.  After a pass of the status controller the Ready condition is
  true exactly when the pass had no error and false exactly when it had one; and
  when it is true the resolved vswitches, images and security groups are not
  empty, selectors resolved to at most five security groups, and the check of the RAM role
  that Create makes before launching accepts the node class.
\<close>
theorem ready_means_launchable:
  assumes "answering env a" "resolve_phase env n w = (Some (n', e), w')"
  shows "status_of (st_Conditions (k_Status n')) ConditionTypeReady =
      Some (if e = None then ConditionTrue else ConditionFalse)
    \<and> (e = None \<longrightarrow> st_VSwitches (k_Status n') \<noteq> [] \<and> st_Images (k_Status n') \<noteq> []
        \<and> st_SecurityGroups (k_Status n') \<noteq> []
        \<and> (nc_LaunchTemplateID (k_Spec n) = None \<longrightarrow>
             length (st_SecurityGroups (k_Status n')) \<le> defaultSecurityGroupAttachLimit)
        \<and> validateRAMRoleForCreate n' = Inr (or_else (nc_Role (k_Spec n)) ''''))"
proof -
  from phase_realises [OF assms] obtain p where p: "status_plan a (k_Spec n) = (p, e)" "realises p n n'" by blast
  have cs: "cond_seq (pl_sets p) (st_Conditions (k_Status n)) (st_Conditions (k_Status n'))"
    using p(2) by (simp add: realises_def)
  from status_of_touched [OF cs consistent_status_plan [OF p(1)] plan_decides_ready [OF p(1)]]
  show ?thesis
  proof (intro conjI impI)
    assume "e = None"
    with p(1) status_plan_launchable have l: "launchable (nc_LaunchTemplateID (k_Spec n) = None) p"
      "pl_role p = Some (nc_Role (k_Spec n))" by blast+
    then obtain vs gs ims where v: "pl_vsw p = Some vs" "pl_sgs p = Some gs" "pl_img p = Some ims" "vs \<noteq> []" "gs \<noteq> []"
      "ims \<noteq> []" "nc_LaunchTemplateID (k_Spec n) = None \<longrightarrow> length gs \<le> defaultSecurityGroupAttachLimit"
      unfolding launchable_def by (elim exE conjE)
    show "st_VSwitches (k_Status n') \<noteq> []" "st_Images (k_Status n') \<noteq> []" "st_SecurityGroups (k_Status n') \<noteq> []"
      using p(2) v by (simp_all add: realises_def)
    show "nc_LaunchTemplateID (k_Spec n) = None \<Longrightarrow>
        length (st_SecurityGroups (k_Status n')) \<le> defaultSecurityGroupAttachLimit"
      using p(2) v by (simp add: realises_def)
    show "validateRAMRoleForCreate n' = Inr (or_else (nc_Role (k_Spec n)) '''')"
      using p(2) l(2) by (auto simp: realises_def validateRAMRoleForCreate_def or_else_def split: option.split)
  qed
qed

text \<open>
  A pass over an unchanged cloud changes nothing: when the answers are
  the same as in the pass before, the node class stays equal to what that pass made of it, at
  whatever time, so Reconcile writes nothing, keeps every transition time and asks to be
  called again.
\<close>
theorem status_settles:
  assumes "answering env a" "resolve_phase env n w = (Some (n', e), w')"
    and "distinct (List.map cond_Type (st_Conditions (k_Status n)))"
    and "se_get env name v = (Inr n', v1)"
  shows "\<exists>v2. ReconcileStatus env name v = (requeue_after env e v2, v2)
      \<and> resolve_phase env n' v1 = (Some (n', e), v2)"
proof -
  from phase_realises [OF assms(1,2)] obtain p where p: "status_plan a (k_Spec n) = (p, e)" "realises p n n'" by blast
  obtain r v2 where v2: "resolve_phase env n' v1 = (r, v2)" by (metis surj_pair)
  from phase_realises [OF assms(1) v2] p obtain n'' where n'': "r = Some (n'', e)" "realises p n' n''"
    by (metis realises_spec prod.inject)
  have "st_Conditions (k_Status n'') = st_Conditions (k_Status n')"
    using p(2) n''(2) cond_seq_idem [OF _ _ consistent_status_plan [OF p(1)] assms(3)] by (simp add: realises_def)
  then have "k_Status n'' = k_Status n'"
    using p(2) n''(2) by (intro ECSNodeClassStatus.equality) (simp_all add: realises_def)
  then have "n'' = n'" using p(2) n''(2) by (intro ECSNodeClass.equality) (simp_all add: realises_def)
  with v2 n''(1) assms(4) show ?thesis by (simp add: ReconcileStatus_def)
qed

section \<open>A sample environment\<close>

text \<open>A cloud that always gives the same answers; the state counts the calls and holds the stored object.\<close>

definition sample_answers :: Answers where
  "sample_answers = \<lparr>an_vswitches = (\<lambda>t. Inr sample_vswitches), an_groups = (\<lambda>t. Inr [\<lparr>sg_ID = ''sg-1'', sg_Name = []\<rparr>]),
     an_images = (\<lambda>t. Inr [\<lparr>img_ID = ''m-1'', img_Name = [], img_Architecture = ''x86_64''\<rparr>]),
     an_data = None, an_role = role_valid\<rparr>"

definition answering_env :: "Answers \<Rightarrow> (nat \<times> ECSNodeClass) StatusEnv" where
  "answering_env a = \<lparr>se_get = (\<lambda>name (i, n). (Inr n, (Suc i, n))), se_update = (\<lambda>n (i, old). (None, (Suc i, n))),
     se_vswitches = (\<lambda>t (i, n). (an_vswitches a t, (Suc i, n))), se_groups = (\<lambda>t (i, n). (an_groups a t, (Suc i, n))),
     se_images = (\<lambda>t (i, n). (an_images a t, (Suc i, n))),
     se_data = map_option (\<lambda>g ident v (i, n). (g ident v, (Suc i, n))) (an_data a),
     se_role = (\<lambda>r (i, n). (Some (an_role a r), (Suc i, n))), se_now = (\<lambda>(i, n). int i), se_rand = (\<lambda>m w. 0)\<rparr>"

lemma answering_env_answers: "answering (answering_env a) a"
  by (auto simp: answering_def answering_env_def split: option.split)

lemma sample_plan: "\<exists>p. status_plan sample_answers (k_Spec sample_class) = (p, None)"
  by (simp add: status_plan_def resources_plan_def selector_plan_def vswitches_plan_def groups_plan_def images_plan_def
      role_plan_def sample_answers_def sample_class_def emptySpec_def sample_vswitches_def
      validateResolvedSecurityGroupAttachLimit_def defaultSecurityGroupAttachLimit_def)

lemma sample_phase:
  obtains n' w' where "resolve_phase (answering_env sample_answers) sample_class (0, sample_class) = (Some (n', None), w')"
proof -
  obtain r w' where r: "resolve_phase (answering_env sample_answers) sample_class (0, sample_class) = (r, w')"
    by (metis surj_pair)
  from phase_realises [OF answering_env_answers r] sample_plan obtain n' where "r = Some (n', None)"
    by (metis prod.inject)
  with r that show thesis by blast
qed

theorem status_refines_plan_witness:
  "\<exists>p n' w'. resolve_phase (answering_env sample_answers) sample_class (0, sample_class) = (Some (n', None), w')
     \<and> status_plan sample_answers (k_Spec sample_class) = (p, None) \<and> realises p sample_class n'"
proof -
  obtain n' w' where r: "resolve_phase (answering_env sample_answers) sample_class (0, sample_class) = (Some (n', None), w')"
    by (rule sample_phase)
  from status_refines_plan [OF answering_env_answers r] show ?thesis using r by auto
qed

theorem ready_means_launchable_witness:
  "\<exists>n' w'. resolve_phase (answering_env sample_answers) sample_class (0, sample_class) = (Some (n', None), w')
     \<and> status_of (st_Conditions (k_Status n')) ConditionTypeReady = Some ConditionTrue
     \<and> st_VSwitches (k_Status n') \<noteq> [] \<and> validateRAMRoleForCreate n' = Inr ''''"
proof -
  obtain n' w' where r: "resolve_phase (answering_env sample_answers) sample_class (0, sample_class) = (Some (n', None), w')"
    by (rule sample_phase)
  have "nc_Role (k_Spec sample_class) = None" by (simp add: sample_class_def emptySpec_def)
  with ready_means_launchable [OF answering_env_answers r] r show ?thesis by auto
qed

theorem status_settles_witness:
  "\<exists>n' v2. ReconcileStatus (answering_env sample_answers) ''default'' (7, n') =
       (requeue_after (answering_env sample_answers) None v2, v2) \<and> n' \<noteq> sample_class"
proof -
  obtain n' w' where r: "resolve_phase (answering_env sample_answers) sample_class (0, sample_class) = (Some (n', None), w')"
    by (rule sample_phase)
  have d: "distinct (List.map cond_Type (st_Conditions (k_Status sample_class)))"
    and none: "st_Conditions (k_Status sample_class) = []" by (simp_all add: sample_class_def)
  have g: "se_get (answering_env sample_answers) ''default'' (7, n') = (Inr n', (8, n'))"
    by (simp add: answering_env_def)
  from phase_realises [OF answering_env_answers r] sample_plan obtain p where p: "status_plan sample_answers (k_Spec sample_class) = (p, None)"
    "realises p sample_class n'" by (metis prod.inject option.inject)
  have "n' \<noteq> sample_class"
  proof
    assume "n' = sample_class"
    then have c: "cond_seq (pl_sets p) [] []" using p(2) none by (simp add: realises_def)
    from status_of_touched [OF c consistent_status_plan [OF p(1)] plan_sets_ready [OF p(1)]]
    show False by (simp add: status_of_def)
  qed
  moreover obtain v2 where "ReconcileStatus (answering_env sample_answers) ''default'' (7, n') =
       (requeue_after (answering_env sample_answers) None v2, v2)"
    using status_settles [OF answering_env_answers r d g] by blast
  ultimately show ?thesis by blast
qed

end
