(* ===== verification/StatusWiring.thy ===== *)
theory StatusWiring
  imports StatusSpec
begin

text \<open>
  The status controller wired to the resolvers, the launch template reader and the role
  validator of this development, as pkg/operator/operator.go and
  pkg/controllers/controllers.go wire them, and what the resolved lists then look like.
\<close>

section \<open>Wiring\<close>

record 'w StatusWorld =
  sw_vsw :: "VSwitch ResolverState"
  sw_sgs :: "SecurityGroup ResolverState"
  sw_img :: "Image ResolverState"
  sw_cloud :: 'w

record 'w Wiring =
  wi_sdk :: "'w Sdk"
  wi_region :: string
  wi_moments :: "'w \<Rightarrow> Moments"
  wi_shown_vsw :: "VSwitchSelectorTerm list \<Rightarrow> string"
  wi_shown_sgs :: "SecurityGroupSelectorTerm list \<Rightarrow> string"
  wi_shown_img :: "ImageSelectorTerm list \<Rightarrow> string"
  wi_templates :: "'w LtClient option"
  wi_get_role :: "'w get_role"
  wi_parse :: "string \<Rightarrow> json option"
  wi_clock :: "'w \<Rightarrow> time_ns"
  wi_rand :: "int \<Rightarrow> 'w \<Rightarrow> int"

definition on_cloud :: "('w \<Rightarrow> 'a \<times> 'w) \<Rightarrow> 'w StatusWorld \<Rightarrow> 'a \<times> 'w StatusWorld" where
  "on_cloud f w = (case f (sw_cloud w) of (r, c) \<Rightarrow> (r, w\<lparr>sw_cloud := c\<rparr>))"

definition status_env :: "'w Wiring \<Rightarrow> (string \<Rightarrow> 'w \<Rightarrow> (kube_error + ECSNodeClass) \<times> 'w) \<Rightarrow>
    (ECSNodeClass \<Rightarrow> 'w \<Rightarrow> kube_error option \<times> 'w) \<Rightarrow> 'w StatusWorld StatusEnv" where
  "status_env wi kget kupdate =
     \<lparr>se_get = (\<lambda>n. on_cloud (kget n)), se_update = (\<lambda>n. on_cloud (kupdate n)),
      se_vswitches = (\<lambda>terms w. case ResolveVSwitches (wi_sdk wi) (wi_region wi) (wi_shown_vsw wi)
          (wi_moments wi (sw_cloud w)) terms (sw_vsw w) (sw_cloud w) of
          (r, s, c) \<Rightarrow> (r, w\<lparr>sw_vsw := s, sw_cloud := c\<rparr>)),
      se_groups = (\<lambda>terms w. case ResolveSecurityGroups (wi_sdk wi) (wi_region wi) (wi_shown_sgs wi)
          (wi_moments wi (sw_cloud w)) terms (sw_sgs w) (sw_cloud w) of
          (r, s, c) \<Rightarrow> (r, w\<lparr>sw_sgs := s, sw_cloud := c\<rparr>)),
      se_images = (\<lambda>terms w. case ResolveImages (wi_sdk wi) (wi_region wi) (wi_shown_img wi)
          (wi_moments wi (sw_cloud w)) terms (sw_img w) (sw_cloud w) of
          (r, s, c) \<Rightarrow> (r, w\<lparr>sw_img := s, sw_cloud := c\<rparr>)),
      se_data = map_option (\<lambda>lc i v. on_cloud (lt_GetData lc (wi_region wi) i v)) (wi_templates wi),
      se_role = (\<lambda>r. on_cloud (ValidateRole (wi_get_role wi) (wi_parse wi) r)),
      se_now = (\<lambda>w. wi_clock wi (sw_cloud w)), se_rand = (\<lambda>n w. wi_rand wi n (sw_cloud w))\<rparr>"

section \<open>The contract of the resolvers\<close>

text \<open>Identifiers in increasing order, none empty: what removeDuplicate promises.\<close>

definition wf_ids :: "('i \<Rightarrow> string) \<Rightarrow> 'i list \<Rightarrow> bool" where
  "wf_ids id_of xs \<longleftrightarrow> sorted_wrt (<) (List.map id_of xs) \<and> '''' \<notin> id_of ` set xs"

lemma wf_ids_Nil [simp]: "wf_ids id_of []"
  by (simp add: wf_ids_def)

locale status_resolvers =
  fixes env :: "'w StatusEnv" and ok :: "'w \<Rightarrow> bool"
  assumes vswitches_ok: "ok w \<Longrightarrow> se_vswitches env vt w = (rv, w') \<Longrightarrow> ok w' \<and> (\<forall>vs. rv = Inr vs \<longrightarrow> wf_ids vsw_ID vs)"
    and groups_ok: "ok w \<Longrightarrow> se_groups env gt w = (rg, w') \<Longrightarrow> ok w' \<and> (\<forall>gs. rg = Inr gs \<longrightarrow> wf_ids sg_ID gs)"
    and images_ok: "ok w \<Longrightarrow> se_images env it w = (ri, w') \<Longrightarrow> ok w' \<and> (\<forall>is'. ri = Inr is' \<longrightarrow> wf_ids img_ID is')"
    and data_ok: "ok w \<Longrightarrow> se_data env = Some f \<Longrightarrow> f i v w = (rd, w') \<Longrightarrow> ok w'"
    and role_ok: "ok w \<Longrightarrow> se_role env role w = (rr, w') \<Longrightarrow> ok w'"
begin

definition wf_status :: "ECSNodeClass \<Rightarrow> bool" where
  "wf_status n \<longleftrightarrow> wf_ids vsw_ID (st_VSwitches (k_Status n)) \<and> (nc_LaunchTemplateID (k_Spec n) = None \<longrightarrow>
     wf_ids sg_ID (st_SecurityGroups (k_Status n)) \<and> wf_ids img_ID (st_Images (k_Status n)))"

lemma set_fields [simp]:
  "k_Spec (setCondition now t st r m n) = k_Spec n" "k_Spec (set_failed now t r m rm n) = k_Spec n"
  "st_VSwitches (k_Status (setCondition now t st r m n)) = st_VSwitches (k_Status n)"
  "st_SecurityGroups (k_Status (setCondition now t st r m n)) = st_SecurityGroups (k_Status n)"
  "st_Images (k_Status (setCondition now t st r m n)) = st_Images (k_Status n)"
  "st_VSwitches (k_Status (set_failed now t r m rm n)) = st_VSwitches (k_Status n)"
  "st_SecurityGroups (k_Status (set_failed now t r m rm n)) = st_SecurityGroups (k_Status n)"
  "st_Images (k_Status (set_failed now t r m rm n)) = st_Images (k_Status n)"
  by (simp_all add: setCondition_def set_failed_def)

lemma vswitches_step_wf:
  assumes "vswitches_step env n w = (n', e, w')" "ok w" "wf_status n"
  shows "ok w' \<and> wf_status n'"
proof -
  obtain r w1 where r: "se_vswitches env (nc_VSwitchSelectorTerms (k_Spec n)) w = (r, w1)" by (metis surj_pair)
  from vswitches_ok [OF assms(2) r] assms(1,3) r show ?thesis
    by (auto simp: vswitches_step_def wf_status_def simp del: append.simps split: sum.splits if_splits)
qed

lemma groups_step_wf:
  assumes "groups_step env n e0 w = (n', e, w')" "ok w" "wf_status n"
  shows "ok w' \<and> wf_status n'"
proof -
  obtain r w1 where r: "se_groups env (nc_SecurityGroupSelectorTerms (k_Spec n)) w = (r, w1)" by (metis surj_pair)
  from groups_ok [OF assms(2) r] assms(1,3) r show ?thesis
    by (auto simp: groups_step_def wf_status_def simp del: append.simps split: sum.splits if_splits option.splits)
qed

lemma images_step_wf:
  assumes "images_step env n e0 w = (n', e, w')" "ok w" "wf_status n"
  shows "ok w' \<and> wf_status n'"
proof -
  obtain r w1 where r: "se_images env (nc_ImageSelectorTerms (k_Spec n)) w = (r, w1)" by (metis surj_pair)
  from images_ok [OF assms(2) r] assms(1,3) r show ?thesis
    by (auto simp: images_step_def wf_status_def simp del: append.simps split: sum.splits if_splits)
qed

lemma selectors_wf:
  "resolveSelectorResources env n w = (n', e, w') \<Longrightarrow> ok w \<Longrightarrow> wf_status n \<Longrightarrow> ok w' \<and> wf_status n'"
  by (auto simp: resolveSelectorResources_def split: prod.splits
      dest!: vswitches_step_wf groups_step_wf images_step_wf)

lemma template_wf:
  assumes "resolveLaunchTemplate env ident n w = (n', e, w')" "ok w" "wf_status n" "nc_LaunchTemplateID (k_Spec n) \<noteq> None"
  shows "ok w' \<and> wf_status n'"
proof (cases "se_data env")
  case None
  with assms show ?thesis
    by (auto simp: resolveLaunchTemplate_def wf_status_def setSelectorConditionsFromLaunchTemplateError_def)
next
  case (Some f)
  obtain r w1 where r: "f ident (nc_LaunchTemplateVersion (k_Spec n)) w = (r, w1)" by (metis surj_pair)
  have w1: "ok w1" using data_ok [OF assms(2) Some r] .
  show ?thesis
  proof (cases "\<exists>data. r = Inr data \<and> \<not> (ltd_ImageID data = '''' \<or> ltd_VSwitchID data = '''' \<or> ltd_SecurityGroupIDs data = [])")
    case False
    with assms(1,3) Some r w1 show ?thesis
      by (cases r) (auto simp: resolveLaunchTemplate_def wf_status_def
          setSelectorConditionsFromLaunchTemplateError_def simp del: append.simps)
  next
    case True
    then obtain data where d: "r = Inr data" "\<not> (ltd_ImageID data = '''' \<or> ltd_VSwitchID data = '''' \<or> ltd_SecurityGroupIDs data = [])"
      by blast
    obtain q w2 where q: "se_vswitches env [lt_vswitch_term (ltd_VSwitchID data)] w1 = (q, w2)" by (metis surj_pair)
    from vswitches_ok [OF w1 q] d assms(1,3,4) Some r q show ?thesis
      by (cases q) (auto simp: resolveLaunchTemplate_def wf_status_def lt_failed_def lt_resolved_def Let_def
          simp del: append.simps split: if_splits)
  qed
qed

lemma role_step_wf:
  "role_step env n e0 w = (Some (n', e), w') \<Longrightarrow> ok w \<Longrightarrow> wf_status n \<Longrightarrow> ok w' \<and> wf_status n'"
  by (auto simp: role_step_def role_resolved_def wf_status_def simp del: append.simps dest: role_ok
      split: option.splits prod.splits if_splits)

text \<open>A pass keeps the lists of the status well-formed, and the caches too.\<close>

lemma resolve_phase_wf:
  assumes "resolve_phase env n w = (Some (n', e), w')" "ok w" "wf_status n"
  shows "ok w' \<and> wf_status n'"
proof -
  let ?call = "case nc_LaunchTemplateID (k_Spec n) of
              Some ident \<Rightarrow> resolveLaunchTemplate env ident n w | None \<Rightarrow> resolveSelectorResources env n w"
  obtain n1 e1 w1 where c: "?call = (n1, e1, w1)" by (metis surj_pair)
  have w1: "ok w1 \<and> wf_status n1"
    using c selectors_wf [OF _ assms(2,3)] template_wf [OF _ assms(2,3)] by (auto split: option.splits)
  obtain r2 w2 where rs: "role_step env n1 e1 w1 = (r2, w2)" by (metis surj_pair)
  obtain n2 where r2: "r2 = Some (n2, e)" "n' = ready_step (se_now env w2) n2" "w' = w2"
    using assms(1) unfolding resolve_phase_def c by (auto simp: rs split: option.splits)
  have "ok w2 \<and> wf_status n2" using role_step_wf rs r2(1) w1 by blast
  then show ?thesis unfolding r2 by (simp add: ready_step_def wf_status_def)
qed

end

section \<open>The resolvers fulfil the contract\<close>

definition resolver_ok :: "('i \<Rightarrow> string) \<Rightarrow> 'i ResolverState \<Rightarrow> bool" where
  "resolver_ok id_of s \<longleftrightarrow> (\<forall>(k, e) \<in> set (rs_cache s). wf_ids id_of (Value e))"

definition world_ok :: "'w StatusWorld \<Rightarrow> bool" where
  "world_ok w \<longleftrightarrow> resolver_ok vsw_ID (sw_vsw w) \<and> resolver_ok sg_ID (sw_sgs w) \<and> resolver_ok img_ID (sw_img w)"

lemma resolve_through_wf:
  assumes "resolve_through keep compute key m s w = (r, s', w')" "resolver_ok id_of s"
    and "\<And>v w1. compute w = (Inr v, w1) \<Longrightarrow> wf_ids id_of v"
  shows "resolver_ok id_of s' \<and> (\<forall>v. r = Inr v \<longrightarrow> wf_ids id_of v)"
proof -
  obtain q c where g: "getCachedValue key (at_read m) (at_evict m) (rs_cache s) = (q, c)" by (metis surj_pair)
  note sub = getCachedValue_sub [OF g]
  have c: "\<forall>(k, e) \<in> set c. wf_ids id_of (Value e)" using sub(1) assms(2) by (auto simp: resolver_ok_def)
  show ?thesis
  proof (cases q)
    case (Some v)
    have "wf_ids id_of v" using sub(2) [OF Some] assms(2) by (auto simp: resolver_ok_def)
    with assms(1) g Some c show ?thesis by (auto simp: resolve_through_def resolver_ok_def)
  next
    case None
    obtain v w1 where v: "compute w = (v, w1)" by (metis surj_pair)
    show ?thesis
    proof (cases v)
      case (Inl e)
      with assms(1) g None v c show ?thesis by (auto simp: resolve_through_def resolver_ok_def)
    next
      case (Inr xs)
      have wf: "wf_ids id_of xs" using assms(3) v Inr by simp
      have "\<forall>(k, e) \<in> set (setCachedValue key xs (rs_cacheTTL s) (at_store m) c). wf_ids id_of (Value e)"
        using c wf set_alist_update [of key "\<lparr>Value = xs, ExpiresAt = at_store m + rs_cacheTTL s\<rparr>" c]
        by (auto simp: setCachedValue_def)
      with assms(1) g None v Inr wf c show ?thesis
        by (cases "keep xs") (auto simp: resolve_through_def resolver_ok_def)
    qed
  qed
qed

lemma wf_removeDuplicates:
  "wf_ids vsw_ID (removeDuplicateVSwitches vs)" "wf_ids sg_ID (removeDuplicateSecurityGroups gs)"
  "wf_ids img_ID (removeDuplicateImages ims)"
  using vsw.dedup_sorted vsw.dedup_distinct vsw.dedup_keys sg.dedup_sorted sg.dedup_distinct sg.dedup_keys
    img.dedup_sorted img.dedup_distinct img.dedup_keys
  by (simp_all add: wf_ids_def strict_sorted_iff)

lemma queries_wf:
  "query_vswitches sdk region vt w = (Inr vs, w1) \<Longrightarrow> wf_ids vsw_ID vs"
  "query_groups sdk region gt w = (Inr gs, w1) \<Longrightarrow> wf_ids sg_ID gs"
  "query_images sdk region it w = (Inr ims, w1) \<Longrightarrow> wf_ids img_ID ims"
  by (auto simp: query_vswitches_def query_groups_def query_images_def wf_removeDuplicates
      split: prod.splits sum.splits)

lemma Resolve_wf:
  "ResolveVSwitches sdk region sv m vt sw w = (rv, sw', w') \<Longrightarrow> resolver_ok vsw_ID sw \<Longrightarrow>
     resolver_ok vsw_ID sw' \<and> (\<forall>v. rv = Inr v \<longrightarrow> wf_ids vsw_ID v)"
  "ResolveSecurityGroups sdk region sg m gt ss w = (rg, ss', w') \<Longrightarrow> resolver_ok sg_ID ss \<Longrightarrow>
     resolver_ok sg_ID ss' \<and> (\<forall>v. rg = Inr v \<longrightarrow> wf_ids sg_ID v)"
  "ResolveImages sdk region si m it sm w = (ri, sm', w') \<Longrightarrow> resolver_ok img_ID sm \<Longrightarrow>
     resolver_ok img_ID sm' \<and> (\<forall>v. ri = Inr v \<longrightarrow> wf_ids img_ID v)"
  unfolding ResolveVSwitches_def ResolveSecurityGroups_def ResolveImages_def
  by (auto split: if_splits dest!: resolve_through_wf intro: queries_wf)

interpretation wired: status_resolvers "status_env wi kget kupdate" world_ok
  for wi :: "'w Wiring" and kget kupdate
proof unfold_locales
  fix w w' :: "'w StatusWorld"
  assume ok: "world_ok w"
  show "world_ok w' \<and> (\<forall>vs. rv = Inr vs \<longrightarrow> wf_ids vsw_ID vs)"
    if "se_vswitches (status_env wi kget kupdate) vt w = (rv, w')" for vt rv
    using that ok by (auto simp: status_env_def world_ok_def split: prod.splits dest!: Resolve_wf(1))
  show "world_ok w' \<and> (\<forall>gs. rg = Inr gs \<longrightarrow> wf_ids sg_ID gs)"
    if "se_groups (status_env wi kget kupdate) gt w = (rg, w')" for gt rg
    using that ok by (auto simp: status_env_def world_ok_def split: prod.splits dest!: Resolve_wf(2))
  show "world_ok w' \<and> (\<forall>ims. ri = Inr ims \<longrightarrow> wf_ids img_ID ims)"
    if "se_images (status_env wi kget kupdate) it w = (ri, w')" for it ri
    using that ok by (auto simp: status_env_def world_ok_def split: prod.splits dest!: Resolve_wf(3))
  show "world_ok w'" if "se_data (status_env wi kget kupdate) = Some f" "f i v w = (rd, w')" for f i v rd
    using that ok by (auto simp: status_env_def world_ok_def on_cloud_def split: prod.splits)
  show "world_ok w'" if "se_role (status_env wi kget kupdate) role w = (rr, w')" for role rr
    using that ok by (auto simp: status_env_def world_ok_def on_cloud_def split: prod.splits)
qed

text \<open>
  C25: The lists of a status stay well-formed.  Starting with well-formed lists and
  caches that hold well-formed lists (new resolvers do), a pass of the wired controller
  leaves vswitches with non-empty identifiers in strictly increasing order (so none
  twice), and, unless a launch template is used, security groups and images too; the
  caches still hold only such lists afterwards.
\<close>
theorem status_lists_well_formed:
  assumes "resolve_phase (status_env wi kget kupdate) n w = (Some (n', e), w')" "world_ok w"
    and "wf_ids vsw_ID (st_VSwitches (k_Status n))" "wf_ids sg_ID (st_SecurityGroups (k_Status n))"
    and "wf_ids img_ID (st_Images (k_Status n))"
  shows "world_ok w' \<and> wf_ids vsw_ID (st_VSwitches (k_Status n'))
    \<and> (nc_LaunchTemplateID (k_Spec n') = None \<longrightarrow>
         wf_ids sg_ID (st_SecurityGroups (k_Status n')) \<and> wf_ids img_ID (st_Images (k_Status n')))"
  using wired.resolve_phase_wf [OF assms(1,2)] assms(3-5)
  by (simp add: wired.wf_status_def)

definition sample_wiring :: "nat Wiring" where
  "sample_wiring = \<lparr>wi_sdk = paging_sdk [] [] [] [], wi_region = ''cn'', wi_moments = (\<lambda>w. sample_moments),
     wi_shown_vsw = (\<lambda>t. ''''), wi_shown_sgs = (\<lambda>t. ''''), wi_shown_img = (\<lambda>t. ''''), wi_templates = None,
     wi_get_role = (\<lambda>r w. (Inl ''EntityNotExist.Role'', w)), wi_parse = (\<lambda>s. None), wi_clock = int, wi_rand = (\<lambda>n w. 0)\<rparr>"

definition new_world :: "nat StatusWorld" where
  "new_world = \<lparr>sw_vsw = NewResolver, sw_sgs = NewResolver, sw_img = NewResolver, sw_cloud = 0\<rparr>"

theorem status_lists_well_formed_witness:
  "\<exists>n' e w'. resolve_phase (status_env sample_wiring (\<lambda>n w. (Inr sample_class, w)) (\<lambda>n w. (None, w)))
      sample_class new_world = (Some (n', e), w') \<and> wf_ids vsw_ID (st_VSwitches (k_Status n'))"
proof -
  let ?env = "status_env sample_wiring (\<lambda>n w. (Inr sample_class, w)) (\<lambda>n w. (None, w))"
  have sp: "nc_Role (k_Spec sample_class) = None" "nc_LaunchTemplateID (k_Spec sample_class) = None"
    "nc_VSwitchSelectorTerms (k_Spec sample_class) = []" "nc_SecurityGroupSelectorTerms (k_Spec sample_class) = []"
    "nc_ImageSelectorTerms (k_Spec sample_class) = []" by (simp_all add: sample_class_def emptySpec_def)
  have "\<exists>x. fst (resolve_phase ?env sample_class new_world) = Some x"
    by (simp add: resolve_phase_def resolveSelectorResources_def vswitches_step_def groups_step_def images_step_def
        role_step_def status_env_def ResolveVSwitches_def ResolveSecurityGroups_def ResolveImages_def sp
        set_failed_def setCondition_def)
  then obtain n' e w' where r: "resolve_phase ?env sample_class new_world = (Some (n', e), w')"
    by (cases "resolve_phase ?env sample_class new_world") auto
  have w: "world_ok new_world" by (simp add: world_ok_def new_world_def resolver_ok_def)
  have l: "wf_ids vsw_ID (st_VSwitches (k_Status sample_class))" "wf_ids sg_ID (st_SecurityGroups (k_Status sample_class))"
    "wf_ids img_ID (st_Images (k_Status sample_class))"
    by (simp_all add: sample_class_def sample_vswitches_def wf_ids_def)
  from status_lists_well_formed [OF r w l] r show ?thesis by blast
qed

end
