(* ===== verification/OperatorStart.thy ===== *)
theory OperatorStart
  imports OperatorOptions ClusterNetwork Unavailable Batcher InstanceTypes StatusWiring Reservations
begin

text \<open>
  Start of the operator (pkg/operator/operator.go): the choice of credentials,
  the construction of the four service clients and of the providers around
  them, the registration of controllers, and the adapters of the container
  service and RAM clients (pkg/clients/cs.go and ram.go).

  The environment is a record: getenv (the empty string for an unset variable), the
  check that a file can be read, the SDK constructors of a credential and of the four
  clients, the scheme of the manager and the calls of the container service that
  the network configuration needs.  Logging is left out.
\<close>

section \<open>Credentials\<close>

definition EnvECSEndpoint :: string where "EnvECSEndpoint = ''ECS_ENDPOINT''"
definition EnvVPCEndpoint :: string where "EnvVPCEndpoint = ''VPC_ENDPOINT''"
definition EnvRAMEndpoint :: string where "EnvRAMEndpoint = ''RAM_ENDPOINT''"
definition EnvCSEndpoint :: string where "EnvCSEndpoint = ''CS_ENDPOINT''"
definition EnvSTSEndpoint :: string where "EnvSTSEndpoint = ''STS_ENDPOINT''"
definition RRSASessionName :: string where "RRSASessionName = ''karpenter-controller''"
definition RRSASessionDuration :: int where "RRSASessionDuration = 3600"

text \<open>The configuration of a credential, and the two ways a client authenticates.\<close>

record CredentialConfig =
  cc_Type :: string
  cc_OIDCProviderArn :: string
  cc_OIDCTokenFilePath :: string
  cc_RoleArn :: string
  cc_RoleSessionName :: string
  cc_RoleSessionExpiration :: int
  cc_STSEndpoint :: "string option"

datatype 'c Auth = ByCredential 'c | ByKey string string

record 'c ClientConfig =
  cl_auth :: "'c Auth"
  cl_RegionId :: string
  cl_ConnectTimeout :: int
  cl_MaxIdleConns :: int

text \<open>A client: what the SDK constructed, and the endpoint that was set afterwards.\<close>

record 'k ServiceClient =
  sc_sdk :: 'k
  sc_Endpoint :: "string option"

record ('c, 'k) StartEnv =
  oe_getenv :: "string \<Rightarrow> string"
  oe_readable :: "string \<Rightarrow> bool"
  oe_NewCredential :: "CredentialConfig \<Rightarrow> string + 'c"
  oe_ecs :: "'c ClientConfig \<Rightarrow> string + 'k"
  oe_vpc :: "'c ClientConfig \<Rightarrow> string + 'k"
  oe_ram :: "'c ClientConfig \<Rightarrow> string + 'k"
  oe_cs :: "'c ClientConfig \<Rightarrow> string + 'k"
  oe_AddToScheme :: "string option"
  oe_addon :: "'k ServiceClient \<Rightarrow> string \<Rightarrow> string \<Rightarrow> string + AddonBody option"
  oe_detail :: "'k ServiceClient \<Rightarrow> string \<Rightarrow> string + ClusterDetail option"
  oe_unmarshal :: "string \<Rightarrow> string + bool"

definition token_directory :: string where
  "token_directory = ''/var/run/secrets/ack.alibabacloud.com/''"

definition isRRSAEnabled :: "('c, 'k) StartEnv \<Rightarrow> bool" where
  "isRRSAEnabled env =
     (let roleArn = oe_getenv env EnvRoleARN; providerArn = oe_getenv env EnvOIDCProviderARN;
          tokenFile = oe_getenv env EnvOIDCTokenFile in
      if roleArn = '''' \<or> providerArn = '''' \<or> tokenFile = '''' then False
      else if \<not> has_prefix roleArn ''acs:ram::'' \<or> \<not> contains_str roleArn '':role/'' then False
      else if \<not> has_prefix providerArn ''acs:ram::'' \<or> \<not> contains_str providerArn '':oidc-provider/'' then False
      else if \<not> oe_readable env tokenFile then False
      else if \<not> has_prefix tokenFile token_directory then False
      else True)"

definition rrsa_config :: "('c, 'k) StartEnv \<Rightarrow> CredentialConfig" where
  "rrsa_config env =
     \<lparr>cc_Type = ''oidc_role_arn'', cc_OIDCProviderArn = oe_getenv env EnvOIDCProviderARN,
      cc_OIDCTokenFilePath = oe_getenv env EnvOIDCTokenFile, cc_RoleArn = oe_getenv env EnvRoleARN,
      cc_RoleSessionName = RRSASessionName, cc_RoleSessionExpiration = RRSASessionDuration,
      cc_STSEndpoint = (if oe_getenv env EnvSTSEndpoint \<noteq> '''' then Some (oe_getenv env EnvSTSEndpoint) else None)\<rparr>"

definition client_config :: "'c Auth \<Rightarrow> string \<Rightarrow> 'c ClientConfig" where
  "client_config auth region =
     \<lparr>cl_auth = auth, cl_RegionId = region, cl_ConnectTimeout = 30, cl_MaxIdleConns = 100\<rparr>"

definition with_endpoint :: "('c, 'k) StartEnv \<Rightarrow> string \<Rightarrow> 'k \<Rightarrow> 'k ServiceClient" where
  "with_endpoint env var k =
     \<lparr>sc_sdk = k, sc_Endpoint = (if oe_getenv env var \<noteq> '''' then Some (oe_getenv env var) else None)\<rparr>"

section \<open>The four clients\<close>

text \<open>
  The four functions have the same text up to the name of the service, its
  constructor and its endpoint variable.
\<close>

definition init_client :: "string \<Rightarrow> string \<Rightarrow> ('c ClientConfig \<Rightarrow> string + 'k) \<Rightarrow> ('c, 'k) StartEnv \<Rightarrow>
    string \<Rightarrow> string \<Rightarrow> string \<Rightarrow> string + 'k ServiceClient" where
  "init_client service var new_client env region accessKeyID accessKeySecret =
     (if isRRSAEnabled env then
        (case oe_NewCredential env (rrsa_config env) of
           Inl err \<Rightarrow> Inl (''failed to create RRSA credential for '' @ service @ '': '' @ err)
         | Inr cred \<Rightarrow> (case new_client (client_config (ByCredential cred) region) of
             Inl err \<Rightarrow> Inl (''failed to create '' @ service @ '' client with RRSA: '' @ err)
           | Inr k \<Rightarrow> Inr (with_endpoint env var k)))
      else if accessKeyID \<noteq> '''' \<and> accessKeySecret \<noteq> '''' then
        (case new_client (client_config (ByKey accessKeyID accessKeySecret) region) of
           Inl err \<Rightarrow> Inl (''failed to create '' @ service @ '' client with access key: '' @ err)
         | Inr k \<Rightarrow> Inr (with_endpoint env var k))
      else Inl (''failed to create '' @ service @
             '' client: no valid credentials provided (RRSA or AK/SK required)''))"

definition InitECSClient :: "('c, 'k) StartEnv \<Rightarrow> string \<Rightarrow> string \<Rightarrow> string \<Rightarrow> string + 'k ServiceClient" where
  "InitECSClient env = init_client ''ECS'' EnvECSEndpoint (oe_ecs env) env"

definition InitVPCClient :: "('c, 'k) StartEnv \<Rightarrow> string \<Rightarrow> string \<Rightarrow> string \<Rightarrow> string + 'k ServiceClient" where
  "InitVPCClient env = init_client ''VPC'' EnvVPCEndpoint (oe_vpc env) env"

definition InitRAMClient :: "('c, 'k) StartEnv \<Rightarrow> string \<Rightarrow> string \<Rightarrow> string \<Rightarrow> string + 'k ServiceClient" where
  "InitRAMClient env = init_client ''RAM'' EnvRAMEndpoint (oe_ram env) env"

definition InitCSClient :: "('c, 'k) StartEnv \<Rightarrow> string \<Rightarrow> string \<Rightarrow> string \<Rightarrow> string + 'k ServiceClient" where
  "InitCSClient env = init_client ''CS'' EnvCSEndpoint (oe_cs env) env"

section \<open>The operator\<close>

text \<open>
  The providers without state of their own (bootstrap, launch template,
  instance profile, RAM role, capacity reservation) are the clients they were
  given; the others start with the state their constructors make.  The batcher of the instance provider
  caches values of any type.
\<close>

record ('k, 'v) Operator =
  op_Region :: string
  op_ClusterName :: string
  op_InterruptionQueue :: string
  op_Options :: Options
  op_NetworkConfig :: NetworkConfig
  op_ECS :: "'k ServiceClient"
  op_VPC :: "'k ServiceClient"
  op_RAM :: "'k ServiceClient"
  op_CS :: "'k ServiceClient"
  op_Unavailable :: UnavailableOfferingsCache
  op_VSwitch :: "VSwitch ResolverState"
  op_SecurityGroup :: "SecurityGroup ResolverState"
  op_ImageFamily :: "Image ResolverState"
  op_Pricing :: PricingProvider
  op_InstanceTypes :: "cached cache"
  op_Batcher :: "'v Batcher"

definition NewOperator :: "('c, 'k) StartEnv \<Rightarrow> Options option \<Rightarrow> string + ('k, 'v) Operator" where
  "NewOperator env ctx =
     (let opts = FromContext ctx in
      case oe_AddToScheme env of
        Some err \<Rightarrow> Inl (''failed to register Alibaba Cloud API types: '' @ err)
      | None \<Rightarrow>
     (case InitECSClient env (o_Region opts) (o_AccessKeyID opts) (o_AccessKeySecret opts) of
        Inl err \<Rightarrow> Inl (''failed to initialize ECS client: '' @ err)
      | Inr ecs \<Rightarrow>
     (case InitVPCClient env (o_Region opts) (o_AccessKeyID opts) (o_AccessKeySecret opts) of
        Inl err \<Rightarrow> Inl (''failed to initialize VPC client: '' @ err)
      | Inr vpc \<Rightarrow>
     (case InitRAMClient env (o_Region opts) (o_AccessKeyID opts) (o_AccessKeySecret opts) of
        Inl err \<Rightarrow> Inl (''failed to initialize RAM client: '' @ err)
      | Inr ram \<Rightarrow>
     (case InitCSClient env (o_Region opts) (o_AccessKeyID opts) (o_AccessKeySecret opts) of
        Inl err \<Rightarrow> Inl (''failed to initialize CS client: '' @ err)
      | Inr cs \<Rightarrow>
     (case InitializeClusterNetworkConfig (oe_addon env cs (o_ClusterID opts))
             (oe_detail env cs (o_ClusterID opts)) (oe_unmarshal env) (o_ClusterID opts) of
        Inl err \<Rightarrow> Inl (''failed to initialize cluster network config: '' @ err)
      | Inr networkConfig \<Rightarrow> Inr
          \<lparr>op_Region = o_Region opts, op_ClusterName = o_ClusterName opts,
           op_InterruptionQueue = o_InterruptionQueue opts, op_Options = opts, op_NetworkConfig = networkConfig,
           op_ECS = ecs, op_VPC = vpc, op_RAM = ram, op_CS = cs,
           op_Unavailable = NewUnavailableOfferingsCacheWithTTL (o_UnavailableOfferingCacheTTL opts),
           op_VSwitch = NewResolver, op_SecurityGroup = NewResolver, op_ImageFamily = NewResolver,
           op_Pricing = NewPricing, op_InstanceTypes = [],
           op_Batcher = NewBatcher (10 * millisecond_ns) millisecond_ns\<rparr>))))))"

text \<open>Registration: the first controller that fails ends the process with a panic, here Inl.\<close>

fun WithControllers :: "('a \<Rightarrow> 'w \<Rightarrow> string option \<times> 'w) \<Rightarrow> 'a list \<Rightarrow> 'w \<Rightarrow> (string + unit) \<times> 'w" where
  "WithControllers reg [] w = (Inr (), w)"
| "WithControllers reg (c # cs) w = (case reg c w of
     (Some err, w1) \<Rightarrow> (Inl (''failed to register controller: '' @ err), w1)
   | (None, w1) \<Rightarrow> WithControllers reg cs w1)"

section \<open>Adapters of the container service and RAM clients\<close>

definition DescribeClusterAttachScripts :: "('r \<Rightarrow> string + string option) \<Rightarrow> 'r \<Rightarrow> string + string" where
  "DescribeClusterAttachScripts sdk request = (case sdk request of
     Inl err \<Rightarrow> Inl err
   | Inr None \<Rightarrow> Inr ''''
   | Inr (Some body) \<Rightarrow> Inr body)"

section \<open>Properties\<close>

lemma isRRSAEnabled_iff:
  "isRRSAEnabled env \<longleftrightarrow>
     has_prefix (oe_getenv env EnvRoleARN) ''acs:ram::'' \<and> contains_str (oe_getenv env EnvRoleARN) '':role/'' \<and>
     has_prefix (oe_getenv env EnvOIDCProviderARN) ''acs:ram::'' \<and>
     contains_str (oe_getenv env EnvOIDCProviderARN) '':oidc-provider/'' \<and>
     oe_readable env (oe_getenv env EnvOIDCTokenFile) \<and>
     has_prefix (oe_getenv env EnvOIDCTokenFile) token_directory"
  by (auto simp: isRRSAEnabled_def Let_def has_prefix_def token_directory_def)

text \<open>The authentication that the environment and a key pair lead to, if any.\<close>

definition auth_of :: "('c, 'k) StartEnv \<Rightarrow> string \<Rightarrow> string \<Rightarrow> 'c Auth option" where
  "auth_of env accessKeyID accessKeySecret =
     (if isRRSAEnabled env then (case oe_NewCredential env (rrsa_config env) of
        Inl _ \<Rightarrow> None | Inr cred \<Rightarrow> Some (ByCredential cred))
      else if accessKeyID \<noteq> [] \<and> accessKeySecret \<noteq> [] then Some (ByKey accessKeyID accessKeySecret)
      else None)"

text \<open>A client built with an authentication, its endpoint taken from a variable.\<close>

definition built_with :: "('c, 'k) StartEnv \<Rightarrow> 'c Auth \<Rightarrow> string \<Rightarrow> ('c ClientConfig \<Rightarrow> string + 'k) \<Rightarrow> string \<Rightarrow>
    'k ServiceClient \<Rightarrow> bool" where
  "built_with env auth region new_client var c \<longleftrightarrow>
     new_client (client_config auth region) = Inr (sc_sdk c) \<and>
     (sc_Endpoint c = None \<longleftrightarrow> oe_getenv env var = []) \<and>
     (\<forall>e \<in> set_option (sc_Endpoint c). e = oe_getenv env var)"

lemma init_client_InrD:
  assumes "init_client service var new_client env region k s = Inr c"
  shows "\<exists>auth. auth_of env k s = Some auth \<and> built_with env auth region new_client var c"
  using assms
  by (auto simp: init_client_def auth_of_def built_with_def with_endpoint_def split: if_splits sum.splits)

lemmas init_defs = InitECSClient_def InitVPCClient_def InitRAMClient_def InitCSClient_def

lemma NewOperator_InrD:
  fixes op :: "('k, 'v) Operator" and ctx :: "Options option"
  defines "opts \<equiv> FromContext ctx"
  assumes "NewOperator env ctx = Inr op"
  shows "InitECSClient env (o_Region opts) (o_AccessKeyID opts) (o_AccessKeySecret opts) = Inr (op_ECS op)"
    "InitVPCClient env (o_Region opts) (o_AccessKeyID opts) (o_AccessKeySecret opts) = Inr (op_VPC op)"
    "InitRAMClient env (o_Region opts) (o_AccessKeyID opts) (o_AccessKeySecret opts) = Inr (op_RAM op)"
    "InitCSClient env (o_Region opts) (o_AccessKeyID opts) (o_AccessKeySecret opts) = Inr (op_CS op)"
    "op_Options op = opts" "op_Unavailable op = NewUnavailableOfferingsCacheWithTTL (o_UnavailableOfferingCacheTTL opts)"
    "op_VSwitch op = NewResolver" "op_SecurityGroup op = NewResolver" "op_ImageFamily op = NewResolver"
    "o_ClusterID opts \<noteq> []"
  using assms(2) unfolding opts_def NewOperator_def Let_def
  by (auto simp: InitializeClusterNetworkConfig_def split: option.splits sum.splits if_splits)


text \<open>A sample environment: only a key pair, or the variables of a role as well.\<close>

definition sample_start :: "(string \<times> string) list \<Rightarrow> (string, string Auth) StartEnv" where
  "sample_start vars =
     \<lparr>oe_getenv = (\<lambda>n. or_else (map_of vars n) []), oe_readable = (\<lambda>f. f \<noteq> []),
      oe_NewCredential = (\<lambda>c. Inr (cc_RoleArn c)),
      oe_ecs = (\<lambda>c. Inr (cl_auth c)), oe_vpc = (\<lambda>c. Inr (cl_auth c)), oe_ram = (\<lambda>c. Inr (cl_auth c)),
      oe_cs = (\<lambda>c. Inr (cl_auth c)), oe_AddToScheme = None,
      oe_addon = (\<lambda>k i a. Inr (Some \<lparr>ab_Name = Some a, ab_Version = None, ab_Config = None\<rparr>)),
      oe_detail = (\<lambda>k i. Inr None), oe_unmarshal = (\<lambda>s. Inr False)\<rparr>"

definition key_options :: Options where
  "key_options = NewOptions\<lparr>o_ClusterName := ''c'', o_ClusterID := ''c-1'', o_ClusterEndpoint := ''e'',
     o_AccessKeyID := ''id'', o_AccessKeySecret := ''secret''\<rparr>"

definition role_vars :: "(string \<times> string) list" where
  "role_vars = [(EnvRoleARN, ''acs:ram::1:role/karpenter''),
     (EnvOIDCProviderARN, ''acs:ram::1:oidc-provider/ack''),
     (EnvOIDCTokenFile, token_directory @ ''token'')]"

lemmas env_names = EnvRoleARN_def EnvOIDCProviderARN_def EnvOIDCTokenFile_def EnvECSEndpoint_def
  EnvVPCEndpoint_def EnvRAMEndpoint_def EnvCSEndpoint_def EnvSTSEndpoint_def


text \<open>
  Any path that begins with the directory of the service account passes the check
  of the token file, one that leaves the directory again as well.
\<close>

lemma token_path_may_leave_directory:
  "isRRSAEnabled (sample_start (AList.update EnvOIDCTokenFile (token_directory @ ''../../../../tmp/token'') role_vars))"
  by (simp add: isRRSAEnabled_iff sample_start_def role_vars_def env_names token_directory_def has_prefix_def)

text \<open>
  Options are accepted with any three values for the role, the start wants ARNs:
  without a key pair such a configuration parses and the operator does not start.
\<close>

lemma accepted_options_may_not_start:
  assumes "ParseOptions (oe_getenv env) fs_parse o0 = (None, opts)"
    and "oe_getenv env ''ALIBABA_CLOUD_ACCESS_KEY_ID'' = []" and "oe_AddToScheme env = None"
    and "\<not> has_prefix (oe_getenv env EnvRoleARN) ''acs:ram::''"
  shows "IsRRSAEnabled opts \<and> NewOperator env (Some opts) =
    Inl ''failed to initialize ECS client: failed to create ECS client: no valid credentials provided (RRSA or AK/SK required)''"
proof -
  have "o_AccessKeyID opts = [] \<and> IsRRSAEnabled opts"
    using assms(1,2) by (auto simp: ParseOptions_def Let_def split: sum.splits if_splits prod.splits)
  with assms(3,4) show ?thesis
    by (simp add: NewOperator_def FromContext_def init_defs init_client_def isRRSAEnabled_iff Let_def)
qed

text \<open>Controllers are registered in order until one fails.\<close>

fun_cases WithControllers_doneE: "WithControllers reg (c # cs) w = (Inr (), w')"

lemma WithControllers_registers:
  "WithControllers reg cs w = (Inr (), w') \<Longrightarrow> w' = fold (\<lambda>c. snd \<circ> reg c) cs w \<and>
     (\<forall>i < length cs. fst (reg (cs ! i) (fold (\<lambda>c. snd \<circ> reg c) (take i cs) w)) = None)"
proof (induction cs arbitrary: w)
  case (Cons c cs)
  then obtain w1 where c: "reg c w = (None, w1)" "WithControllers reg cs w1 = (Inr (), w')"
    by (elim WithControllers_doneE) (auto split: prod.splits option.splits)
  have "fst (reg ((c # cs) ! i) (fold (\<lambda>c. snd \<circ> reg c) (take i (c # cs)) w)) = None" if "i < length (c # cs)" for i
    using Cons.IH [OF c(2)] c(1) that by (cases i) (auto simp: comp_def)
  with Cons.IH [OF c(2)] c(1) show ?case by (simp add: comp_def)
qed simp

end
