(* ===== verification/GarbageCollection.thy ===== *)
theory GarbageCollection
  imports CloudProvider
begin

text \<open>
  The garbage collector of orphaned NodeClaims
  (pkg/controllers/nodeclaim/garbagecollection/garbagecollection.go).  The environment is a record
  of parameters: the Kubernetes client, List and Delete of the cloud provider and the
  clock.  A result carries the time to requeue after and an error.
\<close>

record 'w GcEnv =
  ge_list_claims :: "'w \<Rightarrow> (kube_error + NodeClaim list) \<times> 'w"
  ge_list_nodes :: "'w \<Rightarrow> (kube_error + Node list) \<times> 'w"
  ge_delete_node :: "Node \<Rightarrow> 'w \<Rightarrow> kube_error option \<times> 'w"
  ge_cloud_list :: "'w \<Rightarrow> (kerr + NodeClaim list) \<times> 'w"
  ge_cloud_delete :: "NodeClaim \<Rightarrow> 'w \<Rightarrow> kerr option \<times> 'w"
  ge_now :: "'w \<Rightarrow> time_ns"

record GcController =
  gc_lastRun :: time_ns
  gc_creationProtectionDuration :: int

datatype gc_result = GcRequeue int "kerr option"

definition NewGarbageCollectionController :: "int option \<Rightarrow> time_ns \<Rightarrow> GcController" where
  "NewGarbageCollectionController protection now =
     \<lparr>gc_lastRun = now - 5 * minute_ns, gc_creationProtectionDuration = or_else protection minute_ns\<rparr>"

text \<open>One claim after the other; the flag says whether an orphan was removed.\<close>

fun gc_loop :: "'w GcEnv \<Rightarrow> int \<Rightarrow> string list \<Rightarrow> Node list \<Rightarrow> NodeClaim list \<Rightarrow> bool \<Rightarrow> 'w \<Rightarrow> bool \<times> 'w" where
  "gc_loop env protection ids nodes [] foundOrphans w = (foundOrphans, w)"
| "gc_loop env protection ids nodes (nodeClaim # rest) foundOrphans w =
     (if ncl_ProviderID nodeClaim \<in> set ids then gc_loop env protection ids nodes rest foundOrphans w
      else if ge_now env w - ncl_CreationTimestamp nodeClaim < protection
      then gc_loop env protection ids nodes rest foundOrphans w
      else case ge_cloud_delete env nodeClaim w of (err, w1) \<Rightarrow>
        if (case err of None \<Rightarrow> False | Some e \<Rightarrow> \<not> is_nodeclaim_notfound e)
        then gc_loop env protection ids nodes rest foundOrphans w1
        else (case find (\<lambda>n. node_ProviderID n = ncl_ProviderID nodeClaim) nodes of
            None \<Rightarrow> gc_loop env protection ids nodes rest True w1
          | Some node \<Rightarrow> (case ge_delete_node env node w1 of (err2, w2) \<Rightarrow>
              if (case err2 of None \<Rightarrow> False | Some e \<Rightarrow> \<not> is_kube_notfound e)
              then gc_loop env protection ids nodes rest foundOrphans w2
              else gc_loop env protection ids nodes rest True w2)))"

definition collect_garbage :: "'w GcEnv \<Rightarrow> int \<Rightarrow> 'w \<Rightarrow> gc_result \<times> 'w" where
  "collect_garbage env protection w = (case ge_list_claims env w of
     (Inl err, w1) \<Rightarrow> (GcRequeue 0 (Some (Msg (kube_text err))), w1)
   | (Inr claims, w1) \<Rightarrow>
       if claims = [] then (GcRequeue (5 * minute_ns) None, w1)
       else (case ge_cloud_list env w1 of
         (Inl err, w2) \<Rightarrow> (GcRequeue minute_ns (Some (Wrapped ''listing cloud provider instances, '' err)), w2)
       | (Inr cloudClaims, w2) \<Rightarrow> (case ge_list_nodes env w2 of
           (Inl err, w3) \<Rightarrow> (GcRequeue (5 * minute_ns) (Some (Wrapped ''listing nodes: '' (Msg (kube_text err)))), w3)
         | (Inr nodes, w3) \<Rightarrow>
             (case gc_loop env protection (List.map ncl_ProviderID cloudClaims) nodes claims False w3 of
                (foundOrphans, w4) \<Rightarrow>
                  if foundOrphans then (GcRequeue minute_ns None, w4) else (GcRequeue (5 * minute_ns) None, w4)))))"

definition ReconcileGarbage :: "'w GcEnv \<Rightarrow> GcController \<Rightarrow> 'w \<Rightarrow> gc_result \<times> GcController \<times> 'w" where
  "ReconcileGarbage env c w =
     (if ge_now env w - gc_lastRun c < minute_ns
      then (GcRequeue (minute_ns - (ge_now env w - gc_lastRun c)) None, c, w)
      else case collect_garbage env (gc_creationProtectionDuration c) w of
        (r, w1) \<Rightarrow> (r, c\<lparr>gc_lastRun := ge_now env w\<rparr>, w1))"

section \<open>Recording the deletions\<close>

datatype gc_event = GcDelete NodeClaim | GcDeleteNode Node

definition recorded :: "'w GcEnv \<Rightarrow> ('w \<times> gc_event list) GcEnv" where
  "recorded e = \<lparr>ge_list_claims = (\<lambda>(w, ev). case ge_list_claims e w of (r, w') \<Rightarrow> (r, (w', ev))),
     ge_list_nodes = (\<lambda>(w, ev). case ge_list_nodes e w of (r, w') \<Rightarrow> (r, (w', ev))),
     ge_delete_node = (\<lambda>n (w, ev). case ge_delete_node e n w of (r, w') \<Rightarrow> (r, (w', ev @ [GcDeleteNode n]))),
     ge_cloud_list = (\<lambda>(w, ev). case ge_cloud_list e w of (r, w') \<Rightarrow> (r, (w', ev))),
     ge_cloud_delete = (\<lambda>c (w, ev). case ge_cloud_delete e c w of (r, w') \<Rightarrow> (r, (w', ev @ [GcDelete c]))),
     ge_now = (\<lambda>(w, ev). ge_now e w)\<rparr>"

lemma recorded_fields [simp]:
  "ge_list_claims (recorded e) (w, ev) = (case ge_list_claims e w of (r, w') \<Rightarrow> (r, (w', ev)))"
  "ge_list_nodes (recorded e) (w, ev) = (case ge_list_nodes e w of (r, w') \<Rightarrow> (r, (w', ev)))"
  "ge_delete_node (recorded e) n (w, ev) = (case ge_delete_node e n w of (r, w') \<Rightarrow> (r, (w', ev @ [GcDeleteNode n])))"
  "ge_cloud_list (recorded e) (w, ev) = (case ge_cloud_list e w of (r, w') \<Rightarrow> (r, (w', ev)))"
  "ge_cloud_delete (recorded e) c (w, ev) = (case ge_cloud_delete e c w of (r, w') \<Rightarrow> (r, (w', ev @ [GcDelete c])))"
  "ge_now (recorded e) (w, ev) = ge_now e w"
  by (simp_all add: recorded_def)

definition deleted_claims :: "gc_event list \<Rightarrow> NodeClaim list" where
  "deleted_claims ev = List.map_filter (\<lambda>x. case x of GcDelete c \<Rightarrow> Some c | _ \<Rightarrow> None) ev"

definition deleted_nodes :: "gc_event list \<Rightarrow> Node list" where
  "deleted_nodes ev = List.map_filter (\<lambda>x. case x of GcDeleteNode n \<Rightarrow> Some n | _ \<Rightarrow> None) ev"

lemma deleted_append [simp]:
  "deleted_claims (a @ b) = deleted_claims a @ deleted_claims b" "deleted_nodes (a @ b) = deleted_nodes a @ deleted_nodes b"
  "deleted_claims [] = []" "deleted_nodes [] = []" "deleted_claims (GcDelete c # a) = c # deleted_claims a"
  "deleted_nodes (GcDelete c # a) = deleted_nodes a" "deleted_claims (GcDeleteNode n # a) = deleted_claims a"
  "deleted_nodes (GcDeleteNode n # a) = n # deleted_nodes a"
  by (simp_all add: deleted_claims_def deleted_nodes_def List.map_filter_def)

text \<open>What one run of the loop may delete.\<close>

definition proper_deletions :: "string list \<Rightarrow> Node list \<Rightarrow> (NodeClaim \<Rightarrow> bool) \<Rightarrow> NodeClaim list \<Rightarrow> gc_event list \<Rightarrow> bool" where
  "proper_deletions ids nodes aged claims ev \<longleftrightarrow>
     subseq (deleted_claims ev) claims
     \<and> (\<forall>c \<in> set (deleted_claims ev). ncl_ProviderID c \<notin> set ids \<and> aged c)
     \<and> (\<forall>n \<in> set (deleted_nodes ev). n \<in> set nodes \<and> (\<exists>c \<in> set (deleted_claims ev). node_ProviderID n = ncl_ProviderID c))"

lemma proper_Nil: "proper_deletions ids nodes aged claims []"
  by (simp add: proper_deletions_def)

lemma proper_skip: "proper_deletions ids nodes aged claims ev \<Longrightarrow> proper_deletions ids nodes aged (c # claims) ev"
  by (auto simp: proper_deletions_def)

lemma proper_claim:
  assumes "proper_deletions ids nodes aged claims ev" "ncl_ProviderID c \<notin> set ids" "aged c"
    and "deleted_claims ev0 = [c]" "set (deleted_nodes ev0) \<subseteq> {n \<in> set nodes. node_ProviderID n = ncl_ProviderID c}"
  shows "proper_deletions ids nodes aged (c # claims) (ev0 @ ev)"
  using assms by (auto simp: proper_deletions_def)

lemma find_in: "find P xs = Some x \<Longrightarrow> x \<in> set xs \<and> P x"
  by (induction xs) (auto split: if_splits)

definition was_old :: "'w GcEnv \<Rightarrow> int \<Rightarrow> NodeClaim \<Rightarrow> bool" where
  "was_old e protection c \<longleftrightarrow> (\<exists>v. protection \<le> ge_now e v - ncl_CreationTimestamp c)"

text \<open>The step of one orphan: the events it adds and the world it leaves.\<close>

lemma gc_loop_events:
  "gc_loop (recorded e) protection ids nodes claims b (w, ev) = (b', (w', ev')) \<Longrightarrow>
     \<exists>new. ev' = ev @ new \<and> proper_deletions ids nodes (was_old e protection) claims new"
proof (induction claims arbitrary: b w ev)
  case Nil
  then show ?case by (simp add: proper_Nil)
next
  case (Cons c claims)
  show ?case
  proof (cases "ncl_ProviderID c \<in> set ids \<or> ge_now e w - ncl_CreationTimestamp c < protection")
    case True
    then have "gc_loop (recorded e) protection ids nodes claims b (w, ev) = (b', (w', ev'))"
      using Cons.prems by (auto split: if_splits)
    from Cons.IH [OF this] show ?thesis using proper_skip by blast
  next
    case False
    then have orphan: "ncl_ProviderID c \<notin> set ids" "was_old e protection c"
      by (auto simp: was_old_def not_less)
    obtain r w1 where d: "ge_cloud_delete e c w = (r, w1)" by (metis surj_pair)
    obtain ev0 b1 w2 where s: "gc_loop (recorded e) protection ids nodes claims b1 (w2, ev @ ev0) = (b', (w', ev'))"
      "deleted_claims ev0 = [c]" "set (deleted_nodes ev0) \<subseteq> {n \<in> set nodes. node_ProviderID n = ncl_ProviderID c}"
    proof (cases "(case r of None \<Rightarrow> False | Some x \<Rightarrow> \<not> is_nodeclaim_notfound x) \<or>
        find (\<lambda>n. node_ProviderID n = ncl_ProviderID c) nodes = None")
      case True
      with Cons.prems False d have "\<exists>b1. gc_loop (recorded e) protection ids nodes claims b1 (w1, ev @ [GcDelete c]) = (b', (w', ev'))"
        by (auto split: if_splits)
      then obtain b1 where "gc_loop (recorded e) protection ids nodes claims b1 (w1, ev @ [GcDelete c]) = (b', (w', ev'))"
        by blast
      from that [OF this] show thesis by simp
    next
      case found: False
      then obtain n where n: "find (\<lambda>n. node_ProviderID n = ncl_ProviderID c) nodes = Some n" by blast
      obtain r2 w2 where d2: "ge_delete_node e n w1 = (r2, w2)" by (metis surj_pair)
      from Cons.prems False found d n d2
      obtain b1 where "gc_loop (recorded e) protection ids nodes claims b1 (w2, ev @ [GcDelete c, GcDeleteNode n]) = (b', (w', ev'))"
        by (auto split: if_splits)
      from that [OF this] show thesis using find_in [OF n] by auto
    qed
    from Cons.IH [OF s(1)] obtain new where new: "ev' = ev @ (ev0 @ new)"
      "proper_deletions ids nodes (was_old e protection) claims new" by auto
    have "proper_deletions ids nodes (was_old e protection) (c # claims) (ev0 @ new)"
      by (rule proper_claim) (use new(2) orphan s(2,3) in auto)
    with new(1) show ?thesis by blast
  qed
qed

text \<open>A clock that does not go back during deletions.\<close>

definition steady_clock :: "'w GcEnv \<Rightarrow> bool" where
  "steady_clock e \<longleftrightarrow> (\<forall>c w. ge_now e w \<le> ge_now e (snd (ge_cloud_delete e c w)))
     \<and> (\<forall>n w. ge_now e w \<le> ge_now e (snd (ge_delete_node e n w)))"

lemma gc_loop_finds:
  assumes "steady_clock e"
    and "gc_loop (recorded e) protection ids nodes claims b (w, ev) = (b', (w', ev'))"
    and "c \<in> set claims \<or> c \<in> set (deleted_claims ev)" "ncl_ProviderID c \<notin> set ids"
    and "protection \<le> ge_now e w - ncl_CreationTimestamp c"
  shows "c \<in> set (deleted_claims ev')"
  using assms(2,3,5)
proof (induction claims arbitrary: b w ev)
  case (Cons d claims)
  obtain r w1 where r: "ge_cloud_delete e d w = (r, w1)" by (metis surj_pair)
  obtain w2 where w2: "ge_now e w \<le> ge_now e w2"
    "\<exists>b1 ev1. gc_loop (recorded e) protection ids nodes claims b1 (w2, ev1) = (b', (w', ev')) \<and>
       (c \<in> set claims \<or> c \<in> set (deleted_claims ev1))"
  proof (cases "ncl_ProviderID d \<in> set ids \<or> ge_now e w - ncl_CreationTimestamp d < protection")
    case True
    then have "gc_loop (recorded e) protection ids nodes claims b (w, ev) = (b', (w', ev'))" "d \<noteq> c"
      using Cons.prems assms(4) by (auto split: if_splits)
    with Cons.prems(2) that [of w] show thesis by auto
  next
    case False
    have t1: "ge_now e w \<le> ge_now e w1" using assms(1) r unfolding steady_clock_def by (metis snd_conv)
    show thesis
    proof (cases "(case r of None \<Rightarrow> False | Some x \<Rightarrow> \<not> is_nodeclaim_notfound x) \<or>
        find (\<lambda>n. node_ProviderID n = ncl_ProviderID d) nodes = None")
      case True
      with Cons.prems(1) False r
      obtain b1 where "gc_loop (recorded e) protection ids nodes claims b1 (w1, ev @ [GcDelete d]) = (b', (w', ev'))"
        by (auto split: if_splits)
      with that [OF t1] Cons.prems(2) show thesis by fastforce
    next
      case found: False
      then obtain n where n: "find (\<lambda>n. node_ProviderID n = ncl_ProviderID d) nodes = Some n" by blast
      obtain r2 w2 where d2: "ge_delete_node e n w1 = (r2, w2)" by (metis surj_pair)
      have t2: "ge_now e w \<le> ge_now e w2"
        using assms(1) d2 t1 unfolding steady_clock_def by (metis snd_conv order_trans)
      from Cons.prems(1) False found r n d2
      obtain b1 where l: "gc_loop (recorded e) protection ids nodes claims b1 (w2, (ev @ [GcDelete d]) @ [GcDeleteNode n]) = (b', (w', ev'))"
        by (auto split: if_splits)
      have "c \<in> set claims \<or> c \<in> set (deleted_claims ((ev @ [GcDelete d]) @ [GcDeleteNode n]))"
        using Cons.prems(2) by auto
      with that [OF t2] l show thesis by blast
    qed
  qed
  then obtain b1 ev1 where "gc_loop (recorded e) protection ids nodes claims b1 (w2, ev1) = (b', (w', ev'))"
    "c \<in> set claims \<or> c \<in> set (deleted_claims ev1)" by blast
  from Cons.IH [OF this] Cons.prems(3) w2(1) show ?case by linarith
qed simp

section \<open>Properties\<close>


text \<open>A claim that was never launched has an empty provider ID, and so have nodes of other providers.\<close>

lemma unlaunched_claim_takes_foreign_node:
  assumes "ncl_ProviderID c = ''''" "ncl_ProviderID c \<notin> set ids" "protection \<le> ge_now e w - ncl_CreationTimestamp c"
    and "ge_cloud_delete e c w = (None, w1)" "node_ProviderID n = ''''" "ge_delete_node e n w1 = (None, w2)"
  shows "gc_loop (recorded e) protection ids (n # nodes) [c] b (w, []) = (True, (w2, [GcDelete c, GcDeleteNode n]))"
  using assms by simp

lemma delete_of_unlaunched_does_nothing: "ncl_ProviderID c = '''' \<Longrightarrow> DeleteClaim env c s = (None, s)"
  by (simp add: DeleteClaim_def fromProviderID_def)

text \<open>Without a NodeClaim in the cluster no instance is looked at.\<close>

lemma no_claims_no_collection:
  "ge_list_claims e w = (Inr [], w1) \<Longrightarrow> collect_garbage (recorded e) p (w, ev) = (GcRequeue (5 * minute_ns) None, (w1, ev))"
  by (simp add: collect_garbage_def)

definition sample_gc :: "NodeClaim list \<Rightarrow> NodeClaim list \<Rightarrow> Node list \<Rightarrow> unit GcEnv" where
  "sample_gc claims live nodes = \<lparr>ge_list_claims = (\<lambda>w. (Inr claims, w)), ge_list_nodes = (\<lambda>w. (Inr nodes, w)),
     ge_delete_node = (\<lambda>n w. (None, w)), ge_cloud_list = (\<lambda>w. (Inr live, w)), ge_cloud_delete = (\<lambda>c w. (None, w)),
     ge_now = (\<lambda>w. 100 * minute_ns)\<rparr>"

definition sample_orphan :: "string \<Rightarrow> string \<Rightarrow> time_ns \<Rightarrow> NodeClaim" where
  "sample_orphan name pid t = emptyNodeClaim\<lparr>ncl_Name := name, ncl_ProviderID := pid, ncl_CreationTimestamp := t\<rparr>"


end
