(* ===== verification/Tagging.thy ===== *)
theory Tagging
  imports CloudProvider
begin

text \<open>
  The tagging controller (pkg/controllers/nodeclaim/tagging/controller.go).  The
  environment is a record of parameters: the Kubernetes client, Get of the instance
  provider without its cache, and TagInstance.  The result is None or the text of the error.
\<close>

record 'w TagEnv =
  te_claim :: "string \<Rightarrow> 'w \<Rightarrow> (kube_error + NodeClaim) \<times> 'w"
  te_class :: "string \<Rightarrow> 'w \<Rightarrow> (kube_error + ECSNodeClass) \<times> 'w"
  te_patch :: "NodeClaim \<Rightarrow> NodeClaim \<Rightarrow> 'w \<Rightarrow> kube_error option \<times> 'w"
  te_instance :: "string \<Rightarrow> 'w \<Rightarrow> (kerr + Instance) \<times> 'w"
  te_tag :: "string \<Rightarrow> gomap \<Rightarrow> 'w \<Rightarrow> string option \<times> 'w"

definition isTaggable :: "NodeClaim \<Rightarrow> bool" where
  "isTaggable nc \<longleftrightarrow> (if map_of (ncl_Annotations nc) AnnotationInstanceTagged = Some ''true'' then False
     else if ncl_ProviderID nc = '''' then False
     else if ncl_DeletionTimestamp nc \<noteq> None then False
     else True)"

definition getInstanceIDFromProviderID :: "string \<Rightarrow> string" where
  "getInstanceIDFromProviderID providerID =
     (let parts = split_on CHR ''.'' providerID in if length parts = 0 then '''' else List.last parts)"

definition missing_tags :: "gomap \<Rightarrow> gomap \<Rightarrow> gomap" where
  "missing_tags desired current = filter (\<lambda>(k, v). map_of current k \<noteq> Some v) desired"

definition tagInstance :: "'w TagEnv \<Rightarrow> NodeClaim \<Rightarrow> ECSNodeClass \<Rightarrow> string \<Rightarrow> 'w \<Rightarrow> string option \<times> 'w" where
  "tagInstance env nodeClaim nodeClass instanceID w =
     (let desiredTags = BuildInstanceTags nodeClaim nodeClass in
      case te_instance env instanceID w of
        (Inl err, w1) \<Rightarrow> (Some (''getting instance for tagging: '' @ err_text err), w1)
      | (Inr inst, w1) \<Rightarrow>
          (let tagsToApply = missing_tags desiredTags (ins_Tags inst) in
           if tagsToApply = [] then (None, w1) else te_tag env instanceID tagsToApply w1))"

definition mark_tagged :: "NodeClaim \<Rightarrow> NodeClaim" where
  "mark_tagged nc = nc\<lparr>ncl_Annotations := AList.update AnnotationInstanceTagged ''true'' (ncl_Annotations nc)\<rparr>"

definition ignore_notfound :: "kube_error \<Rightarrow> string option" where
  "ignore_notfound err = (if is_kube_notfound err then None else Some (kube_text err))"

definition ReconcileTagging :: "'w TagEnv \<Rightarrow> string \<Rightarrow> 'w \<Rightarrow> string option \<times> 'w" where
  "ReconcileTagging env name w = (case te_claim env name w of
     (Inl err, w1) \<Rightarrow> (ignore_notfound err, w1)
   | (Inr stored, w1) \<Rightarrow>
       if \<not> isTaggable stored then (None, w1)
       else if ncl_ProviderID stored = '''' then (None, w1)
       else if ncl_DeletionTimestamp stored \<noteq> None then (None, w1)
       else (case te_class env (ncl_NodeClassRef stored) w1 of
         (Inl err, w2) \<Rightarrow> (ignore_notfound err, w2)
       | (Inr nodeClass, w2) \<Rightarrow>
           (let instanceID = getInstanceIDFromProviderID (ncl_ProviderID stored) in
            if instanceID = '''' then (None, w2)
            else case tagInstance env stored nodeClass instanceID w2 of
              (Some err, w3) \<Rightarrow> (Some (''failed to tag instance '' @ instanceID @ '': '' @ err), w3)
            | (None, w3) \<Rightarrow>
                (let nodeClaim = mark_tagged stored in
                 if nodeClaim \<noteq> stored then (case te_patch env nodeClaim stored w3 of
                     (Some err, w4) \<Rightarrow> (ignore_notfound err, w4) | (None, w4) \<Rightarrow> (None, w4))
                 else (None, w3)))))"

section \<open>Recording what is sent\<close>

datatype tag_event = Sent string gomap | Patched NodeClaim

definition tag_recorded :: "'w TagEnv \<Rightarrow> ('w \<times> tag_event list) TagEnv" where
  "tag_recorded e = \<lparr>te_claim = (\<lambda>n (w, ev). case te_claim e n w of (r, w') \<Rightarrow> (r, (w', ev))),
     te_class = (\<lambda>n (w, ev). case te_class e n w of (r, w') \<Rightarrow> (r, (w', ev))),
     te_patch = (\<lambda>c s (w, ev). case te_patch e c s w of (r, w') \<Rightarrow> (r, (w', ev @ [Patched c]))),
     te_instance = (\<lambda>i (w, ev). case te_instance e i w of (r, w') \<Rightarrow> (r, (w', ev))),
     te_tag = (\<lambda>i t (w, ev). case te_tag e i t w of (r, w') \<Rightarrow> (r, (w', ev @ [Sent i t])))\<rparr>"

lemma tag_recorded_fields [simp]:
  "te_claim (tag_recorded e) n (w, ev) = (case te_claim e n w of (r, w') \<Rightarrow> (r, (w', ev)))"
  "te_class (tag_recorded e) n (w, ev) = (case te_class e n w of (r, w') \<Rightarrow> (r, (w', ev)))"
  "te_patch (tag_recorded e) c s (w, ev) = (case te_patch e c s w of (r, w') \<Rightarrow> (r, (w', ev @ [Patched c])))"
  "te_instance (tag_recorded e) i (w, ev) = (case te_instance e i w of (r, w') \<Rightarrow> (r, (w', ev)))"
  "te_tag (tag_recorded e) i t (w, ev) = (case te_tag e i t w of (r, w') \<Rightarrow> (r, (w', ev @ [Sent i t])))"
  by (simp_all add: tag_recorded_def)

lemma missing_tags_complete:
  assumes "wf_map desired" "map_of desired k = Some v"
  shows "(map_of current ++ map_of (missing_tags desired current)) k = Some v"
proof (cases "map_of current k = Some v")
  case True
  have "map_of (missing_tags desired current) k = None"
  proof (rule ccontr)
    assume "map_of (missing_tags desired current) k \<noteq> None"
    then obtain v' where "(k, v') \<in> set (missing_tags desired current)" by (auto dest: map_of_SomeD)
    then have "(k, v') \<in> set desired" "map_of current k \<noteq> Some v'" by (auto simp: missing_tags_def)
    then have "map_of desired k = Some v'" using assms(1) by (simp add: wf_map_def)
    with assms(2) True \<open>map_of current k \<noteq> Some v'\<close> show False by simp
  qed
  with True show ?thesis by (simp add: map_add_def)
next
  case False
  then have "(k, v) \<in> set (missing_tags desired current)" using assms(2) by (auto simp: missing_tags_def dest: map_of_SomeD)
  moreover have "distinct (List.map fst (missing_tags desired current))"
    using assms(1) by (simp add: wf_map_def missing_tags_def distinct_map_filter)
  ultimately have "map_of (missing_tags desired current) k = Some v" by simp
  then show ?thesis by (simp add: map_add_def)
qed

lemma tag_no_patch:
  "tagInstance (tag_recorded e) nc cls i (w, []) = (x, (w', ev)) \<Longrightarrow> Patched c \<notin> set ev"
  by (auto simp: tagInstance_def Let_def split: prod.splits sum.splits if_splits)

section \<open>Properties\<close>


text \<open>The two ways of reading an instance ID differ for provider IDs without a dot.\<close>

lemma instance_id_readers_differ:
  "getInstanceIDFromProviderID ''i-1'' = ''i-1''" "fromProviderID ''i-1'' = ''''"
  by (simp_all add: getInstanceIDFromProviderID_def fromProviderID_def Let_def)

lemma instance_id_readers_agree:
  "CHR ''.'' \<notin> set i \<Longrightarrow> getInstanceIDFromProviderID (region @ ''.'' @ i) = fromProviderID (region @ ''.'' @ i)"
  using fromProviderID_region [of i region] split_on_last [of "CHR ''.''" i region]
  by (simp add: getInstanceIDFromProviderID_def)

text \<open>The environment made of the instance provider: Get with skipCache, and TagInstance.\<close>

record 'w TagWorld =
  tw_instances :: "Instance cache"
  tw_cloud :: 'w

definition provider_tag_env :: "'w CpEnv \<Rightarrow> (string \<Rightarrow> 'w TagWorld \<Rightarrow> (kube_error + NodeClaim) \<times> 'w TagWorld) \<Rightarrow>
    (string \<Rightarrow> 'w TagWorld \<Rightarrow> (kube_error + ECSNodeClass) \<times> 'w TagWorld) \<Rightarrow>
    (NodeClaim \<Rightarrow> NodeClaim \<Rightarrow> 'w TagWorld \<Rightarrow> kube_error option \<times> 'w TagWorld) \<Rightarrow> 'w TagWorld TagEnv" where
  "provider_tag_env env claim cls patch = \<lparr>te_claim = claim, te_class = cls, te_patch = patch,
     te_instance = (\<lambda>i w. case GetInst (env_flight env) (env_api env) (env_region env) i True (tw_instances w) (tw_cloud w) of
        (r, c, v) \<Rightarrow> (r, w\<lparr>tw_instances := c, tw_cloud := v\<rparr>)),
     te_tag = (\<lambda>i t w. case TagInstance (env_api env) (env_region env) i t (tw_cloud w) of
        (r, v) \<Rightarrow> (r, w\<lparr>tw_cloud := v\<rparr>))\<rparr>"

definition sample_tag_env :: "NodeClaim \<Rightarrow> ECSNodeClass \<Rightarrow> Instance \<Rightarrow> unit TagEnv" where
  "sample_tag_env nc cls inst = \<lparr>te_claim = (\<lambda>n w. (Inr nc, w)), te_class = (\<lambda>n w. (Inr cls, w)),
     te_patch = (\<lambda>c s w. (None, w)), te_instance = (\<lambda>i w. (Inr inst, w)), te_tag = (\<lambda>i t w. (None, w))\<rparr>"

definition untagged_claim :: NodeClaim where
  "untagged_claim = emptyNodeClaim\<lparr>ncl_Name := ''nc-1'', ncl_ProviderID := ''cn.i-1''\<rparr>"

definition untagged_instance :: Instance where
  "untagged_instance = convert_instance launched_instance 2 4"


end
