(* ===== verification/NodeClassHash.thy ===== *)
theory NodeClassHash
  imports Drift
begin

text \<open>
  The hash controller (pkg/controllers/nodeclass/hash/controller.go) and the
  interruption controller, which does nothing yet
  (pkg/controllers/interruption/controller.go).  JSON encoding and SHA-256 are one parameter, as
  in Drift; the Kubernetes client is a pair of parameters.
\<close>

record SpecHashInput =
  sh_VSwitchSelectorTerms :: "VSwitchSelectorTerm list"
  sh_SecurityGroupSelectorTerms :: "SecurityGroupSelectorTerm list"
  sh_ImageSelectorTerms :: "ImageSelectorTerm list"
  sh_UserData :: "string option"
  sh_Kubelet :: "KubeletConfiguration option"
  sh_SystemDisk :: "SystemDiskSpec option"
  sh_DataDisks :: "DataDiskSpec list"
  sh_InstanceStorePolicy :: "string option"
  sh_Tags :: gomap
  sh_Role :: "string option"
  sh_CapacityReservationPreference :: "string option"
  sh_CapacityReservationSelectorTerms :: "CapacityReservationSelectorTerm list"
  sh_MetadataOptions :: "MetadataOptions option"

definition specHashInput :: "ECSNodeClassSpec \<Rightarrow> SpecHashInput" where
  "specHashInput s = \<lparr>sh_VSwitchSelectorTerms = nc_VSwitchSelectorTerms s,
     sh_SecurityGroupSelectorTerms = nc_SecurityGroupSelectorTerms s, sh_ImageSelectorTerms = nc_ImageSelectorTerms s,
     sh_UserData = nc_UserData s, sh_Kubelet = nc_Kubelet s, sh_SystemDisk = nc_SystemDisk s,
     sh_DataDisks = nc_DataDisks s, sh_InstanceStorePolicy = nc_InstanceStorePolicy s, sh_Tags = nc_Tags s,
     sh_Role = nc_Role s, sh_CapacityReservationPreference = nc_CapacityReservationPreference s,
     sh_CapacityReservationSelectorTerms = nc_CapacityReservationSelectorTerms s,
     sh_MetadataOptions = nc_MetadataOptions s\<rparr>"

definition computeHash :: "(SpecHashInput \<Rightarrow> string + string) \<Rightarrow> ECSNodeClassSpec \<Rightarrow> string + string" where
  "computeHash sha spec = sha (specHashInput spec)"

record 'w HashEnv =
  he_get :: "string \<Rightarrow> 'w \<Rightarrow> (kube_error + ECSNodeClass) \<times> 'w"
  he_update :: "ECSNodeClass \<Rightarrow> 'w \<Rightarrow> kube_error option \<times> 'w"

definition hash_annotated :: "ECSNodeClass \<Rightarrow> string \<Rightarrow> bool" where
  "hash_annotated n h \<longleftrightarrow> map_of (k_Annotations n) AnnotationECSNodeClassHash = Some h \<and>
     map_of (k_Annotations n) AnnotationECSNodeClassHashVersion = Some ''v1''"

definition annotate_hash :: "ECSNodeClass \<Rightarrow> string \<Rightarrow> ECSNodeClass" where
  "annotate_hash n h = n\<lparr>k_Annotations := AList.update AnnotationECSNodeClassHashVersion ''v1''
     (AList.update AnnotationECSNodeClassHash h (k_Annotations n))\<rparr>"

text \<open>A missing annotation reads as the empty string; the hash and the version are not empty.\<close>

definition annotation_is :: "ECSNodeClass \<Rightarrow> string \<Rightarrow> string \<Rightarrow> bool" where
  "annotation_is n key v \<longleftrightarrow> or_else (map_of (k_Annotations n) key) '''' = v"

definition update_hash_once :: "(SpecHashInput \<Rightarrow> string + string) \<Rightarrow> 'w HashEnv \<Rightarrow> string \<Rightarrow> 'w \<Rightarrow> kube_error option \<times> 'w" where
  "update_hash_once sha env name w = (case he_get env name w of
     (Inl err, w1) \<Rightarrow> (Some err, w1)
   | (Inr latest, w1) \<Rightarrow> (case computeHash sha (k_Spec latest) of
       Inl err \<Rightarrow> (Some (KubeOther (''failed to compute hash: '' @ err)), w1)
     | Inr hash \<Rightarrow>
         if annotation_is latest AnnotationECSNodeClassHash hash \<and>
            annotation_is latest AnnotationECSNodeClassHashVersion ''v1'' then (None, w1)
         else he_update env (annotate_hash latest hash) w1))"

definition updateNodeClass :: "(SpecHashInput \<Rightarrow> string + string) \<Rightarrow> 'w HashEnv \<Rightarrow> string \<Rightarrow> 'w \<Rightarrow> kube_error option \<times> 'w" where
  "updateNodeClass sha env name w = retry_on_conflict default_retries (update_hash_once sha env name) w"

definition ReconcileHash :: "(SpecHashInput \<Rightarrow> string + string) \<Rightarrow> 'w HashEnv \<Rightarrow> string \<Rightarrow> 'w \<Rightarrow> string option \<times> 'w" where
  "ReconcileHash sha env name w = (case he_get env name w of
     (Inl err, w1) \<Rightarrow> (if is_kube_notfound err then None else Some (kube_text err), w1)
   | (Inr nodeClass, w1) \<Rightarrow> (case updateNodeClass sha env (k_Name nodeClass) w1 of
       (Some err, w2) \<Rightarrow> (Some (''failed to update nodeclass: '' @ kube_text err), w2)
     | (None, w2) \<Rightarrow> (None, w2)))"

section \<open>The interruption controller\<close>

definition ReconcileInterruption :: "string \<Rightarrow> 'w \<Rightarrow> string option \<times> 'w" where
  "ReconcileInterruption name w = (None, w)"

definition markNodeForDeletion :: "Node \<Rightarrow> string option" where
  "markNodeForDeletion node = Some ''interruption handling is not implemented yet''"

definition addInterruptionCondition :: "Node \<Rightarrow> string \<Rightarrow> string option" where
  "addInterruptionCondition node interruptionTime = Some ''interruption handling is not implemented yet''"

definition isInterrupted :: "Instance \<Rightarrow> bool \<times> string" where
  "isInterrupted inst = (False, ''Interruption handling is not implemented yet'')"

section \<open>A store with concurrent writers\<close>

text \<open>
  The store holds one object and the versions that other writers are about to put
  in place of it: an update fails with a conflict as long as one of them is due, and the
  next read then sees the new version.
\<close>

record Store =
  sr_object :: ECSNodeClass
  sr_due :: "ECSNodeClass list"

definition store_env :: "Store HashEnv" where
  "store_env = \<lparr>he_get = (\<lambda>name w. (Inr (sr_object w), w)),
     he_update = (\<lambda>n w. case sr_due w of
        [] \<Rightarrow> (None, w\<lparr>sr_object := n\<rparr>)
      | m # ms \<Rightarrow> (Some (KubeConflict ''the object has been modified''), w\<lparr>sr_object := m, sr_due := ms\<rparr>))\<rparr>"

lemma store_env_fields [simp]:
  "he_get store_env name w = (Inr (sr_object w), w)"
  "he_update store_env n w = (case sr_due w of [] \<Rightarrow> (None, w\<lparr>sr_object := n\<rparr>)
      | m # ms \<Rightarrow> (Some (KubeConflict ''the object has been modified''), w\<lparr>sr_object := m, sr_due := ms\<rparr>))"
  by (simp_all add: store_env_def)

definition hash_settled :: "(SpecHashInput \<Rightarrow> string + string) \<Rightarrow> ECSNodeClass \<Rightarrow> bool" where
  "hash_settled sha n \<longleftrightarrow> (\<exists>h. computeHash sha (k_Spec n) = Inr h \<and> annotation_is n AnnotationECSNodeClassHash h
     \<and> annotation_is n AnnotationECSNodeClassHashVersion ''v1'')"

lemma annotate_hash_settles: "computeHash sha (k_Spec n) = Inr h \<Longrightarrow> hash_settled sha (annotate_hash n h)"
  by (simp add: hash_settled_def annotate_hash_def annotation_is_def map_of_update label_defs)

lemma update_rounds:
  assumes "\<And>spec. \<exists>h. computeHash sha spec = Inr h" "length (sr_due w) \<le> n"
  shows "\<exists>m w'. retry_on_conflict n (update_hash_once sha store_env name) w = (None, w')
     \<and> m \<in> insert (sr_object w) (set (sr_due w)) \<and> (\<exists>a. sr_object w' = m\<lparr>k_Annotations := a\<rparr>) \<and> hash_settled sha (sr_object w')"
  using assms(2)
proof (induction n arbitrary: w)
  case 0
  obtain h where h: "computeHash sha (k_Spec (sr_object w)) = Inr h" using assms(1) by blast
  show ?case
  proof (cases "annotation_is (sr_object w) AnnotationECSNodeClassHash h \<and>
      annotation_is (sr_object w) AnnotationECSNodeClassHashVersion ''v1''")
    case True
    with h have "hash_settled sha (sr_object w)" by (auto simp: hash_settled_def)
    with True h show ?thesis
      by (intro exI [of _ "sr_object w"] exI [of _ w]) (auto simp: update_hash_once_def intro!: exI [of _ "k_Annotations (sr_object w)"])
  next
    case False
    with 0 h annotate_hash_settles [OF h] show ?thesis
      by (intro exI [of _ "sr_object w"]) (auto simp: update_hash_once_def annotate_hash_def)
  qed
next
  case (Suc n)
  obtain h where h: "computeHash sha (k_Spec (sr_object w)) = Inr h" using assms(1) by blast
  show ?case
  proof (cases "annotation_is (sr_object w) AnnotationECSNodeClassHash h \<and>
      annotation_is (sr_object w) AnnotationECSNodeClassHashVersion ''v1''")
    case True
    with h have "hash_settled sha (sr_object w)" by (auto simp: hash_settled_def)
    with True h show ?thesis
      by (intro exI [of _ "sr_object w"] exI [of _ w]) (auto simp: update_hash_once_def intro!: exI [of _ "k_Annotations (sr_object w)"])
  next
    case new: False
    show ?thesis
    proof (cases "sr_due w")
      case Nil
      with new h annotate_hash_settles [OF h] show ?thesis
        by (intro exI [of _ "sr_object w"]) (auto simp: update_hash_once_def annotate_hash_def)
    next
      case (Cons m ms)
      let ?w = "w\<lparr>sr_object := m, sr_due := ms\<rparr>"
      have "length (sr_due ?w) \<le> n" using Suc.prems Cons by simp
      from Suc.IH [OF this] obtain m' w' where
        "retry_on_conflict n (update_hash_once sha store_env name) ?w = (None, w')" "m' \<in> insert m (set ms)"
        "\<exists>a. sr_object w' = m'\<lparr>k_Annotations := a\<rparr>" "hash_settled sha (sr_object w')" by auto
      moreover have "update_hash_once sha store_env name w = (Some (KubeConflict ''the object has been modified''), ?w)"
        using new h Cons by (auto simp: update_hash_once_def)
      ultimately show ?thesis
        using Cons by (intro exI [of _ m'] exI [of _ w']) auto
    qed
  qed
qed

section \<open>Properties\<close>

text \<open>
  C26: The hash annotation survives concurrent writers.  When at most four other
  writes get in between, Reconcile of the hash controller ends without error, and the stored
  object is one of the versions written, with nothing but its annotations changed,
  carrying the hash of its own spec, not of the spec that was read first.
\<close>
theorem hash_is_of_the_stored_spec:
  assumes "\<And>spec. \<exists>h. computeHash sha spec = Inr h" "length (sr_due w) \<le> 4"
  shows "\<exists>m w' a h. ReconcileHash sha store_env name w = (None, w')
     \<and> m \<in> insert (sr_object w) (set (sr_due w)) \<and> sr_object w' = m\<lparr>k_Annotations := a\<rparr>
     \<and> computeHash sha (k_Spec m) = Inr h \<and> or_else (map_of a AnnotationECSNodeClassHash) '''' = h
     \<and> or_else (map_of a AnnotationECSNodeClassHashVersion) '''' = ''v1''"
proof -
  have "length (sr_due w) \<le> default_retries" using assms(2) by (simp add: default_retries_def)
  from update_rounds [OF assms(1) this, of "k_Name (sr_object w)"] obtain m w' a where
    "updateNodeClass sha store_env (k_Name (sr_object w)) w = (None, w')" "m \<in> insert (sr_object w) (set (sr_due w))"
    "sr_object w' = m\<lparr>k_Annotations := a\<rparr>" "hash_settled sha (sr_object w')"
    unfolding updateNodeClass_def by blast
  then show ?thesis by (auto simp: ReconcileHash_def hash_settled_def annotation_is_def)
qed

text \<open>
  The hash of this controller and the hash that drift detection compares are digests of
  different fields under one annotation key: capacity reservations count here only.
\<close>

lemma hashes_differ_in_reservations:
  "hashInput (s\<lparr>nc_CapacityReservationPreference := p\<rparr>) = hashInput s"
  "p \<noteq> nc_CapacityReservationPreference s \<Longrightarrow> specHashInput (s\<lparr>nc_CapacityReservationPreference := p\<rparr>) \<noteq> specHashInput s"
  by (auto simp: hashInput_def specHashInput_def)

definition sample_sha :: "SpecHashInput \<Rightarrow> string + string" where
  "sample_sha i = Inr (or_else (sh_UserData i) ''none'')"

theorem hash_is_of_the_stored_spec_witness:
  "\<exists>w' a. ReconcileHash sample_sha store_env ''default'' \<lparr>sr_object = sample_class,
       sr_due = [sample_class\<lparr>k_Spec := emptySpec\<lparr>nc_UserData := Some ''x''\<rparr>\<rparr>]\<rparr> = (None, w')
     \<and> or_else (map_of a AnnotationECSNodeClassHashVersion) '''' = ''v1'' \<and> k_Annotations (sr_object w') = a"
proof -
  let ?w = "\<lparr>sr_object = sample_class, sr_due = [sample_class\<lparr>k_Spec := emptySpec\<lparr>nc_UserData := Some ''x''\<rparr>\<rparr>]\<rparr>"
  have h: "\<exists>h. computeHash sample_sha spec = Inr h" for spec by (simp add: computeHash_def sample_sha_def)
  have "length (sr_due ?w) \<le> 4" by simp
  from hash_is_of_the_stored_spec [OF h this, of "''default''"] obtain m w' a where
    "ReconcileHash sample_sha store_env ''default'' ?w = (None, w')" "sr_object w' = m\<lparr>k_Annotations := a\<rparr>"
    "or_else (map_of a AnnotationECSNodeClassHashVersion) '''' = ''v1''" by blast
  then show ?thesis by (intro exI [of _ w'] exI [of _ a]) simp
qed

end
