(* ===== verification/Lifecycle.thy ===== *)
theory Lifecycle
  imports StatusSpec GarbageCollection Tagging
begin

text \<open>
  The life of a node across the components: from a node class that admission
  accepts, over the status that the status controller writes, to the instance that Create
  launches, the list that garbage collection compares with, and the tags that keep the
  instance in that list.  No code is modelled here; the theorems compose the models of the other theories.
\<close>

section \<open>Launching from a ready node class\<close>

text \<open>What the status library promises: the readiness it reports is the Ready condition.\<close>

definition reads_ready :: "'w CpEnv \<Rightarrow> bool" where
  "reads_ready env \<longleftrightarrow> (\<forall>cls st. status_of (st_Conditions (k_Status cls)) ConditionTypeReady = Some st \<longrightarrow>
     fst (env_ready env cls) = st)"

text \<open>A cloud that refuses launches for lack of capacity only and names the instance it accepts.\<close>

definition refuses_for_capacity :: "'w EcsApi \<Rightarrow> bool" where
  "refuses_for_capacity api \<longleftrightarrow> (\<forall>req w. case fst (RunInstances api req w) of
     Inl e \<Rightarrow> capacity_error e | Inr r \<Rightarrow> \<exists>i more. r = Some (Some i # more))"

definition has_capacity :: "'w EcsApi \<Rightarrow> string \<Rightarrow> string \<Rightarrow> bool" where
  "has_capacity api instanceType vswitch \<longleftrightarrow> (\<forall>req w. rr_InstanceType req = instanceType \<and> rr_VSwitchId req = vswitch \<longrightarrow>
     (\<exists>r. fst (RunInstances api req w) = Inr r))"

text \<open>Every instance that a launch returned can be looked up right after it.\<close>

definition reports_launched :: "'w CpEnv \<Rightarrow> bool" where
  "reports_launched env \<longleftrightarrow> (\<forall>opts v i w t. CreateInst (env_api env) (env_region env) opts v = (Inr i, w) \<and>
     sta_world t = w \<longrightarrow> (\<exists>inst t'. get_instance env i t = (Inr inst, t')))"

lemma create_request_fields [simp]:
  "rr_InstanceType (create_request region opts sgs) = co_InstanceType opts"
  "rr_VSwitchId (create_request region opts sgs) = co_VSwitchID opts"
  by (simp_all add: create_request_def applyMetadataOptions_def empty_run_request_def Let_def split: option.split)

lemma CreateInst_capacity:
  assumes "refuses_for_capacity api" "co_SecurityGroupIDs opts \<noteq> []" "'''' \<notin> set (co_SecurityGroupIDs opts)"
  shows "case fst (CreateInst api region opts w) of Inl e \<Rightarrow> capacity_error e | Inr i \<Rightarrow> True"
    and "has_capacity api (co_InstanceType opts) (co_VSwitchID opts) \<Longrightarrow> \<exists>i w'. CreateInst api region opts w = (Inr i, w')"
proof -
  let ?req = "create_request region opts (NormalizeIDs (co_SecurityGroupIDs opts))"
  have n: "NormalizeIDs (co_SecurityGroupIDs opts) \<noteq> []" "'''' \<notin> set (NormalizeIDs (co_SecurityGroupIDs opts))"
    using assms(2,3) by (simp_all add: NormalizeIDs_sort_dedup)
  obtain r w1 where r: "RunInstances api ?req w = (r, w1)" by (metis surj_pair)
  have "case fst (RunInstances api ?req w) of Inl e \<Rightarrow> capacity_error e | Inr x \<Rightarrow> \<exists>i more. x = Some (Some i # more)"
    using assms(1) unfolding refuses_for_capacity_def by blast
  then consider e where "r = Inl e" "capacity_error e"
      "CreateInst api region opts w = (Inl (''failed to create instance: '' @ e), w1)"
    | i more where "r = Inr (Some (Some i # more))"
      "CreateInst api region opts w = (Inr i, apply_deferred api region i (deferredTagBatches (co_Tags opts)) w1)"
    using n r by (cases r) (auto simp: CreateInst_def Let_def)
  note outcome = this
  then show "case fst (CreateInst api region opts w) of Inl e \<Rightarrow> capacity_error e | Inr i \<Rightarrow> True"
    by cases (simp_all only: fst_conv sum.case capacity_error_failed)
  assume "has_capacity api (co_InstanceType opts) (co_VSwitchID opts)"
  then have "\<exists>x. fst (RunInstances api ?req w) = Inr x" unfolding has_capacity_def by simp
  with r have "\<exists>x. r = Inr x" by simp
  then show "\<exists>i w'. CreateInst api region opts w = (Inr i, w')" using outcome by cases auto
qed

text \<open>A first fit reaches a candidate that works when everything before it fails for capacity.\<close>

lemma first_fit_reaches:
  assumes "x \<in> set os" "\<And>w. \<exists>i w'. createFn x w = (Inr i, w')"
    and "\<And>y w. y \<in> set os \<Longrightarrow> case fst (createFn y w) of Inl e \<Rightarrow> capacity_error e | Inr i \<Rightarrow> True"
  shows "\<exists>i w'. first_fit createFn os lst w = (Inr i, w')"
  using assms
proof (induction os arbitrary: lst w)
  case (Cons y os)
  obtain r w1 where r: "createFn y w = (r, w1)" by (metis surj_pair)
  show ?case
  proof (cases r)
    case (Inl e)
    then have "x \<noteq> y" using Cons.prems(2) [of w] r by auto
    moreover have "capacity_error e" using Cons.prems(3) [of y w] r Inl by simp
    ultimately show ?thesis using Cons r Inl by simp
  next
    case (Inr i)
    with r show ?thesis by simp
  qed
qed simp

lemma create_reaches:
  assumes "its \<noteq> []" "images \<noteq> []" "vswitches \<noteq> []" "securityGroups \<noteq> []" "sorts_by_free_addresses sort_vsw"
    and rd: "validateRAMRoleForCreate cls = Inr role" "NormalizeDisks (k_Spec cls) = Inr disks"
    and x: "it \<in> set its" "vs \<in> set vswitches" "has_capacity api (it_Name it) (vsw_ID vs)"
    and api: "refuses_for_capacity api" "'''' \<notin> sg_ID ` set securityGroups"
  shows "\<exists>i w'. createInstanceWithRetry sort_vsw (CreateInst api region) netcfg claim cls its images vswitches
      securityGroups userData tags w = (Inr i, w')"
proof -
  let ?plan = "launch_plan netcfg claim images securityGroups userData tags role disks"
  let ?cs = "launch_candidates sort_vsw cls ?plan vswitches its"
  have sv: "set (sort_vsw vswitches) = set vswitches" by (rule sorts_set [OF assms(5)])
  let ?x = "(baseOpts cls ?plan it)\<lparr>co_VSwitchID := vsw_ID vs\<rparr>"
  have xin: "?x \<in> set ?cs" using x(1,2) sv by (auto simp: launch_candidates_def)
  have sg: "co_SecurityGroupIDs y \<noteq> [] \<and> '''' \<notin> set (co_SecurityGroupIDs y)" if "y \<in> set ?cs" for y
    using that assms(4) api(2) by (auto simp: launch_candidates_def baseOpts_def launch_plan_def NormalizeIDs_sort_dedup)
  have "co_InstanceType ?x = it_Name it" "co_VSwitchID ?x = vsw_ID vs" by (simp_all add: baseOpts_def)
  with CreateInst_capacity(2) [OF api(1)] sg [OF xin] x(3)
  have ok: "\<exists>i w'. CreateInst api region ?x v = (Inr i, w')" for v by metis
  have "\<exists>i w'. first_fit (CreateInst api region) ?cs None w = (Inr i, w')"
  proof (rule first_fit_reaches [where createFn = "CreateInst api region", OF xin ok])
    show "case fst (CreateInst api region y v) of Inl e \<Rightarrow> capacity_error e | Inr i \<Rightarrow> True" if "y \<in> set ?cs" for y v
      using CreateInst_capacity(1) [OF api(1)] sg [OF that] by blast
  qed
  then obtain i w' where f: "first_fit (CreateInst api region) ?cs None w = (Inr i, w')" by blast
  have "sort_vsw vswitches \<noteq> []" using sv x(2) by auto
  from types_loop_first_fit [where sort_vsw = sort_vsw and vswitches = vswitches and its = its and lst = None and
      createFn = "CreateInst api region" and nodeClass = cls and plan = ?plan and w = w and n = "length its", OF this]
    f assms(1)
  show ?thesis unfolding createInstanceWithRetry_loop [OF assms(1-4) rd] by auto
qed

text \<open>A node class that admission accepted and a pass of the status controller left without error.\<close>

lemma accepted_disks:
  "Validate s = None \<Longrightarrow> nc_LaunchTemplateID s = None \<Longrightarrow> \<exists>disks. NormalizeDisks s = Inr disks"
  by (auto simp: Validate_def first_err_None normalize_err_def split: option.splits sum.splits)

lemma settled_class:
  assumes "answering senv a" "resolve_phase senv n w = (Some (cls, None), w')"
  shows "k_Spec cls = k_Spec n" "status_of (st_Conditions (k_Status cls)) ConditionTypeReady = Some ConditionTrue"
    "st_VSwitches (k_Status cls) \<noteq> []" "st_Images (k_Status cls) \<noteq> []" "st_SecurityGroups (k_Status cls) \<noteq> []"
    "\<exists>role. validateRAMRoleForCreate cls = Inr role"
proof -
  from phase_realises [OF assms] obtain p where p: "status_plan a (k_Spec n) = (p, None)" "realises p n cls" by blast
  show spec: "k_Spec cls = k_Spec n" using p(2) by (simp add: realises_def)
  have cs: "cond_seq (pl_sets p) (st_Conditions (k_Status n)) (st_Conditions (k_Status cls))"
    using p(2) by (simp add: realises_def)
  show "status_of (st_Conditions (k_Status cls)) ConditionTypeReady = Some ConditionTrue"
    using status_of_touched [OF cs consistent_status_plan [OF p(1)] plan_sets_ready [OF p(1)]] .
  from status_plan_launchable [OF p(1)] show "st_VSwitches (k_Status cls) \<noteq> []" "st_Images (k_Status cls) \<noteq> []"
    "st_SecurityGroups (k_Status cls) \<noteq> []" "\<exists>role. validateRAMRoleForCreate cls = Inr role"
    using p(2) spec by (auto simp: launchable_def realises_def validateRAMRoleForCreate_def split: option.split)
qed

text \<open>With everything Create asks for in the class, the pair that works is reached.\<close>

lemma Create_reaches:
  assumes cls: "env_nodeclass env (ncl_NodeClassRef nodeClaim) (sta_world s) = Inr cls" "readiness_error env cls = None"
      "st_Images (k_Status cls) \<noteq> []" "st_SecurityGroups (k_Status cls) \<noteq> []"
      "'''' \<notin> sg_ID ` set (st_SecurityGroups (k_Status cls))"
      "validateRAMRoleForCreate cls = Inr role" "NormalizeDisks (k_Spec cls) = Inr disks"
    and types: "list_types env s = (Inr its, s1)"
      "it \<in> set (filterInstanceTypesByRequirements (env_region env) its (ncl_Requirements nodeClaim))"
    and vsw: "vs \<in> set (filterVSwitchesByZones (st_VSwitches (k_Status cls))
        (zonesFromRequirements (ncl_Requirements nodeClaim)))"
    and ud: "GenerateUserData (env_cs env) (bootstrap_options nodeClaim cls) (sta_scripts s1) (sta_world s1) = (Inr userData, c)"
    and ecs: "has_capacity (env_api env) (it_Name it) (vsw_ID vs)" "refuses_for_capacity (env_api env)"
      "reports_launched env"
    and sort: "sorts_by_free_addresses (env_sort_vsw env)"
  shows "\<exists>claim' s'. Create env nodeClaim s = (Inr claim', s')"
proof -
  let ?its = "filterInstanceTypesByRequirements (env_region env) its (ncl_Requirements nodeClaim)"
  let ?vs = "filterVSwitchesByZones (st_VSwitches (k_Status cls)) (zonesFromRequirements (ncl_Requirements nodeClaim))"
  have ne: "?its \<noteq> []" "?vs \<noteq> []" using types(2) vsw by auto
  have crt: "Create env nodeClaim s = launch env nodeClaim cls ?its ?vs userData (s1\<lparr>sta_scripts := c\<rparr>)"
    using cls(1-4) types(1) ne ud by (simp add: Create_def Let_def)
  let ?tags = "BuildInstanceTags nodeClaim cls" and ?w = "sta_world s1"
  from create_reaches [OF ne(1) cls(3) ne(2) cls(4) sort cls(6,7) types(2) vsw ecs(1,2) cls(5)]
  obtain i w1 where i: "createInstanceWithRetry (env_sort_vsw env) (CreateInst (env_api env) (env_region env)) (env_netcfg env)
      nodeClaim cls ?its (st_Images (k_Status cls)) ?vs (st_SecurityGroups (k_Status cls)) userData ?tags ?w = (Inr i, w1)"
    by blast
  from created_from_candidate [OF i] obtain opts v where "CreateInst (env_api env) (env_region env) opts v = (Inr i, w1)"
    by metis
  then obtain inst t' where "get_instance env i (s1\<lparr>sta_scripts := c, sta_world := w1\<rparr>) = (Inr inst, t')"
    using ecs(3) unfolding reports_launched_def by fastforce
  with i show ?thesis unfolding crt by (simp add: launch_def)
qed

text \<open>What an accepted class that a pass left without error gives Create.\<close>

lemma settled_for_create:
  assumes "Validate (k_Spec n) = None" "nc_LaunchTemplateID (k_Spec n) = None"
    and "answering senv a" "resolve_phase senv n w = (Some (cls, None), w')" "reads_ready env"
  obtains role disks where "readiness_error env cls = None" "validateRAMRoleForCreate cls = Inr role"
    "NormalizeDisks (k_Spec cls) = Inr disks"
proof -
  note cls = settled_class [OF assms(3,4)]
  obtain disks where "NormalizeDisks (k_Spec cls) = Inr disks" using accepted_disks assms(1,2) cls(1) by auto
  moreover obtain role where "validateRAMRoleForCreate cls = Inr role" using cls(6) by blast
  moreover have "fst (env_ready env cls) = ConditionTrue" using assms(5) cls(2) by (simp add: reads_ready_def)
  then have "readiness_error env cls = None" by (simp add: readiness_error_def case_prod_beta)
  ultimately show thesis using that by blast
qed

text \<open>
  C3: From an accepted, ready node class a claim is launched as soon as some capacity is left.
  Let admission accept the spec, let a pass of the status controller end without error, and let
  Create read that node class.  If some listed instance type meets the requirements of the
  claim, some resolved vSwitch lies in its zones, and ECS has capacity for that pair, refuses
  others for lack of capacity only, and reports the instance it launched, then Create returns a
  claim: none of its own checks stands in the way, and the fallback gets to the pair that works.
\<close>
theorem ready_class_launches:
  assumes "Validate (k_Spec n) = None" "nc_LaunchTemplateID (k_Spec n) = None"
    and status: "answering senv a" "resolve_phase senv n w = (Some (cls, None), w')"
    and groups: "'''' \<notin> sg_ID ` set (st_SecurityGroups (k_Status cls))"
    and reads: "env_nodeclass env (ncl_NodeClassRef nodeClaim) (sta_world s) = Inr cls" "reads_ready env"
    and types: "list_types env s = (Inr its, s1)"
      "it \<in> set (filterInstanceTypesByRequirements (env_region env) its (ncl_Requirements nodeClaim))"
    and vsw: "vs \<in> set (filterVSwitchesByZones (st_VSwitches (k_Status cls))
        (zonesFromRequirements (ncl_Requirements nodeClaim)))"
    and ud: "GenerateUserData (env_cs env) (bootstrap_options nodeClaim cls) (sta_scripts s1) (sta_world s1) = (Inr userData, c)"
    and ecs: "has_capacity (env_api env) (it_Name it) (vsw_ID vs)" "refuses_for_capacity (env_api env)"
      "reports_launched env"
    and sort: "sorts_by_free_addresses (env_sort_vsw env)"
  shows "\<exists>claim' s'. Create env nodeClaim s = (Inr claim', s')"
proof -
  note cls = settled_class [OF status]
  obtain role disks where "readiness_error env cls = None" "validateRAMRoleForCreate cls = Inr role"
    "NormalizeDisks (k_Spec cls) = Inr disks"
    by (rule settled_for_create [OF assms(1,2) status reads(2)])
  with reads(1) cls(4,5) groups types vsw ud ecs sort show ?thesis by (intro Create_reaches)
qed

definition accepted_class :: ECSNodeClass where
  "accepted_class = sample_class\<lparr>k_Spec := accepted_spec []\<rparr>"

lemma accepted_phase:
  obtains cls w' where
    "resolve_phase (answering_env sample_answers) accepted_class (0, accepted_class) = (Some (cls, None), w')"
    "k_Spec cls = accepted_spec []" "st_VSwitches (k_Status cls) = sample_vswitches"
    "st_SecurityGroups (k_Status cls) = [\<lparr>sg_ID = ''sg-1'', sg_Name = []\<rparr>]"
proof -
  obtain r w' where r: "resolve_phase (answering_env sample_answers) accepted_class (0, accepted_class) = (r, w')"
    by (metis surj_pair)
  have "\<exists>p. status_plan sample_answers (k_Spec accepted_class) = (p, None) \<and> pl_vsw p = Some sample_vswitches \<and>
      pl_sgs p = Some [\<lparr>sg_ID = ''sg-1'', sg_Name = []\<rparr>]"
    by (simp add: status_plan_def resources_plan_def selector_plan_def vswitches_plan_def groups_plan_def images_plan_def
        role_plan_def sample_answers_def accepted_class_def accepted_spec_def emptySpec_def sample_vswitches_def
        validateResolvedSecurityGroupAttachLimit_def defaultSecurityGroupAttachLimit_def plan_then_def role_ok_plan_def
        or_opt_def)
  with phase_realises [OF answering_env_answers r] obtain cls p where "r = Some (cls, None)"
    "realises p accepted_class cls" "pl_vsw p = Some sample_vswitches" "pl_sgs p = Some [\<lparr>sg_ID = ''sg-1'', sg_Name = []\<rparr>]"
    by (metis prod.inject)
  with r that [of cls w'] show thesis by (simp add: realises_def accepted_class_def)
qed

definition reading_env :: "ECSNodeClass \<Rightarrow> unit CpEnv" where
  "reading_env cls = (sample_env [launched_instance] cls)\<lparr>env_ready :=
     (\<lambda>c. (or_else (status_of (st_Conditions (k_Status c)) ConditionTypeReady) ConditionUnknown, [])),
     env_options := Some (NewOptions\<lparr>o_Region := ''cn-a''\<rparr>)\<rparr>"

lemma reading_env_fields [simp]:
  "env_api (reading_env cls) = sample_cloud [launched_instance]" "env_region (reading_env cls) = ''cn-a''"
  "env_nodeclass (reading_env cls) = (\<lambda>name w. Inr cls)" "env_flight (reading_env cls) = (\<lambda>key f. f)"
  "env_sort_vsw (reading_env cls) = sort_key (\<lambda>v. - vsw_AvailableIPAddressCount v)"
  by (simp_all add: reading_env_def sample_env_def)

lemma reading_env_ecs:
  "refuses_for_capacity (sample_cloud fleet)" "has_capacity (sample_cloud fleet) t v" "reports_launched (reading_env cls)"
proof -
  show "refuses_for_capacity (sample_cloud fleet)" "has_capacity (sample_cloud fleet) t v"
    by (simp_all add: refuses_for_capacity_def has_capacity_def sample_cloud_def)
  have "\<exists>inst s'. get_instance (reading_env cls) i s = (Inr inst, s')" for i s
    by (cases "getCachedInstance i 0 (sta_instances s)"; cases "fst (getCachedInstance i 0 (sta_instances s))")
       (auto simp: get_instance_def GetInst_def sample_cloud_def fleet_api_def describe_fn_def describeInstances_def
         describe_request_def BatchDescribeInstances_single get_result_def get_fields_present_def launched_instance_def
         sample_instance_def)
  then show "reports_launched (reading_env cls)" by (simp add: reports_launched_def)
qed

theorem ready_class_launches_witness:
  "\<exists>cls w' claim' s'. resolve_phase (answering_env sample_answers) accepted_class (0, accepted_class) = (Some (cls, None), w') \<and>
     Create (reading_env cls) emptyNodeClaim sample_state = (Inr claim', s')"
proof -
  obtain cls w' where r: "resolve_phase (answering_env sample_answers) accepted_class (0, accepted_class) = (Some (cls, None), w')"
    and st: "k_Spec cls = accepted_spec []" "st_VSwitches (k_Status cls) = sample_vswitches"
      "st_SecurityGroups (k_Status cls) = [\<lparr>sg_ID = ''sg-1'', sg_Name = []\<rparr>]"
    by (rule accepted_phase)
  let ?e = "reading_env cls"
  have v: "Validate (k_Spec accepted_class) = None" "nc_LaunchTemplateID (k_Spec accepted_class) = None"
    using accepted_spec_valid [of "[]"] by (simp_all add: accepted_class_def)
  have l: "list_types ?e sample_state = (Inr [sample_type], sample_state)"
    using sample_list_types [of "[launched_instance]" cls] by (simp add: list_types_def reading_env_def)
  have f: "sample_type \<in> set (filterInstanceTypesByRequirements (env_region ?e) [sample_type] (ncl_Requirements emptyNodeClaim))"
    by (simp add: filterInstanceTypesByRequirements_def FilterTypes_def emptyNodeClaim_def List.map_filter_def)
  have vs: "hd sample_vswitches \<in> set (filterVSwitchesByZones (st_VSwitches (k_Status cls))
      (zonesFromRequirements (ncl_Requirements emptyNodeClaim)))"
    by (simp add: st filterVSwitchesByZones_def zonesFromRequirements_def emptyNodeClaim_def sample_vswitches_def)
  have "\<exists>ud c. GenerateUserData (env_cs ?e) (bootstrap_options emptyNodeClaim cls)
      (sta_scripts sample_state) (sta_world sample_state) = (Inr ud, c)"
    by (simp add: GenerateUserData_def bootstrap_options_def determineClusterType_def st accepted_spec_def emptySpec_def
        kubeadmUserData_def ACKClusterType_def SelfManagedClusterType_def KubeadmClusterType_def)
  then obtain ud c where u: "GenerateUserData (env_cs ?e) (bootstrap_options emptyNodeClaim cls)
      (sta_scripts sample_state) (sta_world sample_state) = (Inr ud, c)" by blast
  have "'''' \<notin> sg_ID ` set (st_SecurityGroups (k_Status cls))" "reads_ready ?e"
    by (simp_all add: st reads_ready_def reading_env_def)
  from ready_class_launches [OF v answering_env_answers r this(1) _ this(2) l f vs u _ _ reading_env_ecs(3)]
    reading_env_ecs(1,2) sort_key_sorts r
  show ?thesis by auto
qed

section \<open>Staying in the list\<close>

text \<open>
  Garbage collection over the cloud provider: the world is the state of the cloud provider, whose
  cloud part the calls of the Kubernetes API share.  A list that does not
  end has no value here; for the fleets of the theorems it ends.
\<close>

record 'w KubeApi =
  ku_claims :: "'w \<Rightarrow> (kube_error + NodeClaim list) \<times> 'w"
  ku_nodes :: "'w \<Rightarrow> (kube_error + Node list) \<times> 'w"
  ku_delete_node :: "Node \<Rightarrow> 'w \<Rightarrow> kube_error option \<times> 'w"

definition on_world :: "('w \<Rightarrow> 'r \<times> 'w) \<Rightarrow> 'w CpState \<Rightarrow> 'r \<times> 'w CpState" where
  "on_world f s = (case f (sta_world s) of (r, w) \<Rightarrow> (r, s\<lparr>sta_world := w\<rparr>))"

definition gc_env :: "'w KubeApi \<Rightarrow> 'w CpEnv \<Rightarrow> 'w CpState GcEnv" where
  "gc_env ku env = \<lparr>ge_list_claims = on_world (ku_claims ku), ge_list_nodes = on_world (ku_nodes ku),
     ge_delete_node = (\<lambda>n. on_world (ku_delete_node ku n)), ge_cloud_list = (\<lambda>s. the (ListClaims env s)),
     ge_cloud_delete = DeleteClaim env, ge_now = (\<lambda>s. clk (env_api env) (sta_world s))\<rparr>"

text \<open>A list of a served fleet names every instance of it or fails.\<close>

lemma ListClaims_served:
  assumes "serves (env_api env) (env_region env) [(TagManagedBy, TagManagedByValue)] fleet"
    and "int (length fleet) < 2 ^ 31 - 100"
  shows "\<exists>r s'. ListClaims env s = Some (r, s') \<and>
     (\<forall>claims. r = Inr claims \<longrightarrow> List.map ncl_ProviderID claims = List.map providerID_of (listed fleet))"
proof -
  obtain c w where "ListInst (env_api env) (env_region env) [(TagManagedBy, TagManagedByValue)]
      (sta_instances s) (sta_world s) = Some (Inr (listed fleet), c, w)"
    using list_loop_pages [OF assms, of 0 "[]" "sta_instances s" "sta_world s"] by (auto simp: ListInst_def)
  then show ?thesis
    by (auto simp: ListClaims_def claim_of_instance_def Let_def split: prod.split sum.split)
qed

text \<open>
  C8: The node of a running instance is never collected.  When ECS serves a fleet under the
  managed-by tag, whatever claims and nodes Kubernetes lists, whatever fails and however old
  the claims are: no run of garbage collection hands a claim with the provider ID of an instance of
  that fleet to Delete, or deletes a node with such a provider ID.
\<close>
theorem running_nodes_are_not_collected:
  assumes "serves (env_api env) (env_region env) [(TagManagedBy, TagManagedByValue)] fleet"
    and "int (length fleet) < 2 ^ 31 - 100"
    and run: "ReconcileGarbage (recorded (gc_env ku env)) c (s, []) = (r, c', (s', ev))"
  shows "(\<forall>x \<in> set (deleted_claims ev). ncl_ProviderID x \<notin> providerID_of ` set (listed fleet)) \<and>
    (\<forall>n \<in> set (deleted_nodes ev). node_ProviderID n \<notin> providerID_of ` set (listed fleet))"
proof (cases "ev = []")
  case False
  let ?g = "gc_env ku env" and ?p = "gc_creationProtectionDuration c"
  obtain claims s1 live s2 nodes s3 b where l: "ge_cloud_list ?g s1 = (Inr live, s2)"
    "gc_loop (recorded ?g) ?p (List.map ncl_ProviderID live) nodes claims False (s3, []) = (b, (s', ev))"
    using run False
    by (auto simp: ReconcileGarbage_def collect_garbage_def split: prod.splits sum.splits if_splits)
  from ListClaims_served [OF assms(1,2), of s1] l(1)
  have "List.map ncl_ProviderID live = List.map providerID_of (listed fleet)" by (auto simp: gc_env_def)
  with gc_loop_events [OF l(2)] show ?thesis unfolding proper_deletions_def by (auto simp flip: set_map)
qed simp

section \<open>The tag that keeps an instance in the list\<close>

lemma in_take_sorted:
  fixes k :: "'a :: linorder"
  assumes "sorted xs" "distinct xs" "k \<in> set xs"
  shows "k \<in> set (take m xs) \<longleftrightarrow> length (filter (\<lambda>x. x < k) xs) < m"
  using assms
proof (induction xs arbitrary: m)
  case (Cons x xs)
  show ?case
  proof (cases "k = x")
    case True
    with Cons.prems have "filter (\<lambda>x. x < k) xs = []" by (auto simp: filter_empty_conv)
    with True show ?thesis by (cases m) auto
  next
    case False
    with Cons.prems have "x < k" "k \<in> set xs" by auto
    with Cons False show ?thesis by (cases m) auto
  qed
qed simp

lemma map_of_concat_SomeD: "map_of (concat ts) k = Some v \<Longrightarrow> \<exists>b \<in> set ts. map_of b k = Some v"
  by (induction ts) (auto simp: map_add_def split: option.splits)

lemma first_tag_batch_lookup:
  assumes "wf_map tags" "map_of tags k = Some v"
  shows "map_of (first_tag_batch tags) k =
    (if length (filter (\<lambda>x. x < k) (List.map fst tags)) < MaxTagsPerRequest then Some v else None)"
proof -
  let ?ks = "sort (List.map fst tags)" and ?m = "MaxTagsPerRequest"
  have k: "k \<in> set ?ks" using map_of_SomeD [OF assms(2)] by force
  then have ne: "?ks \<noteq> []" by (metis empty_iff empty_set)
  have f: "first_tag_batch tags = List.map (\<lambda>k. (k, or_else (map_of tags k) '''')) (take ?m ?ks)"
    using ne by (cases ?ks) (simp_all add: first_tag_batch_def BatchTags_def Let_def MaxTagsPerRequest_def chunks.simps)
  have "length (filter (\<lambda>x. x < k) ?ks) = length (filter (\<lambda>x. x < k) (List.map fst tags))"
    by (metis mset_filter mset_sort size_mset)
  moreover have "distinct ?ks" using assms(1) by (simp add: wf_map_def)
  ultimately show ?thesis using in_take_sorted [OF _ _ k, of ?m] assms(2) by (simp add: f map_of_keys_table)
qed

text \<open>
  C15: An instance is found by List from its launch on exactly when fewer than twenty tags sort before the managed-by
  tag.  For a node class that admission accepts, the launch request carries
  the managed-by tag in that case; otherwise the tag is in a batch that is
  sent after the launch, where an error is only logged.
\<close>
theorem managed_tag_is_in_launch_request:
  assumes "validateTags (k_Spec cls) = None" "wf_map (nc_Tags (k_Spec cls))" "co_Tags opts = BuildInstanceTags claim cls"
  shows "map_of (rr_Tag (create_request region opts sgs)) TagManagedBy =
      (if length (filter (\<lambda>x. x < TagManagedBy) (List.map fst (co_Tags opts))) < MaxTagsPerRequest
       then Some TagManagedByValue else None) \<and>
    (map_of (rr_Tag (create_request region opts sgs)) TagManagedBy = None \<longrightarrow>
       (\<exists>b \<in> set (deferredTagBatches (co_Tags opts)). map_of b TagManagedBy = Some TagManagedByValue))"
proof -
  have r: "TagManagedBy \<in> set restrictedTags" by (simp add: restrictedTags_def)
  then have "TagManagedBy \<notin> fst ` set (nc_Tags (k_Spec cls))"
    using assms(1) by (auto simp: validateTags_def first_err_None)
  then have none: "map_of (nc_Tags (k_Spec cls)) TagManagedBy = None" by (simp add: map_of_eq_None_iff)
  have m: "map_of (co_Tags opts) TagManagedBy = Some TagManagedByValue"
    using managed_tag_neq none by (simp add: assms(3) BuildInstanceTags_def Let_def map_of_copy_into [OF assms(2)]
        map_of_update map_add_def split: option.split)
  have w: "wf_map (co_Tags opts)" unfolding assms(3) by (rule wf_BuildInstanceTags)
  have t: "rr_Tag (create_request region opts sgs) = first_tag_batch (co_Tags opts)"
    using m by (auto simp: create_request_def)
  have "\<exists>b \<in> set (deferredTagBatches (co_Tags opts)). map_of b TagManagedBy = Some TagManagedByValue"
    if "map_of (first_tag_batch (co_Tags opts)) TagManagedBy = None"
  proof -
    have "map_of (first_tag_batch (co_Tags opts) @ concat (deferredTagBatches (co_Tags opts))) TagManagedBy = Some TagManagedByValue"
      unfolding first_and_deferred map_of_concat_BatchTags by (rule m)
    with that have "map_of (concat (deferredTagBatches (co_Tags opts))) TagManagedBy = Some TagManagedByValue"
      by (auto simp: map_add_def)
    then show ?thesis by (rule map_of_concat_SomeD)
  qed
  with first_tag_batch_lookup [OF w m] show ?thesis unfolding t by simp
qed

definition many_tags :: gomap where
  "many_tags = List.map (\<lambda>c. ([c], ''x'')) ''ABCDEFGHIJabcdefghij''"

definition many_tags_class :: ECSNodeClass where
  "many_tags_class = sample_class\<lparr>k_Spec := accepted_spec many_tags\<rparr>"

lemma many_tags_accepted: "Validate (accepted_spec many_tags) = None" "wf_map many_tags"
  "validateTags (accepted_spec many_tags) = None"
proof -
  have k: "List.map fst many_tags = List.map (\<lambda>c. [c]) ''ABCDEFGHIJabcdefghij''" by (simp add: many_tags_def)
  have "\<forall>t \<in> set restrictedTags. length t \<noteq> 1" by (simp add: restrictedTags_def label_defs)
  then have d: "fst ` set many_tags \<inter> set restrictedTags = {}" by (auto simp: many_tags_def)
  from accepted_spec_valid [OF d] show v: "Validate (accepted_spec many_tags) = None"
    "validateTags (accepted_spec many_tags) = None" by (auto simp: Validate_def first_err_None split: option.splits)
  show "wf_map many_tags" unfolding wf_map_def k by simp
qed

lemma many_tags_first: "length (filter (\<lambda>x. x < TagManagedBy) (List.map fst (BuildInstanceTags emptyNodeClaim many_tags_class))) = 20"
  by (simp add: BuildInstanceTags_def many_tags_class_def accepted_spec_def emptySpec_def emptyNodeClaim_def many_tags_def
      copy_into_def label_defs sample_class_def)

theorem managed_tag_is_in_launch_request_witness:
  "Validate (k_Spec many_tags_class) = None \<and>
   map_of (rr_Tag (create_request ''cn-a'' (sample_options\<lparr>co_Tags := BuildInstanceTags emptyNodeClaim many_tags_class\<rparr>) [''sg-1'']))
     TagManagedBy = None"
proof -
  have s: "k_Spec many_tags_class = accepted_spec many_tags" "nc_Tags (accepted_spec many_tags) = many_tags"
    by (simp_all add: many_tags_class_def accepted_spec_def)
  let ?o = "sample_options\<lparr>co_Tags := BuildInstanceTags emptyNodeClaim many_tags_class\<rparr>"
  have "co_Tags ?o = BuildInstanceTags emptyNodeClaim many_tags_class" by simp
  from managed_tag_is_in_launch_request [OF _ _ this] s many_tags_accepted many_tags_first
  show ?thesis by (simp add: MaxTagsPerRequest_def)
qed

definition sample_kube :: "NodeClaim list \<Rightarrow> Node list \<Rightarrow> unit KubeApi" where
  "sample_kube claims nodes = \<lparr>ku_claims = (\<lambda>w. (Inr claims, w)), ku_nodes = (\<lambda>w. (Inr nodes, w)),
     ku_delete_node = (\<lambda>n w. (None, w))\<rparr>"

theorem running_nodes_are_not_collected_witness:
  "\<exists>r c' s' ev. ReconcileGarbage (recorded (gc_env (sample_kube [sample_orphan ''a'' ''cn-a.i-1'' (- hour_ns), sample_orphan ''b'' ''cn-a.i-2'' (- hour_ns)] [])
       (sample_env [launched_instance] kubeadm_class))) (NewGarbageCollectionController None 0) (sample_state, []) = (r, c', (s', ev)) \<and>
     (\<forall>x \<in> set (deleted_claims ev). ncl_ProviderID x \<noteq> ''cn-a.i-1'')"
proof -
  let ?e = "sample_env [launched_instance] kubeadm_class"
  let ?k = "sample_kube [sample_orphan ''a'' ''cn-a.i-1'' (- hour_ns), sample_orphan ''b'' ''cn-a.i-2'' (- hour_ns)] []"
  obtain r c' s' ev where run: "ReconcileGarbage (recorded (gc_env ?k ?e)) (NewGarbageCollectionController None 0)
      (sample_state, []) = (r, c', (s', ev))" by (metis prod.collapse)
  have "serves (env_api ?e) (env_region ?e) [(TagManagedBy, TagManagedByValue)] [launched_instance]"
    by (auto simp: serves_def sample_cloud_def list_request_def)
  from running_nodes_are_not_collected [OF this _ run]
  have "\<forall>x \<in> set (deleted_claims ev). ncl_ProviderID x \<notin> providerID_of ` set (listed [launched_instance])" by simp
  moreover have "''cn-a.i-1'' \<in> providerID_of ` set (listed [launched_instance])"
    by (simp add: listed_Cons launched_instance_def sample_instance_def convert_instance_def derefString_def providerID_of_def)
  ultimately show ?thesis using run by auto
qed

section \<open>Restoring the tags\<close>

text \<open>
  A cloud that stores tags: an accepted TagResources call adds its tags to those of the instance,
  Get reports the tags of the instance and changes none.
\<close>

definition stores_tags :: "'w CpEnv \<Rightarrow> ('w \<Rightarrow> string \<Rightarrow> string \<Rightarrow> string option) \<Rightarrow> bool" where
  "stores_tags env tags_of \<longleftrightarrow>
     (\<forall>i b w w'. TagResources (env_api env) (tag_request (env_region env) i b) w = (None, w') \<longrightarrow>
        tags_of w' = (tags_of w)(i := tags_of w i ++ map_of b)) \<and>
     (\<forall>i c w r c' w'. GetInst (env_flight env) (env_api env) (env_region env) i True c w = (r, c', w') \<longrightarrow>
        tags_of w' = tags_of w \<and> (\<forall>inst. r = Inr inst \<longrightarrow> map_of (ins_Tags inst) = tags_of w i))"

definition keeps_tags :: "('w \<Rightarrow> 't) \<Rightarrow> ('w TagWorld \<Rightarrow> 'r \<times> 'w TagWorld) \<Rightarrow> bool" where
  "keeps_tags tags_of f \<longleftrightarrow> (\<forall>w r w'. f w = (r, w') \<longrightarrow> tags_of (tw_cloud w') = tags_of (tw_cloud w))"

lemma tag_loop_stores:
  assumes "stores_tags env tags_of"
    and "tag_loop (env_api env) (env_region env) i j n rest w = (None, w')"
  shows "tags_of w' = (tags_of w)(i := tags_of w i ++ map_of (concat (rev rest)))"
  using assms(2)
proof (induction rest arbitrary: j w)
  case (Cons b rest)
  obtain v where t: "TagResources (env_api env) (tag_request (env_region env) i b) w = (None, v)"
    "tag_loop (env_api env) (env_region env) i (j + 1) n rest v = (None, w')"
    using Cons.prems by (auto split: prod.splits option.splits)
  have "tags_of v = (tags_of w)(i := tags_of w i ++ map_of b)" using assms(1) t(1) unfolding stores_tags_def by blast
  with Cons.IH [OF t(2)] show ?case by (simp add: fun_eq_iff)
qed simp

lemma TagInstance_stores:
  assumes "stores_tags env tags_of" "wf_map tags"
    and "TagInstance (env_api env) (env_region env) i tags w = (None, w')"
  shows "tags_of w' = (tags_of w)(i := tags_of w i ++ map_of tags)"
proof (cases "tags = []")
  case True
  with assms(3) show ?thesis by (simp add: TagInstance_def)
next
  case False
  let ?bs = "BatchTags tags"
  have d: "distinct (List.map fst (concat ?bs))" by (rule distinct_BatchTags [OF assms(2)])
  then have "distinct (List.map fst (concat (rev ?bs)))"
    by (metis mset_concat mset_map mset_rev rev_map sum_mset_sum_list mset_eq_imp_distinct_iff)
  with d have "map_of (concat (rev ?bs)) = map_of (concat ?bs)" by (simp add: map_of_inject_set)
  with tag_loop_stores [OF assms(1)] assms(3) False show ?thesis
    by (simp add: TagInstance_def Let_def map_of_concat_BatchTags)
qed

lemma missing_tags_add:
  assumes "wf_map desired"
  shows "map_of current ++ map_of (missing_tags desired current) = map_of current ++ map_of desired"
proof
  fix k
  show "(map_of current ++ map_of (missing_tags desired current)) k = (map_of current ++ map_of desired) k"
  proof (cases "map_of desired k")
    case None
    then have "map_of (missing_tags desired current) k = None"
      by (auto simp: map_of_eq_None_iff missing_tags_def)
    with None show ?thesis by (simp add: map_add_def)
  next
    case (Some v)
    with missing_tags_complete [OF assms Some] show ?thesis by (simp add: map_add_def)
  qed
qed

lemma wf_missing_tags: "wf_map desired \<Longrightarrow> wf_map (missing_tags desired current)"
  by (simp add: wf_map_def missing_tags_def distinct_map_filter)

text \<open>
  C22: A pass of the tagging controller restores the tags of an instance, also those that were lost at
  the launch.  Over a cloud that stores tags, a pass without error over a taggable claim leaves its
  instance with the tags it had, overwritten by exactly the tags that Create would give it, in however many
  batches they are sent, and leaves the tags of every other instance alone.
\<close>
theorem tagging_restores_tags:
  fixes tags_of :: "'w \<Rightarrow> string \<Rightarrow> string \<Rightarrow> string option"
  assumes cloud: "stores_tags env tags_of"
    and kube: "\<And>n. keeps_tags tags_of (claim n)" "\<And>n. keeps_tags tags_of (cls n)" "\<And>c s. keeps_tags tags_of (patch c s)"
    and read: "claim name w = (Inr stored, w1)" "isTaggable stored"
      "fst (cls (ncl_NodeClassRef stored) w1) = Inr nodeClass"
    and ident: "i = getInstanceIDFromProviderID (ncl_ProviderID stored)" "i \<noteq> []"
    and run: "ReconcileTagging (provider_tag_env env claim cls patch) name w = (None, w')"
  shows "tags_of (tw_cloud w') = (tags_of (tw_cloud w))(i := tags_of (tw_cloud w) i ++ map_of (BuildInstanceTags stored nodeClass))"
proof -
  let ?e = "provider_tag_env env claim cls patch" and ?d = "BuildInstanceTags stored nodeClass"
  obtain w2 where c: "cls (ncl_NodeClassRef stored) w1 = (Inr nodeClass, w2)" using read(3) by (metis prod.collapse)
  have t2: "tags_of (tw_cloud w2) = tags_of (tw_cloud w)"
    using kube(1,2) read(1) c unfolding keeps_tags_def by metis
  obtain w3 where t: "tagInstance ?e stored nodeClass i w2 = (None, w3)" and
    p: "w' = w3 \<or> (\<exists>r. patch (mark_tagged stored) stored w3 = (r, w'))"
    using run read(1,2) c ident
    by (auto simp: ReconcileTagging_def provider_tag_env_def isTaggable_def Let_def
        split: prod.splits option.splits if_splits)
  have w': "tags_of (tw_cloud w') = tags_of (tw_cloud w3)" using p kube(3) unfolding keeps_tags_def by metis
  obtain q cc v where g: "GetInst (env_flight env) (env_api env) (env_region env) i True (tw_instances w2) (tw_cloud w2) = (q, cc, v)"
    by (metis surj_pair)
  with t obtain inst where q: "q = Inr inst" by (cases q) (auto simp: tagInstance_def provider_tag_env_def Let_def)
  have r: "tags_of v = tags_of (tw_cloud w2)" "map_of (ins_Tags inst) = tags_of (tw_cloud w2) i"
    using cloud g q unfolding stores_tags_def by blast+
  let ?m = "missing_tags ?d (ins_Tags inst)"
  obtain err u where tag: "TagInstance (env_api env) (env_region env) i ?m v = (err, u)" by (metis surj_pair)
  have tw: "if ?m = [] then tw_cloud w3 = v else err = None \<and> tw_cloud w3 = u"
    using t g q tag by (auto simp: tagInstance_def provider_tag_env_def Let_def split: if_splits)
  have "tags_of (tw_cloud w3) = (tags_of v)(i := tags_of v i ++ map_of ?m)"
  proof (cases "?m = []")
    case True
    with tw show ?thesis by simp
  next
    case False
    with tw TagInstance_stores [OF cloud wf_missing_tags [OF wf_BuildInstanceTags]] tag show ?thesis by simp
  qed
  moreover have "tags_of v i ++ map_of ?m = tags_of v i ++ map_of ?d"
    using missing_tags_add [OF wf_BuildInstanceTags, of "ins_Tags inst"] r by simp
  ultimately show ?thesis using r(1) t2 w' by simp
qed

text \<open>A cloud of one instance that stores its tags.\<close>

definition tag_cloud :: "gomap EcsApi" where
  "tag_cloud = \<lparr>RunInstances = (\<lambda>r w. (Inl [], w)),
     DescribeInstances = (\<lambda>r w. if dr_InstanceIds r = Some (quoted_ids [''i-1'']) then
         (Inr (Some \<lparr>db_Instances = Some [Some (sample_instance\<lparr>ei_Tags :=
            Some (List.map (\<lambda>(k, v). (Some k, Some v)) (rev w))\<rparr>)],
          db_TotalCount = Some 1, db_PageNumber = Some 1, db_PageSize = Some 10\<rparr>), w)
        else (Inl ''InvalidInstanceId.NotFound'', w)),
     DeleteInstances = (\<lambda>r ids f w. (None, w)),
     TagResources = (\<lambda>r w. if tr_ResourceId r = [''i-1''] then (None, tr_Tag r @ w) else (Some ''InvalidResourceId'', w)),
     clk = (\<lambda>w. 0)\<rparr>"

definition tag_cloud_env :: "gomap CpEnv" where
  "tag_cloud_env = \<lparr>env_api = tag_cloud, env_types = (\<lambda>w. \<lparr>DescribeZones = Inl [], DescribeAvailableResource = (\<lambda>_. Inl []),
        DescribeInstanceTypes = (\<lambda>_. Inl [])\<rparr>),
     env_cs = \<lparr>cs_attach = (\<lambda>i w. Inl []), cs_version = (\<lambda>i w. Inl []), cs_runtimes = (\<lambda>v w. Inl []), cs_clk = (\<lambda>w. 0)\<rparr>,
     env_flight = (\<lambda>key f. f), env_region = ''cn-a'', env_nodeclass = (\<lambda>name w. Inl []), env_ready = (\<lambda>c. (ConditionTrue, [])),
     env_sha = (\<lambda>h. Some ''d1''), env_parse_quantity = (\<lambda>s. None), env_parse_time = (\<lambda>s. None),
     env_sort_vsw = (\<lambda>v. v), env_options = None, env_netcfg = None\<rparr>"

definition tags_in_cloud :: "gomap \<Rightarrow> string \<Rightarrow> string \<Rightarrow> string option" where
  "tags_in_cloud w i = (if i = ''i-1'' then map_of w else Map.empty)"

lemma convertTags_loop_map:
  "map_of (convertTags_loop (List.map (\<lambda>(k, v). (Some k, Some v)) xs) acc) = map_of acc ++ map_of (rev xs)"
proof (induction xs arbitrary: acc)
  case (Cons x xs)
  obtain k v where "x = (k, v)" by (cases x)
  with Cons show ?case by (simp add: map_of_update fun_eq_iff map_add_def split: option.split)
qed simp

lemma tag_cloud_stores: "stores_tags tag_cloud_env tags_in_cloud"
proof -
  have q: "quoted_ids [i] = quoted_ids [''i-1''] \<longleftrightarrow> i = ''i-1''" for i by (simp add: quoted_ids_def)
  have f: "env_api tag_cloud_env = tag_cloud" "env_region tag_cloud_env = ''cn-a''" "env_flight tag_cloud_env = (\<lambda>key f. f)"
    by (simp_all add: tag_cloud_env_def)
  have "tags_in_cloud w' = (tags_in_cloud w)(i := tags_in_cloud w i ++ map_of b)"
    if "TagResources tag_cloud (tag_request ''cn-a'' i b) w = (None, w')" for i b w w'
    using that by (auto simp: tag_cloud_def tag_request_def convertToTagResourcesRequestTags_def tags_in_cloud_def fun_eq_iff
        split: if_splits)
  moreover have "tags_in_cloud w' = tags_in_cloud w \<and> (\<forall>inst. r = Inr inst \<longrightarrow> map_of (ins_Tags inst) = tags_in_cloud w i)"
    if g: "GetInst (\<lambda>key f. f) tag_cloud ''cn-a'' i True c w = (r, c', w')" for i c w r c' w'
  proof (cases "i = ''i-1''")
    case True
    with g show ?thesis
      by (auto simp: GetInst_def tag_cloud_def describe_fn_def describeInstances_def describe_request_def
          BatchDescribeInstances_single get_result_def get_fields_present_def sample_instance_def convert_instance_def
          convertTags_def convertTags_loop_map tags_in_cloud_def)
  next
    case False
    with g q [of i] show ?thesis
      by (auto simp: GetInst_def tag_cloud_def describe_fn_def describeInstances_def describe_request_def
          BatchDescribeInstances_single split: if_splits)
  qed
  ultimately show ?thesis unfolding stores_tags_def f by blast
qed

theorem tagging_restores_tags_witness:
  "\<exists>w'. ReconcileTagging (provider_tag_env tag_cloud_env (\<lambda>n w. (Inr untagged_claim, w)) (\<lambda>n w. (Inr sample_class, w))
        (\<lambda>c s w. (None, w))) ''nc-1'' \<lparr>tw_instances = [], tw_cloud = [(''team'', ''a'')]\<rparr> = (None, w') \<and>
     tags_in_cloud (tw_cloud w') ''i-1'' TagManagedBy = Some TagManagedByValue"
proof -
  let ?c = "\<lambda>(n :: string) (w :: gomap TagWorld). (Inr untagged_claim :: kube_error + NodeClaim, w)"
  let ?k = "\<lambda>(n :: string) (w :: gomap TagWorld). (Inr sample_class :: kube_error + ECSNodeClass, w)"
  let ?p = "\<lambda>(c :: NodeClaim) (s :: NodeClaim) (w :: gomap TagWorld). (None :: kube_error option, w)"
  let ?w = "\<lparr>tw_instances = [], tw_cloud = [(''team'', ''a'')]\<rparr>"
  let ?e = "provider_tag_env tag_cloud_env ?c ?k ?p"
  have claim: "isTaggable untagged_claim" "ncl_ProviderID untagged_claim = ''cn.i-1''" "ncl_DeletionTimestamp untagged_claim = None"
    by (simp_all add: untagged_claim_def isTaggable_def emptyNodeClaim_def)
  have ident: "getInstanceIDFromProviderID ''cn.i-1'' = ''i-1''" by (simp add: getInstanceIDFromProviderID_def)
  have tg: "\<exists>v. TagInstance tag_cloud ''cn-a'' ''i-1'' t w = (None, v)" for t w
  proof -
    have "\<exists>v. tag_loop tag_cloud ''cn-a'' ''i-1'' j n ts w = (None, v)" for j n ts w
      by (induction ts arbitrary: j w) (simp_all add: tag_cloud_def tag_request_def)
    then show ?thesis by (simp add: TagInstance_def Let_def)
  qed
  obtain r c' v where g: "GetInst (\<lambda>key f. f) tag_cloud ''cn-a'' ''i-1'' True [] [(''team'', ''a'')] = (r, c', v)"
    by (metis surj_pair)
  then have "\<exists>inst. r = Inr inst"
    by (auto simp: GetInst_def tag_cloud_def describe_fn_def describeInstances_def describe_request_def
        BatchDescribeInstances_single get_result_def get_fields_present_def sample_instance_def)
  then have "\<exists>w3. tagInstance ?e untagged_claim sample_class ''i-1'' ?w = (None, w3)"
    using g tg by (auto simp: tagInstance_def provider_tag_env_def Let_def tag_cloud_env_def split: prod.split)
      (metis Pair_inject)
  then obtain w3 where t: "tagInstance ?e untagged_claim sample_class ''i-1'' ?w = (None, w3)" by blast
  have "te_claim ?e = ?c" "te_class ?e = ?k" "te_patch ?e = ?p" by (simp_all add: provider_tag_env_def)
  with claim ident t have "\<exists>w'. ReconcileTagging ?e ''nc-1'' ?w = (None, w')" by (simp add: ReconcileTagging_def Let_def)
  then obtain w' where run: "ReconcileTagging ?e ''nc-1'' ?w = (None, w')" by blast
  have keep: "keeps_tags tags_in_cloud (?c n)" "keeps_tags tags_in_cloud (?k n)" "keeps_tags tags_in_cloud (?p c s)" for n c s
    by (simp_all add: keeps_tags_def)
  have "tags_in_cloud (tw_cloud w') = (tags_in_cloud (tw_cloud ?w))(''i-1'' := tags_in_cloud (tw_cloud ?w) ''i-1'' ++
      map_of (BuildInstanceTags untagged_claim sample_class))"
    by (rule tagging_restores_tags [OF tag_cloud_stores keep refl claim(1) _ _ _ run]) (simp_all add: claim ident)
  moreover have "map_of (BuildInstanceTags untagged_claim sample_class) TagManagedBy = Some TagManagedByValue"
    by (simp add: BuildInstanceTags_def untagged_claim_def sample_class_def emptySpec_def emptyNodeClaim_def
        copy_into_def label_defs)
  ultimately show ?thesis using run by (intro exI [of _ w']) (simp add: map_add_def)
qed

end
