(* ===== verification/BatchService.thy ===== *)
theory BatchService
  imports InstanceBatch Batcher BatchMetrics
begin

text \<open>
  pkg/batcher/instance.go, the InstanceBatcher: calls of CreateInstance that share a
  batch key meet in one batch window, whose batches are executed by the
  RunInstancesExecutor.  The state svc is the window with its timers and goroutines, the
  goroutine of the flush that is running, the result channels of the callers, the callers
  that wait, what CreateInstance returned to the others, and the metrics; executed keeps
  the batches executed so far with the answer of ECS and the time.  Every send, receive and critical section is one step.
\<close>

definition NewInstanceBatcher :: "RunRequest WindowedBatcher" where
  "NewInstanceBatcher = NewWindowedBatcher millisecond_ns (10 * millisecond_ns)"

definition CloseInstances :: "RunRequest WindowedBatcher option \<Rightarrow>
    RunRequest list option list \<times> RunRequest WindowedBatcher option" where
  "CloseInstances b = (case b of None \<Rightarrow> ([], None) | Some wb \<Rightarrow> apsnd Some (CloseBatchers wb))"

definition StatsInstances :: "RunRequest WindowedBatcher option \<Rightarrow> (nat \<times> nat) option" where
  "StatsInstances b = map_option Stats b"

section \<open>One window with its callers\<close>

text \<open>The goroutine of a flush: before Execute, while it sends the results, while it offers the error again, at its end.\<close>

datatype flush_phase =
    BeforeExecute
  | Sending "(nat \<times> BatchResult) list" "string option"
  | Offering "nat list" string

record svc =
  sys :: "(nat \<times> RunRequest) win_sys"
  phase :: flush_phase
  reason :: string
  chans :: "nat \<Rightarrow> BatchResult option"
  waiting :: "nat list"
  returned :: "(nat \<times> (string + string \<times> time_ns)) list"
  executed :: "((nat \<times> RunRequest) list \<times> (string + string list) \<times> time_ns) list"
  recorded :: nat
  mets :: BatcherMetrics

definition init_svc :: svc where
  "init_svc = \<lparr>sys = init_sys millisecond_ns (10 * millisecond_ns), phase = BeforeExecute, reason = [],
     chans = (\<lambda>_. None), waiting = [], returned = [], executed = [], recorded = 0, mets = no_metrics\<rparr>"

datatype svc_event =
    SvCall nat RunRequest
  | SvWindow "(nat \<times> RunRequest) win_event"
  | SvExecute "string + string list" time_ns
  | SvSend
  | SvRecord int
  | SvOffer
  | SvFlushDone
  | SvReceive nat
  | SvCancel nat string

text \<open>The reason a flush is started with, by the function that starts it.\<close>

fun flush_reason :: "'a win_event \<Rightarrow> string \<Rightarrow> string" where
  "flush_reason EvRunIdle r = ''idle_timeout''"
| "flush_reason EvRunMax r = ''max_timeout''"
| "flush_reason EvClose r = ''close''"
| "flush_reason _ r = r"

definition called :: "svc \<Rightarrow> nat set" where
  "called s = set (waiting s) \<union> fst ` set (returned s)"

definition answers_of :: "(nat \<times> RunRequest) list \<times> (string + string list) \<times> time_ns \<Rightarrow> (nat \<times> BatchResult) list" where
  "answers_of x = (case x of (b, ans, now) \<Rightarrow> zip (List.map fst b) (fst (Execute (\<lambda>_. ans) now (List.map snd b))))"

text \<open>
  The steps of the window on its own; EvAdd belongs to SvCall and EvFlushDone to
  SvFlushDone.  The reason is noted when the step starts a flush.
\<close>

definition window_step :: "(nat \<times> RunRequest) win_event \<Rightarrow> svc \<Rightarrow> svc option" where
  "window_step e s = (case win_exec e (sys s) of None \<Rightarrow> None
     | Some y \<Rightarrow> Some (s\<lparr>sys := y,
         reason := (if batches y = batches (sys s) then reason s else flush_reason e (reason s))\<rparr>))"

fun svc_exec :: "(string \<Rightarrow> string) \<Rightarrow> string \<Rightarrow> svc_event \<Rightarrow> svc \<Rightarrow> svc option" where
  "svc_exec sha key (SvCall n req) s =
     (if n \<in> called s \<or> ComputeRunInstancesBatchKey sha req \<noteq> key then None
      else case Add (n, req) (clock (sys s)) (win (sys s)) of
        (Inl err, w) \<Rightarrow> Some (s\<lparr>returned := returned s @ [(n, Inl (wrap_err ''failed to add to batch: '' err))]\<rparr>)
      | (Inr _, w) \<Rightarrow> map_option (\<lambda>y. s\<lparr>sys := y, waiting := n # waiting s\<rparr>) (win_exec (EvAdd (n, req)) (sys s)))"
| "svc_exec sha key (SvWindow e) s = (case e of EvAdd x \<Rightarrow> None | EvFlushDone \<Rightarrow> None | _ \<Rightarrow> window_step e s)"
| "svc_exec sha key (SvExecute ans now) s = (case (running (sys s), phase s) of
     (Some b, BeforeExecute) \<Rightarrow>
       (let (rs, err) = Execute (\<lambda>_. ans) now (List.map snd b)
        in Some (s\<lparr>phase := Sending (zip (List.map fst b) rs) err, executed := executed s @ [(b, ans, now)]\<rparr>))
   | _ \<Rightarrow> None)"
| "svc_exec sha key SvSend s = (case phase s of
     Sending ((n, r) # rest) err \<Rightarrow> if chans s n = None
       then Some (s\<lparr>chans := (chans s)(n := Some r), phase := Sending rest err\<rparr>) else None
   | _ \<Rightarrow> None)"
| "svc_exec sha key (SvRecord duration) s = (case (running (sys s), phase s) of
     (Some b, Sending [] err) \<Rightarrow>
        Some (s\<lparr>mets := recordBatchMetrics key (int (length b)) (reason s) duration err (mets s),
               recorded := recorded s + 1,
               phase := (case err of None \<Rightarrow> Offering [] [] | Some e \<Rightarrow> Offering (List.map fst b) e)\<rparr>)
   | _ \<Rightarrow> None)"
| "svc_exec sha key SvOffer s = (case phase s of
     Offering (n # rest) e \<Rightarrow>
        Some (s\<lparr>chans := (chans s)(n := try_send (Failed e) (chans s n)), phase := Offering rest e\<rparr>)
   | _ \<Rightarrow> None)"
| "svc_exec sha key SvFlushDone s = (case phase s of
     Offering [] e \<Rightarrow> map_option (\<lambda>y. s\<lparr>sys := y, phase := BeforeExecute\<rparr>) (win_exec EvFlushDone (sys s))
   | _ \<Rightarrow> None)"
| "svc_exec sha key (SvReceive n) s = (case chans s n of
     Some r \<Rightarrow> if n \<in> set (waiting s)
       then Some (s\<lparr>chans := (chans s)(n := None), waiting := removeAll n (waiting s),
                   returned := returned s @ [(n, CreateInstanceResult (Some r) [])]\<rparr>) else None
   | None \<Rightarrow> None)"
| "svc_exec sha key (SvCancel n ctxErr) s = (if n \<in> set (waiting s)
     then Some (s\<lparr>waiting := removeAll n (waiting s),
                 returned := returned s @ [(n, CreateInstanceResult None ctxErr)]\<rparr>) else None)"

fun svc_run :: "(string \<Rightarrow> string) \<Rightarrow> string \<Rightarrow> svc_event list \<Rightarrow> svc \<Rightarrow> svc option" where
  "svc_run sha key [] s = Some s"
| "svc_run sha key (e # es) s = (case svc_exec sha key e s of None \<Rightarrow> None | Some s' \<Rightarrow> svc_run sha key es s')"

inductive svc_reach :: "(string \<Rightarrow> string) \<Rightarrow> string \<Rightarrow> svc \<Rightarrow> bool" for sha key where
  init: "svc_reach sha key init_svc"
| more: "svc_reach sha key s \<Longrightarrow> svc_exec sha key e s = Some s' \<Longrightarrow> svc_reach sha key s'"

lemma svc_run_reach: "svc_reach sha key s \<Longrightarrow> svc_run sha key es s = Some s' \<Longrightarrow> svc_reach sha key s'"
  by (induction es arbitrary: s) (auto split: option.splits intro: svc_reach.more)


section \<open>Invariant\<close>

definition results :: "svc \<Rightarrow> (nat \<times> BatchResult) list" where
  "results s = concat (List.map answers_of (executed s))"

definition pending :: "svc \<Rightarrow> (nat \<times> BatchResult) list" where
  "pending s = (case phase s of Sending l err \<Rightarrow> l | _ \<Rightarrow> [])"

definition unexecuted :: "svc \<Rightarrow> (nat \<times> RunRequest) list list" where
  "unexecuted s = (case (running (sys s), phase s) of (Some b, BeforeExecute) \<Rightarrow> [b] | _ \<Rightarrow> [])"

definition svc_win :: "svc \<Rightarrow> bool" where
  "svc_win s \<longleftrightarrow> win_inv (sys s) \<and> batches (sys s) = List.map fst (executed s) @ unexecuted s \<and>
     (running (sys s) = None \<longrightarrow> phase s = BeforeExecute)"

definition svc_ids :: "(string \<Rightarrow> string) \<Rightarrow> string \<Rightarrow> svc \<Rightarrow> bool" where
  "svc_ids sha key s \<longleftrightarrow> distinct (List.map fst (accepted (sys s))) \<and>
     distinct (waiting s @ List.map fst (returned s)) \<and> fst ` set (accepted (sys s)) \<subseteq> called s \<and>
     set (waiting s) \<subseteq> fst ` set (accepted (sys s)) \<and>
     (\<forall>x \<in> set (accepted (sys s)). ComputeRunInstancesBatchKey sha (snd x) = key)"

definition answered :: "svc \<Rightarrow> nat set" where
  "answered s = {n. \<exists>r. (n, r) \<in> set (results s)}"

definition svc_chan :: "svc \<Rightarrow> bool" where
  "svc_chan s \<longleftrightarrow> set (pending s) \<subseteq> set (results s) \<and> distinct (List.map fst (pending s)) \<and>
     (\<forall>n r. (n, r) \<in> set (pending s) \<longrightarrow> chans s n = None) \<and>
     (\<forall>n. n \<notin> answered s \<longrightarrow> chans s n = None) \<and>
     (\<forall>n r. (n, r) \<in> set (results s) \<longrightarrow> n \<in> set (waiting s) \<longrightarrow>
        (n, r) \<in> set (pending s) \<or> chans s n = Some r) \<and>
     (\<forall>n i t. (n, Inr (i, t)) \<in> set (returned s) \<longrightarrow> (n, Created i t) \<in> set (results s)) \<and>
     (\<forall>ns e. phase s = Offering ns e \<longrightarrow> set ns \<subseteq> answered s)"

definition svc_count :: "string \<Rightarrow> svc \<Rightarrow> bool" where
  "svc_count key s \<longleftrightarrow> recorded s = length (executed s) - (case phase s of Sending l e \<Rightarrow> 1 | _ \<Rightarrow> 0) \<and>
     apiCallsSaved (mets s) key = (\<Sum>x \<leftarrow> take (recorded s) (executed s). int (length (fst x) - 1))"

definition svc_inv :: "(string \<Rightarrow> string) \<Rightarrow> string \<Rightarrow> svc \<Rightarrow> bool" where
  "svc_inv sha key s \<longleftrightarrow> svc_win s \<and> svc_ids sha key s \<and> svc_chan s \<and> svc_count key s"

lemma svc_inv_init: "svc_inv sha key init_svc"
  by (simp add: svc_inv_def svc_win_def svc_ids_def svc_chan_def svc_count_def init_svc_def win_inv_init
      results_def answered_def pending_def unexecuted_def called_def no_metrics_def) (simp add: init_sys_def)

lemma window_moves:
  assumes "win_inv s" "win_exec e s = Some y" "\<forall>x. e \<noteq> EvAdd x" "e \<noteq> EvFlushDone"
  shows "accepted y = accepted s \<and> (running y = running s \<and> batches y = batches s \<or>
    running s = None \<and> (\<exists>b. running y = Some b \<and> batches y = batches s @ [b]))"
proof -
  have "running s \<noteq> None \<longleftrightarrow> flushInProgress (win s)"
    using assms(1) by (auto simp: win_inv_def flush_ok_def split: option.splits)
  with assms(2-4) show ?thesis
    by (cases e) (auto simp: win_defs split: if_splits option.splits)
qed

lemma Add_accepts:
  "Add x t w = (Inr u, w') \<Longrightarrow> win_exec (EvAdd x) s = Some y \<Longrightarrow> w = win s \<Longrightarrow> t = clock s \<Longrightarrow>
     accepted y = accepted s @ [x] \<and> running y = running s \<and> batches y = batches s"
  by auto

lemma map_fst_answers: "List.map fst (answers_of x) = List.map fst (fst x)"
  by (cases x) (simp add: answers_of_def length_Execute)

lemma map_fst_results: "List.map fst (results s) = List.map fst (concat (List.map fst (executed s)))"
  by (simp add: results_def map_concat comp_def map_fst_answers)

lemma answered_image: "answered s = fst ` set (results s)"
  by (force simp: answered_def)

text \<open>The callers that have a result were accepted, each has one, and no waiting batch is among them.\<close>

lemma results_distinct:
  assumes "svc_win s" "svc_ids sha key s"
  shows "distinct (List.map fst (results s))" "answered s \<subseteq> called s"
    "running (sys s) = Some b \<Longrightarrow> phase s = BeforeExecute \<Longrightarrow>
       distinct (List.map fst b) \<and> fst ` set b \<inter> answered s = {}"
    "answered s \<union> fst ` set (concat (unexecuted s)) \<union> fst ` set (items (win (sys s))) = fst ` set (accepted (sys s))"
proof -
  have acc: "accepted (sys s) = concat (List.map fst (executed s)) @ concat (unexecuted s) @ items (win (sys s))"
    using assms(1) by (simp add: svc_win_def win_inv_def conserved_def)
  have eq: "List.map fst (accepted (sys s)) =
      List.map fst (results s) @ List.map fst (concat (unexecuted s)) @ List.map fst (items (win (sys s)))"
    unfolding acc by (simp add: map_fst_results)
  have d: "distinct (List.map fst (accepted (sys s)))" using assms(2) by (simp add: svc_ids_def)
  then show "distinct (List.map fst (results s))" unfolding eq by simp
  have im: "answered s \<union> fst ` set (concat (unexecuted s)) \<union> fst ` set (items (win (sys s))) =
      fst ` set (accepted (sys s))"
    using arg_cong [OF eq, of set] by (simp add: Un_assoc answered_image)
  then show "answered s \<union> fst ` set (concat (unexecuted s)) \<union> fst ` set (items (win (sys s))) =
      fst ` set (accepted (sys s))" .
  with assms(2) show "answered s \<subseteq> called s" unfolding svc_ids_def by blast
  show "distinct (List.map fst b) \<and> fst ` set b \<inter> answered s = {}"
    if "running (sys s) = Some b" "phase s = BeforeExecute"
  proof -
    have "unexecuted s = [b]" using that by (simp add: unexecuted_def)
    then show ?thesis using d unfolding eq by (simp add: answered_image Int_Un_distrib Int_commute)
  qed
qed


section \<open>Preservation\<close>

lemmas svc_split = option.splits prod.splits sum.splits if_splits flush_phase.splits list.splits

lemma unexecuted_cong:
  "running (sys s') = running (sys s) \<Longrightarrow> phase s' = phase s \<Longrightarrow> unexecuted s' = unexecuted s"
  by (simp add: unexecuted_def)

lemma svc_win_step:
  assumes "svc_win s" "svc_exec sha key e s = Some s'"
  shows "svc_win s'"
proof (cases e)
  case (SvWindow w)
  then obtain y where y: "win_exec w (sys s) = Some y" "sys s' = y" "phase s' = phase s" "executed s' = executed s"
    and w: "\<forall>x. w \<noteq> EvAdd x" "w \<noteq> EvFlushDone"
    using assms(2) by (cases w) (auto simp: window_step_def split: option.splits)
  have inv: "win_inv (sys s)" using assms(1) by (simp add: svc_win_def)
  from window_moves [OF inv y(1) w] win_inv_step [OF inv y(1)] assms(1) y show ?thesis
    by (auto simp: svc_win_def unexecuted_def split: option.splits flush_phase.splits)
next
  case (SvCall n req)
  have inv: "win_inv (sys s)" using assms(1) by (simp add: svc_win_def)
  show ?thesis
  proof (cases "Add (n, req) (clock (sys s)) (win (sys s))")
    case (Pair r w)
    show ?thesis
    proof (cases r)
      case (Inl err)
      then have s': "s' = s\<lparr>returned := returned s @ [(n, Inl (wrap_err ''failed to add to batch: '' err))]\<rparr>"
        using assms(2) Pair SvCall by (simp split: if_splits)
      have "unexecuted s' = unexecuted s" unfolding s' by (rule unexecuted_cong) simp_all
      with assms(1) show ?thesis by (simp add: svc_win_def s')
    next
      case (Inr u)
      then obtain y where y: "win_exec (EvAdd (n, req)) (sys s) = Some y" "s' = s\<lparr>sys := y, waiting := n # waiting s\<rparr>"
        using assms(2) Pair SvCall by (auto split: if_splits)
      from Add_accepts [OF _ y(1) refl refl] Pair Inr win_inv_step [OF inv y(1)] assms(1) y show ?thesis
        by (auto simp: svc_win_def unexecuted_def)
    qed
  qed
next
  case SvFlushDone
  then obtain y e' where y: "win_exec EvFlushDone (sys s) = Some y" "phase s = Offering [] e'" 
    "s' = s\<lparr>sys := y, phase := BeforeExecute\<rparr>"
    using assms(2) by (auto split: svc_split)
  have inv: "win_inv (sys s)" using assms(1) by (simp add: svc_win_def)
  have "batches y = batches (sys s)" "running y = None" using y(1) by (auto split: option.splits)
  with assms(1) y win_inv_step [OF inv y(1)] show ?thesis by (auto simp: svc_win_def unexecuted_def split: option.splits)
qed (use assms in \<open>auto simp: svc_win_def unexecuted_def split: svc_split\<close>)

lemma svc_ids_cong:
  assumes "svc_ids sha key s" "accepted (sys s') = accepted (sys s)" "waiting s' = waiting s" "returned s' = returned s"
  shows "svc_ids sha key s'"
  using assms by (simp add: svc_ids_def called_def)

lemma svc_ids_return:
  assumes "svc_ids sha key s" "n \<in> set (waiting s)" "sys s' = sys s"
    and "waiting s' = removeAll n (waiting s)" "returned s' = returned s @ [(n, x)]"
  shows "svc_ids sha key s'"
proof -
  have "called s' = called s" using assms(2,4,5) by (auto simp: called_def)
  moreover have "n \<notin> fst ` set (returned s)" "distinct (waiting s)" "distinct (List.map fst (returned s))"
    "set (waiting s) \<inter> fst ` set (returned s) = {}"
    using assms(1,2) unfolding svc_ids_def distinct_append set_map by blast+
  then have "distinct (waiting s' @ List.map fst (returned s'))"
    unfolding assms(4,5) by (simp add: distinct_removeAll) blast
  ultimately show ?thesis using assms unfolding svc_ids_def by auto
qed

lemma svc_ids_step:
  assumes "svc_win s" "svc_ids sha key s" "svc_exec sha key e s = Some s'"
  shows "svc_ids sha key s'"
proof (cases e)
  case (SvWindow w)
  then obtain y where y: "win_exec w (sys s) = Some y" "sys s' = y" "waiting s' = waiting s" "returned s' = returned s"
    and w: "\<forall>x. w \<noteq> EvAdd x" "w \<noteq> EvFlushDone"
    using assms(3) by (cases w) (auto simp: window_step_def split: option.splits)
  have inv: "win_inv (sys s)" using assms(1) by (simp add: svc_win_def)
  from window_moves [OF inv y(1) w] assms(2) y show ?thesis by (auto simp: svc_ids_def called_def)
next
  case (SvCall n req)
  show ?thesis
  proof (cases "Add (n, req) (clock (sys s)) (win (sys s))")
    case (Pair r w)
    have fresh: "n \<notin> called s" "ComputeRunInstancesBatchKey sha req = key"
      using assms(3) SvCall by (auto split: if_splits)
    then have out: "n \<notin> fst ` set (accepted (sys s))" using assms(2) by (auto simp: svc_ids_def)
    show ?thesis
    proof (cases r)
      case (Inl err)
      then have s': "s' = s\<lparr>returned := returned s @ [(n, Inl (wrap_err ''failed to add to batch: '' err))]\<rparr>"
        using assms(3) Pair SvCall by (simp split: if_splits)
      have "called s' = insert n (called s)" by (simp add: s' called_def)
      with assms(2) fresh(1) show ?thesis by (auto simp: svc_ids_def s') (auto simp: called_def image_iff)
    next
      case (Inr u)
      then obtain y where y: "win_exec (EvAdd (n, req)) (sys s) = Some y" "s' = s\<lparr>sys := y, waiting := n # waiting s\<rparr>"
        using assms(3) Pair SvCall by (auto split: if_splits)
      from Add_accepts [OF _ y(1) refl refl] Pair Inr assms(2) y fresh out show ?thesis
        by (auto simp: svc_ids_def called_def)
    qed
  qed
next
  case SvFlushDone
  then have "accepted (sys s') = accepted (sys s)" "waiting s' = waiting s" "returned s' = returned s"
    using assms(3) by (auto split: svc_split)
  with assms(2) show ?thesis by (simp add: svc_ids_def called_def)
next
  case (SvReceive n)
  then obtain x where "n \<in> set (waiting s)" "sys s' = sys s" "waiting s' = removeAll n (waiting s)"
    "returned s' = returned s @ [(n, x)]"
    using assms(3) by (auto split: svc_split)
  then show ?thesis by (rule svc_ids_return [OF assms(2)])
next
  case (SvCancel n c)
  then obtain x where "n \<in> set (waiting s)" "sys s' = sys s" "waiting s' = removeAll n (waiting s)"
    "returned s' = returned s @ [(n, x)]"
    using assms(3) by (auto split: svc_split)
  then show ?thesis by (rule svc_ids_return [OF assms(2)])
qed (use assms(3) in \<open>auto intro!: svc_ids_cong [OF assms(2)] split: svc_split\<close>)


lemma svc_chanD:
  assumes "svc_chan s"
  shows "x \<in> set (pending s) \<Longrightarrow> x \<in> set (results s)" "distinct (List.map fst (pending s))"
    "(n, r) \<in> set (pending s) \<Longrightarrow> chans s n = None" "n \<notin> answered s \<Longrightarrow> chans s n = None"
    "(n, r) \<in> set (results s) \<Longrightarrow> n \<in> set (waiting s) \<Longrightarrow> (n, r) \<in> set (pending s) \<or> chans s n = Some r"
    "(n, Inr (i, t)) \<in> set (returned s) \<Longrightarrow> (n, Created i t) \<in> set (results s)"
    "phase s = Offering ns e \<Longrightarrow> n \<in> set ns \<Longrightarrow> n \<in> answered s"
  using assms unfolding svc_chan_def by auto

lemma svc_chanI:
  assumes "\<And>x. x \<in> set (pending s) \<Longrightarrow> x \<in> set (results s)" "distinct (List.map fst (pending s))"
    "\<And>n r. (n, r) \<in> set (pending s) \<Longrightarrow> chans s n = None" "\<And>n. n \<notin> answered s \<Longrightarrow> chans s n = None"
    "\<And>n r. (n, r) \<in> set (results s) \<Longrightarrow> n \<in> set (waiting s) \<Longrightarrow> (n, r) \<in> set (pending s) \<or> chans s n = Some r"
    "\<And>n i t. (n, Inr (i, t)) \<in> set (returned s) \<Longrightarrow> (n, Created i t) \<in> set (results s)"
    "\<And>ns e n. phase s = Offering ns e \<Longrightarrow> n \<in> set ns \<Longrightarrow> n \<in> answered s"
  shows "svc_chan s"
  unfolding svc_chan_def using assms by (intro conjI allI impI subsetI) simp_all

lemma svc_chan_cong:
  assumes "svc_chan s" "phase s' = phase s" "executed s' = executed s" "chans s' = chans s"
    and "\<And>n. n \<in> set (waiting s') \<Longrightarrow> n \<in> answered s \<Longrightarrow> n \<in> set (waiting s)"
    and "\<And>n i t. (n, Inr (i, t)) \<in> set (returned s') \<Longrightarrow> (n, Inr (i, t)) \<in> set (returned s)"
  shows "svc_chan s'"
proof -
  have eq: "results s' = results s" "pending s' = pending s" "answered s' = answered s"
    using assms(2,3) by (simp_all add: results_def pending_def answered_def)
  note d = svc_chanD [OF assms(1)]
  have a: "(n, r) \<in> set (results s) \<Longrightarrow> n \<in> answered s" for n r by (auto simp: answered_def)
  show ?thesis by (rule svc_chanI; unfold eq assms(2,4)) (use d a assms(5,6) in blast)+
qed

text \<open>After Execute the running batch is the last one executed.\<close>

lemma running_answered:
  assumes "svc_win s" "running (sys s) = Some b"
  shows "phase s \<noteq> BeforeExecute \<Longrightarrow> executed s \<noteq> [] \<and> fst (last (executed s)) = b"
    and "phase s \<noteq> BeforeExecute \<Longrightarrow> fst ` set b \<subseteq> answered s"
proof -
  show l: "executed s \<noteq> [] \<and> fst (last (executed s)) = b" if "phase s \<noteq> BeforeExecute"
  proof -
    have "batches (sys s) = List.map fst (executed s)" "batches (sys s) \<noteq> []" "last (batches (sys s)) = b"
      using assms that by (auto simp: svc_win_def win_inv_def flush_ok_def unexecuted_def split: flush_phase.splits)
    then show ?thesis by (cases "executed s" rule: rev_cases) auto
  qed
  show "fst ` set b \<subseteq> answered s" if "phase s \<noteq> BeforeExecute"
  proof -
    have "set b \<subseteq> set (concat (List.map fst (executed s)))" using l [OF that] by (auto simp: in_set_conv_decomp dest!: last_in_set)
    then show ?thesis using arg_cong [OF map_fst_results, of set s] by (auto simp: answered_image)
  qed
qed

lemma svc_chan_execute:
  assumes "svc_win s" "svc_ids sha key s" "svc_chan s" "svc_exec sha key (SvExecute ans now) s = Some s'"
  shows "svc_chan s'"
proof -
  obtain b rs err where b: "running (sys s) = Some b" "phase s = BeforeExecute"
    "Execute (\<lambda>_. ans) now (List.map snd b) = (rs, err)"
    and s': "s' = s\<lparr>phase := Sending (zip (List.map fst b) rs) err, executed := executed s @ [(b, ans, now)]\<rparr>"
    using assms(4) by (auto split: svc_split)
  let ?z = "zip (List.map fst b) rs"
  have len: "length rs = length b" using length_Execute [of "\<lambda>_. ans" now "List.map snd b"] b(3) by simp
  have new: "results s' = results s @ ?z" "pending s' = ?z" "pending s = []"
    using b by (simp_all add: results_def pending_def s' answers_of_def)
  have "List.map fst ?z = List.map fst b" using len by simp
  then have ids: "distinct (List.map fst ?z)" "\<And>n r. (n, r) \<in> set ?z \<Longrightarrow> n \<notin> answered s"
    using results_distinct(3) [OF assms(1,2) b(1,2)] by (simp, auto dest!: set_zip_leftD)
  have mono: "answered s \<subseteq> answered s'" by (auto simp: answered_def new)
  note d = svc_chanD [OF assms(3)]
  show ?thesis
  proof (rule svc_chanI; (unfold new)?)
    show "chans s' n = None" if "n \<notin> answered s'" for n using that mono d(4) by (auto simp: s')
    show "chans s' n = None" if "(n, r) \<in> set ?z" for n r using ids(2) [OF that] d(4) by (simp add: s')
    show "(n, r) \<in> set ?z \<or> chans s' n = Some r" if "(n, r) \<in> set (results s @ ?z)" "n \<in> set (waiting s')" for n r
      using that d(5) [of n r] by (auto simp: s' new)
  qed (use ids(1) d(6) in \<open>auto simp: s'\<close>)
qed

lemma svc_chan_step:
  assumes "svc_win s" "svc_ids sha key s" "svc_chan s" "svc_exec sha key e s = Some s'"
  shows "svc_chan s'"
proof (cases e)
  case (SvCall n req)
  have out: "n \<notin> answered s"
    using results_distinct(2) [OF assms(1,2)] assms(4) SvCall by (auto split: if_splits)
  have "phase s' = phase s \<and> executed s' = executed s \<and> chans s' = chans s \<and> set (waiting s') \<subseteq> insert n (set (waiting s)) \<and>
      (\<forall>m x. (m, Inr x) \<in> set (returned s') \<longrightarrow> (m, Inr x) \<in> set (returned s))"
    using assms(4) SvCall by (auto split: svc_split)
  with out show ?thesis by (intro svc_chan_cong [OF assms(3)]) auto
next
  case (SvWindow w)
  then show ?thesis using assms(4)
    by (intro svc_chan_cong [OF assms(3)]; cases w) (auto simp: window_step_def split: option.splits)
next
  case (SvExecute ans now)
  then show ?thesis using svc_chan_execute assms by blast
next
  case SvSend
  then obtain n r rest err where s: "phase s = Sending ((n, r) # rest) err"
    and s': "s' = s\<lparr>chans := (chans s)(n := Some r), phase := Sending rest err\<rparr>"
    using assms(4) by (auto split: svc_split)
  have eq: "results s' = results s" "answered s' = answered s" "pending s = (n, r) # rest" "pending s' = rest"
    by (simp_all add: results_def answered_def pending_def s s')
  note d = svc_chanD [OF assms(3), unfolded eq]
  have one: "r' = r" if "(n, r') \<in> set (results s)" for r'
    using results_distinct(1) [OF assms(1,2)] that d(1) [of "(n, r)"] by (auto dest: eq_key_imp_eq_value)
  have inn: "n \<in> answered s" using d(1) [of "(n, r)"] by (auto simp: answered_def)
  show ?thesis
  proof (rule svc_chanI; (unfold eq)?)
    show "chans s' m = None" if "(m, q) \<in> set rest" for m q
      using d(2) d(3) [of m q] that by (auto simp: s' image_iff)
    show "(m, q) \<in> set rest \<or> chans s' m = Some q" if "(m, q) \<in> set (results s)" "m \<in> set (waiting s')" for m q
      using that d(5) [of m q] one [of q] by (auto simp: s')
  qed (use d inn in \<open>auto simp: s'\<close>)
next
  case SvOffer
  then obtain n rest err where s: "phase s = Offering (n # rest) err"
    and s': "s' = s\<lparr>chans := (chans s)(n := try_send (Failed err) (chans s n)), phase := Offering rest err\<rparr>"
    using assms(4) by (auto split: svc_split)
  have eq: "results s' = results s" "answered s' = answered s" "pending s = []" "pending s' = []"
    by (simp_all add: results_def answered_def pending_def s s')
  note d = svc_chanD [OF assms(3), unfolded eq]
  show ?thesis
  proof (rule svc_chanI; (unfold eq)?)
    show "chans s' m = None" if "m \<notin> answered s" for m
      using that d(4) d(7) [OF s, of n] by (auto simp: s')
    show "(m, q) \<in> set [] \<or> chans s' m = Some q" if "(m, q) \<in> set (results s)" "m \<in> set (waiting s')" for m q
      using that d(5) [of m q] by (auto simp: s' try_send_def)
    show "m \<in> answered s" if "phase s' = Offering ns e'" "m \<in> set ns" for ns e' m
      using that d(7) [OF s, of m] by (auto simp: s')
  qed (use d in \<open>auto simp: s'\<close>)
next
  case (SvReceive n)
  then obtain r where r: "chans s n = Some r" "n \<in> set (waiting s)"
    and s': "s' = s\<lparr>chans := (chans s)(n := None), waiting := removeAll n (waiting s),
        returned := returned s @ [(n, CreateInstanceResult (Some r) [])]\<rparr>"
    using assms(4) by (auto split: svc_split)
  have eq: "results s' = results s" "answered s' = answered s" "pending s' = pending s"
    by (simp_all add: results_def answered_def pending_def s')
  note d = svc_chanD [OF assms(3)]
  have "n \<in> answered s" using d(4) r(1) by fastforce
  then obtain r' where "(n, r') \<in> set (results s)" by (auto simp: answered_def)
  with d(3) [of n r'] d(5) [of n r'] r have inr: "(n, r) \<in> set (results s)" by auto
  show ?thesis
  proof (rule svc_chanI; (unfold eq)?)
    show "(m, q) \<in> set (pending s) \<or> chans s' m = Some q" if "(m, q) \<in> set (results s)" "m \<in> set (waiting s')" for m q
      using that d(5) [of m q] by (auto simp: s')
    show "(m, Created i t) \<in> set (results s)" if "(m, Inr (i, t)) \<in> set (returned s')" for m i t
      using that d(6) inr by (auto simp: s' CreateInstanceResult_def split: BatchResult.splits)
  qed (use d in \<open>auto simp: s'\<close>)
next
  case (SvCancel n c)
  then show ?thesis using assms(4)
    by (intro svc_chan_cong [OF assms(3)]) (auto simp: CreateInstanceResult_def split: if_splits)
next
  case (SvRecord d)
  then obtain b err where b: "running (sys s) = Some b" "phase s = Sending [] err"
    and s': "executed s' = executed s" "chans s' = chans s" "waiting s' = waiting s" "returned s' = returned s"
      "phase s' = (case err of None \<Rightarrow> Offering [] [] | Some e \<Rightarrow> Offering (List.map fst b) e)"
    using assms(4) by (auto split: svc_split)
  have eq: "results s' = results s" "answered s' = answered s" "pending s = []" "pending s' = []"
    by (simp_all add: results_def answered_def pending_def b s' split: option.split)
  note d = svc_chanD [OF assms(3), unfolded eq]
  show ?thesis
  proof (rule svc_chanI; (unfold eq)?)
    show "m \<in> answered s" if "phase s' = Offering ns e'" "m \<in> set ns" for ns e' m
      using that running_answered(2) [OF assms(1) b(1)] b(2) by (auto simp: s' split: option.splits)
  qed (use d in \<open>auto simp: s'\<close>)
next
  case SvFlushDone
  then obtain y e' where "phase s = Offering [] e'" "s' = s\<lparr>sys := y, phase := BeforeExecute\<rparr>"
    using assms(4) by (auto split: svc_split)
  then have eq: "results s' = results s" "answered s' = answered s" "pending s = []" "pending s' = []"
    "phase s' = BeforeExecute" "chans s' = chans s" "waiting s' = waiting s" "returned s' = returned s"
    by (simp_all add: results_def answered_def pending_def)
  note d = svc_chanD [OF assms(3), unfolded eq]
  show ?thesis by (rule svc_chanI; unfold eq) (use d in auto)
qed

lemma svc_count_cong:
  assumes "svc_count key s" "phase s' = phase s" "executed s' = executed s" "recorded s' = recorded s" "mets s' = mets s"
  shows "svc_count key s'"
  using assms by (simp add: svc_count_def)

lemma svc_count_step:
  assumes "svc_win s" "svc_count key s" "svc_exec sha key e s = Some s'"
  shows "svc_count key s'"
proof (cases e)
  case (SvRecord d)
  then obtain b err where b: "running (sys s) = Some b" "phase s = Sending [] err"
    and s': "executed s' = executed s" "recorded s' = recorded s + 1"
      "mets s' = recordBatchMetrics key (int (length b)) (reason s) d err (mets s)"
      "phase s' = (case err of None \<Rightarrow> Offering [] [] | Some e \<Rightarrow> Offering (List.map fst b) e)"
    using assms(3) by (auto split: svc_split)
  obtain xs x where x: "executed s = xs @ [x]" "fst x = b"
    using running_answered(1) [OF assms(1) b(1)] b(2) by (cases "executed s" rule: rev_cases) auto
  have "recorded s = length xs" using assms(2) by (simp add: svc_count_def b x)
  with assms(2) show ?thesis by (auto simp: svc_count_def x s' b split: option.split)
next
  case (SvExecute ans now)
  then obtain x l err where "phase s = BeforeExecute" "phase s' = Sending l err" "executed s' = executed s @ [x]"
    "recorded s' = recorded s" "mets s' = mets s"
    using assms(3) by (auto split: svc_split)
  with assms(2) show ?thesis by (simp add: svc_count_def)
next
  case (SvWindow w)
  then show ?thesis using assms(3)
    by (intro svc_count_cong [OF assms(2)]; cases w) (auto simp: window_step_def split: option.splits)
next
  case SvSend
  then obtain l l' err where "phase s = Sending l err" "phase s' = Sending l' err" "executed s' = executed s"
    "recorded s' = recorded s" "mets s' = mets s"
    using assms(3) by (auto split: svc_split)
  with assms(2) show ?thesis by (simp add: svc_count_def)
next
  case SvOffer
  then obtain l l' err where "phase s = Offering l err" "phase s' = Offering l' err" "executed s' = executed s"
    "recorded s' = recorded s" "mets s' = mets s"
    using assms(3) by (auto split: svc_split)
  with assms(2) show ?thesis by (simp add: svc_count_def)
next
  case SvFlushDone
  then obtain err where "phase s = Offering [] err" "phase s' = BeforeExecute" "executed s' = executed s"
    "recorded s' = recorded s" "mets s' = mets s"
    using assms(3) by (auto split: svc_split)
  with assms(2) show ?thesis by (simp add: svc_count_def)
next
  case (SvCall n req)
  then show ?thesis using assms(3) by (intro svc_count_cong [OF assms(2)]) (auto split: svc_split)
next
  case (SvReceive n)
  then show ?thesis using assms(3) by (intro svc_count_cong [OF assms(2)]) (auto split: svc_split)
next
  case (SvCancel n c)
  then show ?thesis using assms(3) by (intro svc_count_cong [OF assms(2)]) (auto split: svc_split)
qed

lemma svc_inv_step: "svc_inv sha key s \<Longrightarrow> svc_exec sha key e s = Some s' \<Longrightarrow> svc_inv sha key s'"
  unfolding svc_inv_def using svc_win_step svc_ids_step svc_chan_step svc_count_step by blast

lemma svc_inv_reach: "svc_reach sha key s \<Longrightarrow> svc_inv sha key s"
  by (induction rule: svc_reach.induct) (auto intro: svc_inv_init svc_inv_step)

section \<open>A flush comes to its end\<close>

lemma svc_run_append:
  "svc_run sha key (es @ fs) s = (case svc_run sha key es s of None \<Rightarrow> None | Some t \<Rightarrow> svc_run sha key fs t)"
  by (induction es arbitrary: s) (auto split: option.split)

lemma sends_run:
  "phase s = Sending l err \<Longrightarrow> distinct (List.map fst l) \<Longrightarrow> (\<And>n r. (n, r) \<in> set l \<Longrightarrow> chans s n = None) \<Longrightarrow>
   \<exists>s'. svc_run sha key (replicate (length l) SvSend) s = Some s' \<and> phase s' = Sending [] err \<and> sys s' = sys s \<and>
     waiting s' = waiting s"
proof (induction l arbitrary: s)
  case (Cons x l)
  obtain n r where x: "x = (n, r)" by (cases x)
  let ?t = "s\<lparr>chans := (chans s)(n := Some r), phase := Sending l err\<rparr>"
  have "svc_exec sha key SvSend s = Some ?t" using Cons.prems(1) Cons.prems(3) [of n r] by (simp add: x)
  moreover have "\<exists>s'. svc_run sha key (replicate (length l) SvSend) ?t = Some s' \<and> phase s' = Sending [] err \<and>
      sys s' = sys ?t \<and> waiting s' = waiting ?t"
    using Cons.prems by (intro Cons.IH) (auto simp: x image_iff)
  ultimately show ?case by simp
qed auto

lemma offers_run:
  "phase s = Offering l err \<Longrightarrow>
   \<exists>s'. svc_run sha key (replicate (length l) SvOffer) s = Some s' \<and> phase s' = Offering [] err \<and> sys s' = sys s \<and>
     waiting s' = waiting s"
proof (induction l arbitrary: s)
  case (Cons n l)
  let ?t = "s\<lparr>chans := (chans s)(n := try_send (Failed err) (chans s n)), phase := Offering l err\<rparr>"
  have "svc_exec sha key SvOffer s = Some ?t" using Cons.prems by simp
  moreover have "\<exists>s'. svc_run sha key (replicate (length l) SvOffer) ?t = Some s' \<and> phase s' = Offering [] err \<and>
      sys s' = sys ?t \<and> waiting s' = waiting ?t"
    by (intro Cons.IH) simp
  ultimately show ?case by simp
qed auto


text \<open>From Execute on, the goroutine runs to its end by its own steps.\<close>

definition own_steps :: "svc_event set" where
  "own_steps = {SvSend, SvRecord 0, SvOffer, SvFlushDone}"

definition flush_ends :: "(string \<Rightarrow> string) \<Rightarrow> string \<Rightarrow> svc_event set \<Rightarrow> svc \<Rightarrow> bool" where
  "flush_ends sha key E s \<longleftrightarrow> (\<exists>es s'. svc_run sha key es s = Some s' \<and> set es \<subseteq> E \<and> running (sys s') = None \<and>
     waiting s' = waiting s)"

lemma flush_ends_after:
  assumes "svc_run sha key es s = Some t" "set es \<subseteq> E" "waiting t = waiting s" "flush_ends sha key E t"
  shows "flush_ends sha key E s"
proof -
  from assms(4) obtain fs u where "svc_run sha key fs t = Some u" "set fs \<subseteq> E" "running (sys u) = None" "waiting u = waiting t"
    by (auto simp: flush_ends_def)
  with assms(1-3) show ?thesis
    unfolding flush_ends_def by (intro exI [of _ "es @ fs"] exI [of _ u]) (simp add: svc_run_append)
qed

lemma flush_runs_out:
  assumes "svc_inv sha key s" "running (sys s) = Some b" "phase s \<noteq> BeforeExecute" "own_steps \<subseteq> E"
  shows "flush_ends sha key E s"
proof -
  have own: "SvSend \<in> E" "SvRecord 0 \<in> E" "SvOffer \<in> E" "SvFlushDone \<in> E" using assms(4) by (auto simp: own_steps_def)
  have offering: "flush_ends sha key E t" if "phase t = Offering l e" "running (sys t) = Some b" for t l e
  proof -
    from offers_run [OF that(1)] obtain u where u: "svc_run sha key (replicate (length l) SvOffer) t = Some u"
      "phase u = Offering [] e" "sys u = sys t" "waiting u = waiting t" by blast
    have fe: "flush_ends sha key E u"
      unfolding flush_ends_def using u(2,3) that(2) own by (intro exI [of _ "[SvFlushDone]"]) simp
    show ?thesis by (rule flush_ends_after [OF u(1) _ u(4) fe]) (use own in auto)
  qed
  show ?thesis
  proof (cases "phase s")
    case (Sending l err)
    note d = svc_chanD [of s]
    have c: "svc_chan s" using assms(1) by (simp add: svc_inv_def)
    have l: "pending s = l" by (simp add: pending_def Sending)
    have "\<exists>u. svc_run sha key (replicate (length l) SvSend) s = Some u \<and> phase u = Sending [] err \<and>
        sys u = sys s \<and> waiting u = waiting s"
      by (rule sends_run [OF Sending]) (use d(2,3) c l in auto)
    then obtain u where u: "svc_run sha key (replicate (length l) SvSend) s = Some u" "phase u = Sending [] err"
      "sys u = sys s" "waiting u = waiting s" by blast
    with assms(2) obtain v l' e' where v: "svc_run sha key [SvRecord 0] u = Some v" "phase v = Offering l' e'"
      "sys v = sys s" "waiting v = waiting u"
      by (cases err) simp_all
    have fv: "flush_ends sha key E v" using offering [OF v(2)] v(3) assms(2) by simp
    have fu: "flush_ends sha key E u" by (rule flush_ends_after [OF v(1) _ v(4) fv]) (use own in simp)
    show ?thesis by (rule flush_ends_after [OF u(1) _ u(4) fu]) (use own in auto)
  qed (use assms offering in auto)
qed

lemma results_ready:
  assumes "svc_inv sha key s" "running (sys s) = None" "n \<in> set (waiting s)" "n \<in> answered s"
  shows "\<exists>r. chans s n = Some r \<and> (n, r) \<in> set (results s)"
proof -
  have "phase s = BeforeExecute" using assms(1,2) by (simp add: svc_inv_def svc_win_def)
  moreover obtain r where "(n, r) \<in> set (results s)" using assms(4) by (auto simp: answered_def)
  ultimately show ?thesis
    using assms(1,3) svc_chanD(5) [of s n r] by (auto simp: svc_inv_def pending_def)
qed

lemma answered_iff: "n \<in> answered s \<longleftrightarrow> (\<exists>x \<in> set (executed s). \<exists>r. (n, r) \<in> set (answers_of x))"
  by (auto simp: answered_def results_def)

lemma executed_grows: "svc_exec sha key e s = Some s' \<Longrightarrow> set (executed s) \<subseteq> set (executed s')"
  by (cases e) (auto simp: window_step_def split: svc_split win_event.splits)

lemma answered_grows: "svc_exec sha key e s = Some s' \<Longrightarrow> answered s \<subseteq> answered s'"
  using executed_grows unfolding subset_iff answered_iff by blast

lemma answered_grows_run: "svc_run sha key es s = Some s' \<Longrightarrow> answered s \<subseteq> answered s'"
  by (induction es arbitrary: s) (auto split: option.splits dest: answered_grows)

section \<open>Properties\<close>

definition ids_of :: "(nat \<times> RunRequest) list \<times> (string + string list) \<times> time_ns \<Rightarrow> string list" where
  "ids_of x = (case fst (snd x) of Inl e \<Rightarrow> [] | Inr ids \<Rightarrow> ids)"

text \<open>A Created answer is an identifier of the answer of ECS, at the position of the caller.\<close>

lemma created_position:
  assumes "(n, Created i t) \<in> set (answers_of (b, ans, now))"
  shows "t = now \<and> (\<exists>ids j. ans = Inr ids \<and> j < length b \<and> j < length ids \<and> fst (b ! j) = n \<and> ids ! j = i)"
proof -
  let ?rs = "fst (Execute (\<lambda>_. ans) now (List.map snd b))"
  have len: "length ?rs = length b" by (simp add: length_Execute)
  from assms obtain j where j: "j < length b" "fst (b ! j) = n" "?rs ! j = Created i t"
    by (auto simp: answers_of_def in_set_zip len)
  then have ne: "List.map snd b \<noteq> []" by auto
  show ?thesis
  proof (cases ans)
    case (Inl e)
    with j ne show ?thesis by (simp add: Execute_def Let_def)
  next
    case (Inr ids)
    have "?rs ! j = (if j < length ids then Created (ids ! j) now
      else Failed (''insufficient instances returned: requested '' @ itoa (int (length (List.map snd b))) @
        '', got '' @ itoa (int (length ids))))"
      by (rule Execute_nth_success) (use Inr j(1) in auto)
    with j Inr show ?thesis by (auto split: if_splits)
  qed
qed

lemma concat_ids_position:
  assumes "distinct (concat (List.map f xs))" "x \<in> set xs" "y \<in> set xs" "j < length (f x)" "k < length (f y)"
    and "f x ! j = f y ! k"
  shows "f x = f y \<and> j = k"
proof -
  have in_both: "f x ! j \<in> set (f x)" "f x ! j \<in> set (f y)" using assms(4-6) nth_mem by (metis, metis)
  have eq: "f x = f y"
    using assms(1-3) in_both unfolding distinct_concat_iff by (metis IntI empty_iff imageI set_map)
  have "distinct (f x)" using assms(1,2) by (simp add: distinct_concat_iff)
  with assms(4-6) eq show ?thesis by (simp add: nth_eq_iff_index_eq)
qed

text \<open>With distinct identifiers two executed batches share none.\<close>

lemma same_batch:
  assumes "distinct (concat (List.map f xs))" "x \<in> set xs" "y \<in> set xs" "f x = f y" "f x \<noteq> []"
  shows "x = y"
proof -
  have "removeAll [] (List.map f xs) = List.map f (filter (\<lambda>x. f x \<noteq> []) xs)" by (induction xs) auto
  then have "inj_on f (set (filter (\<lambda>x. f x \<noteq> []) xs))"
    using assms(1) by (simp add: distinct_concat_iff distinct_map)
  from inj_onD [OF this assms(4)] assms(2-5) show ?thesis by auto
qed

lemma returned_origin:
  assumes "svc_inv sha key s" "(n, Inr (i, t)) \<in> set (returned s)"
  obtains b ids j where "(b, Inr ids, t) \<in> set (executed s)" "j < length b" "j < length ids" "fst (b ! j) = n" "ids ! j = i"
proof -
  have "(n, Created i t) \<in> set (results s)" using assms svc_chanD(6) by (auto simp: svc_inv_def)
  then obtain b ans now where x: "(b, ans, now) \<in> set (executed s)" "(n, Created i t) \<in> set (answers_of (b, ans, now))"
    by (auto simp: results_def)
  from created_position [OF x(2)] x(1) that show thesis by blast
qed


text \<open>Two calls that share a batch.\<close>

definition demo_key :: string where
  "demo_key = ComputeRunInstancesBatchKey id emptyRequest"

definition demo_calls :: "svc_event list" where
  "demo_calls = [SvCall 0 emptyRequest, SvCall 1 emptyRequest, SvWindow (EvTick 1000000), SvWindow EvIdleTimer,
     SvWindow EvRunIdle]"

definition demo_collected :: "(nat \<times> RunRequest) win_sys" where
  "demo_collected = \<lparr>win = \<lparr>items = [(0, emptyRequest), (1, emptyRequest)], idleDuration = 1000000, maxDuration = 10000000,
       idleTimer = Some \<lparr>deadline = None\<rparr>, maxTimer = Some \<lparr>deadline = Some 10000000\<rparr>, started = True, closed = False,
       flushInProgress = False\<rparr>, clock = 1000000, idleGo = 1, maxGo = 0, running = None,
     accepted = [(0, emptyRequest), (1, emptyRequest)], batches = [], skipped = False\<rparr>"

definition demo_batched :: "(nat \<times> RunRequest) win_sys" where
  "demo_batched = demo_collected\<lparr>win := (NewBatchWindow 1000000 10000000)\<lparr>flushInProgress := True\<rparr>, idleGo := 0,
     running := Some [(0, emptyRequest), (1, emptyRequest)], batches := [[(0, emptyRequest), (1, emptyRequest)]]\<rparr>"

definition demo_flushed :: svc where
  "demo_flushed = init_svc\<lparr>sys := demo_batched, reason := ''idle_timeout'', waiting := [1, 0]\<rparr>"

lemmas demo_defs = init_svc_def init_sys_def NewBatchWindow_def called_def window_step_def millisecond_ns_def demo_key_def
  demo_collected_def demo_batched_def

lemma demo_collected_run:
  "svc_run id demo_key [SvCall 0 emptyRequest, SvCall 1 emptyRequest, SvWindow (EvTick 1000000), SvWindow EvIdleTimer] init_svc =
     Some (init_svc\<lparr>sys := demo_collected, waiting := [1, 0]\<rparr>)"
  by (simp add: demo_defs win_defs due_def)

lemma demo_batched_step: "win_exec EvRunIdle demo_collected = Some demo_batched"
  by (simp add: demo_defs win_defs)

lemma demo_flushed_run: "svc_run id demo_key demo_calls init_svc = Some demo_flushed"
proof -
  have "svc_run id demo_key [SvWindow EvRunIdle] (init_svc\<lparr>sys := demo_collected, waiting := [1, 0]\<rparr>) = Some demo_flushed"
    by (simp add: window_step_def demo_batched_step demo_flushed_def del: win_exec.simps)
       (simp add: demo_batched_def demo_collected_def)
  then show ?thesis
    using svc_run_append [of id demo_key "[SvCall 0 emptyRequest, SvCall 1 emptyRequest, SvWindow (EvTick 1000000),
        SvWindow EvIdleTimer]" "[SvWindow EvRunIdle]" init_svc]
    unfolding demo_collected_run demo_calls_def by (simp del: svc_run.simps svc_exec.simps)
qed

lemma demo_flushed_fields:
  "running (sys demo_flushed) = Some [(0, emptyRequest), (1, emptyRequest)]" "phase demo_flushed = BeforeExecute"
  "waiting demo_flushed = [1, 0]" "returned demo_flushed = []" "executed demo_flushed = []" "chans demo_flushed = (\<lambda>_. None)"
  "batches (sys demo_flushed) = [[(0, emptyRequest), (1, emptyRequest)]]" "items (win (sys demo_flushed)) = []"
  by (simp_all add: demo_flushed_def demo_defs)

lemma demo_reach: "svc_reach id demo_key demo_flushed"
  by (rule svc_run_reach [OF svc_reach.init demo_flushed_run])

definition demo_answer :: "svc_event list" where
  "demo_answer = [SvExecute (Inr [''i-1'', ''i-2'']) 7, SvSend, SvReceive 0, SvSend, SvReceive 1]"

lemma demo_answered:
  obtains s where "svc_run id demo_key demo_answer demo_flushed = Some s"
    "returned s = [(0, Inr (''i-1'', 7)), (1, Inr (''i-2'', 7))]"
    "executed s = [([(0, emptyRequest), (1, emptyRequest)], Inr [''i-1'', ''i-2''], 7)]"
  by (simp add: demo_answer_def demo_flushed_fields Execute_def CreateInstanceResult_def Let_def)


text \<open>
  C39: A flush always comes to its end and answers its callers.  Whatever ECS answers, the goroutine of a
  running flush can finish by its own steps: none of its sends blocks, whether the callers read their channels or have
  gone; afterwards every caller of the batch that still waits has its result in its channel, the
  one Execute computed for it, and the next batch can start.
\<close>
theorem flush_answers_its_callers:
  assumes "svc_reach sha key s" "running (sys s) = Some b"
  shows "\<exists>es s'. svc_run sha key es s = Some s' \<and> set es \<subseteq> insert (SvExecute ans now) own_steps \<and>
    running (sys s') = None \<and> waiting s' = waiting s \<and>
    (\<forall>n \<in> fst ` set b. n \<in> set (waiting s') \<longrightarrow> (\<exists>r. chans s' n = Some r \<and> (n, r) \<in> set (results s')))"
proof -
  let ?E = "insert (SvExecute ans now) own_steps"
  note inv = svc_inv_reach [OF assms(1)]
  have started: "\<exists>es s'. svc_run sha key es s = Some s' \<and> set es \<subseteq> ?E \<and> running (sys s') = None \<and> waiting s' = waiting s \<and>
      fst ` set b \<subseteq> answered s'"
    if run: "svc_run sha key es0 s = Some t" "set es0 \<subseteq> ?E" "running (sys t) = Some b" "waiting t = waiting s"
      "phase t \<noteq> BeforeExecute" for es0 t
  proof -
    have it: "svc_inv sha key t" using svc_inv_reach [OF svc_run_reach [OF assms(1) run(1)]] .
    from flush_runs_out [OF it run(3,5), of ?E] obtain es s' where s': "svc_run sha key es t = Some s'" "set es \<subseteq> ?E"
      "running (sys s') = None" "waiting s' = waiting t" by (auto simp: flush_ends_def)
    have "fst ` set b \<subseteq> answered t" using running_answered(2) [OF _ run(3,5)] it by (simp add: svc_inv_def)
    with answered_grows_run [OF s'(1)] run s' show ?thesis
      by (intro exI [of _ "es0 @ es"] exI [of _ s']) (auto simp: svc_run_append)
  qed
  obtain es0 t where "svc_run sha key es0 s = Some t" "set es0 \<subseteq> ?E" "running (sys t) = Some b" "waiting t = waiting s"
    "phase t \<noteq> BeforeExecute"
  proof (cases "phase s")
    case BeforeExecute
    then obtain t where "svc_run sha key [SvExecute ans now] s = Some t" "running (sys t) = Some b" "waiting t = waiting s"
      "phase t \<noteq> BeforeExecute"
      using assms(2) by (auto simp: case_prod_beta)
    then show thesis by (intro that [of "[SvExecute ans now]" t]) simp_all
  qed (use that [of "[]" s] assms(2) in simp_all)
  from started [OF this] obtain es s' where s': "svc_run sha key es s = Some s'" "set es \<subseteq> ?E" "running (sys s') = None"
    "waiting s' = waiting s" "fst ` set b \<subseteq> answered s'" by blast
  note inv' = svc_inv_reach [OF svc_run_reach [OF assms(1) s'(1)]]
  have "\<exists>r. chans s' n = Some r \<and> (n, r) \<in> set (results s')" if "n \<in> fst ` set b" "n \<in> set (waiting s')" for n
    by (rule results_ready [OF inv' s'(3) that(2)]) (use that(1) s'(5) in blast)
  with s' show ?thesis by blast
qed

theorem flush_answers_its_callers_witness:
  "\<exists>es s'. svc_run id demo_key es demo_flushed = Some s' \<and>
     (\<exists>r. chans s' 1 = Some r \<and> (1, r) \<in> set (results s'))"
proof -
  from flush_answers_its_callers [OF demo_reach demo_flushed_fields(1), of "Inl ''QuotaExceeded''" 9]
  obtain es s' where "svc_run id demo_key es demo_flushed = Some s'" "waiting s' = waiting demo_flushed"
    "\<forall>n \<in> fst ` set [(0, emptyRequest), (1, emptyRequest)]. n \<in> set (waiting s') \<longrightarrow>
       (\<exists>r. chans s' n = Some r \<and> (n, r) \<in> set (results s'))" by blast
  then show ?thesis by (intro exI [of _ es] exI [of _ s']) (simp add: demo_flushed_fields)
qed

text \<open>
  Between flushes the metrics of the window account for its requests: every flushed batch was recorded
  once, and the API calls saved are the requests accepted less those that wait and the batches executed.
\<close>
theorem saved_calls_account_for_requests:
  assumes "svc_reach sha key s" "running (sys s) = None"
  shows "recorded s = length (executed s) \<and>
    apiCallsSaved (mets s) key =
      int (length (accepted (sys s))) - int (length (items (win (sys s)))) - int (length (executed s))"
proof -
  have inv: "svc_inv sha key s" by (rule svc_inv_reach [OF assms(1)])
  then have ph: "phase s = BeforeExecute" using assms(2) by (simp add: svc_inv_def svc_win_def)
  with inv have r: "recorded s = length (executed s)" by (simp add: svc_inv_def svc_count_def)
  have acc: "accepted (sys s) = concat (List.map fst (executed s)) @ items (win (sys s))"
    "[] \<notin> fst ` set (executed s)"
    using inv assms(2) by (auto simp: svc_inv_def svc_win_def win_inv_def conserved_def unexecuted_def)
  have ne: "\<forall>x \<in> set (executed s). fst x \<noteq> []" using acc(2) by force
  have "(\<Sum>x \<leftarrow> xs. int (length (fst x) - 1)) = int (length (concat (List.map fst xs))) - int (length xs)"
    if "\<forall>x \<in> set xs. fst x \<noteq> []" for xs :: "((nat \<times> RunRequest) list \<times> (string + string list) \<times> time_ns) list"
    using that by (induction xs) (auto simp: of_nat_diff Suc_le_eq)
  from this [OF ne] inv r acc(1) show ?thesis by (simp add: svc_inv_def svc_count_def)
qed

theorem saved_calls_account_for_requests_witness:
  "apiCallsSaved (mets init_svc) [] = 0"
  using saved_calls_account_for_requests [OF svc_reach.init [of id "[]"]] by (simp add: init_svc_def init_sys_def NewBatchWindow_def)

text \<open>
  A caller whose context ends while its batch is in flight leaves its instance behind: it is created
  and its result stays in a channel that nobody reads.
\<close>
lemma cancelled_call_leaves_instance:
  obtains s where "svc_run id demo_key [SvCancel 0 ''context canceled'', SvExecute (Inr [''i-1'', ''i-2'']) 7, SvSend, SvSend,
      SvReceive 1, SvRecord 5, SvFlushDone] demo_flushed = Some s"
    "returned s = [(0, Inl ''context canceled''), (1, Inr (''i-2'', 7))]" "waiting s = []"
    "chans s 0 = Some (Created ''i-1'' 7)" "running (sys s) = None" "items (win (sys s)) = []"
  by (simp add: demo_flushed_fields Execute_def CreateInstanceResult_def Let_def flushDone_def)

end
