(* ===== verification/GoHeap.thy ===== *)
theory GoHeap
  imports Prelude "HOL-Library.DAList"
begin

text \<open>
  A store for the parts of the program in which the sharing of objects matters.  A pointer, slice
  or map is the address of a cell, or None when it is nil; a slice covers its whole array; new
  cells are taken from fresh on.  A deep copier is a function of a reference-bearing value
  and the heap; deep states what one promises, and each combinator keeps it.
\<close>

type_synonym addr = nat

record 'c heap =
  fresh :: addr
  cells :: "addr \<Rightarrow> 'c"

definition alloc :: "'c \<Rightarrow> 'c heap \<Rightarrow> addr \<times> 'c heap" where
  "alloc c h = (fresh h, h\<lparr>fresh := Suc (fresh h), cells := (cells h)(fresh h := c)\<rparr>)"

definition set_cell :: "addr \<Rightarrow> 'c \<Rightarrow> 'c heap \<Rightarrow> 'c heap" where
  "set_cell a c h = h\<lparr>cells := (cells h)(a := c)\<rparr>"

text \<open>h' has the cells of h and possibly more.\<close>

definition extends :: "'c heap \<Rightarrow> 'c heap \<Rightarrow> bool" where
  "extends h h' \<longleftrightarrow> fresh h \<le> fresh h' \<and> (\<forall>a < fresh h. cells h' a = cells h a)"

definition refs_in :: "'c heap \<Rightarrow> addr set \<Rightarrow> bool" where
  "refs_in h A \<longleftrightarrow> (\<forall>a \<in> A. a < fresh h)"

text \<open>
  A deep copier with the value that is read from a heap and the addresses it is read from: the value
  depends on those addresses only; the copy has the same value, is read from new cells, and no
  existing cell is changed.
\<close>

type_synonym ('r, 'c) copier = "'r \<Rightarrow> 'c heap \<Rightarrow> 'r \<times> 'c heap"

definition local_read :: "('c heap \<Rightarrow> 'r \<Rightarrow> 'v) \<Rightarrow> ('c heap \<Rightarrow> 'r \<Rightarrow> addr set) \<Rightarrow> bool" where
  "local_read rd refs \<longleftrightarrow> (\<forall>h h' x. (\<forall>a \<in> refs h x. cells h' a = cells h a) \<longrightarrow> rd h' x = rd h x \<and> refs h' x = refs h x)"

definition copied :: "('c heap \<Rightarrow> 'r \<Rightarrow> 'v) \<Rightarrow> ('c heap \<Rightarrow> 'r \<Rightarrow> addr set) \<Rightarrow> 'c heap \<Rightarrow> 'r \<Rightarrow> 'c heap \<Rightarrow> 'r \<Rightarrow> bool" where
  "copied rd refs h x h' y \<longleftrightarrow> extends h h' \<and> rd h' y = rd h x \<and> (\<forall>a \<in> refs h' y. fresh h \<le> a \<and> a < fresh h')"

definition deep :: "('r, 'c) copier \<Rightarrow> ('c heap \<Rightarrow> 'r \<Rightarrow> 'v) \<Rightarrow> ('c heap \<Rightarrow> 'r \<Rightarrow> addr set) \<Rightarrow> bool" where
  "deep copier rd refs \<longleftrightarrow> local_read rd refs \<and>
     (\<forall>h x. refs_in h (refs h x) \<longrightarrow> copied rd refs h x (snd (copier x h)) (fst (copier x h)))"

lemma extends_refl [simp]: "extends h h" by (simp add: extends_def)

lemma extends_trans: "extends h h1 \<Longrightarrow> extends h1 h2 \<Longrightarrow> extends h h2"
  by (auto simp: extends_def)

lemma extends_next: "extends h h' \<Longrightarrow> fresh h \<le> fresh h'" by (simp add: extends_def)

lemma local_readI:
  assumes "\<And>h h' x. (\<And>a. a \<in> refs h x \<Longrightarrow> cells h' a = cells h a) \<Longrightarrow> rd h' x = rd h x \<and> refs h' x = refs h x"
  shows "local_read rd refs"
  using assms unfolding local_read_def by blast

lemma local_readD:
  assumes "local_read rd refs" "\<And>a. a \<in> refs h x \<Longrightarrow> cells h' a = cells h a"
  shows "rd h' x = rd h x" "refs h' x = refs h x"
  using assms unfolding local_read_def by blast+

lemma read_extends:
  assumes "local_read rd refs" "refs_in h (refs h x)" "extends h h'"
  shows "rd h' x = rd h x" "refs h' x = refs h x"
  using local_readD [OF assms(1), of h x h'] assms(2,3) by (auto simp: refs_in_def extends_def)

lemma deepD: "deep copier rd refs \<Longrightarrow> refs_in h (refs h x) \<Longrightarrow> copier x h = (y, h') \<Longrightarrow> copied rd refs h x h' y"
  unfolding deep_def by (metis fst_conv snd_conv)

lemma deep_local: "deep copier rd refs \<Longrightarrow> local_read rd refs"
  by (simp add: deep_def)

lemma deepI:
  assumes "local_read rd refs"
    and "\<And>h x y h'. refs_in h (refs h x) \<Longrightarrow> copier x h = (y, h') \<Longrightarrow> copied rd refs h x h' y"
  shows "deep copier rd refs"
  using assms unfolding deep_def by simp

text \<open>What was copied stays copied while the heap grows; a new cell may hold it.\<close>

lemma copied_later:
  assumes "local_read rd refs" "copied rd refs h x h1 y" "extends h1 h2"
  shows "copied rd refs h x h2 y"
proof -
  have "refs_in h1 (refs h1 y)" using assms(2) by (auto simp: copied_def refs_in_def)
  from read_extends [OF assms(1) this assms(3)] assms(2,3) extends_next [OF assms(3)] show ?thesis
    by (auto simp: copied_def intro: extends_trans)
qed

lemma extends_alloc: "extends h (snd (alloc c h))"
  by (simp add: extends_def alloc_def)

lemma alloc_cell [simp]: "cells (snd (alloc c h)) (fst (alloc c h)) = c" "fst (alloc c h) = fresh h"
  "fresh (snd (alloc c h)) = Suc (fresh h)"
  by (simp_all add: alloc_def)

section \<open>Cells without references\<close>

text \<open>A new cell with the contents of the old one: new(T) and an assignment, or make and copy.\<close>

definition copy_leaf :: "(addr option, 'c) copier" where
  "copy_leaf p h = (case p of None \<Rightarrow> (None, h) | Some a \<Rightarrow> apfst Some (alloc (cells h a) h))"

definition read_leaf :: "('c \<Rightarrow> 'v) \<Rightarrow> 'c heap \<Rightarrow> addr option \<Rightarrow> 'v option" where
  "read_leaf get h p = map_option (\<lambda>a. get (cells h a)) p"

definition refs_leaf :: "'c heap \<Rightarrow> addr option \<Rightarrow> addr set" where
  "refs_leaf h p = set_option p"

lemma deep_leaf: "deep copy_leaf (read_leaf get) refs_leaf"
proof (rule deepI)
  show "local_read (read_leaf get) refs_leaf"
    by (auto simp: local_read_def read_leaf_def refs_leaf_def split: option.splits intro: option.map_cong)
  show "copied (read_leaf get) refs_leaf h x h' y" if "refs_in h (refs_leaf h x)" "copy_leaf x h = (y, h')" for h x y h'
    using that extends_alloc [of h] by (cases x)
      (auto simp: copied_def copy_leaf_def read_leaf_def refs_leaf_def alloc_def apfst_def map_prod_def extends_def)
qed

text \<open>The same for a slice, which is empty when it is nil.\<close>

definition read_slice :: "('c \<Rightarrow> 'v list) \<Rightarrow> 'c heap \<Rightarrow> addr option \<Rightarrow> 'v list" where
  "read_slice get h p = (case p of None \<Rightarrow> [] | Some a \<Rightarrow> get (cells h a))"

lemma deep_view:
  assumes "deep copier rd refs"
  shows "deep copier (\<lambda>h x. f (rd h x)) refs"
  using assms unfolding deep_def local_read_def copied_def by (metis (no_types, lifting))

lemma read_slice_leaf: "read_slice get = (\<lambda>h x. or_else (read_leaf get h x) [])"
  by (auto simp: fun_eq_iff read_slice_def read_leaf_def or_else_def split: option.split)

lemma deep_slice: "deep copy_leaf (read_slice get) refs_leaf"
  unfolding read_slice_leaf by (rule deep_view [OF deep_leaf])

text \<open>A map is made anew and filled in a loop over the old one.\<close>

type_synonym map_cell = "(string, string) alist"

definition copy_entries :: "map_cell \<Rightarrow> map_cell" where
  "copy_entries m = fold (\<lambda>(k, v). DAList.update k v) (DAList.impl_of m) DAList.empty"

definition copy_map :: "('c \<Rightarrow> map_cell) \<Rightarrow> (map_cell \<Rightarrow> 'c) \<Rightarrow> (addr option, 'c) copier" where
  "copy_map get put p h = (case p of None \<Rightarrow> (None, h)
     | Some a \<Rightarrow> apfst Some (alloc (put (copy_entries (get (cells h a)))) h))"

definition read_map :: "('c \<Rightarrow> map_cell) \<Rightarrow> 'c heap \<Rightarrow> addr option \<Rightarrow> gomap" where
  "read_map get h p = (case p of None \<Rightarrow> [] | Some a \<Rightarrow> DAList.impl_of (get (cells h a)))"

lemma impl_of_fold_update:
  "DAList.impl_of (fold (\<lambda>(k, v). DAList.update k v) xs m) = fold (\<lambda>(k, v). AList.update k v) xs (DAList.impl_of m)"
  by (induction xs arbitrary: m) (auto simp: DAList.update.rep_eq)

lemma update_new: "k \<notin> fst ` set xs \<Longrightarrow> AList.update k v xs = xs @ [(k, v)]"
  by (induction xs) auto

lemma fold_update_distinct:
  "distinct (List.map fst (ys @ xs)) \<Longrightarrow> fold (\<lambda>(k, v). AList.update k v) xs ys = ys @ xs"
proof (induction xs arbitrary: ys)
  case (Cons x xs)
  obtain k v where x: "x = (k, v)" by (cases x)
  have "AList.update k v ys = ys @ [(k, v)]" using Cons.prems by (intro update_new) (auto simp: x)
  then show ?case using Cons.IH [of "ys @ [x]"] Cons.prems by (simp add: x)
qed simp

lemma copy_entries_id: "copy_entries m = m"
  by (rule alist_ext) (simp add: copy_entries_def impl_of_fold_update DAList.empty.rep_eq fold_update_distinct)

lemma deep_map:
  assumes "\<And>m. get (put m) = m"
  shows "deep (copy_map get put) (read_map get) refs_leaf"
proof (rule deepI)
  show "local_read (read_map get) refs_leaf"
    by (auto simp: local_read_def read_map_def refs_leaf_def split: option.splits)
  show "copied (read_map get) refs_leaf h x h' y" if "refs_in h (refs_leaf h x)" "copy_map get put x h = (y, h')" for h x y h'
    using that by (cases x)
      (auto simp: copied_def copy_map_def read_map_def refs_leaf_def alloc_def apfst_def map_prod_def extends_def
        copy_entries_id assms)
qed

section \<open>Composition\<close>

definition copy_value :: "('v, 'c) copier" where
  "copy_value x h = (x, h)"

lemma deep_value: "deep copy_value (\<lambda>h x. x) (\<lambda>h x. {})"
  by (rule deepI) (auto simp: local_read_def copied_def copy_value_def)

text \<open>One field after the other.\<close>

definition copy_pair :: "('a, 'c) copier \<Rightarrow> ('b, 'c) copier \<Rightarrow> ('a \<times> 'b, 'c) copier" where
  "copy_pair f g x h = (let (a, h1) = f (fst x) h; (b, h2) = g (snd x) h1 in ((a, b), h2))"

definition read_pair :: "('c heap \<Rightarrow> 'a \<Rightarrow> 'v) \<Rightarrow> ('c heap \<Rightarrow> 'b \<Rightarrow> 'w) \<Rightarrow> 'c heap \<Rightarrow> 'a \<times> 'b \<Rightarrow> 'v \<times> 'w" where
  "read_pair f g h x = (f h (fst x), g h (snd x))"

definition refs_pair :: "('c heap \<Rightarrow> 'a \<Rightarrow> addr set) \<Rightarrow> ('c heap \<Rightarrow> 'b \<Rightarrow> addr set) \<Rightarrow> 'c heap \<Rightarrow> 'a \<times> 'b \<Rightarrow> addr set" where
  "refs_pair f g h x = f h (fst x) \<union> g h (snd x)"

lemma deep_pair:
  fixes f :: "('a, 'c) copier" and g :: "('b, 'c) copier"
  assumes "deep f rf sf" "deep g rg sg"
  shows "deep (copy_pair f g) (read_pair rf rg) (refs_pair sf sg)"
proof (rule deepI)
  show "local_read (read_pair rf rg) (refs_pair sf sg)"
  proof (rule local_readI)
    fix h h' :: "'c heap" and x :: "'a \<times> 'b"
    assume same: "\<And>a. a \<in> refs_pair sf sg h x \<Longrightarrow> cells h' a = cells h a"
    from local_readD [OF deep_local [OF assms(1)], of h "fst x" h'] local_readD [OF deep_local [OF assms(2)], of h "snd x" h'] same
    show "read_pair rf rg h' x = read_pair rf rg h x \<and> refs_pair sf sg h' x = refs_pair sf sg h x"
      by (simp add: read_pair_def refs_pair_def)
  qed
next
  fix h h' :: "'c heap" and x :: "'a \<times> 'b" and y
  assume cl: "refs_in h (refs_pair sf sg h x)" and c: "copy_pair f g x h = (y, h')"
  obtain a h1 where f: "f (fst x) h = (a, h1)" by (metis surj_pair)
  obtain b where g: "g (snd x) h1 = (b, h')" and y: "y = (a, b)"
    using c f by (auto simp: copy_pair_def Let_def split: prod.splits)
  have cf: "copied rf sf h (fst x) h1 a" using deepD [OF assms(1) _ f] cl by (simp add: refs_pair_def refs_in_def)
  have cl2: "refs_in h (sg h (snd x))" using cl by (simp add: refs_pair_def refs_in_def)
  have e: "extends h h1" using cf by (simp add: copied_def)
  note keep = read_extends [OF deep_local [OF assms(2)] cl2 e]
  have "refs_in h1 (sg h1 (snd x))" using cl2 extends_next [OF e] keep by (auto simp: refs_in_def)
  from deepD [OF assms(2) this g] have cg: "copied rg sg h1 (snd x) h' b" .
  then have "copied rg sg h (snd x) h' b" using keep e extends_next [OF e]
    by (auto simp: copied_def intro: extends_trans)
  moreover have "copied rf sf h (fst x) h' a"
    by (rule copied_later [OF deep_local [OF assms(1)] cf]) (use cg in \<open>simp add: copied_def\<close>)
  ultimately show "copied (read_pair rf rg) (refs_pair sf sg) h x h' y"
    by (auto simp: copied_def read_pair_def refs_pair_def y)
qed

text \<open>A struct is its references, put into a shallow copy of it.\<close>

lemma deep_struct:
  assumes "deep pc rd rf"
    and copier: "\<And>x h. copier x h = (put (fst (pc (view x) h)) x, snd (pc (view x) h))"
    and view: "\<And>v x. view (put v x) = v"
    and rd': "\<And>h x. rd' h x = mk x (rd h (view x))" and mk: "\<And>v x w. mk (put v x) w = mk x w"
    and rf': "\<And>h x. rf' h x = rf h (view x)"
  shows "deep copier rd' rf'"
proof (rule deepI)
  show "local_read rd' rf'"
    using deep_local [OF assms(1)] unfolding local_read_def rd' rf' by metis
  show "copied rd' rf' h x h' y" if "refs_in h (rf' h x)" "copier x h = (y, h')" for h x y h'
    using deepD [OF assms(1) _ prod.collapse [symmetric], of h "view x"] that
    unfolding copied_def rd' rf' copier by (auto simp: view mk)
qed

section \<open>Cells with references\<close>

text \<open>new(T) and the copy of the struct into it; this is also each DeepCopy of a non-nil pointer.\<close>

definition copy_ptr :: "('c \<Rightarrow> 'r) \<Rightarrow> ('r \<Rightarrow> 'c) \<Rightarrow> ('r, 'c) copier \<Rightarrow> (addr option, 'c) copier" where
  "copy_ptr get put into p h = (case p of None \<Rightarrow> (None, h)
     | Some a \<Rightarrow> (let b = fresh h; (y, h1) = into (get (cells h a)) (h\<lparr>fresh := Suc b\<rparr>) in (Some b, set_cell b (put y) h1)))"

fun copy_elems :: "('r, 'c) copier \<Rightarrow> ('r list, 'c) copier" where
  "copy_elems into [] h = ([], h)"
| "copy_elems into (x # xs) h = (let (y, h1) = into x h; (ys, h2) = copy_elems into xs h1 in (y # ys, h2))"

text \<open>make and the loop over the elements.\<close>

definition copy_slice :: "('c \<Rightarrow> 'r list) \<Rightarrow> ('r list \<Rightarrow> 'c) \<Rightarrow> ('r, 'c) copier \<Rightarrow> (addr option, 'c) copier" where
  "copy_slice get put into = copy_ptr get put (copy_elems into)"

definition read_ptr :: "('c \<Rightarrow> 'r) \<Rightarrow> ('c heap \<Rightarrow> 'r \<Rightarrow> 'v) \<Rightarrow> 'c heap \<Rightarrow> addr option \<Rightarrow> 'v option" where
  "read_ptr get rd h p = map_option (\<lambda>a. rd h (get (cells h a))) p"

definition refs_ptr :: "('c \<Rightarrow> 'r) \<Rightarrow> ('c heap \<Rightarrow> 'r \<Rightarrow> addr set) \<Rightarrow> 'c heap \<Rightarrow> addr option \<Rightarrow> addr set" where
  "refs_ptr get refs h p = (case p of None \<Rightarrow> {} | Some a \<Rightarrow> insert a (refs h (get (cells h a))))"

definition read_elems :: "('c heap \<Rightarrow> 'r \<Rightarrow> 'v) \<Rightarrow> 'c heap \<Rightarrow> 'r list \<Rightarrow> 'v list" where
  "read_elems rd h xs = List.map (rd h) xs"

definition refs_elems :: "('c heap \<Rightarrow> 'r \<Rightarrow> addr set) \<Rightarrow> 'c heap \<Rightarrow> 'r list \<Rightarrow> addr set" where
  "refs_elems refs h xs = \<Union> (refs h ` set xs)"

definition read_structs :: "('c \<Rightarrow> 'r list) \<Rightarrow> ('c heap \<Rightarrow> 'r \<Rightarrow> 'v) \<Rightarrow> 'c heap \<Rightarrow> addr option \<Rightarrow> 'v list" where
  "read_structs get rd h p = or_else (read_ptr get (read_elems rd) h p) []"

lemma deep_elems:
  assumes "deep into rd refs"
  shows "deep (copy_elems into) (read_elems rd) (refs_elems refs)"
proof (rule deepI)
  show "local_read (read_elems rd) (refs_elems refs)"
  proof (rule local_readI)
    fix h h' :: "'b heap" and xs :: "'a list"
    assume same: "\<And>a. a \<in> refs_elems refs h xs \<Longrightarrow> cells h' a = cells h a"
    have "rd h' x = rd h x \<and> refs h' x = refs h x" if "x \<in> set xs" for x
      using local_readD [OF deep_local [OF assms], of h x h'] same that by (auto simp: refs_elems_def)
    then show "read_elems rd h' xs = read_elems rd h xs \<and> refs_elems refs h' xs = refs_elems refs h xs"
      by (simp add: read_elems_def refs_elems_def)
  qed
  show "copied (read_elems rd) (refs_elems refs) h xs h' ys"
    if "refs_in h (refs_elems refs h xs)" "copy_elems into xs h = (ys, h')" for h xs ys h'
    using that
  proof (induction xs arbitrary: h ys)
    case (Cons x xs)
    have pair: "copy_elems into (x # xs) h = map_prod (\<lambda>(a, b). a # b) id (copy_pair into (copy_elems into) (x, xs) h)"
      by (simp add: copy_pair_def Let_def split: prod.split)
    obtain y h1 zs where step: "into x h = (y, h1)" "copy_elems into xs h1 = (zs, h')" "ys = y # zs"
      using Cons.prems(2) by (auto simp: Let_def split: prod.splits)
    have cl: "refs_in h (refs h x)" "refs_in h (refs_elems refs h xs)"
      using Cons.prems(1) by (auto simp: refs_in_def refs_elems_def)
    have c1: "copied rd refs h x h1 y" by (rule deepD [OF assms cl(1) step(1)])
    then have e: "extends h h1" by (simp add: copied_def)
    have "local_read (read_elems rd) (refs_elems refs)" by fact
    note keep = read_extends [OF this cl(2) e]
    have "refs_in h1 (refs_elems refs h1 xs)" using cl(2) keep extends_next [OF e] by (auto simp: refs_in_def)
    from Cons.IH [OF this step(2)] have c2: "copied (read_elems rd) (refs_elems refs) h1 xs h' zs" .
    then have "extends h1 h'" by (simp add: copied_def)
    from copied_later [OF deep_local [OF assms] c1 this] c2 keep e extends_next [OF e] show ?case
      by (fastforce simp: copied_def step(3) read_elems_def refs_elems_def)
  qed (simp add: copied_def read_elems_def refs_elems_def)
qed

lemma deep_ptr:
  assumes "deep into rd refs" "\<And>x. get (put x) = x"
  shows "deep (copy_ptr get put into) (read_ptr get rd) (refs_ptr get refs)"
proof (rule deepI)
  note l = deep_local [OF assms(1)]
  show "local_read (read_ptr get rd) (refs_ptr get refs)"
  proof (rule local_readI)
    fix h h' :: "'b heap" and p
    assume same: "\<And>a. a \<in> refs_ptr get refs h p \<Longrightarrow> cells h' a = cells h a"
    show "read_ptr get rd h' p = read_ptr get rd h p \<and> refs_ptr get refs h' p = refs_ptr get refs h p"
      using local_readD [OF l, of h "get (cells h (the p))" h'] same
      by (cases p) (simp_all add: read_ptr_def refs_ptr_def)
  qed
  show "copied (read_ptr get rd) (refs_ptr get refs) h x h' y"
    if cl: "refs_in h (refs_ptr get refs h x)" and c: "copy_ptr get put into x h = (y, h')" for h x y h'
  proof (cases x)
    case (Some a)
    let ?h = "h\<lparr>fresh := Suc (fresh h)\<rparr>" and ?x = "get (cells h a)"
    obtain z h1 where z: "into ?x ?h = (z, h1)" by (metis surj_pair)
    have y: "y = Some (fresh h)" "h' = set_cell (fresh h) (put z) h1" using c z by (simp_all add: copy_ptr_def Some Let_def)
    have same: "rd ?h ?x = rd h ?x" "refs ?h ?x = refs h ?x" using local_readD [OF l] by (metis heap.select_convs heap.surjective heap.update_convs)+
    have "refs_in ?h (refs ?h ?x)" using cl unfolding same by (auto simp: refs_in_def refs_ptr_def Some)
    from deepD [OF assms(1) this z] have cz: "copied rd refs ?h ?x h1 z" .
    then have "rd h' z = rd h1 z" "refs h' z = refs h1 z"
      using local_readD [OF l, of h1 z h'] by (fastforce simp: copied_def y set_cell_def)+
    with cz show ?thesis
      by (auto simp: copied_def y Some read_ptr_def refs_ptr_def set_cell_def extends_def assms(2) same)
  qed (use c in \<open>auto simp: copied_def copy_ptr_def read_ptr_def refs_ptr_def\<close>)
qed

lemma deep_structs:
  assumes "deep into rd refs" "\<And>x. get (put x) = x"
  shows "deep (copy_slice get put into) (read_structs get rd) (refs_ptr get (refs_elems refs))"
  unfolding copy_slice_def read_structs_def
  by (rule deep_view [OF deep_ptr [OF deep_elems [OF assms(1)] assms(2)]])

section \<open>Isolation\<close>

text \<open>
  After a deep copy, neither side sees what is done to the other: not the changes of the cells of the
  other side, nor of new cells.
\<close>

lemma deep_isolates:
  assumes "deep copier rd refs" "refs_in h (refs h x)" "copier x h = (y, h')"
  shows "rd h' y = rd h x" "rd h' x = rd h x" "refs h' x \<inter> refs h' y = {}"
    and "\<And>h''. (\<And>a. a \<notin> refs h' x \<Longrightarrow> a < fresh h' \<Longrightarrow> cells h'' a = cells h' a) \<Longrightarrow> rd h'' y = rd h x"
    and "\<And>h''. (\<And>a. a \<notin> refs h' y \<Longrightarrow> a < fresh h' \<Longrightarrow> cells h'' a = cells h' a) \<Longrightarrow> rd h'' x = rd h x"
proof -
  note l = deep_local [OF assms(1)] and c = deepD [OF assms]
  then have e: "extends h h'" and eq: "rd h' y = rd h x" by (simp_all add: copied_def)
  note keep = read_extends [OF l assms(2) e]
  show "rd h' y = rd h x" "rd h' x = rd h x" by (fact eq, fact keep(1))
  show dis: "refs h' x \<inter> refs h' y = {}" using c assms(2) keep(2) by (fastforce simp: copied_def refs_in_def)
  show "rd h'' y = rd h x" if "\<And>a. a \<notin> refs h' x \<Longrightarrow> a < fresh h' \<Longrightarrow> cells h'' a = cells h' a" for h''
    using local_readD(1) [OF l, of h' y h''] that dis c eq by (auto simp: copied_def)
  show "rd h'' x = rd h x" if "\<And>a. a \<notin> refs h' y \<Longrightarrow> a < fresh h' \<Longrightarrow> cells h'' a = cells h' a" for h''
    using local_readD(1) [OF l, of h' x h''] that dis assms(2) keep extends_next [OF e] by (fastforce simp: refs_in_def)
qed

end
