(* ===== verification/DeepCopy.thy ===== *)
theory DeepCopy
  imports GoHeap KubeTypes Disks
begin

text \<open>
  pkg/apis/v1alpha1/zz_generated.deepcopy.go over a heap: for each API type the struct as it
  is laid out (a record with suffix H, whose pointers, slices and maps are addresses), its
  DeepCopyInto field by field in the order of the code, its DeepCopy, the value it stands for (read, a value of the
  type that the other theories use) and the addresses that value is read from (refs).  A float64 is a rational number.
\<close>

record VSwitchSelectorTermH =
  hvst_Tags :: "addr option"
  hvst_ID :: "addr option"
  hvst_ZoneID :: "addr option"

record SecurityGroupSelectorTermH =
  hsgt_Tags :: "addr option"
  hsgt_ID :: "addr option"
  hsgt_Name :: "addr option"

record ImageSelectorTermH =
  hist_ImageOwnerAlias :: "addr option"
  hist_Tags :: "addr option"
  hist_ID :: "addr option"
  hist_Name :: "addr option"
  hist_ImageOwnerID :: "addr option"
  hist_ImageFamily :: "addr option"

record CapacityReservationSelectorTermH =
  hcrt_Tags :: "addr option"
  hcrt_ID :: "addr option"

record SystemDiskSpecH =
  hsds_Category :: string
  hsds_Size :: "addr option"
  hsds_PerformanceLevel :: "addr option"
  hsds_Encrypted :: "addr option"
  hsds_KMSKeyID :: "addr option"

record DataDiskSpecH =
  hdds_Category :: string
  hdds_Size :: int
  hdds_Device :: "addr option"
  hdds_PerformanceLevel :: "addr option"
  hdds_Encrypted :: "addr option"
  hdds_KMSKeyID :: "addr option"
  hdds_SnapshotID :: "addr option"
  hdds_DeleteWithInstance :: "addr option"

record KubeletConfigurationH =
  hkc_ClusterDNS :: "addr option"
  hkc_MaxPods :: "addr option"
  hkc_SystemReserved :: "addr option"
  hkc_KubeReserved :: "addr option"
  hkc_EvictionHard :: "addr option"
  hkc_PodsPerCore :: "addr option"
  hkc_EvictionSoft :: "addr option"
  hkc_EvictionSoftGracePeriod :: "addr option"
  hkc_EvictionMaxPodGracePeriod :: "addr option"
  hkc_ImageGCHighThresholdPercent :: "addr option"
  hkc_ImageGCLowThresholdPercent :: "addr option"
  hkc_CPUCFSQuota :: "addr option"

record MetadataOptionsH =
  hmo_HttpTokens :: string
  hmo_HttpPutResponseHopLimit :: "addr option"
  hmo_HttpEndpoint :: "addr option"

record ECSNodeClassSpecH =
  hnc_ClusterID :: string
  hnc_ClusterName :: string
  hnc_ClusterEndpoint :: string
  hnc_VSwitchSelectorTerms :: "addr option"
  hnc_SecurityGroupSelectorTerms :: "addr option"
  hnc_ImageSelectorTerms :: "addr option"
  hnc_Role :: "addr option"
  hnc_SystemDisk :: "addr option"
  hnc_DataDisks :: "addr option"
  hnc_InstanceStorePolicy :: "addr option"
  hnc_SpotStrategy :: "addr option"
  hnc_SpotPriceLimit :: "addr option"
  hnc_UserData :: "addr option"
  hnc_Tags :: "addr option"
  hnc_Kubelet :: "addr option"
  hnc_CapacityReservationSelectorTerms :: "addr option"
  hnc_CapacityReservationPreference :: "addr option"
  hnc_MetadataOptions :: "addr option"
  hnc_LaunchTemplateID :: "addr option"
  hnc_LaunchTemplateVersion :: "addr option"

record ECSNodeClassStatusH =
  hst_Ready :: bool
  hst_VSwitches :: "addr option"
  hst_SecurityGroups :: "addr option"
  hst_Images :: "addr option"
  hst_RAMRole :: "addr option"
  hst_Conditions :: "addr option"

record NormalizedSystemDiskH =
  hnsd_Category :: string
  hnsd_Size :: int
  hnsd_PerformanceLevel :: string
  hnsd_Encrypted :: "addr option"
  hnsd_KMSKeyID :: string

record NormalizedDataDiskH =
  hndd_Category :: string
  hndd_Size :: int
  hndd_Device :: string
  hndd_PerformanceLevel :: string
  hndd_Encrypted :: "addr option"
  hndd_KMSKeyID :: string
  hndd_SnapshotID :: string
  hndd_DeleteWithInstance :: "addr option"

record NormalizedDisksH =
  hnd_SystemDisk :: NormalizedSystemDiskH
  hnd_DataDisks :: "addr option"
  hnd_InstanceStorePolicy :: "addr option"

text \<open>The metadata of the Kubernetes API keeps its own representation, 'm for objects and 'l for lists.\<close>

record 'm ECSNodeClassH =
  hk_TypeMeta :: "string \<times> string"
  hk_ObjectMeta :: 'm
  hk_Spec :: ECSNodeClassSpecH
  hk_Status :: ECSNodeClassStatusH

record 'l ECSNodeClassListH =
  hkl_TypeMeta :: "string \<times> string"
  hkl_ListMeta :: 'l
  hkl_Items :: "addr option"

datatype ('m, 'l) cell =
    CString (un_CString: string)
  | CBool (un_CBool: bool)
  | CInt (un_CInt: int)
  | CFloat (un_CFloat: rat)
  | CStrings (un_CStrings: "string list")
  | CMap (un_CMap: map_cell)
  | CVSwitchTerm (un_CVSwitchTerm: VSwitchSelectorTermH)
  | CVSwitchTerms (un_CVSwitchTerms: "VSwitchSelectorTermH list")
  | CGroupTerm (un_CGroupTerm: SecurityGroupSelectorTermH)
  | CGroupTerms (un_CGroupTerms: "SecurityGroupSelectorTermH list")
  | CImageTerm (un_CImageTerm: ImageSelectorTermH)
  | CImageTerms (un_CImageTerms: "ImageSelectorTermH list")
  | CReservationTerm (un_CReservationTerm: CapacityReservationSelectorTermH)
  | CReservationTerms (un_CReservationTerms: "CapacityReservationSelectorTermH list")
  | CSystemDisk (un_CSystemDisk: SystemDiskSpecH)
  | CDataDisk (un_CDataDisk: DataDiskSpecH)
  | CDataDisks (un_CDataDisks: "DataDiskSpecH list")
  | CKubelet (un_CKubelet: KubeletConfigurationH)
  | CMetadata (un_CMetadata: MetadataOptionsH)
  | CVSwitch (un_CVSwitch: VSwitch)
  | CVSwitches (un_CVSwitches: "VSwitch list")
  | CGroup (un_CGroup: SecurityGroup)
  | CGroups (un_CGroups: "SecurityGroup list")
  | CImage (un_CImage: Image)
  | CImages (un_CImages: "Image list")
  | CReservation (un_CReservation: CapacityReservation)
  | CConditions (un_CConditions: "Condition list")
  | CSpec (un_CSpec: ECSNodeClassSpecH)
  | CStatus (un_CStatus: ECSNodeClassStatusH)
  | CNodeClass (un_CNodeClass: "'m ECSNodeClassH")
  | CNodeClasses (un_CNodeClasses: "'m ECSNodeClassH list")
  | CNodeClassList (un_CNodeClassList: "'l ECSNodeClassListH")
  | CNormSystemDisk (un_CNormSystemDisk: NormalizedSystemDiskH)
  | CNormDataDisk (un_CNormDataDisk: NormalizedDataDiskH)
  | CNormDataDisks (un_CNormDataDisks: "NormalizedDataDiskH list")
  | CNormDisks (un_CNormDisks: NormalizedDisksH)

type_synonym ('m, 'l) store = "('m, 'l) cell heap"
type_synonym ('r, 'm, 'l) dcopier = "('r, ('m, 'l) cell) copier"

text \<open>
  The deep copies of the Kubernetes API types, with what they read: DeepCopyInto of ObjectMeta, ListMeta and
  Condition.  They are documented to be deep copies.
\<close>

record ('m, 'l) K8s =
  copy_meta :: "('m, 'm, 'l) dcopier"
  read_meta :: "('m, 'l) store \<Rightarrow> 'm \<Rightarrow> string \<times> int \<times> gomap"
  refs_meta :: "('m, 'l) store \<Rightarrow> 'm \<Rightarrow> addr set"
  copy_list_meta :: "('l, 'm, 'l) dcopier"
  read_list_meta :: "('m, 'l) store \<Rightarrow> 'l \<Rightarrow> string"
  refs_list_meta :: "('m, 'l) store \<Rightarrow> 'l \<Rightarrow> addr set"
  copy_condition :: "(Condition, 'm, 'l) dcopier"

definition deep_k8s :: "('m, 'l) K8s \<Rightarrow> bool" where
  "deep_k8s k \<longleftrightarrow> deep (copy_meta k) (read_meta k) (refs_meta k) \<and>
     deep (copy_list_meta k) (read_list_meta k) (refs_list_meta k) \<and>
     deep (copy_condition k) (\<lambda>h c. c) (\<lambda>h c. {})"

abbreviation copy_gomap :: "(addr option, 'm, 'l) dcopier" where
  "copy_gomap \<equiv> copy_map un_CMap CMap"

abbreviation read_gomap :: "('m, 'l) store \<Rightarrow> addr option \<Rightarrow> gomap" where
  "read_gomap \<equiv> read_map un_CMap"

lemma deep_gomap: "deep copy_gomap read_gomap refs_leaf"
  by (rule deep_map) simp

lemmas struct_defs = copy_pair_def read_pair_def refs_pair_def split_beta Let_def

text \<open>Structs without references.\<close>

definition CapacityReservation_DeepCopyInto :: "(CapacityReservation, 'm, 'l) dcopier" where
  "CapacityReservation_DeepCopyInto = copy_value"

definition Image_DeepCopyInto :: "(Image, 'm, 'l) dcopier" where
  "Image_DeepCopyInto = copy_value"

definition SecurityGroup_DeepCopyInto :: "(SecurityGroup, 'm, 'l) dcopier" where
  "SecurityGroup_DeepCopyInto = copy_value"

definition VSwitch_DeepCopyInto :: "(VSwitch, 'm, 'l) dcopier" where
  "VSwitch_DeepCopyInto = copy_value"

definition VSwitchSelectorTerm_DeepCopyInto :: "(VSwitchSelectorTermH, 'm, 'l) dcopier" where
  "VSwitchSelectorTerm_DeepCopyInto x h =
     (let (v1, h1) = copy_gomap (hvst_Tags x) h;
          (v2, h2) = copy_leaf (hvst_ID x) h1;
          (v3, h3) = copy_leaf (hvst_ZoneID x) h2
      in (x\<lparr>hvst_Tags := v1, hvst_ID := v2, hvst_ZoneID := v3\<rparr>, h3))"

definition read_VSwitchSelectorTerm :: 
    "('m, 'l) store \<Rightarrow> VSwitchSelectorTermH \<Rightarrow> VSwitchSelectorTerm" where
  "read_VSwitchSelectorTerm h x = \<lparr>vst_Tags = read_gomap h (hvst_Tags x), vst_ID = read_leaf un_CString h (hvst_ID x),
     vst_ZoneID = read_leaf un_CString h (hvst_ZoneID x)\<rparr>"

definition refs_VSwitchSelectorTerm :: 
    "('m, 'l) store \<Rightarrow> VSwitchSelectorTermH \<Rightarrow> addr set" where
  "refs_VSwitchSelectorTerm h x = refs_leaf h (hvst_Tags x) \<union> (refs_leaf h (hvst_ID x) \<union> refs_leaf h (hvst_ZoneID x))"

lemma deep_VSwitchSelectorTerm:
  "deep (VSwitchSelectorTerm_DeepCopyInto) read_VSwitchSelectorTerm refs_VSwitchSelectorTerm"
  by (rule deep_struct [OF deep_pair [OF deep_gomap deep_pair [OF deep_leaf deep_leaf]],
      where view = "\<lambda>x. (hvst_Tags x, hvst_ID x, hvst_ZoneID x)"
      and put = "\<lambda>(v1, v2, v3) x. x\<lparr>hvst_Tags := v1, hvst_ID := v2, hvst_ZoneID := v3\<rparr>"
      and mk = "\<lambda>x (v1, v2, v3). \<lparr>vst_Tags = v1, vst_ID = v2, vst_ZoneID = v3\<rparr>"])
    (simp_all add: VSwitchSelectorTerm_DeepCopyInto_def read_VSwitchSelectorTerm_def
      refs_VSwitchSelectorTerm_def struct_defs)

definition SecurityGroupSelectorTerm_DeepCopyInto :: "(SecurityGroupSelectorTermH, 'm, 'l) dcopier" where
  "SecurityGroupSelectorTerm_DeepCopyInto x h =
     (let (v1, h1) = copy_gomap (hsgt_Tags x) h;
          (v2, h2) = copy_leaf (hsgt_ID x) h1;
          (v3, h3) = copy_leaf (hsgt_Name x) h2
      in (x\<lparr>hsgt_Tags := v1, hsgt_ID := v2, hsgt_Name := v3\<rparr>, h3))"

definition read_SecurityGroupSelectorTerm :: 
    "('m, 'l) store \<Rightarrow> SecurityGroupSelectorTermH \<Rightarrow> SecurityGroupSelectorTerm" where
  "read_SecurityGroupSelectorTerm h x = \<lparr>sgt_Tags = read_gomap h (hsgt_Tags x), sgt_ID = read_leaf un_CString h (hsgt_ID x),
     sgt_Name = read_leaf un_CString h (hsgt_Name x)\<rparr>"

definition refs_SecurityGroupSelectorTerm :: 
    "('m, 'l) store \<Rightarrow> SecurityGroupSelectorTermH \<Rightarrow> addr set" where
  "refs_SecurityGroupSelectorTerm h x = refs_leaf h (hsgt_Tags x) \<union> (refs_leaf h (hsgt_ID x) \<union> refs_leaf h (hsgt_Name x))"

lemma deep_SecurityGroupSelectorTerm:
  "deep (SecurityGroupSelectorTerm_DeepCopyInto) read_SecurityGroupSelectorTerm refs_SecurityGroupSelectorTerm"
  by (rule deep_struct [OF deep_pair [OF deep_gomap deep_pair [OF deep_leaf deep_leaf]],
      where view = "\<lambda>x. (hsgt_Tags x, hsgt_ID x, hsgt_Name x)"
      and put = "\<lambda>(v1, v2, v3) x. x\<lparr>hsgt_Tags := v1, hsgt_ID := v2, hsgt_Name := v3\<rparr>"
      and mk = "\<lambda>x (v1, v2, v3). \<lparr>sgt_Tags = v1, sgt_ID = v2, sgt_Name = v3\<rparr>"])
    (simp_all add: SecurityGroupSelectorTerm_DeepCopyInto_def read_SecurityGroupSelectorTerm_def
      refs_SecurityGroupSelectorTerm_def struct_defs)

definition ImageSelectorTerm_DeepCopyInto :: "(ImageSelectorTermH, 'm, 'l) dcopier" where
  "ImageSelectorTerm_DeepCopyInto x h =
     (let (v1, h1) = copy_leaf (hist_ImageOwnerAlias x) h;
          (v2, h2) = copy_gomap (hist_Tags x) h1;
          (v3, h3) = copy_leaf (hist_ID x) h2;
          (v4, h4) = copy_leaf (hist_Name x) h3;
          (v5, h5) = copy_leaf (hist_ImageOwnerID x) h4;
          (v6, h6) = copy_leaf (hist_ImageFamily x) h5
      in (x\<lparr>hist_ImageOwnerAlias := v1, hist_Tags := v2, hist_ID := v3, hist_Name := v4, hist_ImageOwnerID := v5,
          hist_ImageFamily := v6\<rparr>, h6))"

definition read_ImageSelectorTerm :: 
    "('m, 'l) store \<Rightarrow> ImageSelectorTermH \<Rightarrow> ImageSelectorTerm" where
  "read_ImageSelectorTerm h x = \<lparr>ist_ImageOwnerAlias = read_leaf un_CString h (hist_ImageOwnerAlias x),
     ist_Tags = read_gomap h (hist_Tags x), ist_ID = read_leaf un_CString h (hist_ID x),
     ist_Name = read_leaf un_CString h (hist_Name x),
     ist_ImageOwnerID = read_leaf un_CString h (hist_ImageOwnerID x),
     ist_ImageFamily = read_leaf un_CString h (hist_ImageFamily x)\<rparr>"

definition refs_ImageSelectorTerm :: 
    "('m, 'l) store \<Rightarrow> ImageSelectorTermH \<Rightarrow> addr set" where
  "refs_ImageSelectorTerm h x = refs_leaf h (hist_ImageOwnerAlias x) \<union> (refs_leaf h (hist_Tags x) \<union> (
     refs_leaf h (hist_ID x) \<union> (refs_leaf h (hist_Name x) \<union> (
     refs_leaf h (hist_ImageOwnerID x) \<union> refs_leaf h (hist_ImageFamily x)))))"

lemma deep_ImageSelectorTerm:
  "deep (ImageSelectorTerm_DeepCopyInto) read_ImageSelectorTerm refs_ImageSelectorTerm"
  by (rule deep_struct [OF deep_pair [OF deep_leaf deep_pair [OF deep_gomap deep_pair [OF deep_leaf deep_pair [OF deep_leaf
      deep_pair [OF deep_leaf deep_leaf]]]]],
      where view = "\<lambda>x. (hist_ImageOwnerAlias x, hist_Tags x, hist_ID x, hist_Name x, hist_ImageOwnerID x,
      hist_ImageFamily x)"
      and put = "\<lambda>(v1, v2, v3, v4, v5, v6) x. x\<lparr>hist_ImageOwnerAlias := v1, hist_Tags := v2, hist_ID := v3,
      hist_Name := v4, hist_ImageOwnerID := v5, hist_ImageFamily := v6\<rparr>"
      and mk = "\<lambda>x (v1, v2, v3, v4, v5, v6). \<lparr>ist_ImageOwnerAlias = v1, ist_Tags = v2, ist_ID = v3,
      ist_Name = v4, ist_ImageOwnerID = v5, ist_ImageFamily = v6\<rparr>"])
    (simp_all add: ImageSelectorTerm_DeepCopyInto_def read_ImageSelectorTerm_def
      refs_ImageSelectorTerm_def struct_defs)

definition CapacityReservationSelectorTerm_DeepCopyInto :: "(CapacityReservationSelectorTermH, 'm, 'l) dcopier" where
  "CapacityReservationSelectorTerm_DeepCopyInto x h =
     (let (v1, h1) = copy_gomap (hcrt_Tags x) h;
          (v2, h2) = copy_leaf (hcrt_ID x) h1
      in (x\<lparr>hcrt_Tags := v1, hcrt_ID := v2\<rparr>, h2))"

definition read_CapacityReservationSelectorTerm :: 
    "('m, 'l) store \<Rightarrow> CapacityReservationSelectorTermH \<Rightarrow> CapacityReservationSelectorTerm" where
  "read_CapacityReservationSelectorTerm h x = \<lparr>crt_Tags = read_gomap h (hcrt_Tags x), crt_ID = read_leaf un_CString h (hcrt_ID x)\<rparr>"

definition refs_CapacityReservationSelectorTerm :: 
    "('m, 'l) store \<Rightarrow> CapacityReservationSelectorTermH \<Rightarrow> addr set" where
  "refs_CapacityReservationSelectorTerm h x = refs_leaf h (hcrt_Tags x) \<union> refs_leaf h (hcrt_ID x)"

lemma deep_CapacityReservationSelectorTerm:
  "deep (CapacityReservationSelectorTerm_DeepCopyInto) read_CapacityReservationSelectorTerm refs_CapacityReservationSelectorTerm"
  by (rule deep_struct [OF deep_pair [OF deep_gomap deep_leaf],
      where view = "\<lambda>x. (hcrt_Tags x, hcrt_ID x)"
      and put = "\<lambda>(v1, v2) x. x\<lparr>hcrt_Tags := v1, hcrt_ID := v2\<rparr>"
      and mk = "\<lambda>x (v1, v2). \<lparr>crt_Tags = v1, crt_ID = v2\<rparr>"])
    (simp_all add: CapacityReservationSelectorTerm_DeepCopyInto_def read_CapacityReservationSelectorTerm_def
      refs_CapacityReservationSelectorTerm_def struct_defs)

definition SystemDiskSpec_DeepCopyInto :: "(SystemDiskSpecH, 'm, 'l) dcopier" where
  "SystemDiskSpec_DeepCopyInto x h =
     (let (v1, h1) = copy_leaf (hsds_Size x) h;
          (v2, h2) = copy_leaf (hsds_PerformanceLevel x) h1;
          (v3, h3) = copy_leaf (hsds_Encrypted x) h2;
          (v4, h4) = copy_leaf (hsds_KMSKeyID x) h3
      in (x\<lparr>hsds_Size := v1, hsds_PerformanceLevel := v2, hsds_Encrypted := v3, hsds_KMSKeyID := v4\<rparr>, h4))"

definition read_SystemDiskSpec :: 
    "('m, 'l) store \<Rightarrow> SystemDiskSpecH \<Rightarrow> SystemDiskSpec" where
  "read_SystemDiskSpec h x = \<lparr>sds_Category = hsds_Category x, sds_Size = read_leaf un_CInt h (hsds_Size x),
     sds_PerformanceLevel = read_leaf un_CString h (hsds_PerformanceLevel x),
     sds_Encrypted = read_leaf un_CBool h (hsds_Encrypted x),
     sds_KMSKeyID = read_leaf un_CString h (hsds_KMSKeyID x)\<rparr>"

definition refs_SystemDiskSpec :: 
    "('m, 'l) store \<Rightarrow> SystemDiskSpecH \<Rightarrow> addr set" where
  "refs_SystemDiskSpec h x = refs_leaf h (hsds_Size x) \<union> (refs_leaf h (hsds_PerformanceLevel x) \<union> (
     refs_leaf h (hsds_Encrypted x) \<union> refs_leaf h (hsds_KMSKeyID x)))"

lemma deep_SystemDiskSpec:
  "deep (SystemDiskSpec_DeepCopyInto) read_SystemDiskSpec refs_SystemDiskSpec"
  by (rule deep_struct [OF deep_pair [OF deep_leaf deep_pair [OF deep_leaf deep_pair [OF deep_leaf deep_leaf]]],
      where view = "\<lambda>x. (hsds_Size x, hsds_PerformanceLevel x, hsds_Encrypted x, hsds_KMSKeyID x)"
      and put = "\<lambda>(v1, v2, v3, v4) x. x\<lparr>hsds_Size := v1, hsds_PerformanceLevel := v2, hsds_Encrypted := v3,
      hsds_KMSKeyID := v4\<rparr>"
      and mk = "\<lambda>x (v1, v2, v3, v4). \<lparr>sds_Category = hsds_Category x, sds_Size = v1, sds_PerformanceLevel
      = v2, sds_Encrypted = v3, sds_KMSKeyID = v4\<rparr>"])
    (simp_all add: SystemDiskSpec_DeepCopyInto_def read_SystemDiskSpec_def
      refs_SystemDiskSpec_def struct_defs)

definition DataDiskSpec_DeepCopyInto :: "(DataDiskSpecH, 'm, 'l) dcopier" where
  "DataDiskSpec_DeepCopyInto x h =
     (let (v1, h1) = copy_leaf (hdds_Device x) h;
          (v2, h2) = copy_leaf (hdds_PerformanceLevel x) h1;
          (v3, h3) = copy_leaf (hdds_Encrypted x) h2;
          (v4, h4) = copy_leaf (hdds_KMSKeyID x) h3;
          (v5, h5) = copy_leaf (hdds_SnapshotID x) h4;
          (v6, h6) = copy_leaf (hdds_DeleteWithInstance x) h5
      in (x\<lparr>hdds_Device := v1, hdds_PerformanceLevel := v2, hdds_Encrypted := v3, hdds_KMSKeyID := v4,
          hdds_SnapshotID := v5, hdds_DeleteWithInstance := v6\<rparr>, h6))"

definition read_DataDiskSpec :: 
    "('m, 'l) store \<Rightarrow> DataDiskSpecH \<Rightarrow> DataDiskSpec" where
  "read_DataDiskSpec h x = \<lparr>dds_Category = hdds_Category x, dds_Size = hdds_Size x,
     dds_Device = read_leaf un_CString h (hdds_Device x),
     dds_PerformanceLevel = read_leaf un_CString h (hdds_PerformanceLevel x),
     dds_Encrypted = read_leaf un_CBool h (hdds_Encrypted x),
     dds_KMSKeyID = read_leaf un_CString h (hdds_KMSKeyID x),
     dds_SnapshotID = read_leaf un_CString h (hdds_SnapshotID x),
     dds_DeleteWithInstance = read_leaf un_CBool h (hdds_DeleteWithInstance x)\<rparr>"

definition refs_DataDiskSpec :: 
    "('m, 'l) store \<Rightarrow> DataDiskSpecH \<Rightarrow> addr set" where
  "refs_DataDiskSpec h x = refs_leaf h (hdds_Device x) \<union> (refs_leaf h (hdds_PerformanceLevel x) \<union> (
     refs_leaf h (hdds_Encrypted x) \<union> (refs_leaf h (hdds_KMSKeyID x) \<union> (
     refs_leaf h (hdds_SnapshotID x) \<union> refs_leaf h (hdds_DeleteWithInstance x)))))"

lemma deep_DataDiskSpec:
  "deep (DataDiskSpec_DeepCopyInto) read_DataDiskSpec refs_DataDiskSpec"
  by (rule deep_struct [OF deep_pair [OF deep_leaf deep_pair [OF deep_leaf deep_pair [OF deep_leaf deep_pair [OF deep_leaf deep_pair
      [OF deep_leaf deep_leaf]]]]],
      where view = "\<lambda>x. (hdds_Device x, hdds_PerformanceLevel x, hdds_Encrypted x, hdds_KMSKeyID x, hdds_SnapshotID
      x, hdds_DeleteWithInstance x)"
      and put = "\<lambda>(v1, v2, v3, v4, v5, v6) x. x\<lparr>hdds_Device := v1, hdds_PerformanceLevel := v2,
      hdds_Encrypted := v3, hdds_KMSKeyID := v4, hdds_SnapshotID := v5, hdds_DeleteWithInstance := v6\<rparr>"
      and mk = "\<lambda>x (v1, v2, v3, v4, v5, v6). \<lparr>dds_Category = hdds_Category x, dds_Size = hdds_Size x,
      dds_Device = v1, dds_PerformanceLevel = v2, dds_Encrypted = v3, dds_KMSKeyID = v4, dds_SnapshotID = v5,
      dds_DeleteWithInstance = v6\<rparr>"])
    (simp_all add: DataDiskSpec_DeepCopyInto_def read_DataDiskSpec_def
      refs_DataDiskSpec_def struct_defs)

definition KubeletConfiguration_DeepCopyInto :: "(KubeletConfigurationH, 'm, 'l) dcopier" where
  "KubeletConfiguration_DeepCopyInto x h =
     (let (v1, h1) = copy_leaf (hkc_ClusterDNS x) h;
          (v2, h2) = copy_leaf (hkc_MaxPods x) h1;
          (v3, h3) = copy_gomap (hkc_SystemReserved x) h2;
          (v4, h4) = copy_gomap (hkc_KubeReserved x) h3;
          (v5, h5) = copy_gomap (hkc_EvictionHard x) h4;
          (v6, h6) = copy_leaf (hkc_PodsPerCore x) h5;
          (v7, h7) = copy_gomap (hkc_EvictionSoft x) h6;
          (v8, h8) = copy_gomap (hkc_EvictionSoftGracePeriod x) h7;
          (v9, h9) = copy_leaf (hkc_EvictionMaxPodGracePeriod x) h8;
          (v10, h10) = copy_leaf (hkc_ImageGCHighThresholdPercent x) h9;
          (v11, h11) = copy_leaf (hkc_ImageGCLowThresholdPercent x) h10;
          (v12, h12) = copy_leaf (hkc_CPUCFSQuota x) h11
      in (x\<lparr>hkc_ClusterDNS := v1, hkc_MaxPods := v2, hkc_SystemReserved := v3, hkc_KubeReserved := v4,
          hkc_EvictionHard := v5, hkc_PodsPerCore := v6, hkc_EvictionSoft := v7,
          hkc_EvictionSoftGracePeriod := v8, hkc_EvictionMaxPodGracePeriod := v9,
          hkc_ImageGCHighThresholdPercent := v10, hkc_ImageGCLowThresholdPercent := v11, hkc_CPUCFSQuota := v12\<rparr>, h12))"

definition read_KubeletConfiguration :: 
    "('m, 'l) store \<Rightarrow> KubeletConfigurationH \<Rightarrow> KubeletConfiguration" where
  "read_KubeletConfiguration h x = \<lparr>kc_ClusterDNS = read_slice un_CStrings h (hkc_ClusterDNS x),
     kc_MaxPods = read_leaf un_CInt h (hkc_MaxPods x), kc_SystemReserved = read_gomap h (hkc_SystemReserved x),
     kc_KubeReserved = read_gomap h (hkc_KubeReserved x), kc_EvictionHard = read_gomap h (hkc_EvictionHard x),
     kc_PodsPerCore = read_leaf un_CInt h (hkc_PodsPerCore x),
     kc_EvictionSoft = read_gomap h (hkc_EvictionSoft x),
     kc_EvictionSoftGracePeriod = read_gomap h (hkc_EvictionSoftGracePeriod x),
     kc_EvictionMaxPodGracePeriod = read_leaf un_CInt h (hkc_EvictionMaxPodGracePeriod x),
     kc_ImageGCHighThresholdPercent = read_leaf un_CInt h (hkc_ImageGCHighThresholdPercent x),
     kc_ImageGCLowThresholdPercent = read_leaf un_CInt h (hkc_ImageGCLowThresholdPercent x),
     kc_CPUCFSQuota = read_leaf un_CBool h (hkc_CPUCFSQuota x)\<rparr>"

definition refs_KubeletConfiguration :: 
    "('m, 'l) store \<Rightarrow> KubeletConfigurationH \<Rightarrow> addr set" where
  "refs_KubeletConfiguration h x = refs_leaf h (hkc_ClusterDNS x) \<union> (refs_leaf h (hkc_MaxPods x) \<union> (
     refs_leaf h (hkc_SystemReserved x) \<union> (refs_leaf h (hkc_KubeReserved x) \<union> (
     refs_leaf h (hkc_EvictionHard x) \<union> (refs_leaf h (hkc_PodsPerCore x) \<union> (
     refs_leaf h (hkc_EvictionSoft x) \<union> (refs_leaf h (hkc_EvictionSoftGracePeriod x) \<union> (
     refs_leaf h (hkc_EvictionMaxPodGracePeriod x) \<union> (
     refs_leaf h (hkc_ImageGCHighThresholdPercent x) \<union> (
     refs_leaf h (hkc_ImageGCLowThresholdPercent x) \<union> refs_leaf h (hkc_CPUCFSQuota x)))))))))))"

lemma deep_KubeletConfiguration:
  "deep (KubeletConfiguration_DeepCopyInto) read_KubeletConfiguration refs_KubeletConfiguration"
  by (rule deep_struct [OF deep_pair [OF deep_slice deep_pair [OF deep_leaf deep_pair [OF deep_gomap deep_pair [OF deep_gomap
      deep_pair [OF deep_gomap deep_pair [OF deep_leaf deep_pair [OF deep_gomap deep_pair [OF deep_gomap
      deep_pair [OF deep_leaf deep_pair [OF deep_leaf deep_pair [OF deep_leaf deep_leaf]]]]]]]]]]],
      where view = "\<lambda>x. (hkc_ClusterDNS x, hkc_MaxPods x, hkc_SystemReserved x, hkc_KubeReserved x, hkc_EvictionHard
      x, hkc_PodsPerCore x, hkc_EvictionSoft x, hkc_EvictionSoftGracePeriod x, hkc_EvictionMaxPodGracePeriod x,
      hkc_ImageGCHighThresholdPercent x, hkc_ImageGCLowThresholdPercent x, hkc_CPUCFSQuota x)"
      and put = "\<lambda>(v1, v2, v3, v4, v5, v6, v7, v8, v9, v10, v11, v12) x. x\<lparr>hkc_ClusterDNS := v1,
      hkc_MaxPods := v2, hkc_SystemReserved := v3, hkc_KubeReserved := v4, hkc_EvictionHard := v5,
      hkc_PodsPerCore := v6, hkc_EvictionSoft := v7, hkc_EvictionSoftGracePeriod := v8,
      hkc_EvictionMaxPodGracePeriod := v9, hkc_ImageGCHighThresholdPercent := v10,
      hkc_ImageGCLowThresholdPercent := v11, hkc_CPUCFSQuota := v12\<rparr>"
      and mk = "\<lambda>x (v1, v2, v3, v4, v5, v6, v7, v8, v9, v10, v11, v12). \<lparr>kc_ClusterDNS = v1, kc_MaxPods =
      v2, kc_SystemReserved = v3, kc_KubeReserved = v4, kc_EvictionHard = v5, kc_PodsPerCore = v6,
      kc_EvictionSoft = v7, kc_EvictionSoftGracePeriod = v8, kc_EvictionMaxPodGracePeriod = v9,
      kc_ImageGCHighThresholdPercent = v10, kc_ImageGCLowThresholdPercent = v11, kc_CPUCFSQuota = v12\<rparr>"])
    (simp_all add: KubeletConfiguration_DeepCopyInto_def read_KubeletConfiguration_def
      refs_KubeletConfiguration_def struct_defs)

definition MetadataOptions_DeepCopyInto :: "(MetadataOptionsH, 'm, 'l) dcopier" where
  "MetadataOptions_DeepCopyInto x h =
     (let (v1, h1) = copy_leaf (hmo_HttpPutResponseHopLimit x) h;
          (v2, h2) = copy_leaf (hmo_HttpEndpoint x) h1
      in (x\<lparr>hmo_HttpPutResponseHopLimit := v1, hmo_HttpEndpoint := v2\<rparr>, h2))"

definition read_MetadataOptions :: 
    "('m, 'l) store \<Rightarrow> MetadataOptionsH \<Rightarrow> MetadataOptions" where
  "read_MetadataOptions h x = \<lparr>mo_HttpTokens = hmo_HttpTokens x,
     mo_HttpPutResponseHopLimit = read_leaf un_CInt h (hmo_HttpPutResponseHopLimit x),
     mo_HttpEndpoint = read_leaf un_CString h (hmo_HttpEndpoint x)\<rparr>"

definition refs_MetadataOptions :: 
    "('m, 'l) store \<Rightarrow> MetadataOptionsH \<Rightarrow> addr set" where
  "refs_MetadataOptions h x = refs_leaf h (hmo_HttpPutResponseHopLimit x) \<union> refs_leaf h (hmo_HttpEndpoint x)"

lemma deep_MetadataOptions:
  "deep (MetadataOptions_DeepCopyInto) read_MetadataOptions refs_MetadataOptions"
  by (rule deep_struct [OF deep_pair [OF deep_leaf deep_leaf],
      where view = "\<lambda>x. (hmo_HttpPutResponseHopLimit x, hmo_HttpEndpoint x)"
      and put = "\<lambda>(v1, v2) x. x\<lparr>hmo_HttpPutResponseHopLimit := v1, hmo_HttpEndpoint := v2\<rparr>"
      and mk = "\<lambda>x (v1, v2). \<lparr>mo_HttpTokens = hmo_HttpTokens x, mo_HttpPutResponseHopLimit = v1,
      mo_HttpEndpoint = v2\<rparr>"])
    (simp_all add: MetadataOptions_DeepCopyInto_def read_MetadataOptions_def
      refs_MetadataOptions_def struct_defs)

definition ECSNodeClassSpec_DeepCopyInto :: "(ECSNodeClassSpecH, 'm, 'l) dcopier" where
  "ECSNodeClassSpec_DeepCopyInto x h =
     (let (v1, h1) = copy_slice un_CVSwitchTerms CVSwitchTerms VSwitchSelectorTerm_DeepCopyInto (hnc_VSwitchSelectorTerms x) h;
          (v2, h2) = copy_slice un_CGroupTerms CGroupTerms SecurityGroupSelectorTerm_DeepCopyInto (hnc_SecurityGroupSelectorTerms x) h1;
          (v3, h3) = copy_slice un_CImageTerms CImageTerms ImageSelectorTerm_DeepCopyInto (hnc_ImageSelectorTerms x) h2;
          (v4, h4) = copy_leaf (hnc_Role x) h3;
          (v5, h5) = copy_ptr un_CSystemDisk CSystemDisk SystemDiskSpec_DeepCopyInto (hnc_SystemDisk x) h4;
          (v6, h6) = copy_slice un_CDataDisks CDataDisks DataDiskSpec_DeepCopyInto (hnc_DataDisks x) h5;
          (v7, h7) = copy_leaf (hnc_InstanceStorePolicy x) h6;
          (v8, h8) = copy_leaf (hnc_SpotStrategy x) h7;
          (v9, h9) = copy_leaf (hnc_SpotPriceLimit x) h8;
          (v10, h10) = copy_leaf (hnc_UserData x) h9;
          (v11, h11) = copy_gomap (hnc_Tags x) h10;
          (v12, h12) = copy_ptr un_CKubelet CKubelet KubeletConfiguration_DeepCopyInto (hnc_Kubelet x) h11;
          (v13, h13) = copy_slice un_CReservationTerms CReservationTerms CapacityReservationSelectorTerm_DeepCopyInto (hnc_CapacityReservationSelectorTerms x) h12;
          (v14, h14) = copy_leaf (hnc_CapacityReservationPreference x) h13;
          (v15, h15) = copy_ptr un_CMetadata CMetadata MetadataOptions_DeepCopyInto (hnc_MetadataOptions x) h14;
          (v16, h16) = copy_leaf (hnc_LaunchTemplateID x) h15;
          (v17, h17) = copy_leaf (hnc_LaunchTemplateVersion x) h16
      in (x\<lparr>hnc_VSwitchSelectorTerms := v1, hnc_SecurityGroupSelectorTerms := v2, hnc_ImageSelectorTerms := v3,
          hnc_Role := v4, hnc_SystemDisk := v5, hnc_DataDisks := v6, hnc_InstanceStorePolicy := v7,
          hnc_SpotStrategy := v8, hnc_SpotPriceLimit := v9, hnc_UserData := v10, hnc_Tags := v11,
          hnc_Kubelet := v12, hnc_CapacityReservationSelectorTerms := v13,
          hnc_CapacityReservationPreference := v14, hnc_MetadataOptions := v15, hnc_LaunchTemplateID := v16,
          hnc_LaunchTemplateVersion := v17\<rparr>, h17))"

definition read_ECSNodeClassSpec :: 
    "('m, 'l) store \<Rightarrow> ECSNodeClassSpecH \<Rightarrow> ECSNodeClassSpec" where
  "read_ECSNodeClassSpec h x = \<lparr>nc_ClusterID = hnc_ClusterID x, nc_ClusterName = hnc_ClusterName x,
     nc_ClusterEndpoint = hnc_ClusterEndpoint x,
     nc_VSwitchSelectorTerms = read_structs un_CVSwitchTerms read_VSwitchSelectorTerm h (hnc_VSwitchSelectorTerms x),
     nc_SecurityGroupSelectorTerms = read_structs un_CGroupTerms read_SecurityGroupSelectorTerm h (hnc_SecurityGroupSelectorTerms x),
     nc_ImageSelectorTerms = read_structs un_CImageTerms read_ImageSelectorTerm h (hnc_ImageSelectorTerms x),
     nc_Role = read_leaf un_CString h (hnc_Role x),
     nc_SystemDisk = read_ptr un_CSystemDisk read_SystemDiskSpec h (hnc_SystemDisk x),
     nc_DataDisks = read_structs un_CDataDisks read_DataDiskSpec h (hnc_DataDisks x),
     nc_InstanceStorePolicy = read_leaf un_CString h (hnc_InstanceStorePolicy x),
     nc_SpotStrategy = read_leaf un_CString h (hnc_SpotStrategy x),
     nc_SpotPriceLimit = read_leaf un_CFloat h (hnc_SpotPriceLimit x),
     nc_UserData = read_leaf un_CString h (hnc_UserData x), nc_Tags = read_gomap h (hnc_Tags x),
     nc_Kubelet = read_ptr un_CKubelet read_KubeletConfiguration h (hnc_Kubelet x),
     nc_CapacityReservationSelectorTerms = read_structs un_CReservationTerms read_CapacityReservationSelectorTerm h (hnc_CapacityReservationSelectorTerms x),
     nc_CapacityReservationPreference = read_leaf un_CString h (hnc_CapacityReservationPreference x),
     nc_MetadataOptions = read_ptr un_CMetadata read_MetadataOptions h (hnc_MetadataOptions x),
     nc_LaunchTemplateID = read_leaf un_CString h (hnc_LaunchTemplateID x),
     nc_LaunchTemplateVersion = read_leaf un_CInt h (hnc_LaunchTemplateVersion x)\<rparr>"

definition refs_ECSNodeClassSpec :: 
    "('m, 'l) store \<Rightarrow> ECSNodeClassSpecH \<Rightarrow> addr set" where
  "refs_ECSNodeClassSpec h x = refs_ptr un_CVSwitchTerms (refs_elems refs_VSwitchSelectorTerm) h (hnc_VSwitchSelectorTerms x) \<union> (
     refs_ptr un_CGroupTerms (refs_elems refs_SecurityGroupSelectorTerm) h (hnc_SecurityGroupSelectorTerms x) \<union> (
     refs_ptr un_CImageTerms (refs_elems refs_ImageSelectorTerm) h (hnc_ImageSelectorTerms x) \<union> (
     refs_leaf h (hnc_Role x) \<union> (
     refs_ptr un_CSystemDisk refs_SystemDiskSpec h (hnc_SystemDisk x) \<union> (
     refs_ptr un_CDataDisks (refs_elems refs_DataDiskSpec) h (hnc_DataDisks x) \<union> (
     refs_leaf h (hnc_InstanceStorePolicy x) \<union> (refs_leaf h (hnc_SpotStrategy x) \<union> (
     refs_leaf h (hnc_SpotPriceLimit x) \<union> (refs_leaf h (hnc_UserData x) \<union> (
     refs_leaf h (hnc_Tags x) \<union> (
     refs_ptr un_CKubelet refs_KubeletConfiguration h (hnc_Kubelet x) \<union> (
     refs_ptr un_CReservationTerms (refs_elems refs_CapacityReservationSelectorTerm) h (hnc_CapacityReservationSelectorTerms x) \<union> (
     refs_leaf h (hnc_CapacityReservationPreference x) \<union> (
     refs_ptr un_CMetadata refs_MetadataOptions h (hnc_MetadataOptions x) \<union> (
     refs_leaf h (hnc_LaunchTemplateID x) \<union> refs_leaf h (hnc_LaunchTemplateVersion x))))))))))))))))"

lemma deep_ECSNodeClassSpec:
  "deep (ECSNodeClassSpec_DeepCopyInto) read_ECSNodeClassSpec refs_ECSNodeClassSpec"
  by (rule deep_struct [OF deep_pair [OF deep_structs [OF deep_VSwitchSelectorTerm cell.sel(8)] deep_pair [OF deep_structs [OF
      deep_SecurityGroupSelectorTerm cell.sel(10)] deep_pair [OF deep_structs [OF deep_ImageSelectorTerm
      cell.sel(12)] deep_pair [OF deep_leaf deep_pair [OF deep_ptr [OF deep_SystemDiskSpec cell.sel(15)]
      deep_pair [OF deep_structs [OF deep_DataDiskSpec cell.sel(17)] deep_pair [OF deep_leaf deep_pair [OF
      deep_leaf deep_pair [OF deep_leaf deep_pair [OF deep_leaf deep_pair [OF deep_gomap deep_pair [OF deep_ptr
      [OF deep_KubeletConfiguration cell.sel(18)] deep_pair [OF deep_structs [OF
      deep_CapacityReservationSelectorTerm cell.sel(14)] deep_pair [OF deep_leaf deep_pair [OF deep_ptr [OF
      deep_MetadataOptions cell.sel(19)] deep_pair [OF deep_leaf deep_leaf]]]]]]]]]]]]]]]],
      where view = "\<lambda>x. (hnc_VSwitchSelectorTerms x, hnc_SecurityGroupSelectorTerms x, hnc_ImageSelectorTerms x,
      hnc_Role x, hnc_SystemDisk x, hnc_DataDisks x, hnc_InstanceStorePolicy x, hnc_SpotStrategy x,
      hnc_SpotPriceLimit x, hnc_UserData x, hnc_Tags x, hnc_Kubelet x, hnc_CapacityReservationSelectorTerms x,
      hnc_CapacityReservationPreference x, hnc_MetadataOptions x, hnc_LaunchTemplateID x,
      hnc_LaunchTemplateVersion x)"
      and put = "\<lambda>(v1, v2, v3, v4, v5, v6, v7, v8, v9, v10, v11, v12, v13, v14, v15, v16, v17) x.
      x\<lparr>hnc_VSwitchSelectorTerms := v1, hnc_SecurityGroupSelectorTerms := v2, hnc_ImageSelectorTerms :=
      v3, hnc_Role := v4, hnc_SystemDisk := v5, hnc_DataDisks := v6, hnc_InstanceStorePolicy := v7,
      hnc_SpotStrategy := v8, hnc_SpotPriceLimit := v9, hnc_UserData := v10, hnc_Tags := v11, hnc_Kubelet :=
      v12, hnc_CapacityReservationSelectorTerms := v13, hnc_CapacityReservationPreference := v14,
      hnc_MetadataOptions := v15, hnc_LaunchTemplateID := v16, hnc_LaunchTemplateVersion := v17\<rparr>"
      and mk = "\<lambda>x (v1, v2, v3, v4, v5, v6, v7, v8, v9, v10, v11, v12, v13, v14, v15, v16, v17).
      \<lparr>nc_ClusterID = hnc_ClusterID x, nc_ClusterName = hnc_ClusterName x, nc_ClusterEndpoint =
      hnc_ClusterEndpoint x, nc_VSwitchSelectorTerms = v1, nc_SecurityGroupSelectorTerms = v2,
      nc_ImageSelectorTerms = v3, nc_Role = v4, nc_SystemDisk = v5, nc_DataDisks = v6, nc_InstanceStorePolicy =
      v7, nc_SpotStrategy = v8, nc_SpotPriceLimit = v9, nc_UserData = v10, nc_Tags = v11, nc_Kubelet = v12,
      nc_CapacityReservationSelectorTerms = v13, nc_CapacityReservationPreference = v14, nc_MetadataOptions =
      v15, nc_LaunchTemplateID = v16, nc_LaunchTemplateVersion = v17\<rparr>"])
    (simp_all add: ECSNodeClassSpec_DeepCopyInto_def read_ECSNodeClassSpec_def
      refs_ECSNodeClassSpec_def struct_defs)

lemma deep_conditions: "deep_k8s k \<Longrightarrow> deep (copy_condition k) (\<lambda>h c. c) (\<lambda>h c. {})"
  by (simp add: deep_k8s_def)

definition ECSNodeClassStatus_DeepCopyInto :: "('m, 'l) K8s \<Rightarrow> (ECSNodeClassStatusH, 'm, 'l) dcopier" where
  "ECSNodeClassStatus_DeepCopyInto k x h =
     (let (v1, h1) = copy_leaf (hst_VSwitches x) h;
          (v2, h2) = copy_leaf (hst_SecurityGroups x) h1;
          (v3, h3) = copy_leaf (hst_Images x) h2;
          (v4, h4) = copy_leaf (hst_RAMRole x) h3;
          (v5, h5) = copy_slice un_CConditions CConditions (copy_condition k) (hst_Conditions x) h4
      in (x\<lparr>hst_VSwitches := v1, hst_SecurityGroups := v2, hst_Images := v3, hst_RAMRole := v4,
          hst_Conditions := v5\<rparr>, h5))"

definition read_ECSNodeClassStatus :: 
    "('m, 'l) store \<Rightarrow> ECSNodeClassStatusH \<Rightarrow> ECSNodeClassStatus" where
  "read_ECSNodeClassStatus h x = \<lparr>st_Ready = hst_Ready x, st_VSwitches = read_slice un_CVSwitches h (hst_VSwitches x),
     st_SecurityGroups = read_slice un_CGroups h (hst_SecurityGroups x),
     st_Images = read_slice un_CImages h (hst_Images x), st_RAMRole = read_leaf un_CString h (hst_RAMRole x),
     st_Conditions = read_structs un_CConditions (\<lambda>h c. c) h (hst_Conditions x)\<rparr>"

definition refs_ECSNodeClassStatus :: 
    "('m, 'l) store \<Rightarrow> ECSNodeClassStatusH \<Rightarrow> addr set" where
  "refs_ECSNodeClassStatus h x = refs_leaf h (hst_VSwitches x) \<union> (refs_leaf h (hst_SecurityGroups x) \<union> (
     refs_leaf h (hst_Images x) \<union> (refs_leaf h (hst_RAMRole x) \<union>
     refs_ptr un_CConditions (refs_elems (\<lambda>h c. {})) h (hst_Conditions x))))"

lemma deep_ECSNodeClassStatus:
  assumes "deep_k8s k"
  shows
  "deep (ECSNodeClassStatus_DeepCopyInto k) read_ECSNodeClassStatus refs_ECSNodeClassStatus"
  by (rule deep_struct [OF deep_pair [OF deep_slice deep_pair [OF deep_slice deep_pair [OF deep_slice deep_pair [OF deep_leaf
      deep_structs [OF deep_conditions [OF assms] cell.sel(27)]]]]],
      where view = "\<lambda>x. (hst_VSwitches x, hst_SecurityGroups x, hst_Images x, hst_RAMRole x, hst_Conditions x)"
      and put = "\<lambda>(v1, v2, v3, v4, v5) x. x\<lparr>hst_VSwitches := v1, hst_SecurityGroups := v2, hst_Images :=
      v3, hst_RAMRole := v4, hst_Conditions := v5\<rparr>"
      and mk = "\<lambda>x (v1, v2, v3, v4, v5). \<lparr>st_Ready = hst_Ready x, st_VSwitches = v1, st_SecurityGroups =
      v2, st_Images = v3, st_RAMRole = v4, st_Conditions = v5\<rparr>"])
    (simp_all add: ECSNodeClassStatus_DeepCopyInto_def read_ECSNodeClassStatus_def
      refs_ECSNodeClassStatus_def struct_defs)

definition NormalizedSystemDisk_DeepCopyInto :: "(NormalizedSystemDiskH, 'm, 'l) dcopier" where
  "NormalizedSystemDisk_DeepCopyInto x h =
     (let (v1, h1) = copy_leaf (hnsd_Encrypted x) h
      in (x\<lparr>hnsd_Encrypted := v1\<rparr>, h1))"

definition read_NormalizedSystemDisk :: 
    "('m, 'l) store \<Rightarrow> NormalizedSystemDiskH \<Rightarrow> NormalizedSystemDisk" where
  "read_NormalizedSystemDisk h x = \<lparr>nsd_Category = hnsd_Category x, nsd_Size = hnsd_Size x, nsd_PerformanceLevel = hnsd_PerformanceLevel x,
     nsd_Encrypted = read_leaf un_CBool h (hnsd_Encrypted x), nsd_KMSKeyID = hnsd_KMSKeyID x\<rparr>"

definition refs_NormalizedSystemDisk :: 
    "('m, 'l) store \<Rightarrow> NormalizedSystemDiskH \<Rightarrow> addr set" where
  "refs_NormalizedSystemDisk h x = refs_leaf h (hnsd_Encrypted x)"

lemma deep_NormalizedSystemDisk:
  "deep (NormalizedSystemDisk_DeepCopyInto) read_NormalizedSystemDisk refs_NormalizedSystemDisk"
  by (rule deep_struct [OF deep_leaf,
      where view = "\<lambda>x. hnsd_Encrypted x"
      and put = "\<lambda>v1 x. x\<lparr>hnsd_Encrypted := v1\<rparr>"
      and mk = "\<lambda>x v1. \<lparr>nsd_Category = hnsd_Category x, nsd_Size = hnsd_Size x, nsd_PerformanceLevel =
      hnsd_PerformanceLevel x, nsd_Encrypted = v1, nsd_KMSKeyID = hnsd_KMSKeyID x\<rparr>"])
    (simp_all add: NormalizedSystemDisk_DeepCopyInto_def read_NormalizedSystemDisk_def
      refs_NormalizedSystemDisk_def struct_defs)

definition NormalizedDataDisk_DeepCopyInto :: "(NormalizedDataDiskH, 'm, 'l) dcopier" where
  "NormalizedDataDisk_DeepCopyInto x h =
     (let (v1, h1) = copy_leaf (hndd_Encrypted x) h;
          (v2, h2) = copy_leaf (hndd_DeleteWithInstance x) h1
      in (x\<lparr>hndd_Encrypted := v1, hndd_DeleteWithInstance := v2\<rparr>, h2))"

definition read_NormalizedDataDisk :: 
    "('m, 'l) store \<Rightarrow> NormalizedDataDiskH \<Rightarrow> NormalizedDataDisk" where
  "read_NormalizedDataDisk h x = \<lparr>ndd_Category = hndd_Category x, ndd_Size = hndd_Size x, ndd_Device = hndd_Device x,
     ndd_PerformanceLevel = hndd_PerformanceLevel x, ndd_Encrypted = read_leaf un_CBool h (hndd_Encrypted x),
     ndd_KMSKeyID = hndd_KMSKeyID x, ndd_SnapshotID = hndd_SnapshotID x,
     ndd_DeleteWithInstance = read_leaf un_CBool h (hndd_DeleteWithInstance x)\<rparr>"

definition refs_NormalizedDataDisk :: 
    "('m, 'l) store \<Rightarrow> NormalizedDataDiskH \<Rightarrow> addr set" where
  "refs_NormalizedDataDisk h x = refs_leaf h (hndd_Encrypted x) \<union> refs_leaf h (hndd_DeleteWithInstance x)"

lemma deep_NormalizedDataDisk:
  "deep (NormalizedDataDisk_DeepCopyInto) read_NormalizedDataDisk refs_NormalizedDataDisk"
  by (rule deep_struct [OF deep_pair [OF deep_leaf deep_leaf],
      where view = "\<lambda>x. (hndd_Encrypted x, hndd_DeleteWithInstance x)"
      and put = "\<lambda>(v1, v2) x. x\<lparr>hndd_Encrypted := v1, hndd_DeleteWithInstance := v2\<rparr>"
      and mk = "\<lambda>x (v1, v2). \<lparr>ndd_Category = hndd_Category x, ndd_Size = hndd_Size x, ndd_Device =
      hndd_Device x, ndd_PerformanceLevel = hndd_PerformanceLevel x, ndd_Encrypted = v1, ndd_KMSKeyID =
      hndd_KMSKeyID x, ndd_SnapshotID = hndd_SnapshotID x, ndd_DeleteWithInstance = v2\<rparr>"])
    (simp_all add: NormalizedDataDisk_DeepCopyInto_def read_NormalizedDataDisk_def
      refs_NormalizedDataDisk_def struct_defs)

definition NormalizedDisks_DeepCopyInto :: "(NormalizedDisksH, 'm, 'l) dcopier" where
  "NormalizedDisks_DeepCopyInto x h =
     (let (v1, h1) = NormalizedSystemDisk_DeepCopyInto (hnd_SystemDisk x) h;
          (v2, h2) = copy_slice un_CNormDataDisks CNormDataDisks NormalizedDataDisk_DeepCopyInto (hnd_DataDisks x) h1;
          (v3, h3) = copy_leaf (hnd_InstanceStorePolicy x) h2
      in (x\<lparr>hnd_SystemDisk := v1, hnd_DataDisks := v2, hnd_InstanceStorePolicy := v3\<rparr>, h3))"

definition read_NormalizedDisks :: 
    "('m, 'l) store \<Rightarrow> NormalizedDisksH \<Rightarrow> NormalizedDisks" where
  "read_NormalizedDisks h x = \<lparr>nd_SystemDisk = read_NormalizedSystemDisk h (hnd_SystemDisk x),
     nd_DataDisks = read_structs un_CNormDataDisks read_NormalizedDataDisk h (hnd_DataDisks x),
     nd_InstanceStorePolicy = read_leaf un_CString h (hnd_InstanceStorePolicy x)\<rparr>"

definition refs_NormalizedDisks :: 
    "('m, 'l) store \<Rightarrow> NormalizedDisksH \<Rightarrow> addr set" where
  "refs_NormalizedDisks h x = refs_NormalizedSystemDisk h (hnd_SystemDisk x) \<union> (
     refs_ptr un_CNormDataDisks (refs_elems refs_NormalizedDataDisk) h (hnd_DataDisks x) \<union>
     refs_leaf h (hnd_InstanceStorePolicy x))"

lemma deep_NormalizedDisks:
  "deep (NormalizedDisks_DeepCopyInto) read_NormalizedDisks refs_NormalizedDisks"
  by (rule deep_struct [OF deep_pair [OF deep_NormalizedSystemDisk deep_pair [OF deep_structs [OF deep_NormalizedDataDisk
      cell.sel(35)] deep_leaf]],
      where view = "\<lambda>x. (hnd_SystemDisk x, hnd_DataDisks x, hnd_InstanceStorePolicy x)"
      and put = "\<lambda>(v1, v2, v3) x. x\<lparr>hnd_SystemDisk := v1, hnd_DataDisks := v2, hnd_InstanceStorePolicy :=
      v3\<rparr>"
      and mk = "\<lambda>x (v1, v2, v3). \<lparr>nd_SystemDisk = v1, nd_DataDisks = v2, nd_InstanceStorePolicy =
      v3\<rparr>"])
    (simp_all add: NormalizedDisks_DeepCopyInto_def read_NormalizedDisks_def
      refs_NormalizedDisks_def struct_defs)


section \<open>The node class\<close>

definition ECSNodeClass_DeepCopyInto :: "('m, 'l) K8s \<Rightarrow> ('m ECSNodeClassH, 'm, 'l) dcopier" where
  "ECSNodeClass_DeepCopyInto k x h =
     (let (v1, h1) = copy_meta k (hk_ObjectMeta x) h;
          (v2, h2) = ECSNodeClassSpec_DeepCopyInto (hk_Spec x) h1;
          (v3, h3) = ECSNodeClassStatus_DeepCopyInto k (hk_Status x) h2
      in (x\<lparr>hk_TypeMeta := hk_TypeMeta x, hk_ObjectMeta := v1, hk_Spec := v2, hk_Status := v3\<rparr>, h3))"

text \<open>A node class as the other theories have it, and its type.\<close>

definition node_class :: "string \<times> int \<times> gomap \<Rightarrow> ECSNodeClassSpec \<Rightarrow> ECSNodeClassStatus \<Rightarrow> ECSNodeClass" where
  "node_class meta spec status = \<lparr>k_Name = fst meta, k_Generation = fst (snd meta), k_Annotations = snd (snd meta),
     k_Spec = spec, k_Status = status\<rparr>"

definition read_ECSNodeClass :: "('m, 'l) K8s \<Rightarrow> ('m, 'l) store \<Rightarrow> 'm ECSNodeClassH \<Rightarrow> (string \<times> string) \<times> ECSNodeClass" where
  "read_ECSNodeClass k h x = (hk_TypeMeta x,
     node_class (read_meta k h (hk_ObjectMeta x)) (read_ECSNodeClassSpec h (hk_Spec x)) (read_ECSNodeClassStatus h (hk_Status x)))"

definition refs_ECSNodeClass :: "('m, 'l) K8s \<Rightarrow> ('m, 'l) store \<Rightarrow> 'm ECSNodeClassH \<Rightarrow> addr set" where
  "refs_ECSNodeClass k h x = refs_meta k h (hk_ObjectMeta x) \<union> (refs_ECSNodeClassSpec h (hk_Spec x) \<union>
     refs_ECSNodeClassStatus h (hk_Status x))"

lemma deep_ECSNodeClass:
  assumes "deep_k8s k"
  shows "deep (ECSNodeClass_DeepCopyInto k) (read_ECSNodeClass k) (refs_ECSNodeClass k)"
proof -
  have m: "deep (copy_meta k) (read_meta k) (refs_meta k)" using assms by (simp add: deep_k8s_def)
  show ?thesis
    by (rule deep_struct [OF deep_pair [OF m deep_pair [OF deep_ECSNodeClassSpec deep_ECSNodeClassStatus [OF assms]]],
        where view = "\<lambda>x. (hk_ObjectMeta x, hk_Spec x, hk_Status x)"
        and put = "\<lambda>(v1, v2, v3) x. x\<lparr>hk_ObjectMeta := v1, hk_Spec := v2, hk_Status := v3\<rparr>"
        and mk = "\<lambda>x (v1, v2, v3). (hk_TypeMeta x, node_class v1 v2 v3)"])
      (simp_all add: ECSNodeClass_DeepCopyInto_def read_ECSNodeClass_def refs_ECSNodeClass_def struct_defs)
qed

definition ECSNodeClassList_DeepCopyInto :: "('m, 'l) K8s \<Rightarrow> ('l ECSNodeClassListH, 'm, 'l) dcopier" where
  "ECSNodeClassList_DeepCopyInto k x h =
     (let (v1, h1) = copy_list_meta k (hkl_ListMeta x) h;
          (v2, h2) = copy_slice un_CNodeClasses CNodeClasses (ECSNodeClass_DeepCopyInto k) (hkl_Items x) h1
      in (x\<lparr>hkl_TypeMeta := hkl_TypeMeta x, hkl_ListMeta := v1, hkl_Items := v2\<rparr>, h2))"

definition read_ECSNodeClassList :: "('m, 'l) K8s \<Rightarrow> ('m, 'l) store \<Rightarrow> 'l ECSNodeClassListH \<Rightarrow>
    (string \<times> string) \<times> string \<times> ((string \<times> string) \<times> ECSNodeClass) list" where
  "read_ECSNodeClassList k h x = (hkl_TypeMeta x, read_list_meta k h (hkl_ListMeta x),
     read_structs un_CNodeClasses (read_ECSNodeClass k) h (hkl_Items x))"

definition refs_ECSNodeClassList :: "('m, 'l) K8s \<Rightarrow> ('m, 'l) store \<Rightarrow> 'l ECSNodeClassListH \<Rightarrow> addr set" where
  "refs_ECSNodeClassList k h x = refs_list_meta k h (hkl_ListMeta x) \<union>
     refs_ptr un_CNodeClasses (refs_elems (refs_ECSNodeClass k)) h (hkl_Items x)"

lemma deep_ECSNodeClassList:
  assumes "deep_k8s k"
  shows "deep (ECSNodeClassList_DeepCopyInto k) (read_ECSNodeClassList k) (refs_ECSNodeClassList k)"
proof -
  have m: "deep (copy_list_meta k) (read_list_meta k) (refs_list_meta k)" using assms by (simp add: deep_k8s_def)
  show ?thesis
    by (rule deep_struct [OF deep_pair [OF m deep_structs [OF deep_ECSNodeClass [OF assms] cell.sel(31)]],
        where view = "\<lambda>x. (hkl_ListMeta x, hkl_Items x)"
        and put = "\<lambda>(v1, v2) x. x\<lparr>hkl_ListMeta := v1, hkl_Items := v2\<rparr>"
        and mk = "\<lambda>x (v1, v2). (hkl_TypeMeta x, v1, v2)"])
      (simp_all add: ECSNodeClassList_DeepCopyInto_def read_ECSNodeClassList_def refs_ECSNodeClassList_def
        struct_defs)
qed

section \<open>DeepCopy of a pointer\<close>

definition CapacityReservation_DeepCopy :: "(addr option, 'm, 'l) dcopier" where
  "CapacityReservation_DeepCopy = copy_ptr un_CReservation CReservation CapacityReservation_DeepCopyInto"

definition CapacityReservationSelectorTerm_DeepCopy :: "(addr option, 'm, 'l) dcopier" where
  "CapacityReservationSelectorTerm_DeepCopy = copy_ptr un_CReservationTerm CReservationTerm CapacityReservationSelectorTerm_DeepCopyInto"

definition DataDiskSpec_DeepCopy :: "(addr option, 'm, 'l) dcopier" where
  "DataDiskSpec_DeepCopy = copy_ptr un_CDataDisk CDataDisk DataDiskSpec_DeepCopyInto"

definition ECSNodeClass_DeepCopy :: "('m, 'l) K8s \<Rightarrow> (addr option, 'm, 'l) dcopier" where
  "ECSNodeClass_DeepCopy k = copy_ptr un_CNodeClass CNodeClass (ECSNodeClass_DeepCopyInto k)"

definition ECSNodeClassList_DeepCopy :: "('m, 'l) K8s \<Rightarrow> (addr option, 'm, 'l) dcopier" where
  "ECSNodeClassList_DeepCopy k = copy_ptr un_CNodeClassList CNodeClassList (ECSNodeClassList_DeepCopyInto k)"

definition ECSNodeClassSpec_DeepCopy :: "(addr option, 'm, 'l) dcopier" where
  "ECSNodeClassSpec_DeepCopy = copy_ptr un_CSpec CSpec ECSNodeClassSpec_DeepCopyInto"

definition ECSNodeClassStatus_DeepCopy :: "('m, 'l) K8s \<Rightarrow> (addr option, 'm, 'l) dcopier" where
  "ECSNodeClassStatus_DeepCopy k = copy_ptr un_CStatus CStatus (ECSNodeClassStatus_DeepCopyInto k)"

definition Image_DeepCopy :: "(addr option, 'm, 'l) dcopier" where
  "Image_DeepCopy = copy_ptr un_CImage CImage Image_DeepCopyInto"

definition ImageSelectorTerm_DeepCopy :: "(addr option, 'm, 'l) dcopier" where
  "ImageSelectorTerm_DeepCopy = copy_ptr un_CImageTerm CImageTerm ImageSelectorTerm_DeepCopyInto"

definition KubeletConfiguration_DeepCopy :: "(addr option, 'm, 'l) dcopier" where
  "KubeletConfiguration_DeepCopy = copy_ptr un_CKubelet CKubelet KubeletConfiguration_DeepCopyInto"

definition MetadataOptions_DeepCopy :: "(addr option, 'm, 'l) dcopier" where
  "MetadataOptions_DeepCopy = copy_ptr un_CMetadata CMetadata MetadataOptions_DeepCopyInto"

definition NormalizedDataDisk_DeepCopy :: "(addr option, 'm, 'l) dcopier" where
  "NormalizedDataDisk_DeepCopy = copy_ptr un_CNormDataDisk CNormDataDisk NormalizedDataDisk_DeepCopyInto"

definition NormalizedDisks_DeepCopy :: "(addr option, 'm, 'l) dcopier" where
  "NormalizedDisks_DeepCopy = copy_ptr un_CNormDisks CNormDisks NormalizedDisks_DeepCopyInto"

definition NormalizedSystemDisk_DeepCopy :: "(addr option, 'm, 'l) dcopier" where
  "NormalizedSystemDisk_DeepCopy = copy_ptr un_CNormSystemDisk CNormSystemDisk NormalizedSystemDisk_DeepCopyInto"

definition SecurityGroup_DeepCopy :: "(addr option, 'm, 'l) dcopier" where
  "SecurityGroup_DeepCopy = copy_ptr un_CGroup CGroup SecurityGroup_DeepCopyInto"

definition SecurityGroupSelectorTerm_DeepCopy :: "(addr option, 'm, 'l) dcopier" where
  "SecurityGroupSelectorTerm_DeepCopy = copy_ptr un_CGroupTerm CGroupTerm SecurityGroupSelectorTerm_DeepCopyInto"

definition SystemDiskSpec_DeepCopy :: "(addr option, 'm, 'l) dcopier" where
  "SystemDiskSpec_DeepCopy = copy_ptr un_CSystemDisk CSystemDisk SystemDiskSpec_DeepCopyInto"

definition VSwitch_DeepCopy :: "(addr option, 'm, 'l) dcopier" where
  "VSwitch_DeepCopy = copy_ptr un_CVSwitch CVSwitch VSwitch_DeepCopyInto"

definition VSwitchSelectorTerm_DeepCopy :: "(addr option, 'm, 'l) dcopier" where
  "VSwitchSelectorTerm_DeepCopy = copy_ptr un_CVSwitchTerm CVSwitchTerm VSwitchSelectorTerm_DeepCopyInto"

definition ECSNodeClass_DeepCopyObject :: "('m, 'l) K8s \<Rightarrow> (addr option, 'm, 'l) dcopier" where
  "ECSNodeClass_DeepCopyObject k p h = (case ECSNodeClass_DeepCopy k p h of (Some c, h1) \<Rightarrow> (Some c, h1) | (None, h1) \<Rightarrow> (None, h1))"

definition ECSNodeClassList_DeepCopyObject :: "('m, 'l) K8s \<Rightarrow> (addr option, 'm, 'l) dcopier" where
  "ECSNodeClassList_DeepCopyObject k p h = (case ECSNodeClassList_DeepCopy k p h of (Some c, h1) \<Rightarrow> (Some c, h1) | (None, h1) \<Rightarrow> (None, h1))"

end
