(* ===== verification/StatusHeap.thy ===== *)
theory StatusHeap
  imports DeepCopy NodeClassStatus
begin

text \<open>
  The status controller works on the node class it read in place: setCondition of
  pkg/controllers/nodeclass/status/controller.go writes into the elements of the
  conditions, after Reconcile has kept a DeepCopy to compare with.  The other theories
  treat node classes as values; here the in-place code is related to them.
\<close>

section \<open>setCondition in place\<close>

fun find_condition :: "string \<Rightarrow> Condition list \<Rightarrow> nat option" where
  "find_condition typ [] = None"
| "find_condition typ (c # cs) = (if cond_Type c = typ then Some 0 else map_option Suc (find_condition typ cs))"

definition setConditionInPlace :: "time_ns \<Rightarrow> string \<Rightarrow> ConditionStatus \<Rightarrow> string \<Rightarrow> string \<Rightarrow> addr \<Rightarrow>
    ('m, 'l) store \<Rightarrow> ('m, 'l) store" where
  "setConditionInPlace now typ st reason message p h =
     (let x = un_CNodeClass (cells h p);
          slice = hst_Conditions (hk_Status x);
          cs = read_slice un_CConditions h slice in
      case (slice, find_condition typ cs) of
        (Some a, Some i) \<Rightarrow>
          (let c = cs ! i in
           if cond_Status c = st
           then set_cell a (CConditions (cs[i := c\<lparr>cond_Reason := reason, cond_Message := message\<rparr>])) h
           else set_cell a (CConditions (cs[i := c\<lparr>cond_Status := st, cond_Reason := reason, cond_Message := message,
                  cond_LastTransitionTime := now\<rparr>])) h)
      | _ \<Rightarrow>
          (let (a, h1) = alloc (CConditions (cs @ [\<lparr>cond_Type = typ, cond_Status = st, cond_Reason = reason,
                 cond_Message = message, cond_ObservedGeneration = 0, cond_LastTransitionTime = now\<rparr>])) h
           in set_cell p (CNodeClass (x\<lparr>hk_Status := (hk_Status x)\<lparr>hst_Conditions := Some a\<rparr>\<rparr>)) h1))"

text \<open>The same on the list.\<close>

lemma find_condition_None: "find_condition typ cs = None \<Longrightarrow> set_cond now typ st reason message cs =
    cs @ [\<lparr>cond_Type = typ, cond_Status = st, cond_Reason = reason,
       cond_Message = message, cond_ObservedGeneration = 0, cond_LastTransitionTime = now\<rparr>]"
  by (induction cs) (auto split: if_splits)

lemma find_condition_Some: "find_condition typ cs = Some i \<Longrightarrow> set_cond now typ st reason message cs =
    cs[i := (if cond_Status (cs ! i) = st then (cs ! i)\<lparr>cond_Reason := reason, cond_Message := message\<rparr>
      else (cs ! i)\<lparr>cond_Status := st, cond_Reason := reason, cond_Message := message, cond_LastTransitionTime := now\<rparr>)]"
  by (induction cs arbitrary: i) (auto split: if_splits)

section \<open>Objects of their own\<close>

text \<open>
  A node class as the client decodes it: its cells are its own, and the cell of its conditions is no other
  part of it.
\<close>

definition refs_status_rest :: "('m, 'l) store \<Rightarrow> ECSNodeClassStatusH \<Rightarrow> addr set" where
  "refs_status_rest h s = refs_leaf h (hst_VSwitches s) \<union> refs_leaf h (hst_SecurityGroups s) \<union>
     refs_leaf h (hst_Images s) \<union> refs_leaf h (hst_RAMRole s)"

definition refs_rest :: "('m, 'l) K8s \<Rightarrow> ('m, 'l) store \<Rightarrow> 'm ECSNodeClassH \<Rightarrow> addr set" where
  "refs_rest k h x = refs_meta k h (hk_ObjectMeta x) \<union> refs_ECSNodeClassSpec h (hk_Spec x) \<union> refs_status_rest h (hk_Status x)"

definition well_formed_at :: "('m, 'l) K8s \<Rightarrow> addr \<Rightarrow> 'm ECSNodeClassH \<Rightarrow> ('m, 'l) store \<Rightarrow> bool" where
  "well_formed_at k p x h \<longleftrightarrow> cells h p = CNodeClass x \<and> p < fresh h \<and> p \<notin> refs_rest k h x \<and> refs_in h (refs_rest k h x) \<and>
     (\<forall>a. hst_Conditions (hk_Status x) = Some a \<longrightarrow> a < fresh h \<and> a \<notin> refs_rest k h x \<and> (\<exists>cs. cells h a = CConditions cs))"

definition class_at :: "('m, 'l) K8s \<Rightarrow> ('m, 'l) store \<Rightarrow> addr \<Rightarrow> ECSNodeClass" where
  "class_at k h p = snd (read_ECSNodeClass k h (un_CNodeClass (cells h p)))"

lemma read_conditions: "read_structs un_CConditions (\<lambda>h c. c) h s = read_slice un_CConditions h s"
  by (auto simp: read_structs_def read_ptr_def read_elems_def read_slice_def or_else_def split: option.split)

lemma refs_conditions: "refs_ptr un_CConditions (refs_elems (\<lambda>h c. {})) h s = set_option s"
  by (auto simp: refs_ptr_def refs_elems_def split: option.split)

lemma refs_split:
  "refs_ECSNodeClass k h x = refs_rest k h x \<union> set_option (hst_Conditions (hk_Status x))"
  by (auto simp: refs_ECSNodeClass_def refs_rest_def refs_status_rest_def refs_ECSNodeClassStatus_def refs_conditions)

lemma leaf_same:
  assumes "\<And>a. a \<in> refs_leaf h p \<Longrightarrow> cells h' a = cells h a"
  shows "read_leaf get h' p = read_leaf get h p" "read_slice get' h' p = read_slice get' h p"
  using assms by (auto simp: read_leaf_def read_slice_def refs_leaf_def split: option.split intro: option.map_cong)

text \<open>Only the conditions are read elsewhere than from the rest.\<close>

lemma rest_unchanged:
  assumes "deep_k8s k" "\<And>a. a \<in> refs_rest k h x \<Longrightarrow> cells h' a = cells h a"
    and "hk_ObjectMeta y = hk_ObjectMeta x" "hk_Spec y = hk_Spec x" "hk_TypeMeta y = hk_TypeMeta x"
    and "hk_Status y = (hk_Status x)\<lparr>hst_Conditions := s\<rparr>"
  shows "refs_rest k h' y = refs_rest k h x"
    and "snd (read_ECSNodeClass k h' y) = (snd (read_ECSNodeClass k h x))\<lparr>k_Status :=
      (k_Status (snd (read_ECSNodeClass k h x)))\<lparr>st_Conditions := read_slice un_CConditions h' s\<rparr>\<rparr>"
proof -
  have m: "local_read (read_meta k) (refs_meta k)" using assms(1) deep_local unfolding deep_k8s_def by blast
  have sp: "local_read read_ECSNodeClassSpec refs_ECSNodeClassSpec" by (rule deep_local [OF deep_ECSNodeClassSpec])
  have c: "cells h' a = cells h a" if "a \<in> refs_meta k h (hk_ObjectMeta x) \<or> a \<in> refs_ECSNodeClassSpec h (hk_Spec x) \<or>
      a \<in> refs_status_rest h (hk_Status x)" for a
    using assms(2) that by (auto simp: refs_rest_def)
  note eqs = local_readD [OF m, of h "hk_ObjectMeta x" h'] local_readD [OF sp, of h "hk_Spec x" h']
  show "refs_rest k h' y = refs_rest k h x"
    using eqs c assms(3-6) by (simp add: refs_rest_def refs_status_rest_def refs_leaf_def)
  show "snd (read_ECSNodeClass k h' y) = (snd (read_ECSNodeClass k h x))\<lparr>k_Status :=
      (k_Status (snd (read_ECSNodeClass k h x)))\<lparr>st_Conditions := read_slice un_CConditions h' s\<rparr>\<rparr>"
    using eqs c assms(3-6)
    by (simp add: read_ECSNodeClass_def node_class_def read_ECSNodeClassStatus_def read_conditions refs_status_rest_def)
       (intro conjI leaf_same; simp)
qed

lemma setCondition_in_place:
  assumes "deep_k8s k" "well_formed_at k p x h" and h'_def: "h' = setConditionInPlace now typ st reason message p h"
  shows "\<exists>y. well_formed_at k p y h' \<and> (\<forall>a. a < fresh h \<and> a \<noteq> p \<and> hst_Conditions (hk_Status x) \<noteq> Some a \<longrightarrow> cells h' a = cells h a) \<and>
    fresh h \<le> fresh h' \<and> class_at k h' p = setCondition now typ st reason message (class_at k h p) \<and>
    (\<forall>a. hst_Conditions (hk_Status y) = Some a \<longrightarrow> hst_Conditions (hk_Status x) = Some a \<or> fresh h \<le> a)"
proof -
  let ?s = "hst_Conditions (hk_Status x)"
  let ?cs = "read_slice un_CConditions h ?s"
  have x: "cells h p = CNodeClass x" using assms(2) by (simp add: well_formed_at_def)
  have val: "k_Status (snd (read_ECSNodeClass k h x)) = read_ECSNodeClassStatus h (hk_Status x)"
    "st_Conditions (read_ECSNodeClassStatus h (hk_Status x)) = ?cs"
    by (simp_all add: read_ECSNodeClass_def node_class_def read_ECSNodeClassStatus_def read_conditions)
  let ?new = "set_cond now typ st reason message ?cs"
  have target: "setCondition now typ st reason message (class_at k h p) = (snd (read_ECSNodeClass k h x))\<lparr>k_Status :=
      (k_Status (snd (read_ECSNodeClass k h x)))\<lparr>st_Conditions := ?new\<rparr>\<rparr>"
    by (simp add: setCondition_def class_at_def x val)
  show ?thesis
  proof (cases "\<exists>a i. ?s = Some a \<and> find_condition typ ?cs = Some i")
    case True
    then obtain a i where a: "?s = Some a" "find_condition typ ?cs = Some i" by blast
    have h': "h' = set_cell a (CConditions ?new) h"
      using find_condition_Some [OF a(2), of now st reason message]
      by (simp add: h'_def setConditionInPlace_def x a(1) a(2) [unfolded a(1)] Let_def)
    have ap: "a \<noteq> p" "a \<notin> refs_rest k h x" "a < fresh h" using assms(2) a by (auto simp: well_formed_at_def)
    have same: "cells h' b = cells h b" if "b \<in> refs_rest k h x" for b using that ap by (auto simp: h' set_cell_def)
    note r = rest_unchanged [OF assms(1) same refl refl refl, where s = ?s]
    have "well_formed_at k p x h'"
      using assms(2) r(1) ap by (auto simp: well_formed_at_def h' set_cell_def refs_in_def)
    moreover have "class_at k h' p = setCondition now typ st reason message (class_at k h p)"
      unfolding target using r(2) ap(1) by (simp add: class_at_def h' set_cell_def x read_slice_def a)
    ultimately show ?thesis using ap a(1) by (intro exI [of _ x]) (auto simp: h' set_cell_def)
  next
    case False
    let ?y = "x\<lparr>hk_Status := (hk_Status x)\<lparr>hst_Conditions := Some (fresh h)\<rparr>\<rparr>"
    have "find_condition typ ?cs = None" using False by (cases ?s) (auto simp: read_slice_def)
    note new = find_condition_None [OF this, of now st reason message]
    have h': "h' = set_cell p (CNodeClass ?y) (snd (alloc (CConditions ?new) h))"
      using False by (auto simp: h'_def setConditionInPlace_def x Let_def alloc_def new split: option.split)
    have wf: "p < fresh h" "p \<notin> refs_rest k h x" "refs_in h (refs_rest k h x)" using assms(2) by (auto simp: well_formed_at_def)
    have cells: "cells h' b = (if b = p then CNodeClass ?y else if b = fresh h then CConditions ?new else cells h b)" for b
      by (simp add: h' set_cell_def alloc_def)
    have same: "cells h' b = cells h b" if "b \<in> refs_rest k h x" for b using that wf by (auto simp: cells refs_in_def)
    have r: "refs_rest k h' ?y = refs_rest k h x"
      "snd (read_ECSNodeClass k h' ?y) = (snd (read_ECSNodeClass k h x))\<lparr>k_Status :=
        (k_Status (snd (read_ECSNodeClass k h x)))\<lparr>st_Conditions := read_slice un_CConditions h' (Some (fresh h))\<rparr>\<rparr>"
      by (rule rest_unchanged [OF assms(1) same]; simp)+
    have f: "fresh h' = Suc (fresh h)" by (simp add: h' set_cell_def)
    have "well_formed_at k p ?y h'" using wf r(1) by (auto simp: well_formed_at_def cells f refs_in_def)
    moreover have "class_at k h' p = setCondition now typ st reason message (class_at k h p)"
      unfolding target using r(2) wf(1) by (simp add: class_at_def cells read_slice_def)
    ultimately show ?thesis by (intro exI [of _ ?y]) (auto simp: cells f)
  qed
qed


section \<open>The snapshot of Reconcile\<close>

record cond_call =
  cl_now :: time_ns
  cl_typ :: string
  cl_st :: ConditionStatus
  cl_reason :: string
  cl_message :: string

definition call_in_place :: "addr \<Rightarrow> cond_call \<Rightarrow> ('m, 'l) store \<Rightarrow> ('m, 'l) store" where
  "call_in_place p c = setConditionInPlace (cl_now c) (cl_typ c) (cl_st c) (cl_reason c) (cl_message c) p"

definition call_value :: "cond_call \<Rightarrow> ECSNodeClass \<Rightarrow> ECSNodeClass" where
  "call_value c = setCondition (cl_now c) (cl_typ c) (cl_st c) (cl_reason c) (cl_message c)"

text \<open>The cells that a sequence of calls may write: the node class, its conditions, and new ones.\<close>

lemma calls_in_place:
  assumes "deep_k8s k" "well_formed_at k p x h"
  shows "class_at k (fold (call_in_place p) calls h) p = fold call_value calls (class_at k h p) \<and>
    (\<forall>a. a < fresh h \<and> a \<noteq> p \<and> hst_Conditions (hk_Status x) \<noteq> Some a \<longrightarrow> cells (fold (call_in_place p) calls h) a = cells h a)"
  using assms(2)
proof (induction calls arbitrary: h x)
  case (Cons c calls)
  let ?h = "call_in_place p c h"
  from setCondition_in_place [OF assms(1) Cons.prems refl, of "cl_now c" "cl_typ c" "cl_st c" "cl_reason c" "cl_message c",
      folded call_in_place_def call_value_def]
  obtain y where y: "well_formed_at k p y ?h" "fresh h \<le> fresh ?h" "class_at k ?h p = call_value c (class_at k h p)"
    "\<forall>a. a < fresh h \<and> a \<noteq> p \<and> hst_Conditions (hk_Status x) \<noteq> Some a \<longrightarrow> cells ?h a = cells h a"
    "\<forall>a. hst_Conditions (hk_Status y) = Some a \<longrightarrow> hst_Conditions (hk_Status x) = Some a \<or> fresh h \<le> a"
    by blast
  note rest = Cons.IH [OF y(1)]
  have "cells (fold (call_in_place p) calls ?h) a = cells h a"
    if "a < fresh h" "a \<noteq> p" "hst_Conditions (hk_Status x) \<noteq> Some a" for a
  proof -
    have "hst_Conditions (hk_Status y) \<noteq> Some a" using y(5) that by auto
    with rest y(2) that have "cells (fold (call_in_place p) calls ?h) a = cells ?h a" by simp
    with y(4) that show ?thesis by simp
  qed
  with rest y(3) show ?case by simp
qed simp

lemma well_formed_refs:
  assumes "well_formed_at k p x h"
  shows "refs_in h (refs_ptr un_CNodeClass (refs_ECSNodeClass k) h (Some p))"
  using assms by (auto simp: well_formed_at_def refs_in_def refs_ptr_def refs_split)

text \<open>What is true of the node class stays true in a larger heap.\<close>

lemma well_formed_extends:
  assumes "deep_k8s k" "well_formed_at k p x h" "extends h h'"
  shows "well_formed_at k p x h' \<and> class_at k h' p = class_at k h p"
proof -
  have below: "p < fresh h" "refs_in h (refs_rest k h x)" "cells h p = CNodeClass x"
    "\<And>a. hst_Conditions (hk_Status x) = Some a \<Longrightarrow> a < fresh h"
    using assms(2) by (auto simp: well_formed_at_def)
  have same: "cells h' a = cells h a" if "a < fresh h" for a using assms(3) that by (simp add: extends_def)
  have rest: "cells h' a = cells h a" if "a \<in> refs_rest k h x" for a using same below(2) that by (auto simp: refs_in_def)
  have st: "hk_Status x = (hk_Status x)\<lparr>hst_Conditions := hst_Conditions (hk_Status x)\<rparr>" by simp
  note r = rest_unchanged [OF assms(1) rest refl refl refl st]
  have "read_slice un_CConditions h' (hst_Conditions (hk_Status x)) = read_slice un_CConditions h (hst_Conditions (hk_Status x))"
    using same below(4) by (auto simp: read_slice_def split: option.split)
  then have "(snd (read_ECSNodeClass k h x))\<lparr>k_Status := (k_Status (snd (read_ECSNodeClass k h x)))\<lparr>st_Conditions :=
      read_slice un_CConditions h' (hst_Conditions (hk_Status x))\<rparr>\<rparr> = snd (read_ECSNodeClass k h x)"
    by (simp add: read_ECSNodeClass_def node_class_def read_ECSNodeClassStatus_def read_conditions)
  then have "snd (read_ECSNodeClass k h' x) = snd (read_ECSNodeClass k h x)" by (simp only: r(2))
  moreover have "cells h' p = CNodeClass x" using same below by simp
  moreover have "well_formed_at k p x h'"
    using assms(2) r(1) same extends_next [OF assms(3)] by (force simp: well_formed_at_def refs_in_def)
  ultimately show ?thesis by (simp add: class_at_def below(3))
qed

definition snapshot :: "('m, 'l) K8s \<Rightarrow> addr \<Rightarrow> ('m, 'l) store \<Rightarrow> addr \<times> ('m, 'l) store" where
  "snapshot k p h = apfst the (ECSNodeClass_DeepCopy k (Some p) h)"

lemma snapshot_copied:
  assumes "deep_k8s k" "well_formed_at k p x h" "snapshot k p h = (q, h1)"
  shows "extends h h1" "class_at k h1 q = class_at k h p" "q \<noteq> p"
    and "\<And>h2. (\<And>a. a < fresh h1 \<Longrightarrow> a \<notin> refs_ptr un_CNodeClass (refs_ECSNodeClass k) h1 (Some p) \<Longrightarrow> cells h2 a = cells h1 a) \<Longrightarrow>
      class_at k h2 q = class_at k h p"
proof -
  have copy: "ECSNodeClass_DeepCopy k (Some p) h = (Some q, h1)"
    using assms(3) by (auto simp: snapshot_def ECSNodeClass_DeepCopy_def copy_ptr_def Let_def split: prod.splits)
  have d: "deep (ECSNodeClass_DeepCopy k) (read_ptr un_CNodeClass (read_ECSNodeClass k)) (refs_ptr un_CNodeClass (refs_ECSNodeClass k))"
    unfolding ECSNodeClass_DeepCopy_def by (rule deep_ptr [OF deep_ECSNodeClass [OF assms(1)]]) simp
  note iso = deep_isolates [OF d well_formed_refs [OF assms(2)] copy]
  have "copied (read_ptr un_CNodeClass (read_ECSNodeClass k)) (refs_ptr un_CNodeClass (refs_ECSNodeClass k)) h (Some p) h1 (Some q)"
    by (rule deepD [OF d well_formed_refs [OF assms(2)] copy])
  then show "extends h h1" by (simp add: copied_def)
  show "class_at k h1 q = class_at k h p" using iso(1) by (simp add: read_ptr_def class_at_def)
  show "q \<noteq> p" using iso(3) by (auto simp: refs_ptr_def)
  show "class_at k h2 q = class_at k h p"
    if "\<And>a. a < fresh h1 \<Longrightarrow> a \<notin> refs_ptr un_CNodeClass (refs_ECSNodeClass k) h1 (Some p) \<Longrightarrow> cells h2 a = cells h1 a" for h2
    using iso(4) [of h2] that by (simp add: read_ptr_def class_at_def)
qed

text \<open>
  C24: Reconcile compares with what it read.  The status controller keeps a DeepCopy of the node class and then
  changes the node class in place, writing into the elements of its conditions.  After any
  sequence of such changes the copy still is the node class that was read, the node class is what the
  functional model of setCondition makes of it, and so the comparison that decides whether the status is
  written sees exactly the changes of the model: no write into the conditions reaches the copy.
\<close>
theorem reconcile_compares_with_what_it_read:
  assumes "deep_k8s k" "well_formed_at k p x h" "snapshot k p h = (stored, h1)"
  shows "class_at k (fold (call_in_place p) calls h1) stored = class_at k h p \<and>
    class_at k (fold (call_in_place p) calls h1) p = fold call_value calls (class_at k h p) \<and>
    (class_at k (fold (call_in_place p) calls h1) stored \<noteq> class_at k (fold (call_in_place p) calls h1) p \<longleftrightarrow>
     fold call_value calls (class_at k h p) \<noteq> class_at k h p)"
proof -
  note s = snapshot_copied [OF assms]
  from well_formed_extends [OF assms(1,2) s(1)] have w: "well_formed_at k p x h1" "class_at k h1 p = class_at k h p" by simp_all
  note c = calls_in_place [OF assms(1) w(1), of calls]
  have x: "cells h1 p = CNodeClass x" using w(1) by (simp add: well_formed_at_def)
  have "class_at k (fold (call_in_place p) calls h1) stored = class_at k h p"
    by (rule s(4)) (use c x in \<open>auto simp: refs_ptr_def refs_split\<close>)
  with c w(2) show ?thesis by auto
qed

text \<open>A concrete node class in a heap, with metadata that has no references.\<close>

definition flat_k8s :: "(string, string) K8s" where
  "flat_k8s = \<lparr>copy_meta = copy_value, read_meta = (\<lambda>h m. (m, 1, [])), refs_meta = (\<lambda>h m. {}),
     copy_list_meta = copy_value, read_list_meta = (\<lambda>h m. m), refs_list_meta = (\<lambda>h m. {}), copy_condition = copy_value\<rparr>"

lemma flat_k8s_deep: "deep_k8s flat_k8s"
  by (auto simp: deep_k8s_def flat_k8s_def deep_value intro: deep_view [OF deep_value, of "\<lambda>m. (m, 1, [])"])

definition sample_spec_h :: ECSNodeClassSpecH where
  "sample_spec_h = \<lparr>hnc_ClusterID = ''c-1'', hnc_ClusterName = [], hnc_ClusterEndpoint = [], hnc_VSwitchSelectorTerms = None,
     hnc_SecurityGroupSelectorTerms = None, hnc_ImageSelectorTerms = None, hnc_Role = Some 2, hnc_SystemDisk = None,
     hnc_DataDisks = None, hnc_InstanceStorePolicy = None, hnc_SpotStrategy = None, hnc_SpotPriceLimit = None,
     hnc_UserData = None, hnc_Tags = None, hnc_Kubelet = None, hnc_CapacityReservationSelectorTerms = None,
     hnc_CapacityReservationPreference = None, hnc_MetadataOptions = None, hnc_LaunchTemplateID = None,
     hnc_LaunchTemplateVersion = None\<rparr>"

definition sample_class_h :: "string ECSNodeClassH" where
  "sample_class_h = \<lparr>hk_TypeMeta = ([], []), hk_ObjectMeta = ''default'', hk_Spec = sample_spec_h,
     hk_Status = \<lparr>hst_Ready = False, hst_VSwitches = None, hst_SecurityGroups = None, hst_Images = None, hst_RAMRole = Some 2,
       hst_Conditions = Some 1\<rparr>\<rparr>"

definition sample_condition :: Condition where
  "sample_condition = \<lparr>cond_Type = ''Ready'', cond_Status = ConditionFalse, cond_Reason = [], cond_Message = [],
     cond_ObservedGeneration = 0, cond_LastTransitionTime = 5\<rparr>"

definition sample_store :: "(string, string) store" where
  "sample_store = \<lparr>fresh = 3, cells = (\<lambda>a. if a = 0 then CNodeClass sample_class_h
     else if a = 1 then CConditions [sample_condition] else CString ''role'')\<rparr>"

lemma sample_well_formed: "well_formed_at flat_k8s 0 sample_class_h sample_store"
  by (auto simp: well_formed_at_def sample_store_def sample_class_h_def refs_rest_def flat_k8s_def refs_status_rest_def
      refs_leaf_def refs_ECSNodeClassSpec_def sample_spec_h_def refs_ptr_def refs_in_def)

definition ready_call :: cond_call where
  "ready_call = \<lparr>cl_now = 9, cl_typ = ''Ready'', cl_st = ConditionTrue, cl_reason = ''Ready'', cl_message = []\<rparr>"

lemma ready_call_changes: "call_value ready_call (class_at flat_k8s sample_store 0) \<noteq> class_at flat_k8s sample_store 0"
proof -
  have "st_Conditions (k_Status (class_at flat_k8s sample_store 0)) = [sample_condition]"
    by (simp add: class_at_def sample_store_def sample_class_h_def read_ECSNodeClass_def node_class_def
        read_ECSNodeClassStatus_def read_conditions read_slice_def)
  moreover have "set_cond 9 ''Ready'' ConditionTrue ''Ready'' [] [sample_condition] \<noteq> [sample_condition]"
    by (simp add: sample_condition_def)
  ultimately show ?thesis by (auto simp: call_value_def ready_call_def setCondition_def dest!: arg_cong [of _ _ "\<lambda>c. st_Conditions (k_Status c)"])
qed

theorem reconcile_compares_with_what_it_read_witness:
  "class_at flat_k8s (call_in_place 0 ready_call (snd (snapshot flat_k8s 0 sample_store))) (fst (snapshot flat_k8s 0 sample_store)) \<noteq>
   class_at flat_k8s (call_in_place 0 ready_call (snd (snapshot flat_k8s 0 sample_store))) 0"
  using reconcile_compares_with_what_it_read [OF flat_k8s_deep sample_well_formed prod.collapse [symmetric], of "[ready_call]"]
    ready_call_changes by simp

text \<open>
  A copy of the struct alone shares the conditions: a call that finds its condition changes both, so
  that no change would be seen.
\<close>
lemma shallow_snapshot_sees_no_change:
  assumes "well_formed_at k p x h" "cells h q = cells h p"
    and "find_condition typ (read_slice un_CConditions h (hst_Conditions (hk_Status x))) = Some i"
  shows "class_at k (setConditionInPlace now typ st reason message p h) q =
    class_at k (setConditionInPlace now typ st reason message p h) p"
proof -
  obtain a where a: "hst_Conditions (hk_Status x) = Some a"
    using assms(3) by (cases "hst_Conditions (hk_Status x)") (auto simp: read_slice_def)
  have x: "cells h p = CNodeClass x" "\<exists>cs. cells h a = CConditions cs" using assms(1) a by (auto simp: well_formed_at_def)
  with assms(2) have "p \<noteq> a" "q \<noteq> a" by auto
  then show ?thesis
    using assms(2) by (simp add: class_at_def setConditionInPlace_def x(1) a assms(3) [unfolded a] Let_def set_cell_def)
qed

end
