(* ===== verification/ThinClients.thy ===== *)
theory ThinClients
  imports InstanceProvider InstanceTypes LaunchTemplates ClusterNetwork
begin

text \<open>
  The clients of pkg/clients that hand requests to the SDKs: the ECS client (ecs.go; its selector
  queries are in CloudClients), the container service client (cs.go) and the RAM client (ram.go).  The SDKs are records of
  parameters.  ecs_api, types_api and lt_client are the environments that the provider theories take, as
  these clients give them.
\<close>

record PriceReq =
  pq_RegionId :: string
  pq_ResourceType :: string
  pq_InstanceType :: string

record ('p, 'w) EcsSdk =
  raw_RunInstances :: "RunInstancesReq \<Rightarrow> 'w \<Rightarrow> (string + string option list option) \<times> 'w"
  raw_DescribeInstances :: "DescribeReq \<Rightarrow> 'w \<Rightarrow> (string + DescribeBody option) \<times> 'w"
  raw_DeleteInstances :: "string \<times> string list \<times> bool \<Rightarrow> 'w \<Rightarrow> string option \<times> 'w"
  raw_TagResources :: "TagReq \<Rightarrow> 'w \<Rightarrow> string option \<times> 'w"
  raw_CreateLaunchTemplate :: "CreateLtReq \<Rightarrow> 'w \<Rightarrow> (string + string option \<times> int option) \<times> 'w"
  raw_DescribeLaunchTemplates :: "string list \<Rightarrow> 'w \<Rightarrow> (string + (string option \<times> string option \<times> int option) list) \<times> 'w"
  raw_DescribeLaunchTemplateVersions :: "DescribeVersionsReq \<Rightarrow> 'w \<Rightarrow> (string + LtVersionData option list option) \<times> 'w"
  raw_DeleteLaunchTemplate :: "string \<Rightarrow> 'w \<Rightarrow> string option \<times> 'w"
  raw_DescribeInstanceTypes :: "string list option \<Rightarrow> 'w \<Rightarrow> (string + EcsInstanceType option list) \<times> 'w"
  raw_DescribeZones :: "string \<Rightarrow> 'w \<Rightarrow> (string + string option list) \<times> 'w"
  raw_DescribeAvailableResource :: "string \<Rightarrow> 'w \<Rightarrow> (string + stock_response) \<times> 'w"
  raw_DescribePrice :: "PriceReq \<Rightarrow> 'w \<Rightarrow> (string + 'p) \<times> 'w"

record ('p, 'w) DefaultECSClient =
  ecs_client :: "('p, 'w) EcsSdk"
  ecs_region :: string

definition NewDefaultECSClient :: "('p, 'w) EcsSdk \<Rightarrow> string \<Rightarrow> ('p, 'w) DefaultECSClient" where
  "NewDefaultECSClient client region = \<lparr>ecs_client = client, ecs_region = region\<rparr>"

section \<open>Requests handed on\<close>

definition ecs_RunInstances :: "('p, 'w) DefaultECSClient \<Rightarrow> RunInstancesReq \<Rightarrow> 'w \<Rightarrow> (string + string option list option) \<times> 'w" where
  "ecs_RunInstances c request = raw_RunInstances (ecs_client c) request"

definition ecs_DescribeInstances :: "('p, 'w) DefaultECSClient \<Rightarrow> DescribeReq \<Rightarrow> 'w \<Rightarrow> (string + DescribeBody option) \<times> 'w" where
  "ecs_DescribeInstances c request = raw_DescribeInstances (ecs_client c) request"

definition ecs_DeleteInstances :: "('p, 'w) DefaultECSClient \<Rightarrow> string \<times> string list \<times> bool \<Rightarrow> 'w \<Rightarrow> string option \<times> 'w" where
  "ecs_DeleteInstances c request = raw_DeleteInstances (ecs_client c) request"

definition ecs_TagResources :: "('p, 'w) DefaultECSClient \<Rightarrow> TagReq \<Rightarrow> 'w \<Rightarrow> string option \<times> 'w" where
  "ecs_TagResources c request = raw_TagResources (ecs_client c) request"

definition ecs_CreateLaunchTemplate :: "('p, 'w) DefaultECSClient \<Rightarrow> CreateLtReq \<Rightarrow> 'w \<Rightarrow>
    (string + string option \<times> int option) \<times> 'w" where
  "ecs_CreateLaunchTemplate c request = raw_CreateLaunchTemplate (ecs_client c) request"

definition ecs_DescribeLaunchTemplates :: "('p, 'w) DefaultECSClient \<Rightarrow> string list \<Rightarrow> 'w \<Rightarrow>
    (string + (string option \<times> string option \<times> int option) list) \<times> 'w" where
  "ecs_DescribeLaunchTemplates c request = raw_DescribeLaunchTemplates (ecs_client c) request"

definition ecs_DescribeLaunchTemplateVersions :: "('p, 'w) DefaultECSClient \<Rightarrow> DescribeVersionsReq \<Rightarrow> 'w \<Rightarrow>
    (string + LtVersionData option list option) \<times> 'w" where
  "ecs_DescribeLaunchTemplateVersions c request = raw_DescribeLaunchTemplateVersions (ecs_client c) request"

definition ecs_DeleteLaunchTemplate :: "('p, 'w) DefaultECSClient \<Rightarrow> string \<Rightarrow> 'w \<Rightarrow> string option \<times> 'w" where
  "ecs_DeleteLaunchTemplate c request = raw_DeleteLaunchTemplate (ecs_client c) request"

definition ecs_DescribeAvailableResource :: "('p, 'w) DefaultECSClient \<Rightarrow> string \<Rightarrow> 'w \<Rightarrow> (string + stock_response) \<times> 'w" where
  "ecs_DescribeAvailableResource c request = raw_DescribeAvailableResource (ecs_client c) request"

section \<open>Requests built here\<close>

definition ecs_DescribeInstanceTypes :: "('p, 'w) DefaultECSClient \<Rightarrow> string list \<Rightarrow> 'w \<Rightarrow>
    (string + EcsInstanceType option list) \<times> 'w" where
  "ecs_DescribeInstanceTypes c instanceTypes w =
     (let request = (if length instanceTypes > 0 then Some instanceTypes else None) in
      case raw_DescribeInstanceTypes (ecs_client c) request w of
        (Inl err, w1) \<Rightarrow> (Inl err, w1)
      | (Inr response, w1) \<Rightarrow> (Inr response, w1))"

definition ecs_DescribeZones :: "('p, 'w) DefaultECSClient \<Rightarrow> 'w \<Rightarrow> (string + string option list) \<times> 'w" where
  "ecs_DescribeZones c w = (case raw_DescribeZones (ecs_client c) (ecs_region c) w of
     (Inl err, w1) \<Rightarrow> (Inl err, w1)
   | (Inr response, w1) \<Rightarrow> (Inr response, w1))"

definition ecs_DescribePrice :: "('p, 'w) DefaultECSClient \<Rightarrow> string \<Rightarrow> 'w \<Rightarrow> (string + 'p) \<times> 'w" where
  "ecs_DescribePrice c instanceType w =
     (let request = \<lparr>pq_RegionId = ecs_region c, pq_ResourceType = ''instance'', pq_InstanceType = instanceType\<rparr> in
      case raw_DescribePrice (ecs_client c) request w of
        (Inl err, w1) \<Rightarrow> (Inl err, w1)
      | (Inr response, w1) \<Rightarrow> (Inr response, w1))"

section \<open>Container service and RAM\<close>

record 'w CsSdk =
  raw_AttachScripts :: "string \<Rightarrow> 'w \<Rightarrow> string + string option"
  raw_AddonInstance :: "string \<times> string \<Rightarrow> 'w \<Rightarrow> string + AddonBody option"
  raw_ClusterDetail :: "string \<Rightarrow> 'w \<Rightarrow> string + ClusterDetail option"
  raw_VersionMetadata :: "string \<Rightarrow> 'w \<Rightarrow> string + (string option \<times> string option) list list"

record 'w DefaultCSClient =
  cs_client :: "'w CsSdk"

definition NewDefaultCSClient :: "'w CsSdk \<Rightarrow> 'w DefaultCSClient" where
  "NewDefaultCSClient client = \<lparr>cs_client = client\<rparr>"

definition GetClusterAddonInstance :: "'w DefaultCSClient \<Rightarrow> string \<Rightarrow> string \<Rightarrow> 'w \<Rightarrow> string + AddonBody option" where
  "GetClusterAddonInstance c clusterID addonName = raw_AddonInstance (cs_client c) (clusterID, addonName)"

definition DescribeClusterDetail :: "'w DefaultCSClient \<Rightarrow> string \<Rightarrow> 'w \<Rightarrow> string + ClusterDetail option" where
  "DescribeClusterDetail c clusterID = raw_ClusterDetail (cs_client c) clusterID"

definition DescribeKubernetesVersionMetadata :: "'w DefaultCSClient \<Rightarrow> string \<Rightarrow> 'w \<Rightarrow>
    string + (string option \<times> string option) list list" where
  "DescribeKubernetesVersionMetadata c k8sVersion w = (case raw_VersionMetadata (cs_client c) k8sVersion w of
     Inl err \<Rightarrow> Inl err | Inr body \<Rightarrow> Inr body)"

record ('r, 'w) DefaultRAMClient =
  ram_client :: "string \<Rightarrow> 'w \<Rightarrow> string + 'r"
  ram_region :: string

definition NewDefaultRAMClient :: "(string \<Rightarrow> 'w \<Rightarrow> string + 'r) \<Rightarrow> string \<Rightarrow> ('r, 'w) DefaultRAMClient" where
  "NewDefaultRAMClient client region = \<lparr>ram_client = client, ram_region = region\<rparr>"

definition GetRole :: "('r, 'w) DefaultRAMClient \<Rightarrow> string \<Rightarrow> 'w \<Rightarrow> string + 'r" where
  "GetRole c roleName = ram_client c roleName"

section \<open>The environments of the providers\<close>

definition ecs_api :: "('w \<Rightarrow> time_ns) \<Rightarrow> ('p, 'w) DefaultECSClient \<Rightarrow> 'w EcsApi" where
  "ecs_api clock c = \<lparr>RunInstances = ecs_RunInstances c, DescribeInstances = ecs_DescribeInstances c,
     DeleteInstances = (\<lambda>region ids force. ecs_DeleteInstances c (region, ids, force)),
     TagResources = ecs_TagResources c, clk = clock\<rparr>"

text \<open>The queries about types, as answered in one state of the world.\<close>

definition types_api :: "('p, 'w) DefaultECSClient \<Rightarrow> 'w \<Rightarrow> EcsTypesApi" where
  "types_api c w = \<lparr>DescribeZones = fst (ecs_DescribeZones c w),
     DescribeAvailableResource = (\<lambda>spot. fst (ecs_DescribeAvailableResource c spot w)),
     DescribeInstanceTypes = (\<lambda>types. fst (ecs_DescribeInstanceTypes c types w))\<rparr>"

text \<open>The client has DescribeLaunchTemplateVersions, which the interface does not ask for.\<close>

definition lt_client :: "('p, 'w) DefaultECSClient \<Rightarrow> 'w LtClient" where
  "lt_client c = \<lparr>lc_create = ecs_CreateLaunchTemplate c, lc_describe = (\<lambda>ident. ecs_DescribeLaunchTemplates c [ident]),
     lc_versions = Some (ecs_DescribeLaunchTemplateVersions c), lc_delete = ecs_DeleteLaunchTemplate c\<rparr>"

text \<open>
  With the default client a node class that names a launch template can always be resolved: the client has the
  operation that GetData looks for in it.
\<close>
lemma default_client_reads_launch_templates: "lc_versions (lt_client c) \<noteq> None"
  by (simp add: lt_client_def)

text \<open>The list of types is asked for without a filter, in the region of the client.\<close>

lemma types_queries:
  "DescribeInstanceTypes (types_api (NewDefaultECSClient s r) w) [] = fst (raw_DescribeInstanceTypes s None w)"
  "DescribeZones (types_api (NewDefaultECSClient s r) w) = fst (raw_DescribeZones s r w)"
  by (auto simp: types_api_def ecs_DescribeInstanceTypes_def ecs_DescribeZones_def NewDefaultECSClient_def
      split: prod.split sum.split)

text \<open>A tagging request goes to the SDK as it is.\<close>

lemma ecs_api_passes:
  "RunInstances (ecs_api clock (NewDefaultECSClient s r)) = raw_RunInstances s"
  "DescribeInstances (ecs_api clock (NewDefaultECSClient s r)) = raw_DescribeInstances s"
  "TagResources (ecs_api clock (NewDefaultECSClient s r)) = raw_TagResources s"
  by (simp_all add: ecs_api_def NewDefaultECSClient_def fun_eq_iff ecs_RunInstances_def ecs_DescribeInstances_def
      ecs_TagResources_def)

end
