(* ===== verification/ProviderCaches.thy ===== *)
theory ProviderCaches
  imports TtlCache
begin

text \<open>
  The provider structs of bootstrap, securitygroup, imagefamily and vswitch (pkg/providers) carry a copy each of
  the same cache: a map, and a time to live that SetCacheTTL changes for later entries only.  Each copy
  is modelled from its own file; the locale caching_provider states what the providers rely on, and
  each copy is an interpretation of it.  getCachedValue has two moments, the one of the read and the one of the eviction.
\<close>

record 'v CachingProvider =
  cp_cache :: "'v cache"
  cp_cacheTTL :: int

datatype 'v cp_call = CpGet string time_ns time_ns | CpSet string 'v time_ns | CpTTL int

locale caching_provider =
  fixes getv :: "string \<Rightarrow> time_ns \<Rightarrow> time_ns \<Rightarrow> 'v CachingProvider \<Rightarrow> 'v option \<times> 'v CachingProvider"
    and setv :: "string \<Rightarrow> 'v \<Rightarrow> time_ns \<Rightarrow> 'v CachingProvider \<Rightarrow> 'v CachingProvider"
    and setttl :: "int \<Rightarrow> 'v CachingProvider \<Rightarrow> 'v CachingProvider"
    and clear :: "'v CachingProvider \<Rightarrow> 'v CachingProvider"
  assumes get_is: "getv key now now2 p = apsnd (\<lambda>c. p\<lparr>cp_cache := c\<rparr>) (getCachedValue key now now2 (cp_cache p))"
    and set_is: "setv key v now p = p\<lparr>cp_cache := setCachedValue key v (cp_cacheTTL p) now (cp_cache p)\<rparr>"
    and ttl_is: "setttl d p = p\<lparr>cp_cacheTTL := d\<rparr>"
    and clear_is: "clear p = p\<lparr>cp_cache := []\<rparr>"
begin

definition step :: "'v cp_call \<Rightarrow> 'v CachingProvider \<Rightarrow> 'v CachingProvider" where
  "step c p = (case c of CpGet k t t2 \<Rightarrow> snd (getv k t t2 p) | CpSet k v t \<Rightarrow> setv k v t p | CpTTL d \<Rightarrow> setttl d p)"

text \<open>A call that neither stores under the key nor reads the clock after the moment until.\<close>

fun harmless :: "string \<Rightarrow> time_ns \<Rightarrow> 'v cp_call \<Rightarrow> bool" where
  "harmless key until (CpGet k t t2) = (t2 \<le> until)"
| "harmless key until (CpSet k v t) = (k \<noteq> key)"
| "harmless key until (CpTTL d) = True"

lemma step_lookup:
  assumes "wf_map (cp_cache p)" "harmless key until c" "until \<le> now"
  shows "wf_map (cp_cache (step c p)) \<and> cache_lookup key now (cp_cache (step c p)) = cache_lookup key now (cp_cache p)"
proof (cases c)
  case (CpGet k t t2)
  have "snd (getCachedValue k t t2 (cp_cache p)) \<in> {cp_cache p, cache_evict k t2 (cp_cache p)}"
    by (simp add: getCachedValue_def split: cached_read.split)
  with assms show ?thesis by (auto simp: CpGet step_def get_is gocache.lookup_evict)
next
  case (CpSet k v t)
  with assms show ?thesis by (simp add: step_def set_is gocache.lookup_insert_other)
next
  case (CpTTL d)
  with assms show ?thesis by (simp add: step_def ttl_is)
qed

lemma steps_lookup:
  assumes "wf_map (cp_cache p)" "\<forall>c \<in> set cs. harmless key now c"
  shows "cache_lookup key now (cp_cache (fold step cs p)) = cache_lookup key now (cp_cache p)"
  using assms
proof (induction cs arbitrary: p)
  case (Cons c cs)
  then show ?case using step_lookup [of p key now c now] by simp
qed simp

text \<open>
  An entry lives as long as the time to live at the moment it was stored, whatever SetCacheTTL does to later ones.
\<close>

lemma stored_value_lives:
  assumes "wf_map (cp_cache p)" "\<forall>c \<in> set cs. harmless key now c"
  shows "fst (getv key now now2 (fold step cs (setv key v t p))) = (if now > t + cp_cacheTTL p then None else Some v)"
  using steps_lookup [of "setv key v t p" cs key now] assms
  by (simp add: get_is set_is getCachedValue_fst gocache.lookup_insert_same)

lemma cleared: "fst (getv key now now2 (clear p)) = None"
  by (simp add: get_is clear_is getCachedValue_fst cache_lookup_iff)

end

section \<open>bootstrap\<close>

definition bootstrap_getCachedValue :: "string \<Rightarrow> time_ns \<Rightarrow> time_ns \<Rightarrow> 'v CachingProvider \<Rightarrow> 'v option \<times> 'v CachingProvider" where
  "bootstrap_getCachedValue key now now2 p = (case map_of (cp_cache p) key of
     None \<Rightarrow> (None, p)
   | Some entry \<Rightarrow>
       if now > ExpiresAt entry
       then (None, case map_of (cp_cache p) key of
               Some entry2 \<Rightarrow> if now2 > ExpiresAt entry2 then p\<lparr>cp_cache := AList.delete key (cp_cache p)\<rparr> else p
             | None \<Rightarrow> p)
       else (Some (Value entry), p))"

definition bootstrap_setCachedValue :: "string \<Rightarrow> 'v \<Rightarrow> time_ns \<Rightarrow> 'v CachingProvider \<Rightarrow> 'v CachingProvider" where
  "bootstrap_setCachedValue key value now p =
     p\<lparr>cp_cache := AList.update key \<lparr>Value = value, ExpiresAt = now + cp_cacheTTL p\<rparr> (cp_cache p)\<rparr>"

definition bootstrap_SetCacheTTL :: "int \<Rightarrow> 'v CachingProvider \<Rightarrow> 'v CachingProvider" where
  "bootstrap_SetCacheTTL ttl p = p\<lparr>cp_cacheTTL := ttl\<rparr>"

definition bootstrap_ClearCache :: "'v CachingProvider \<Rightarrow> 'v CachingProvider" where
  "bootstrap_ClearCache p = p\<lparr>cp_cache := []\<rparr>"

interpretation bootstrap: caching_provider bootstrap_getCachedValue bootstrap_setCachedValue bootstrap_SetCacheTTL bootstrap_ClearCache
  by unfold_locales
    (auto simp: bootstrap_getCachedValue_def bootstrap_setCachedValue_def bootstrap_SetCacheTTL_def bootstrap_ClearCache_def getCachedValue_def
      cache_read_def cache_evict_def setCachedValue_def split: option.split)

section \<open>securitygroup\<close>

definition securitygroup_getCachedValue :: "string \<Rightarrow> time_ns \<Rightarrow> time_ns \<Rightarrow> 'v CachingProvider \<Rightarrow> 'v option \<times> 'v CachingProvider" where
  "securitygroup_getCachedValue key now now2 p = (case map_of (cp_cache p) key of
     None \<Rightarrow> (None, p)
   | Some entry \<Rightarrow>
       if now > ExpiresAt entry
       then (None, case map_of (cp_cache p) key of
               Some entry2 \<Rightarrow> if now2 > ExpiresAt entry2 then p\<lparr>cp_cache := AList.delete key (cp_cache p)\<rparr> else p
             | None \<Rightarrow> p)
       else (Some (Value entry), p))"

definition securitygroup_setCachedValue :: "string \<Rightarrow> 'v \<Rightarrow> time_ns \<Rightarrow> 'v CachingProvider \<Rightarrow> 'v CachingProvider" where
  "securitygroup_setCachedValue key value now p =
     p\<lparr>cp_cache := AList.update key \<lparr>Value = value, ExpiresAt = now + cp_cacheTTL p\<rparr> (cp_cache p)\<rparr>"

definition securitygroup_SetCacheTTL :: "int \<Rightarrow> 'v CachingProvider \<Rightarrow> 'v CachingProvider" where
  "securitygroup_SetCacheTTL ttl p = p\<lparr>cp_cacheTTL := ttl\<rparr>"

definition securitygroup_ClearCache :: "'v CachingProvider \<Rightarrow> 'v CachingProvider" where
  "securitygroup_ClearCache p = p\<lparr>cp_cache := []\<rparr>"

interpretation securitygroup: caching_provider securitygroup_getCachedValue securitygroup_setCachedValue securitygroup_SetCacheTTL securitygroup_ClearCache
  by unfold_locales
    (auto simp: securitygroup_getCachedValue_def securitygroup_setCachedValue_def securitygroup_SetCacheTTL_def securitygroup_ClearCache_def getCachedValue_def
      cache_read_def cache_evict_def setCachedValue_def split: option.split)

section \<open>imagefamily\<close>

definition imagefamily_getCachedValue :: "string \<Rightarrow> time_ns \<Rightarrow> time_ns \<Rightarrow> 'v CachingProvider \<Rightarrow> 'v option \<times> 'v CachingProvider" where
  "imagefamily_getCachedValue key now now2 p = (case map_of (cp_cache p) key of
     None \<Rightarrow> (None, p)
   | Some entry \<Rightarrow>
       if now > ExpiresAt entry
       then (None, case map_of (cp_cache p) key of
               Some entry2 \<Rightarrow> if now2 > ExpiresAt entry2 then p\<lparr>cp_cache := AList.delete key (cp_cache p)\<rparr> else p
             | None \<Rightarrow> p)
       else (Some (Value entry), p))"

definition imagefamily_setCachedValue :: "string \<Rightarrow> 'v \<Rightarrow> time_ns \<Rightarrow> 'v CachingProvider \<Rightarrow> 'v CachingProvider" where
  "imagefamily_setCachedValue key value now p =
     p\<lparr>cp_cache := AList.update key \<lparr>Value = value, ExpiresAt = now + cp_cacheTTL p\<rparr> (cp_cache p)\<rparr>"

definition imagefamily_SetCacheTTL :: "int \<Rightarrow> 'v CachingProvider \<Rightarrow> 'v CachingProvider" where
  "imagefamily_SetCacheTTL ttl p = p\<lparr>cp_cacheTTL := ttl\<rparr>"

definition imagefamily_ClearCache :: "'v CachingProvider \<Rightarrow> 'v CachingProvider" where
  "imagefamily_ClearCache p = p\<lparr>cp_cache := []\<rparr>"

interpretation imagefamily: caching_provider imagefamily_getCachedValue imagefamily_setCachedValue imagefamily_SetCacheTTL imagefamily_ClearCache
  by unfold_locales
    (auto simp: imagefamily_getCachedValue_def imagefamily_setCachedValue_def imagefamily_SetCacheTTL_def imagefamily_ClearCache_def getCachedValue_def
      cache_read_def cache_evict_def setCachedValue_def split: option.split)

section \<open>vswitch\<close>

definition vswitch_getCachedValue :: "string \<Rightarrow> time_ns \<Rightarrow> time_ns \<Rightarrow> 'v CachingProvider \<Rightarrow> 'v option \<times> 'v CachingProvider" where
  "vswitch_getCachedValue key now now2 p = (case map_of (cp_cache p) key of
     None \<Rightarrow> (None, p)
   | Some entry \<Rightarrow>
       if now > ExpiresAt entry
       then (None, case map_of (cp_cache p) key of
               Some entry2 \<Rightarrow> if now2 > ExpiresAt entry2 then p\<lparr>cp_cache := AList.delete key (cp_cache p)\<rparr> else p
             | None \<Rightarrow> p)
       else (Some (Value entry), p))"

definition vswitch_setCachedValue :: "string \<Rightarrow> 'v \<Rightarrow> time_ns \<Rightarrow> 'v CachingProvider \<Rightarrow> 'v CachingProvider" where
  "vswitch_setCachedValue key value now p =
     p\<lparr>cp_cache := AList.update key \<lparr>Value = value, ExpiresAt = now + cp_cacheTTL p\<rparr> (cp_cache p)\<rparr>"

definition vswitch_SetCacheTTL :: "int \<Rightarrow> 'v CachingProvider \<Rightarrow> 'v CachingProvider" where
  "vswitch_SetCacheTTL ttl p = p\<lparr>cp_cacheTTL := ttl\<rparr>"

definition vswitch_ClearCache :: "'v CachingProvider \<Rightarrow> 'v CachingProvider" where
  "vswitch_ClearCache p = p\<lparr>cp_cache := []\<rparr>"

interpretation vswitch: caching_provider vswitch_getCachedValue vswitch_setCachedValue vswitch_SetCacheTTL vswitch_ClearCache
  by unfold_locales
    (auto simp: vswitch_getCachedValue_def vswitch_setCachedValue_def vswitch_SetCacheTTL_def vswitch_ClearCache_def getCachedValue_def
      cache_read_def cache_evict_def setCachedValue_def split: option.split)

section \<open>Construction\<close>

definition bootstrap_NewProvider :: "'v CachingProvider" where
  "bootstrap_NewProvider = \<lparr>cp_cache = [], cp_cacheTTL = 5 * minute_ns\<rparr>"

definition securitygroup_NewProvider :: "'v CachingProvider" where
  "securitygroup_NewProvider = \<lparr>cp_cache = [], cp_cacheTTL = 2 * hour_ns\<rparr>"

definition imagefamily_NewProvider :: "'v CachingProvider" where
  "imagefamily_NewProvider = \<lparr>cp_cache = [], cp_cacheTTL = 2 * hour_ns\<rparr>"

text \<open>
  With the default time to live, a resolved list of security groups is served for two hours after it was stored, whatever
  is looked up or stored under other keys and even if the time to live is changed meanwhile.
\<close>
theorem security_groups_live_two_hours:
  assumes "\<forall>c \<in> set cs. securitygroup.harmless key now c"
  shows "fst (securitygroup_getCachedValue key now now2 (fold securitygroup.step cs
      (securitygroup_setCachedValue key v t securitygroup_NewProvider))) = (if now > t + 2 * hour_ns then None else Some v)"
  using securitygroup.stored_value_lives [of securitygroup_NewProvider cs key now now2 v t] assms
  by (simp add: securitygroup_NewProvider_def)

theorem security_groups_live_two_hours_witness:
  "fst (securitygroup_getCachedValue ''k'' 5 5 (fold securitygroup.step [CpTTL 1, CpGet ''k'' 3 3]
      (securitygroup_setCachedValue ''k'' [''sg-1''] 0 securitygroup_NewProvider))) = Some [''sg-1'']"
  using security_groups_live_two_hours [of "[CpTTL 1, CpGet ''k'' 3 3]" "''k''" 5 5 "[''sg-1'']" 0] by simp

end
