(* ===== verification/InstanceRaces.thy ===== *)
theory InstanceRaces
  imports InstanceProvider
begin

text \<open>
  pkg/providers/instance under concurrent calls.  All controllers share one provider and its cache; Get and
  List hold the lock of the cache only while they touch it, so other calls come between the
  answer of ECS and its storing.  Get is split at this point, and the state races has
  the answers that are on their way as well as the log of the answers and of the entries stored.
\<close>

section \<open>Get in two stages\<close>

datatype get_stage = GetHit Instance | GetAsked "string + DescribeBody option list"

definition get_ask :: "('w, DescribeBody option) flight \<Rightarrow> 'w EcsApi \<Rightarrow> string \<Rightarrow> string \<Rightarrow> bool \<Rightarrow>
    Instance cache \<Rightarrow> 'w \<Rightarrow> get_stage \<times> Instance cache \<times> 'w" where
  "get_ask group_do api region instanceID skipCache c w =
     (case (if skipCache then (None, c) else getCachedInstance instanceID (clk api w) c) of
        (Some i, c1) \<Rightarrow> (GetHit i, c1, w)
      | (None, c1) \<Rightarrow> (case BatchDescribeInstances group_do [instanceID] (describe_fn api region) w of
          (r, w1) \<Rightarrow> (GetAsked r, c1, w1)))"

fun get_finish :: "string \<Rightarrow> get_stage \<Rightarrow> time_ns \<Rightarrow> Instance cache \<Rightarrow> (kerr + Instance) \<times> Instance cache" where
  "get_finish instanceID (GetHit i) now c = (Inr i, c)"
| "get_finish instanceID (GetAsked (Inl err)) now c = (Inl (Wrapped ''fail to describe instances: '' (Msg err)), c)"
| "get_finish instanceID (GetAsked (Inr [])) now c = (Inl (Msg (''invalid batch results for instance '' @ instanceID)), c)"
| "get_finish instanceID (GetAsked (Inr (response # others))) now c = (case get_result instanceID response of
     Inl e \<Rightarrow> (Inl e, if is_nodeclaim_notfound e then deleteCachedInstance instanceID c else c)
   | Inr i \<Rightarrow> (Inr i, setCachedInstance instanceID i now c))"

text \<open>The two stages in a row are Get.\<close>

lemma GetInst_stages:
  "GetInst group_do api region instanceID skipCache c w =
     (case get_ask group_do api region instanceID skipCache c w of
        (st, c1, w1) \<Rightarrow> (case get_finish instanceID st (clk api w1) c1 of (r, c2) \<Rightarrow> (r, c2, w1)))"
  by (auto simp: GetInst_def get_ask_def split: prod.split sum.split option.split list.split)

text \<open>
  C13: Get reports an instance as gone exactly when ECS answers the look-up with an empty list.  A
  cached instance is returned without asking; an error of ECS is passed on as an error of another
  kind, even one that says that the instance does not exist.
\<close>
theorem Get_reports_missing_iff_empty:
  assumes "GetInst (\<lambda>key f. f) api region instanceID skipCache c w = (r, c', w')"
  shows "(\<exists>e. r = Inl e \<and> is_nodeclaim_notfound e) \<longleftrightarrow>
    (skipCache \<or> fst (getCachedInstance instanceID (clk api w) c) = None) \<and>
    (\<exists>body. fst (DescribeInstances api (describe_request region [instanceID]) w) = Inr (Some body) \<and>
       db_Instances body = Some [] \<and> db_TotalCount body \<noteq> None \<and> db_PageNumber body \<noteq> None \<and> db_PageSize body \<noteq> None)"
proof -
  obtain hit c1 where h: "(if skipCache then (None, c) else getCachedInstance instanceID (clk api w) c) = (hit, c1)"
    by (metis surj_pair)
  obtain a v where a: "DescribeInstances api (describe_request region [instanceID]) w = (a, v)" by (metis surj_pair)
  show ?thesis
  proof (cases hit)
    case (Some i)
    with h assms show ?thesis by (auto simp: GetInst_def split: if_splits)
  next
    case None
    with h have asked: "skipCache \<or> fst (getCachedInstance instanceID (clk api w) c) = None" by (auto split: if_splits)
    from None h a assms show ?thesis
      by (cases a) (auto simp: asked GetInst_def BatchDescribeInstances_single describe_fn_def describeInstances_def get_result_def
          split: option.splits list.splits if_splits)
  qed
qed

theorem Get_reports_missing_iff_empty_witness:
  "\<exists>e c w. GetInst (\<lambda>key f. f) (recording (sample_describe [])) ''cn-a'' ''i-1'' True [] [] = (Inl e, c, w) \<and>
     is_nodeclaim_notfound e"
proof -
  let ?api = "recording (sample_describe [])"
  obtain r c w where g: "GetInst (\<lambda>key f. f) ?api ''cn-a'' ''i-1'' True [] [] = (r, c, w)" by (metis surj_pair)
  have "\<exists>body. fst (DescribeInstances ?api (describe_request ''cn-a'' [''i-1'']) []) = Inr (Some body) \<and>
      db_Instances body = Some [] \<and> db_TotalCount body \<noteq> None \<and> db_PageNumber body \<noteq> None \<and> db_PageSize body \<noteq> None"
    by (simp add: recording_def sample_describe_def)
  with Get_reports_missing_iff_empty [OF g] have "\<exists>e. r = Inl e \<and> is_nodeclaim_notfound e" by blast
  with g show ?thesis by blast
qed

section \<open>Interleavings\<close>

text \<open>An answer on its way: of a Get for one instance, or the rest of a page of List.\<close>

datatype inflight = Looking string "string + DescribeBody option list" | Paging "EcsInstance option list"

record races =
  rc_cache :: "Instance cache"
  rc_now :: time_ns
  rc_flying :: "(inflight \<times> time_ns) list"
  rc_answers :: "(inflight \<times> time_ns) list"
  rc_stored :: "(string \<times> Instance \<times> time_ns \<times> time_ns) list"

definition init_races :: "time_ns \<Rightarrow> races" where
  "init_races t = \<lparr>rc_cache = [], rc_now = t, rc_flying = [], rc_answers = [], rc_stored = []\<rparr>"

datatype race_event =
    RcTick nat
  | RcEvict string
  | RcAnswer inflight
  | RcFinish inflight time_ns
  | RcDelete string
  | RcSweep

text \<open>Storing a Get, or the first instance of a page; the log notes the times of the answer and of the storing.\<close>

fun store_answer :: "inflight \<Rightarrow> time_ns \<Rightarrow> races \<Rightarrow> races" where
  "store_answer (Looking k r) t s =
     (case get_finish k (GetAsked r) (rc_now s) (rc_cache s) of (res, c) \<Rightarrow>
        s\<lparr>rc_cache := c, rc_stored := (case res of Inl e \<Rightarrow> rc_stored s | Inr i \<Rightarrow> (k, i, t, rc_now s) # rc_stored s)\<rparr>)"
| "store_answer (Paging []) t s = s"
| "store_answer (Paging (x # rest)) t s =
     (case list_page [x] (rc_now s) [] (rc_cache s) of
        None \<Rightarrow> s
      | Some (found, c) \<Rightarrow> s\<lparr>rc_cache := c, rc_flying := (Paging rest, t) # rc_flying s,
          rc_stored := (case (found, x) of
             (i # others, Some inst) \<Rightarrow> (case ei_InstanceId inst of
                None \<Rightarrow> rc_stored s | Some k \<Rightarrow> (k, i, t, rc_now s) # rc_stored s)
           | _ \<Rightarrow> rc_stored s)\<rparr>)"

fun race_exec :: "race_event \<Rightarrow> races \<Rightarrow> races option" where
  "race_exec (RcTick d) s = Some (s\<lparr>rc_now := rc_now s + int d\<rparr>)"
| "race_exec (RcEvict k) s = Some (s\<lparr>rc_cache := cache_evict k (rc_now s) (rc_cache s)\<rparr>)"
| "race_exec (RcAnswer x) s = Some (s\<lparr>rc_flying := (x, rc_now s) # rc_flying s, rc_answers := (x, rc_now s) # rc_answers s\<rparr>)"
| "race_exec (RcFinish x t) s =
     (if (x, t) \<in> set (rc_flying s)
      then Some (store_answer x t (s\<lparr>rc_flying := remove1 (x, t) (rc_flying s)\<rparr>)) else None)"
| "race_exec (RcDelete k) s = Some (s\<lparr>rc_cache := deleteCachedInstance k (rc_cache s)\<rparr>)"
| "race_exec RcSweep s = Some (s\<lparr>rc_cache := deleteExpired (rc_now s) (rc_cache s)\<rparr>)"

fun race_run :: "race_event list \<Rightarrow> races \<Rightarrow> races option" where
  "race_run [] s = Some s"
| "race_run (e # es) s = (case race_exec e s of None \<Rightarrow> None | Some s' \<Rightarrow> race_run es s')"

inductive race_reach :: "races \<Rightarrow> bool" where
  start: "race_reach (init_races t)"
| move: "race_reach s \<Longrightarrow> race_exec e s = Some s' \<Longrightarrow> race_reach s'"

lemma race_run_reach: "race_reach s \<Longrightarrow> race_run es s = Some s' \<Longrightarrow> race_reach s'"
  by (induction es arbitrary: s) (auto split: option.splits intro: race_reach.move)

text \<open>What an answer says about an instance: the first of a look-up, or one of a page.\<close>

fun reports :: "inflight \<Rightarrow> string \<Rightarrow> Instance \<Rightarrow> bool" where
  "reports (Looking k' r) k i \<longleftrightarrow> k' = k \<and> (\<exists>resp others. r = Inr (resp # others) \<and> get_result k resp = Inr i)"
| "reports (Paging insts) k i \<longleftrightarrow> (\<exists>inst cpu mem. Some inst \<in> set insts \<and> ei_InstanceId inst = Some k \<and>
     ei_Cpu inst = Some cpu \<and> ei_Memory inst = Some mem \<and> i = convert_instance inst cpu mem)"


section \<open>Invariant\<close>

text \<open>The answers on their way were received, a page maybe in part; what was stored had been reported; the cache holds what was stored.\<close>

fun comes_from :: "inflight \<Rightarrow> inflight \<Rightarrow> bool" where
  "comes_from (Looking k r) y \<longleftrightarrow> y = Looking k r"
| "comes_from (Paging xs) y \<longleftrightarrow> (\<exists>ys. y = Paging ys \<and> set xs \<subseteq> set ys)"

definition races_inv :: "races \<Rightarrow> bool" where
  "races_inv s \<longleftrightarrow> wf_map (rc_cache s) \<and>
     (\<forall>(x, t) \<in> set (rc_flying s). t \<le> rc_now s \<and> (\<exists>y. (y, t) \<in> set (rc_answers s) \<and> comes_from x y)) \<and>
     (\<forall>(k, i, t, u) \<in> set (rc_stored s). t \<le> u \<and> u \<le> rc_now s \<and> (\<exists>y. (y, t) \<in> set (rc_answers s) \<and> reports y k i)) \<and>
     (\<forall>k e. map_of (rc_cache s) k = Some e \<longrightarrow> (\<exists>t. (k, Value e, t, ExpiresAt e - cacheTTL) \<in> set (rc_stored s)))"

lemma reports_comes_from: "reports x k i \<Longrightarrow> comes_from x y \<Longrightarrow> reports y k i"
  by (cases x; cases y) auto

lemma races_inv_cache:
  assumes "races_inv s" "wf_map c" "\<And>k e. map_of c k = Some e \<Longrightarrow> map_of (rc_cache s) k = Some e"
  shows "races_inv (s\<lparr>rc_cache := c\<rparr>)"
  using assms by (simp add: races_inv_def)

lemma races_inv_store:
  assumes "races_inv s" "t \<le> rc_now s" "(y, t) \<in> set (rc_answers s)" "reports y k i"
  shows "races_inv (s\<lparr>rc_cache := setCachedInstance k i (rc_now s) (rc_cache s),
    rc_stored := (k, i, t, rc_now s) # rc_stored s\<rparr>)"
  using assms by (fastforce simp: races_inv_def setCachedInstance_def setCachedValue_def map_of_update)

lemma races_inv_delete: "races_inv s \<Longrightarrow> races_inv (s\<lparr>rc_cache := deleteCachedInstance k (rc_cache s)\<rparr>)"
  by (rule races_inv_cache) (auto simp: races_inv_def deleteCachedInstance_def deleteCached_def map_of_delete split: if_splits)

lemma races_inv_flying:
  assumes "races_inv s" "t \<le> rc_now s" "(y, t) \<in> set (rc_answers s)" "comes_from x y"
  shows "races_inv (s\<lparr>rc_flying := (x, t) # rc_flying s\<rparr>)"
  using assms by (auto simp: races_inv_def)

lemma races_inv_store_answer:
  assumes "races_inv s" "t \<le> rc_now s" "(y, t) \<in> set (rc_answers s)" "comes_from x y"
  shows "races_inv (store_answer x t s)"
proof (cases x)
  case (Looking k r)
  show ?thesis
  proof (cases "\<exists>resp others i. r = Inr (resp # others) \<and> get_result k resp = Inr i")
    case True
    then obtain resp others i where r: "r = Inr (resp # others)" "get_result k resp = Inr i" by blast
    then have "reports y k i" using assms(4) Looking by auto
    with races_inv_store [OF assms(1-3)] show ?thesis by (simp add: Looking r)
  next
    case False
    then have "store_answer x t s \<in> {s, s\<lparr>rc_cache := deleteCachedInstance k (rc_cache s)\<rparr>}"
      by (cases r; cases "projr r") (auto simp: Looking split: sum.split)
    with assms(1) races_inv_delete [OF assms(1)] show ?thesis by auto
  qed
next
  case (Paging xs)
  then obtain ys where y: "y = Paging ys" "set xs \<subseteq> set ys" using assms(4) by auto
  show ?thesis
  proof (cases xs)
    case Nil
    with assms(1) show ?thesis by (simp add: Paging)
  next
    case (Cons z rest)
    show ?thesis
    proof (cases z)
      case None
      with assms(1) show ?thesis by (simp add: Paging Cons)
    next
      case (Some inst)
      have fly: "races_inv (s\<lparr>rc_flying := (Paging rest, t) # rc_flying s\<rparr>)" (is "races_inv ?s")
        using races_inv_flying [OF assms(1-3), of "Paging rest"] y Cons by auto
      have "reports y k (convert_instance inst cpu mem)"
        if "ei_InstanceId inst = Some k" "ei_Cpu inst = Some cpu" "ei_Memory inst = Some mem" for k cpu mem
        using that y Cons Some by auto
      with races_inv_store [OF fly, of t y] assms(2,3)
      have st: "races_inv (?s\<lparr>rc_cache := setCachedInstance k i (rc_now s) (rc_cache s),
          rc_stored := (k, i, t, rc_now s) # rc_stored s\<rparr>)"
        if "ei_InstanceId inst = Some k" "ei_Cpu inst = Some cpu" "ei_Memory inst = Some mem" "i = convert_instance inst cpu mem"
        for k cpu mem i using that by simp
      show ?thesis
      proof (cases "ei_Cpu inst = None \<or> ei_Memory inst = None \<or> ei_InstanceId inst = None")
        case True
        with fly show ?thesis by (auto simp: Paging Cons Some Let_def races_inv_def split: option.split)
      next
        case False
        then obtain k cpu mem where f: "ei_InstanceId inst = Some k" "ei_Cpu inst = Some cpu" "ei_Memory inst = Some mem" by auto
        from st [OF f refl] show ?thesis by (simp add: Paging Cons Some Let_def f races_inv_def)
      qed
    qed
  qed
qed

lemma races_inv_step: "races_inv s \<Longrightarrow> race_exec e s = Some s' \<Longrightarrow> races_inv s'"
proof (cases e)
  case (RcFinish x t)
  assume inv: "races_inv s" and ex: "race_exec e s = Some s'"
  let ?s = "s\<lparr>rc_flying := remove1 (x, t) (rc_flying s)\<rparr>"
  have fly: "(x, t) \<in> set (rc_flying s)" and s': "s' = store_answer x t ?s"
    using ex RcFinish by (auto split: if_splits)
  from inv fly obtain y where "t \<le> rc_now s" "(y, t) \<in> set (rc_answers s)" "comes_from x y"
    unfolding races_inv_def by fastforce
  moreover have "races_inv ?s" using inv set_remove1_subset [of "(x, t)" "rc_flying s"] unfolding races_inv_def by auto
  ultimately show ?thesis unfolding s' by (intro races_inv_store_answer) auto
next
  case (RcAnswer x)
  assume inv: "races_inv s" and ex: "race_exec e s = Some s'"
  have "comes_from x x" by (cases x) auto
  with inv ex RcAnswer show ?thesis by (fastforce simp: races_inv_def)
next
  case (RcTick d)
  assume "races_inv s" "race_exec e s = Some s'"
  with RcTick show ?thesis by (fastforce simp: races_inv_def)
next
  case (RcEvict k)
  assume "races_inv s" "race_exec e s = Some s'"
  with RcEvict show ?thesis
    by (auto simp: races_inv_def cache_evict_def map_of_delete split: option.splits if_splits)
next
  case (RcDelete k)
  assume "races_inv s" "race_exec e s = Some s'"
  with RcDelete races_inv_delete show ?thesis by auto
next
  case RcSweep
  assume inv: "races_inv s" and ex: "race_exec e s = Some s'"
  have "wf_map (rc_cache s)" using inv by (simp add: races_inv_def)
  with inv ex RcSweep show ?thesis
    by (auto intro!: races_inv_cache simp: deleteExpired_def map_of_filter_wf split: option.splits if_splits)
qed

lemma races_inv_reach: "race_reach s \<Longrightarrow> races_inv s"
proof (induction rule: race_reach.induct)
  case (start t)
  show ?case by (simp add: races_inv_def init_races_def)
qed (rule races_inv_step)

section \<open>What the cache serves\<close>

text \<open>An answer tells of an ID when storing it puts an entry under the ID.\<close>

fun tells :: "inflight \<Rightarrow> string \<Rightarrow> bool" where
  "tells (Looking k' r) k \<longleftrightarrow> k' = k \<and>
     (case r of Inr (resp # others) \<Rightarrow> \<not> isl (get_result k resp) | _ \<Rightarrow> False)"
| "tells (Paging insts) k \<longleftrightarrow> list_ex (\<lambda>x. case x of None \<Rightarrow> False
     | Some inst \<Rightarrow> ei_InstanceId inst = Some k \<and> ei_Cpu inst \<noteq> None \<and> ei_Memory inst \<noteq> None) insts"

lemma reports_tells: "reports x k i \<Longrightarrow> tells x k"
  by (cases x) (force simp: list_ex_iff)+

definition quiet :: "string \<Rightarrow> races \<Rightarrow> bool" where
  "quiet k s \<longleftrightarrow> (\<forall>(x, t) \<in> set (rc_flying s). \<not> tells x k)"

fun silent :: "string \<Rightarrow> race_event \<Rightarrow> bool" where
  "silent k (RcAnswer x) \<longleftrightarrow> \<not> tells x k"
| "silent k e \<longleftrightarrow> True"

lemma quiet_update [simp]:
  "quiet k (s\<lparr>rc_cache := c\<rparr>) \<longleftrightarrow> quiet k s" "quiet k (s\<lparr>rc_now := n\<rparr>) \<longleftrightarrow> quiet k s"
  by (simp_all add: quiet_def)

lemma getCached_lookup: "fst (getCachedInstance k now c) = cache_lookup k now c"
  by (simp add: getCachedInstance_def getCachedValue_fst)

lemma page_rest: "tells (Paging rest) k \<Longrightarrow> tells (Paging (x # rest)) k"
  by simp

lemma store_answer_quiet:
  assumes "quiet k s" "map_of (rc_cache s) k = None" "\<not> tells x k"
  shows "quiet k (store_answer x t s) \<and> map_of (rc_cache (store_answer x t s)) k = None"
proof (cases x)
  case (Looking k' r)
  with assms show ?thesis
    by (cases r; cases "projr r")
      (auto simp: quiet_def deleteCachedInstance_def deleteCached_def setCachedInstance_def setCachedValue_def map_of_update
        map_of_delete split: sum.split)
next
  case (Paging xs)
  show ?thesis
  proof (cases "xs = [] \<or> hd xs = None")
    case True
    with assms show ?thesis by (cases xs) (auto simp: Paging)
  next
    case False
    then obtain inst rest where xs: "xs = Some inst # rest" by (cases xs) auto
    have "\<not> tells (Paging rest) k" using assms(3) unfolding Paging xs by (meson page_rest)
    moreover have "ei_Cpu inst = None \<or> ei_Memory inst = None \<or> ei_InstanceId inst \<noteq> Some k"
      using assms(3) unfolding Paging xs by auto
    ultimately show ?thesis using assms(1,2)
      by (auto simp: Paging xs quiet_def Let_def setCachedInstance_def setCachedValue_def map_of_update
          split: option.split)
  qed
qed

lemma quiet_step:
  assumes "wf_map (rc_cache s)" "quiet k s" "map_of (rc_cache s) k = None" "silent k e" "race_exec e s = Some s'"
  shows "quiet k s' \<and> map_of (rc_cache s') k = None"
proof (cases e)
  case (RcFinish x t)
  let ?s = "s\<lparr>rc_flying := remove1 (x, t) (rc_flying s)\<rparr>"
  have x: "(x, t) \<in> set (rc_flying s)" "s' = store_answer x t ?s"
    using assms(5) RcFinish by (auto split: if_splits)
  then have "\<not> tells x k" using assms(2) by (auto simp: quiet_def)
  moreover have "quiet k ?s" using assms(2) set_remove1_subset [of "(x, t)" "rc_flying s"] by (auto simp: quiet_def)
  ultimately show ?thesis unfolding x(2) using assms(3) by (intro store_answer_quiet) auto
next
  case (RcAnswer x)
  with assms show ?thesis by (auto simp: quiet_def)
qed (use assms in \<open>auto simp: cache_evict_def deleteCachedInstance_def deleteCached_def map_of_delete
      deleteExpired_def map_of_filter_wf split: option.splits\<close>)

lemma quiet_run:
  assumes "races_inv s" "quiet k s" "map_of (rc_cache s) k = None" "\<forall>e \<in> set es. silent k e" "race_run es s = Some s'"
  shows "map_of (rc_cache s') k = None"
  using assms
proof (induction es arbitrary: s)
  case (Cons e es)
  obtain s1 where s1: "race_exec e s = Some s1" "race_run es s1 = Some s'" using Cons.prems(5) by (auto split: option.splits)
  have "wf_map (rc_cache s)" using Cons.prems(1) by (simp add: races_inv_def)
  with quiet_step [OF this Cons.prems(2,3) _ s1(1)] Cons.prems(4)
    Cons.IH [OF races_inv_step [OF Cons.prems(1) s1(1)] _ _ _ s1(2)] show ?case by auto
qed simp

text \<open>
  C34: What the instance cache serves was reported by ECS, under any interleaving of the look-ups, lists,
  deletions and sweeps of all controllers.  A cached instance was in an answer of ECS for its ID and was stored, after
  that answer, at most thirty seconds before it is served.  Once Delete has dropped an instance and no answer
  about it is on its way, it is not served again until ECS reports it again.
\<close>
theorem cached_instances_were_reported:
  assumes "race_reach s"
  shows "(\<forall>i. fst (getCachedInstance k (rc_now s) (rc_cache s)) = Some i \<longrightarrow>
      (\<exists>y t u. (y, t) \<in> set (rc_answers s) \<and> reports y k i \<and> t \<le> u \<and> u \<le> rc_now s \<and> rc_now s \<le> u + cacheTTL)) \<and>
    (\<forall>es s'. quiet k s \<and> list_all (silent k) es \<and> race_run (RcDelete k # es) s = Some s' \<longrightarrow>
      fst (getCachedInstance k (rc_now s') (rc_cache s')) = None)"
proof (intro conjI allI impI)
  note inv = races_inv_reach [OF assms]
  fix i assume "fst (getCachedInstance k (rc_now s) (rc_cache s)) = Some i"
  then obtain e where e: "map_of (rc_cache s) k = Some e" "rc_now s \<le> ExpiresAt e" "Value e = i"
    by (auto simp: getCached_lookup cache_lookup_iff split: option.splits if_splits)
  with inv obtain t where t: "(k, i, t, ExpiresAt e - cacheTTL) \<in> set (rc_stored s)" unfolding races_inv_def by blast
  from inv have "\<forall>(k, i, t, u) \<in> set (rc_stored s). t \<le> u \<and> u \<le> rc_now s \<and>
      (\<exists>y. (y, t) \<in> set (rc_answers s) \<and> reports y k i)" by (simp add: races_inv_def)
  from bspec [OF this t] obtain y where y: "(y, t) \<in> set (rc_answers s)" "reports y k i" "t \<le> ExpiresAt e - cacheTTL"
    "ExpiresAt e - cacheTTL \<le> rc_now s" by auto
  with e(2) show "\<exists>y t u. (y, t) \<in> set (rc_answers s) \<and> reports y k i \<and> t \<le> u \<and> u \<le> rc_now s \<and>
      rc_now s \<le> u + cacheTTL" by (intro exI [of _ y] exI [of _ t] exI [of _ "ExpiresAt e - cacheTTL"]) simp
next
  fix es s' assume "quiet k s \<and> list_all (silent k) es \<and> race_run (RcDelete k # es) s = Some s'"
  then have q: "quiet k s" "\<forall>e \<in> set es. silent k e"
    "race_run es (s\<lparr>rc_cache := deleteCachedInstance k (rc_cache s)\<rparr>) = Some s'" by (simp_all add: list_all_iff)
  have "map_of (rc_cache s') k = None"
  proof (rule quiet_run [OF races_inv_delete [OF races_inv_reach [OF assms]] _ _ q(2,3)])
    show "quiet k (s\<lparr>rc_cache := deleteCachedInstance k (rc_cache s)\<rparr>)" using q(1) by simp
  qed (simp add: deleteCachedInstance_def deleteCached_def map_of_delete)
  then show "fst (getCachedInstance k (rc_now s') (rc_cache s')) = None"
    by (simp add: getCached_lookup cache_lookup_iff)
qed

definition demo_found :: inflight where
  "demo_found = Looking ''i-1'' (Inr [Some \<lparr>db_Instances = Some [Some sample_instance], db_TotalCount = Some 1,
     db_PageNumber = Some 1, db_PageSize = Some 10\<rparr>])"

definition demo_instance :: Instance where
  "demo_instance = convert_instance sample_instance 2 8192"

lemma demo_result: "get_finish ''i-1'' (GetAsked (Inr [Some \<lparr>db_Instances = Some [Some sample_instance],
     db_TotalCount = Some 1, db_PageNumber = Some 1, db_PageSize = Some 10\<rparr>])) now c =
   (Inr demo_instance, setCachedInstance ''i-1'' demo_instance now c)"
  by (simp add: get_result_def get_fields_present_def demo_instance_def) (simp add: sample_instance_def)

definition demo_stored :: races where
  "demo_stored = \<lparr>rc_cache = setCachedInstance ''i-1'' demo_instance 0 [], rc_now = 20 * second_ns, rc_flying = [],
     rc_answers = [(demo_found, 0)], rc_stored = [(''i-1'', demo_instance, 0, 0)]\<rparr>"

lemma demo_stored_run: "race_run [RcAnswer demo_found, RcFinish demo_found 0, RcTick 20000000000] (init_races 0) = Some demo_stored"
  by (simp add: init_races_def demo_stored_def demo_found_def demo_result del: get_finish.simps)

theorem cached_instances_were_reported_witness:
  "(\<exists>y t u. (y, t) \<in> set (rc_answers demo_stored) \<and> reports y ''i-1'' demo_instance \<and> 20 * second_ns \<le> u + cacheTTL) \<and>
   (\<exists>s'. race_run [RcDelete ''i-1'', RcTick 5] demo_stored = Some s' \<and>
     fst (getCachedInstance ''i-1'' (rc_now s') (rc_cache s')) = None)"
proof -
  have r: "race_reach demo_stored" by (rule race_run_reach [OF race_reach.start demo_stored_run])
  have hit: "fst (getCachedInstance ''i-1'' (rc_now demo_stored) (rc_cache demo_stored)) = Some demo_instance"
    by (simp add: demo_stored_def getCached_lookup cache_lookup_iff setCachedInstance_def setCachedValue_def map_of_update
        cacheTTL_def)
  have now: "rc_now demo_stored = 20 * second_ns" by (simp add: demo_stored_def)
  have "quiet ''i-1'' demo_stored \<and> list_all (silent ''i-1'') [RcTick 5]" by (simp add: quiet_def demo_stored_def)
  moreover obtain s' where "race_run [RcDelete ''i-1'', RcTick 5] demo_stored = Some s'" by simp
  ultimately show ?thesis
    using cached_instances_were_reported [OF r, of "''i-1''"] hit unfolding now by blast
qed

text \<open>
  Delete does not wait for the look-ups on their way: an answer from before the deletion that is stored
  after it is served for another thirty seconds, although Delete may have reported the instance as gone.
\<close>
lemma deleted_instance_can_be_served:
  obtains s where "race_run [RcAnswer demo_found, RcDelete ''i-1'', RcFinish demo_found 0, RcTick 30000000000] (init_races 0) = Some s"
    "fst (getCachedInstance ''i-1'' (rc_now s) (rc_cache s)) = Some demo_instance"
  by (simp add: init_races_def demo_found_def demo_result deleteCachedInstance_def deleteCached_def getCached_lookup
      cache_lookup_iff setCachedInstance_def setCachedValue_def map_of_update cacheTTL_def del: get_finish.simps)

text \<open>A deletion that ECS answers with not found leaves the cached instance in place.\<close>

lemma gone_instance_stays_cached:
  assumes "DeleteInstances api region [k] True w = (Some err, w1)" "delete_not_found err"
  shows "DeleteInst api region k c w = (Some (NodeClaimNotFoundError (Wrapped ''instance delete with err '' (Msg err))), c, w1)"
  using assms by (simp add: DeleteInst_def)

end
