(* ===== verification/Wiring.thy ===== *)
theory Wiring
  imports OperatorStart GarbageCollection
begin

text \<open>
  pkg/controllers/controllers.go: the controllers the operator runs, in the order they are registered, and Close
  of pkg/operator/operator.go.  A controller is shown with the state of the operator it is given; the
  Kubernetes client, the cloud provider and the providers without a state of their own are parameters of the
  controllers' models.
\<close>

datatype 'v ManagedController =
    StatusController "VSwitch ResolverState" "SecurityGroup ResolverState" "Image ResolverState"
  | HashController
  | GarbageCollector GcController
  | TaggingController "'v Batcher"
  | InterruptionController

definition NewControllers :: "('k, 'v) Operator \<Rightarrow> time_ns \<Rightarrow> 'v ManagedController list" where
  "NewControllers op now =
     [StatusController (op_VSwitch op) (op_SecurityGroup op) (op_ImageFamily op), HashController] @
     [GarbageCollector (NewGarbageCollectionController None now), TaggingController (op_Batcher op)]"

text \<open>
  The batcher is None when the instance provider or its batcher is nil.  The flag says whether
  the batcher was closed before: a second Close panics (None).
\<close>

definition CloseOperator :: "bool \<Rightarrow> 'v Batcher option \<Rightarrow> (string option \<times> bool \<times> 'v Batcher option) option" where
  "CloseOperator shut batcher = (case batcher of
     None \<Rightarrow> Some (None, shut, None)
   | Some b \<Rightarrow> (case CloseBatcher shut b of
       None \<Rightarrow> None
     | Some (shut', b') \<Rightarrow> Some (None, shut', Some b')))"

text \<open>The interruption controller is never started.\<close>

lemma interruption_controller_not_started: "InterruptionController \<notin> set (NewControllers op now)"
  by (simp add: NewControllers_def)

text \<open>The garbage collector the operator runs protects young claims for one minute and may run at once.\<close>

lemma started_collector:
  assumes "GarbageCollector c \<in> set (NewControllers op now)"
  shows "gc_creationProtectionDuration c = minute_ns" "now - gc_lastRun c \<ge> minute_ns"
  using assms by (simp_all add: NewControllers_def NewGarbageCollectionController_def or_else_def)

text \<open>The status controller of an operator that starts has caches of well-formed lists.\<close>

lemma started_status_controller:
  fixes op :: "('k, 'v) Operator"
  assumes "NewOperator env ctx = Inr op" "StatusController vs sg im \<in> set (NewControllers op now)"
  shows "resolver_ok vsw_ID vs" "resolver_ok sg_ID sg" "resolver_ok img_ID im"
  using assms NewOperator_InrD [OF assms(1)] by (simp_all add: NewControllers_def resolver_ok_def)

lemma second_close_panics:
  "CloseOperator shut (Some b) = Some (r, shut', b') \<Longrightarrow> r = None \<and> CloseOperator shut' b' = None"
  by (auto simp: CloseOperator_def CloseBatcher_def split: if_splits)

end
