(* ===== verification/Registration.thy ===== *)
theory Registration
  imports Offerings Wiring
begin

text \<open>
  What the program registers with Kubernetes and the Karpenter core before it runs: the labels and
  resources of pkg/apis/v1alpha1/labels.go (init), the types and condition types of register.go, and the
  start-up of cmd/controller/main.go.  The global variables of the core are the record CoreRegistry; the scheme, the
  core operator and the condition sets are parameters.
\<close>

section \<open>Labels and resources\<close>

record CoreRegistry =
  core_WellKnownLabels :: "string set"
  core_NormalizedLabels :: gomap
  core_WellKnownResources :: "string set"

definition labels_init :: "CoreRegistry \<Rightarrow> CoreRegistry" where
  "labels_init r =
     (let r1 = r\<lparr>core_WellKnownLabels := core_WellKnownLabels r \<union> set WellKnownLabels\<rparr>;
          r2 = r1\<lparr>core_NormalizedLabels := AList.update LabelDiskCSITopologyZone LabelTopologyZone (core_NormalizedLabels r1)\<rparr>
      in r2\<lparr>core_WellKnownResources := core_WellKnownResources r2 \<union> {ResourceGPU, ResourceGPUMemory}\<rparr>)"

section \<open>Types and conditions\<close>

definition GroupVersion :: "string \<times> string" where
  "GroupVersion = (''karpenter.alibabacloud.com'', ''v1alpha1'')"

text \<open>The condition types that the Ready condition of the status library depends on.\<close>

definition ECSNodeClassConditions :: "string list" where
  "ECSNodeClassConditions = [ConditionTypeVSwitchResolved, ConditionTypeSecurityGroupResolved,
     ConditionTypeImageResolved, ConditionTypeRAMRoleResolved]"

definition register_init :: "('s \<Rightarrow> string \<times> string \<Rightarrow> 's) \<Rightarrow> ('s \<Rightarrow> string \<times> string \<Rightarrow> string list \<Rightarrow> 's) \<Rightarrow> 's \<Rightarrow> 's" where
  "register_init AddToGroupVersion AddKnownTypes scheme =
     (let scheme1 = AddToGroupVersion scheme GroupVersion
      in AddKnownTypes scheme1 GroupVersion [''ECSNodeClass'', ''ECSNodeClassList''])"

definition addKnownTypes :: "('s \<Rightarrow> string \<times> string \<Rightarrow> 's) \<Rightarrow> ('s \<Rightarrow> string \<times> string \<Rightarrow> string list \<Rightarrow> 's) \<Rightarrow>
    's \<Rightarrow> string option \<times> 's" where
  "addKnownTypes AddToGroupVersion AddKnownTypes scheme =
     (let scheme1 = AddKnownTypes scheme GroupVersion [''ECSNodeClass'', ''ECSNodeClassList'']
      in (None, AddToGroupVersion scheme1 GroupVersion))"

text \<open>The conditions of the library are structs with the same fields; the conversion keeps them.\<close>

definition GetConditions :: "ECSNodeClass \<Rightarrow> Condition list" where
  "GetConditions nodeClass = List.map (\<lambda>c. c) (st_Conditions (k_Status nodeClass))"

definition SetConditions :: "Condition list \<Rightarrow> ECSNodeClass \<Rightarrow> ECSNodeClass" where
  "SetConditions conditions nodeClass =
     nodeClass\<lparr>k_Status := (k_Status nodeClass)\<lparr>st_Conditions := List.map (\<lambda>c. c) conditions\<rparr>\<rparr>"

definition GetSupportedNodeClasses :: "string list" where
  "GetSupportedNodeClasses = [''ECSNodeClass'']"

lemma conditions_roundtrip [simp]:
  "GetConditions (SetConditions cs nodeClass) = cs" "SetConditions (GetConditions nodeClass) nodeClass = nodeClass"
  by (simp_all add: GetConditions_def SetConditions_def)

text \<open>The status library and the status controller ask for the same conditions.\<close>

lemma ready_depends_on_required: "ECSNodeClassConditions = required_conditions"
  by (simp add: ECSNodeClassConditions_def required_conditions_def)

section \<open>Start\<close>

text \<open>
  main: the error of NewOperator ends the process with a message, otherwise the controllers of the core
  are registered first and those of the provider after them.  The core operator that runs them is a parameter.
\<close>

datatype ('c, 'v) Started = CoreController 'c | ProviderController "'v ManagedController"

definition start_controllers :: "(('d, 'v) Started \<Rightarrow> 'w \<Rightarrow> string option \<times> 'w) \<Rightarrow> 'd list \<Rightarrow> ('k, 'v) Operator \<Rightarrow>
    time_ns \<Rightarrow> 'w \<Rightarrow> (string + unit) \<times> 'w" where
  "start_controllers reg coreControllers op now w =
     (case WithControllers reg (List.map CoreController coreControllers) w of
        (Inl err, w1) \<Rightarrow> (Inl err, w1)
      | (Inr _, w1) \<Rightarrow> WithControllers reg (List.map ProviderController (NewControllers op now)) w1)"

definition start_main :: "('c, 'k) StartEnv \<Rightarrow> Options option \<Rightarrow> (('k, 'v) Operator \<Rightarrow> 'w \<Rightarrow> (string + unit) \<times> 'w) \<Rightarrow>
    'w \<Rightarrow> (string + unit) \<times> 'w" where
  "start_main env ctx start w =
     (case NewOperator env ctx of
        Inl err \<Rightarrow> (Inl (''Failed to create Alibaba Cloud operator: '' @ err), w)
      | Inr op \<Rightarrow> start op w)"

text \<open>The controllers of the provider are registered in order after those of the core, if none of them fails.\<close>

lemma WithControllers_append:
  "WithControllers reg (xs @ ys) w = (case WithControllers reg xs w of
     (Inl err, w1) \<Rightarrow> (Inl err, w1) | (Inr _, w1) \<Rightarrow> WithControllers reg ys w1)"
  by (induction xs arbitrary: w) (auto split: prod.split option.split)

lemma start_controllers_order:
  "start_controllers reg cs op now w =
     WithControllers reg (List.map CoreController cs @ List.map ProviderController (NewControllers op now)) w"
  by (simp add: start_controllers_def WithControllers_append)

section \<open>Keys the scheduler knows\<close>

lemma ResolvedLabels_keys: "(k, v) \<in> set (ResolvedLabels (Some it)) \<Longrightarrow> k \<in> set WellKnownLabels"
proof -
  assume "(k, v) \<in> set (ResolvedLabels (Some it))"
  then have "map_of (ResolvedLabels (Some it)) k \<noteq> None" by (metis map_of_eq_None_iff image_eqI fst_conv)
  then have "map_of (resolved_values it) k \<noteq> None" by (auto simp: map_of_ResolvedLabels split: option.splits)
  then have "k \<in> fst ` set (resolved_values it)" by (simp add: map_of_eq_None_iff)
  then show ?thesis by (auto simp: resolved_values_def WellKnownLabels_def)
qed

lemma core_labels_known:
  "{LabelInstanceTypeStable, LabelArchStable, LabelOSStable, LabelTopologyRegion, LabelTopologyZone, CapacityTypeLabelKey}
     \<subseteq> set WellKnownLabels"
proof -
  have "LabelInstanceTypeStable = LabelInstanceType" "LabelArchStable = LabelArchitecture" "LabelOSStable = LabelOS"
    "LabelTopologyRegion = LabelRegion" "LabelTopologyZone = LabelZone" "CapacityTypeLabelKey = LabelCapacityType"
    by (simp_all add: LabelInstanceTypeStable_def LabelArchStable_def LabelOSStable_def LabelTopologyRegion_def
        LabelTopologyZone_def CapacityTypeLabelKey_def label_defs)
  then show ?thesis by (simp add: WellKnownLabels_def)
qed

lemma requirements_known:
  assumes "(k, vs) \<in> set (buildInstanceTypeRequirements it region zones cts)" "zones \<noteq> []" "cts \<noteq> []"
  shows "k \<in> set WellKnownLabels \<and> vs \<noteq> []"
  using assms core_labels_known by (auto simp: buildInstanceTypeRequirements_def dest: ResolvedLabels_keys)

text \<open>
  The scheduler knows every key it is given.  After the labels are registered with the Karpenter
  core, each requirement of each instance type that GetInstanceTypes returns has a well-known key, so that node pools
  may use it without defining it, and a value to satisfy it with; and the zone label of the disk plugin is read as the zone label.
\<close>
theorem scheduler_knows_every_key:
  assumes "GetInstanceTypes env nodePool s = (Inr cits, s')" "cit \<in> set cits" "(k, vs) \<in> set (cit_Requirements cit)"
  shows "k \<in> core_WellKnownLabels (labels_init r) \<and> vs \<noteq> [] \<and>
    map_of (core_NormalizedLabels (labels_init r)) LabelDiskCSITopologyZone = Some LabelTopologyZone"
proof -
  obtain cls its s1 where "env_nodeclass env (np_NodeClassRef nodePool) (sta_world s) = Inr cls" "list_types env s = (Inr its, s1)"
    "cits = List.map_filter (core_type env (availableZones (st_VSwitches (k_Status cls))))
      (filterInstanceTypesByRequirements (env_region env) its (np_Requirements nodePool))"
    by (rule GetInstanceTypes_InrD [OF assms(1)])
  then obtain it zones where c: "core_type env zones it = Some cit"
    using assms(2) by (auto simp: List.map_filter_def)
  then have "offerings_of zones it \<noteq> []" using core_type_Some by blast
  moreover from c have "cit_Requirements cit = buildInstanceTypeRequirements it (o_Region (FromContext (env_options env)))
      (remdups (List.map off_Zone (offerings_of zones it))) (remdups (List.map off_CapacityType (offerings_of zones it)))"
    by (auto simp: core_type_def Let_def split: if_splits sum.splits prod.splits)
  ultimately have "k \<in> set WellKnownLabels \<and> vs \<noteq> []"
    using assms(3) requirements_known [of k vs it] by auto
  then show ?thesis by (simp add: labels_init_def Let_def map_of_update)
qed

theorem scheduler_knows_every_key_witness:
  "\<exists>cit. fst (GetInstanceTypes (sample_env [launched_instance] kubeadm_class)
     \<lparr>np_Name = ''default'', np_NodeClassRef = ''default'', np_Requirements = []\<rparr> sample_state) = Inr [cit] \<and>
     (\<forall>(k, vs) \<in> set (cit_Requirements cit). k \<in> core_WellKnownLabels (labels_init
        \<lparr>core_WellKnownLabels = {}, core_NormalizedLabels = [], core_WellKnownResources = {}\<rparr>))"
proof -
  obtain cit where g: "GetInstanceTypes (sample_env [launched_instance] kubeadm_class)
     \<lparr>np_Name = ''default'', np_NodeClassRef = ''default'', np_Requirements = []\<rparr> sample_state =
       (Inr [cit], sample_state)"
    using sample_GetInstanceTypes [of "[]"]
    by (auto simp: filterInstanceTypesByRequirements_def FilterTypes_def List.map_filter_def)
  with scheduler_knows_every_key [OF g, of cit] show ?thesis by auto
qed

end
