(* ===== verification/StatusRace.thy ===== *)
theory StatusRace
  imports StatusSpec
begin

text \<open>
  The status controller and the object it works on.  updateStatus writes the status that was computed from the spec
  read first over whatever the object has become since; here the object is part of the world, other
  writers may change it during a pass, and a pass without other writers puts the status right.
\<close>

section \<open>A store without other writers\<close>

text \<open>obj is the stored object; an update of the status subresource changes its status only.\<close>

definition keeps_object :: "'w StatusEnv \<Rightarrow> ('w \<Rightarrow> ECSNodeClass) \<Rightarrow> bool" where
  "keeps_object env obj \<longleftrightarrow>
     (\<forall>t w. obj (snd (se_vswitches env t w)) = obj w) \<and> (\<forall>t w. obj (snd (se_groups env t w)) = obj w) \<and>
     (\<forall>t w. obj (snd (se_images env t w)) = obj w) \<and>
     (\<forall>f i v w. se_data env = Some f \<longrightarrow> obj (snd (f i v w)) = obj w) \<and>
     (\<forall>r w. obj (snd (se_role env r w)) = obj w)"

definition quiet_store :: "'w StatusEnv \<Rightarrow> ('w \<Rightarrow> ECSNodeClass) \<Rightarrow> bool" where
  "quiet_store env obj \<longleftrightarrow> keeps_object env obj \<and>
     (\<forall>name w. \<exists>w'. se_get env name w = (Inr (obj w), w') \<and> obj w' = obj w) \<and>
     (\<forall>x w. \<exists>w'. se_update env x w = (None, w') \<and> obj w' = (obj w)\<lparr>k_Status := k_Status x\<rparr>)"

lemma quiet_calls:
  assumes "keeps_object env obj"
  shows "se_vswitches env t w = (a, w1) \<Longrightarrow> obj w1 = obj w" "se_groups env t' w = (b, w1) \<Longrightarrow> obj w1 = obj w"
    "se_images env t'' w = (c, w1) \<Longrightarrow> obj w1 = obj w" "se_role env r w = (d, w1) \<Longrightarrow> obj w1 = obj w"
    "se_data env = Some f \<Longrightarrow> f i v w = (e, w1) \<Longrightarrow> obj w1 = obj w"
  using assms unfolding keeps_object_def by (metis snd_conv)+

lemma quiet_selectors:
  assumes "keeps_object env obj" "resolveSelectorResources env n w = (n', e, w')"
  shows "obj w' = obj w"
proof -
  obtain n1 e1 w1 n2 e2 w2 where s: "vswitches_step env n w = (n1, e1, w1)" "groups_step env n1 e1 w1 = (n2, e2, w2)"
    "images_step env n2 e2 w2 = (n', e, w')"
    using assms(2) unfolding resolveSelectorResources_def by (metis (no_types, lifting) case_prod_conv surj_pair)
  have "obj w1 = obj w" using s(1) quiet_calls(1) [OF assms(1)]
    by (auto simp: vswitches_step_def split: prod.splits sum.splits if_splits)
  moreover have "obj w2 = obj w1" using s(2) quiet_calls(2) [OF assms(1)]
    by (auto simp: groups_step_def split: prod.splits sum.splits if_splits option.splits)
  moreover have "obj w' = obj w2" using s(3) quiet_calls(3) [OF assms(1)]
    by (auto simp: images_step_def split: prod.splits sum.splits if_splits)
  ultimately show ?thesis by simp
qed

lemma quiet_template:
  assumes "keeps_object env obj" "resolveLaunchTemplate env ident n w = (n', e, w')"
  shows "obj w' = obj w"
proof (cases "se_data env")
  case None
  with assms(2) show ?thesis by (simp add: resolveLaunchTemplate_def)
next
  case (Some f)
  obtain r w1 where f: "f ident (nc_LaunchTemplateVersion (k_Spec n)) w = (r, w1)" by (metis surj_pair)
  obtain q w2 where v: "se_vswitches env [lt_vswitch_term (ltd_VSwitchID (projr r))] w1 = (q, w2)" by (metis surj_pair)
  have "w' = w1 \<or> w' = w2"
    using assms(2) Some f v
    by (cases r; cases q) (auto simp: resolveLaunchTemplate_def Let_def split: if_splits)
  with quiet_calls(5) [OF assms(1) Some f] quiet_calls(1) [OF assms(1) v] show ?thesis by auto
qed

lemma quiet_phase:
  assumes "keeps_object env obj" "resolve_phase env n w = (r, w')"
  shows "obj w' = obj w"
proof -
  obtain n1 e1 w1 where f: "(case nc_LaunchTemplateID (k_Spec n) of
      Some ident \<Rightarrow> resolveLaunchTemplate env ident n w | None \<Rightarrow> resolveSelectorResources env n w) = (n1, e1, w1)"
    by (metis surj_pair)
  then have o1: "obj w1 = obj w"
    using quiet_selectors [OF assms(1)] quiet_template [OF assms(1)] by (cases "nc_LaunchTemplateID (k_Spec n)") auto
  obtain q w2 where q: "role_step env n1 e1 w1 = (q, w2)" by (metis surj_pair)
  then have "obj w2 = obj w1"
    using quiet_calls(4) [OF assms(1)] by (auto simp: role_step_def split: option.splits prod.splits if_splits)
  moreover have "w' = w2" using assms(2) q unfolding resolve_phase_def f by (auto split: option.splits)
  ultimately show ?thesis using o1 by simp
qed

text \<open>
  C23: The status catches up.  Whatever the status of a node class is, computed from an older spec or
  written by someone else, one pass of the status controller during which nobody else writes leaves the stored
  object with the status that the plan of its present spec asks for: Ready is true exactly if everything resolved.
  The next pass finds nothing to change.
\<close>
theorem status_catches_up:
  assumes "answering env a" "quiet_store env obj" "distinct (List.map cond_Type (st_Conditions (k_Status (obj w))))"
  shows "\<exists>p e w1. ReconcileStatus env name w = (requeue_after env e w1, w1) \<and>
    status_plan a (k_Spec (obj w)) = (p, e) \<and> realises p (obj w) (obj w1) \<and>
    status_of (st_Conditions (k_Status (obj w1))) ConditionTypeReady =
      Some (if e = None then ConditionTrue else ConditionFalse) \<and>
    obj (snd (ReconcileStatus env name w1)) = obj w1"
proof -
  have keep: "keeps_object env obj" using assms(2) by (simp add: quiet_store_def)
  obtain w0 where g: "se_get env name w = (Inr (obj w), w0)" "obj w0 = obj w"
    using assms(2) unfolding quiet_store_def by blast
  obtain r w2 where ph: "resolve_phase env (obj w) w0 = (r, w2)" by (metis surj_pair)
  from phase_realises [OF assms(1) ph] obtain p e n' where p: "status_plan a (k_Spec (obj w)) = (p, e)"
    "r = Some (n', e)" "realises p (obj w) n'" .
  note ph' = ph [unfolded p(2)]
  have o2: "obj w2 = obj w" using quiet_phase [OF keep ph] g(2) by simp
  obtain w1 where w1: "ReconcileStatus env name w = (requeue_after env e w1, w1)" "obj w1 = n'"
  proof (cases "obj w = n'")
    case True
    then show thesis using that [of w2] g(1) ph' o2 by (simp add: ReconcileStatus_def)
  next
    case False
    obtain w3 where w3: "se_get env (k_Name n') w2 = (Inr (obj w2), w3)" "obj w3 = obj w2"
      using assms(2) unfolding quiet_store_def by blast
    obtain w4 where w4: "se_update env ((obj w2)\<lparr>k_Status := k_Status n'\<rparr>) w3 = (None, w4)"
      "obj w4 = (obj w3)\<lparr>k_Status := k_Status ((obj w2)\<lparr>k_Status := k_Status n'\<rparr>)\<rparr>"
      using assms(2) unfolding quiet_store_def by blast
    have "obj w4 = n'" using w4(2) w3(2) o2 p(3) by (intro ECSNodeClass.equality) (simp_all add: realises_def)
    moreover have "updateStatus env n' w2 = (None, w4)"
      using w3 w4 by (simp add: updateStatus_def update_once_def default_retries_def numeral_eq_Suc)
    ultimately show thesis using that [of w4] g(1) ph' False by (simp add: ReconcileStatus_def)
  qed
  obtain v where v: "se_get env name w1 = (Inr n', v)" using assms(2) w1(2) unfolding quiet_store_def by metis
  obtain v2 where v2: "ReconcileStatus env name w1 = (requeue_after env e v2, v2)" "resolve_phase env n' v = (Some (n', e), v2)"
    using status_settles [OF assms(1) ph' assms(3) v] by blast
  have "obj v = n'" using assms(2) v w1(2) unfolding quiet_store_def by (metis prod.inject)
  then have "obj (snd (ReconcileStatus env name w1)) = obj w1"
    using quiet_phase [OF keep v2(2)] v2(1) w1(2) by simp
  moreover have cs: "cond_seq (pl_sets p) (st_Conditions (k_Status (obj w))) (st_Conditions (k_Status (obj w1)))"
    using p(3) w1(2) by (simp add: realises_def)
  note status_of_touched [OF cs consistent_status_plan [OF p(1)] plan_decides_ready [OF p(1)]]
  ultimately show ?thesis using w1 p by blast
qed

text \<open>The environment of the samples with a store that keeps the spec.\<close>

definition store_env :: "Answers \<Rightarrow> (nat \<times> ECSNodeClass) StatusEnv" where
  "store_env a = (answering_env a)\<lparr>se_update := (\<lambda>x (i, n). (None, (Suc i, n\<lparr>k_Status := k_Status x\<rparr>)))\<rparr>"

lemma store_env_quiet: "quiet_store (store_env a) snd" "answering (store_env a) a"
  by (auto simp: quiet_store_def keeps_object_def store_env_def answering_env_def answering_def split: option.split)

theorem status_catches_up_witness:
  "\<exists>e w1. ReconcileStatus (store_env sample_answers) ''default'' (0, sample_class) = (requeue_after (store_env sample_answers) e w1, w1) \<and>
     status_of (st_Conditions (k_Status (snd w1))) ConditionTypeReady = Some ConditionTrue \<and>
     snd (snd (ReconcileStatus (store_env sample_answers) ''default'' w1)) = snd w1"
proof -
  have "distinct (List.map cond_Type (st_Conditions (k_Status (snd (0 :: nat, sample_class)))))" by (simp add: sample_class_def)
  from status_catches_up [OF store_env_quiet(2,1) this, of sample_answers "''default''"] obtain p e w1 where
    w1: "ReconcileStatus (store_env sample_answers) ''default'' (0, sample_class) = (requeue_after (store_env sample_answers) e w1, w1)"
    "status_plan sample_answers (k_Spec sample_class) = (p, e)"
    "status_of (st_Conditions (k_Status (snd w1))) ConditionTypeReady = Some (if e = None then ConditionTrue else ConditionFalse)"
    "snd (snd (ReconcileStatus (store_env sample_answers) ''default'' w1)) = snd w1" by (metis snd_conv)
  with sample_plan have "e = None" by auto
  with w1 show ?thesis by (intro exI [of _ e] exI [of _ w1]) simp
qed

section \<open>A spec that changes during a pass\<close>

text \<open>Another writer replaces the spec right after the first read.\<close>

definition changed_spec :: ECSNodeClassSpec where
  "changed_spec = emptySpec\<lparr>nc_VSwitchSelectorTerms := [\<lparr>vst_Tags = [], vst_ID = Some ''vsw-9'', vst_ZoneID = None\<rparr>]\<rparr>"

definition race_answers :: Answers where
  "race_answers = sample_answers\<lparr>an_vswitches := (\<lambda>t. if t = [] then Inr sample_vswitches else Inl ''no such vSwitch'')\<rparr>"

definition racing_env :: "(nat \<times> ECSNodeClass) StatusEnv" where
  "racing_env = (store_env race_answers)\<lparr>se_get := (\<lambda>name (i, n).
     (Inr n, (Suc i, if i = 0 then n\<lparr>k_Spec := changed_spec\<rparr> else n)))\<rparr>"

lemma racing_env_keeps: "keeps_object racing_env snd" "answering racing_env race_answers"
  by (auto simp: keeps_object_def racing_env_def store_env_def answering_env_def answering_def split: option.split)

text \<open>The pass ends well, and the object says Ready for a spec whose selectors resolve to nothing.\<close>

lemma ready_for_an_older_spec:
  obtains w where "ReconcileStatus racing_env ''default'' (0, sample_class) = (requeue_after racing_env None w, w)"
    "k_Spec (snd w) = changed_spec" "snd (status_plan race_answers changed_spec) \<noteq> None"
    "status_of (st_Conditions (k_Status (snd w))) ConditionTypeReady = Some ConditionTrue"
proof -
  let ?n = "sample_class\<lparr>k_Spec := changed_spec\<rparr>"
  have g: "se_get racing_env ''default'' (0, sample_class) = (Inr sample_class, (1, ?n))" by (simp add: racing_env_def)
  have "\<exists>p. status_plan race_answers (k_Spec sample_class) = (p, None)"
    by (simp add: status_plan_def resources_plan_def selector_plan_def vswitches_plan_def groups_plan_def images_plan_def
        role_plan_def race_answers_def sample_answers_def sample_class_def emptySpec_def sample_vswitches_def
        validateResolvedSecurityGroupAttachLimit_def defaultSecurityGroupAttachLimit_def)
  then obtain p where p: "status_plan race_answers (k_Spec sample_class) = (p, None)" by blast
  obtain r w2 where ph: "resolve_phase racing_env sample_class (1, ?n) = (r, w2)" by (metis surj_pair)
  from phase_realises [OF racing_env_keeps(2) ph] p obtain n' where n': "r = Some (n', None)" "realises p sample_class n'"
    by (metis prod.inject)
  obtain i where w2: "w2 = (i, ?n)" using quiet_phase [OF racing_env_keeps(1) ph] by (metis prod.collapse snd_conv)
  have "cond_seq (pl_sets p) (st_Conditions (k_Status sample_class)) (st_Conditions (k_Status n'))"
    using n'(2) by (simp add: realises_def)
  from status_of_touched [OF this consistent_status_plan [OF p] plan_decides_ready [OF p]]
  have ready: "status_of (st_Conditions (k_Status n')) ConditionTypeReady = Some ConditionTrue" by simp
  then have "sample_class \<noteq> n'" by (auto simp: sample_class_def status_of_def)
  moreover have "\<exists>j. updateStatus racing_env n' (i, ?n) = (None, (j, ?n\<lparr>k_Status := k_Status n'\<rparr>))"
    by (simp add: updateStatus_def update_once_def default_retries_def numeral_eq_Suc racing_env_def store_env_def)
  ultimately obtain j where "ReconcileStatus racing_env ''default'' (0, sample_class) =
      (requeue_after racing_env None (j, ?n\<lparr>k_Status := k_Status n'\<rparr>), (j, ?n\<lparr>k_Status := k_Status n'\<rparr>))"
    using g ph n'(1) w2 by (auto simp: ReconcileStatus_def)
  moreover have "snd (status_plan race_answers changed_spec) \<noteq> None"
    by (simp add: status_plan_def resources_plan_def selector_plan_def vswitches_plan_def groups_plan_def images_plan_def
        role_plan_def race_answers_def sample_answers_def changed_spec_def emptySpec_def
        validateResolvedSecurityGroupAttachLimit_def defaultSecurityGroupAttachLimit_def)
  moreover have "k_Spec (snd (j, ?n\<lparr>k_Status := k_Status n'\<rparr>)) = changed_spec"
    "k_Status (snd (j, ?n\<lparr>k_Status := k_Status n'\<rparr>)) = k_Status n'" by simp_all
  ultimately show thesis using ready that by metis
qed

end
