(* ===== verification/Scheduling.thy ===== *)
theory Scheduling
  imports Offerings Lifecycle
begin

text \<open>
  From the offerings that GetInstanceTypes publishes to the filters of Create
  (pkg/cloudprovider/cloudprovider.go).  The scheduler picks an available offering that meets
  the requirements of a claim; Create then chooses instance types and vSwitches with code of
  its own.  Here the two are put side by side: what is offered can be chosen.

  The caches of the instance type provider carry an invariant that the choice depends on,
  kept by List and Get.
\<close>

section \<open>What the caches of the instance type provider hold\<close>

definition cache_all :: "('v \<Rightarrow> bool) \<Rightarrow> 'v cache \<Rightarrow> bool" where
  "cache_all P c \<longleftrightarrow> (\<forall>(k, e) \<in> set c. P (Value e))"

definition known_kinds :: "string set" where
  "known_kinds = {CapacityTypeOnDemand, CapacityTypeSpot}"

text \<open>A zone with stock is available, and stock is of one of the two kinds.\<close>

definition zone_sound :: "ZoneInfo \<Rightarrow> bool" where
  "zone_sound zi \<longleftrightarrow> set (zi_CapacityTypes zi) \<subseteq> known_kinds \<and> (zi_CapacityTypes zi \<noteq> [] \<longrightarrow> zi_Available zi)"

definition zones_sound :: "(string \<times> ZoneInfo) list \<Rightarrow> bool" where
  "zones_sound zs \<longleftrightarrow> wf_map zs \<and> list_all (zone_sound \<circ> snd) zs"

definition inventory_sound :: "inventory \<Rightarrow> bool" where
  "inventory_sound stk \<longleftrightarrow> stock_wf stk \<and> (\<forall>i z ct. stock_lookup stk i z ct \<noteq> None \<longrightarrow> ct \<in> known_kinds)"

definition types_sound :: "InstanceType list \<Rightarrow> bool" where
  "types_sound its \<longleftrightarrow> list_all (zones_sound \<circ> it_Zones) its"

fun cached_sound :: "cached \<Rightarrow> bool" where
  "cached_sound (CachedZones zs) = wf_map zs"
| "cached_sound (CachedInventory stk) = inventory_sound stk"
| "cached_sound (CachedTypes its) = types_sound its"
| "cached_sound (CachedType it) = True"

abbreviation types_cache_ok :: "cached cache \<Rightarrow> bool" where
  "types_cache_ok \<equiv> cache_all cached_sound"

lemma cache_all_Nil [simp]: "cache_all P []"
  by (simp add: cache_all_def)

lemma cache_all_set: "cache_all P c \<Longrightarrow> P v \<Longrightarrow> cache_all P (setCachedValue k v ttl now c)"
  using set_alist_update [of k "\<lparr>Value = v, ExpiresAt = now + ttl\<rparr>" c]
  by (auto simp: cache_all_def setCachedValue_def)

lemma cache_all_get:
  assumes "getCachedValue k t1 t2 c = (r, c')" "cache_all P c"
  shows "cache_all P c'" "r = Some v \<Longrightarrow> P v"
  using getCachedValue_sub [OF assms(1)] assms(2) by (auto simp: cache_all_def)

lemma query_sound: "query_stock describe stock_queries [] = Some stk \<Longrightarrow> inventory_sound stk"
  using query_stock_correct [of describe stock_queries stk]
  by (auto simp: inventory_sound_def known_kinds_def queried_def stock_queries_def split: if_splits)

lemma stocked_zone_sound:
  assumes "inventory_sound stk" "map_of stk i = Some zs" "map_of zs z = Some cts"
  shows "zone_sound (stocked_zone cts)"
proof -
  have wf: "wf_map cts" using assms by (auto simp: inventory_sound_def stock_wf_def)
  have "ct \<in> known_kinds" if "map_of cts ct = Some True" for ct
  proof -
    have "stock_lookup stk i z ct \<noteq> None" using assms(2,3) that by (simp add: stock_lookup_def)
    with assms(1) show ?thesis unfolding inventory_sound_def by blast
  qed
  moreover have "zi_CapacityTypes (stocked_zone cts) \<noteq> [] \<longrightarrow> zi_Available (stocked_zone cts)"
    by (simp add: stocked_zone_def Let_def)
  ultimately show ?thesis using stocked_zone_sets(2) [OF wf] by (auto simp: zone_sound_def)
qed

lemma map_filter_kv_values:
  assumes "\<And>k v u. f k v = Some u \<Longrightarrow> P u"
  shows "list_all (P \<circ> snd) (map_filter_kv f m)"
  using assms by (induction m) (auto simp: map_filter_kv_def split: option.splits)

lemma type_zones_sound:
  assumes "wf_map zones" "\<And>s. stk = Some s \<Longrightarrow> inventory_sound s"
  shows "zones_sound (type_zones stk i zones)"
proof -
  have "zone_sound optimistic_zone" by (simp add: optimistic_zone_def zone_sound_def known_kinds_def)
  then have "list_all (zone_sound \<circ> snd) (type_zones stk i zones)"
    unfolding type_zones_def using stocked_zone_sound [OF assms(2)]
    by (intro map_filter_kv_values) (auto split: if_splits option.splits)
  then show ?thesis using assms(1) by (simp add: zones_sound_def type_zones_def wf_map_filter_kv)
qed

lemma list_type_sound:
  assumes "list_type stk zones eo = Some it" "wf_map zones" "\<And>s. stk = Some s \<Longrightarrow> inventory_sound s"
  shows "zones_sound (it_Zones it)"
  using assms(1) type_zones_sound [OF assms(2,3)] convert_fields
  by (fastforce simp: list_type_def Let_def split: option.splits if_splits)

lemma getAvailableZones_sound:
  assumes "getAvailableZones api now c = (r, c')" "types_cache_ok c"
  shows "types_cache_ok c'" "r = Inr zs \<Longrightarrow> wf_map zs"
proof -
  obtain q c1 where g: "getCachedValue ''zones'' now now c = (q, c1)" by (metis surj_pair)
  note got = cache_all_get [OF g assms(2)]
  have z: "zone_map ids [] = Inr zs \<Longrightarrow> wf_map zs" for ids zs using zone_map_correct [of ids "[]"] by auto
  show "types_cache_ok c'" "r = Inr zs \<Longrightarrow> wf_map zs"
    using assms(1) got(1) got(2) [where v = "CachedZones zs"] z
    by (auto simp: getAvailableZones_def g intro!: cache_all_set split: option.splits cached.splits sum.splits)
qed

lemma getInventory_sound:
  assumes "getInventory api now c = (r, c')" "types_cache_ok c"
  shows "types_cache_ok c'" "r = Some stk \<Longrightarrow> inventory_sound stk"
proof -
  obtain q c1 where g: "getCachedValue ''inventory'' now now c = (q, c1)" by (metis surj_pair)
  note got = cache_all_get [OF g assms(2)]
  show "types_cache_ok c'" "r = Some stk \<Longrightarrow> inventory_sound stk"
    using assms(1) got(1) got(2) [where v = "CachedInventory stk"] query_sound
    by (auto simp: getInventory_def g intro!: cache_all_set split: option.splits cached.splits)
qed

lemma cache_all_set_types:
  "types_cache_ok c \<Longrightarrow>
     types_cache_ok (fold (\<lambda>it. setCachedValue (key it) (CachedType (Some it)) ttl now) its c)"
  by (induction its arbitrary: c) (simp_all add: cache_all_set)

lemma ListTypes_sound:
  assumes "ListTypes api now c = (r, c')" "types_cache_ok c"
  shows "types_cache_ok c'" "r = Inr its \<Longrightarrow> types_sound its"
proof -
  obtain q c1 where g: "getCachedValue ''instance-types'' now now c = (q, c1)" by (metis surj_pair)
  note got = cache_all_get [OF g assms(2)]
  have "types_cache_ok c' \<and> (\<forall>its. r = Inr its \<longrightarrow> types_sound its)"
  proof (cases "\<exists>its. q = Some (CachedTypes its)")
    case True
    then show ?thesis using assms(1) got(1) got(2) by (force simp: ListTypes_def g)
  next
    case fresh: False
    obtain z c2 where z: "getAvailableZones api now c1 = (z, c2)" by (metis surj_pair)
    note zs = getAvailableZones_sound [OF z got(1)]
    obtain stk c3 where i: "getInventory api now c2 = (stk, c3)" by (metis surj_pair)
    note inv = getInventory_sound [OF i zs(1)]
    show ?thesis
    proof (cases z)
      case (Inl err)
      then show ?thesis using assms(1) fresh zs(1)
        by (auto simp: ListTypes_def g z split: option.splits cached.splits)
    next
      case (Inr zones)
      have "types_sound (List.map_filter (list_type stk zones) es)" for es
        using list_type_sound [OF _ zs(2) [OF Inr] inv(2)] by (auto simp: types_sound_def list_all_iff map_filter_in)
      then show ?thesis using assms(1) fresh inv(1)
        by (auto simp: ListTypes_def g z Inr i Let_def intro!: cache_all_set_types cache_all_set
            split: option.splits cached.splits sum.splits)
    qed
  qed
  then show "types_cache_ok c'" "r = Inr its \<Longrightarrow> types_sound its" by blast+
qed

lemma GetType_sound:
  assumes "GetType api name now c = (r, c')" "types_cache_ok c"
  shows "types_cache_ok c'"
proof -
  define key where "key = ''instance-type-'' @ name"
  note run = assms(1) [unfolded GetType_def Let_def, folded key_def]
  obtain q c1 where g: "getCachedValue key now now c = (q, c1)" by (metis surj_pair)
  note got = cache_all_get [OF g assms(2)]
  obtain z c2 where z: "getAvailableZones api now c1 = (z, c2)" by (metis surj_pair)
  note zs = getAvailableZones_sound [OF z got(1)]
  show ?thesis using run got(1) zs(1)
    by (auto simp: g z intro!: cache_all_set split: option.splits cached.splits sum.splits list.splits)
qed

text \<open>What List has answered it answers again at the same time, from its cache.\<close>

lemma ListTypes_again:
  assumes "ListTypes api now c = (Inr its, c')"
  shows "ListTypes api now c' = (Inr its, c')"
proof -
  have keys: "''instance-type-'' @ n \<noteq> ''instance-types''" for n :: string by simp
  have stored: "cache_read ''instance-types'' now
      (fold (\<lambda>it. setCachedValue (''instance-type-'' @ it_Name it) (CachedType (Some it)) cacheTTLInstanceTypes now) xs
        (setCachedValue ''instance-types'' (CachedTypes its) cacheTTLInstanceTypes now c3)) = Hit (CachedTypes its)" for xs c3
  proof -
    have "map_of (fold (\<lambda>it. setCachedValue (''instance-type-'' @ it_Name it) (CachedType (Some it)) cacheTTLInstanceTypes now) xs d)
        ''instance-types'' = map_of d ''instance-types''" for d
      using keys by (induction xs arbitrary: d) (simp_all add: setCachedValue_def map_of_update)
    then show ?thesis
      by (simp add: cache_read_def setCachedValue_def map_of_update cacheTTLInstanceTypes_def)
  qed
  have hit: "cache_read ''instance-types'' now c' = Hit (CachedTypes its)"
    using assms stored
    by (auto simp: ListTypes_def Let_def getCachedValue_def split: prod.splits option.splits cached.splits sum.splits
        cached_read.splits)
  then show ?thesis by (simp add: ListTypes_def getCachedValue_def)
qed

section \<open>What a requirement of a claim asks of an offering\<close>

text \<open>
  What the scheduler knows of a key: zone and capacity type of the offering, and for other
  keys what the type publishes.
\<close>

definition published :: "CoreInstanceType \<Rightarrow> Offering \<Rightarrow> string \<Rightarrow> string list" where
  "published cit off k =
     (if k = LabelTopologyZone then [off_Zone off]
      else if k = CapacityTypeLabelKey then [off_CapacityType off]
      else or_else (map_of (cit_Requirements cit) k) [])"

text \<open>A requirement is met by the published values; a key without values is absent.\<close>

definition met_by :: "string list \<Rightarrow> NodeSelectorRequirement \<Rightarrow> bool" where
  "met_by values req =
     (if nsr_Operator req = NodeSelectorOpIn then list_ex (\<lambda>v. v \<in> set (nsr_Values req)) values
      else if nsr_Operator req = NodeSelectorOpNotIn then list_all (\<lambda>v. v \<notin> set (nsr_Values req)) values
      else if nsr_Operator req = NodeSelectorOpExists then list_ex (\<lambda>v. v \<noteq> '''') values
      else if nsr_Operator req = NodeSelectorOpDoesNotExist then values = []
      else True)"

text \<open>
  An offering suits a claim when it meets every requirement.  Empty values and exclusions of
  zones are left out: Filter answers them differently.
\<close>

definition suits :: "CoreInstanceType \<Rightarrow> Offering \<Rightarrow> NodeSelectorRequirement list \<Rightarrow> bool" where
  "suits cit off reqs \<longleftrightarrow> list_all (\<lambda>req. met_by (published cit off (nsr_Key req)) req \<and>
     '''' \<notin> set (nsr_Values req) \<and>
     (nsr_Key req = LabelTopologyZone \<longrightarrow> nsr_Operator req \<noteq> NodeSelectorOpNotIn)) reqs"

lemma matches_published:
  assumes "met_by values req" "values = [v] \<or> values = [] \<and> v = ''''" "'''' \<notin> set (nsr_Values req)"
    "convert_operator (nsr_Operator req) = Some op"
  shows "matchesStringRequirement v op (nsr_Values req)"
  using assms
  by (auto simp: met_by_def convert_operator_def matchesStringRequirement_def selector_defs operator_defs split: if_splits)

text \<open>What the type publishes for each key.\<close>

lemma map_of_singletons: "map_of (List.map (\<lambda>(k, v). (k, [v])) m) k = map_option (\<lambda>v. [v]) (map_of m k)"
  by (induction m) auto

lemma published_type:
  assumes "core_type env zones it = Some cit"
  shows "map_of (cit_Requirements cit) LabelInstanceType = Some [it_Name it]"
    "map_of (cit_Requirements cit) LabelArchitecture = Some [KubeArchitecture (it_Architecture it)]"
    "map_of (cit_Requirements cit) LabelOS = Some [OSLinux]"
    "map_of (cit_Requirements cit) LabelRegion = Some [o_Region (FromContext (env_options env))]"
    "k \<notin> {LabelInstanceType, LabelArchitecture, LabelOS, LabelRegion, LabelZone, LabelCapacityType} \<Longrightarrow>
       map_of (cit_Requirements cit) k = map_option (\<lambda>v. [v]) (map_of (ResolvedLabels (Some it)) k)"
  using assms
  by (auto simp: core_type_def Let_def buildInstanceTypeRequirements_def kube_label_defs label_defs
      ecsArchToKubernetesArch_def map_of_singletons split: if_splits sum.splits)

lemma resolved_published:
  assumes "core_type env zones it = Some cit" "map_of (resolved_values it) k = Some v"
  shows "published cit off k = (if v = '''' then [] else [v])"
proof -
  have k: "k \<notin> {LabelInstanceType, LabelArchitecture, LabelOS, LabelRegion, LabelZone, LabelCapacityType}"
    using map_of_SomeD [OF assms(2)] by (auto simp: resolved_values_def label_defs)
  then have "k \<noteq> LabelTopologyZone" "k \<noteq> CapacityTypeLabelKey" by (simp_all add: kube_label_defs label_defs)
  then show ?thesis
    by (simp add: published_def published_type(5) [OF assms(1) k] map_of_ResolvedLabels assms(2))
qed

lemma suited_type_matches:
  assumes core: "core_type env zones it = Some cit" and off: "off \<in> set (cit_Offerings cit)" "off_Available off"
    and sound: "zones_sound (it_Zones it)" and region: "env_region env = o_Region (FromContext (env_options env))"
    and suits: "suits cit off reqs" "req \<in> set reqs" and conv: "convert_requirement req = Some q"
  shows "matchesRequirement (env_region env) it q"
proof -
  obtain op where op: "convert_operator (nsr_Operator req) = Some op"
    "q = \<lparr>req_Key = nsr_Key req, req_Operator = op, req_Values = nsr_Values req\<rparr>"
    using conv by (auto simp: convert_requirement_def split: option.splits)
  let ?k = "nsr_Key req"
  have met: "met_by (published cit off ?k) req" "'''' \<notin> set (nsr_Values req)"
    "?k = LabelTopologyZone \<longrightarrow> nsr_Operator req \<noteq> NodeSelectorOpNotIn"
    using suits by (auto simp: suits_def list_all_iff)
  note str = matches_published [OF met(1) _ met(2) op(1)]
  obtain zi where zi: "(off_Zone off, zi) \<in> set (it_Zones it)" "off_CapacityType off \<in> set (zi_CapacityTypes zi)"
    using off core_type_Some [OF core] by (auto simp: offering_of_type map_of_capTypeAvailability split: if_splits)
  then have zs: "zone_sound zi" "map_of (it_Zones it) (off_Zone off) = Some zi"
    using sound by (auto simp: zones_sound_def list_all_iff wf_map_def)
  then have avail: "zi_Available zi" "off_CapacityType off \<in> known_kinds"
    using zi(2) by (auto simp: zone_sound_def)
  consider (zone) "?k = LabelZone" | (kind) "?k = LabelCapacityType" | (type) "?k = LabelInstanceType"
    | (arch) "?k = LabelArchitecture" | (os) "?k = LabelOS" | (region) "?k = LabelRegion"
    | (reservation) "?k \<in> {LabelCapacityReservationID, LabelCapacityReservationType}"
    | (label) v where "map_of (resolved_values it) ?k = Some v"
    | (other) "?k \<notin> {LabelZone, LabelCapacityType, LabelInstanceType, LabelArchitecture, LabelOS, LabelRegion,
         LabelCapacityReservationID, LabelCapacityReservationType} \<union> dom (map_of (resolved_values it))"
    by blast
  then show ?thesis
  proof cases
    case zone
    then have "published cit off ?k = [off_Zone off]" by (simp add: published_def kube_label_defs label_defs)
    moreover have "zone_available it (off_Zone off)" by (simp add: zone_available_def zs(2) avail(1))
    moreover have "list_ex (\<lambda>(z, zi). zi_Available zi) (it_Zones it)"
      using zi(1) avail(1) by (auto simp: list_ex_iff)
    ultimately show ?thesis using met zone op
      by (auto simp: matchesRequirement_def Let_def label_defs kube_label_defs matchesZoneRequirement_def met_by_def
          convert_operator_def selector_defs operator_defs list_ex_iff split: if_splits)
  next
    case kind
    then have "published cit off ?k = [off_CapacityType off]" by (simp add: published_def kube_label_defs label_defs)
    with str [of "off_CapacityType off"]
    have "matchesStringRequirement (off_CapacityType off) op (nsr_Values req)" by simp
    with avail(2) show ?thesis using kind op(2)
      by (auto simp: matchesRequirement_def Let_def label_defs known_kinds_def)
  next
    case type
    then have "published cit off ?k = [it_Name it]"
      using published_type(1) [OF core] by (simp add: published_def kube_label_defs label_defs)
    then show ?thesis using str [of "it_Name it"] type op(2) by (simp add: matchesRequirement_def Let_def)
  next
    case arch
    then have "published cit off ?k = [KubeArchitecture (it_Architecture it)]"
      using published_type(2) [OF core] by (simp add: published_def kube_label_defs label_defs)
    then show ?thesis using str [of "KubeArchitecture (it_Architecture it)"] arch op(2)
      by (simp add: matchesRequirement_def Let_def label_defs)
  next
    case os
    then have "published cit off ?k = [OSLinux]"
      using published_type(3) [OF core] by (simp add: published_def kube_label_defs label_defs)
    then show ?thesis using str [of OSLinux] os op(2) by (simp add: matchesRequirement_def Let_def label_defs)
  next
    case region
    then have "published cit off ?k = [env_region env]"
      using published_type(4) [OF core] assms(5) by (simp add: published_def kube_label_defs label_defs)
    then show ?thesis using str [of "env_region env"] region op(2) by (simp add: matchesRequirement_def Let_def label_defs)
  next
    case reservation
    then have "map_of (resolved_values it) ?k = None" by (auto simp: resolved_values_def label_defs)
    then have "published cit off ?k = []"
      using reservation published_type(5) [OF core, of ?k]
      by (auto simp: published_def kube_label_defs label_defs map_of_ResolvedLabels)
    then show ?thesis using str [of "''''"] reservation op(2) by (auto simp: matchesRequirement_def Let_def label_defs)
  next
    case label
    show ?thesis
      using str [of v] resolved_published [OF core label, of off]
      by (simp add: op(2) matchesRequirement_resolved [OF label])
  next
    case other
    then show ?thesis by (auto simp: op(2) matchesRequirement_def Let_def resolved_values_def split: if_splits)
  qed
qed

section \<open>From an offering to the filters of Create\<close>

text \<open>What GetInstanceTypes went through, with the state it leaves.\<close>

lemma GetInstanceTypes_lists:
  assumes "GetInstanceTypes env nodePool s = (Inr cits, s')"
  obtains cls its where "env_nodeclass env (np_NodeClassRef nodePool) (sta_world s) = Inr cls"
    "list_types env s = (Inr its, s')"
    "cits = List.map_filter (core_type env (availableZones (st_VSwitches (k_Status cls))))
       (filterInstanceTypesByRequirements (env_region env) its (np_Requirements nodePool))"
proof -
  obtain cls its s1 where cls: "env_nodeclass env (np_NodeClassRef nodePool) (sta_world s) = Inr cls"
    and l: "list_types env s = (Inr its, s1)"
    and cits: "cits = List.map_filter (core_type env (availableZones (st_VSwitches (k_Status cls))))
       (filterInstanceTypesByRequirements (env_region env) its (np_Requirements nodePool))"
    by (rule GetInstanceTypes_InrD [OF assms])
  have "s1 = s'"
    using assms cls l by (auto simp: GetInstanceTypes_def Let_def split: option.splits if_splits)
  with cls l cits that show thesis by blast
qed

lemma list_types_facts:
  assumes "list_types env s = (Inr its, s')" "types_cache_ok (sta_types s)"
  shows "types_sound its" "types_cache_ok (sta_types s')" "list_types env s' = (Inr its, s')" "sta_world s' = sta_world s"
proof -
  obtain r c where rc: "ListTypes (env_types env (sta_world s)) (clk (env_api env) (sta_world s)) (sta_types s) = (r, c)"
    by (metis surj_pair)
  note result = assms(1) [unfolded list_types_def rc prod.case prod.inject]
  have s': "s' = s\<lparr>sta_types := c\<rparr>" and r: "r = Inr its" using result by blast+
  note c = rc [unfolded r]
  show "types_sound its" "types_cache_ok (sta_types s')"
    using ListTypes_sound [OF c assms(2)] s' by simp_all
  show "list_types env s' = (Inr its, s')" "sta_world s' = sta_world s"
    using ListTypes_again [OF c] unfolding s' by (simp_all add: list_types_def del: list_types_keeps)
qed

text \<open>
  An available offering passes both filters of Create: its type is kept, and every
  vSwitch of the class in its zone is kept.
\<close>

lemma offered_is_choosable:
  assumes "core_type env zones it = Some cit" "it \<in> set its" "types_sound its"
    and off: "off \<in> set (cit_Offerings cit)" "off_Available off"
    and region: "env_region env = o_Region (FromContext (env_options env))"
    and suits: "suits cit off reqs"
  shows "it \<in> set (filterInstanceTypesByRequirements (env_region env) its reqs)"
    "vs \<in> set vswitches \<Longrightarrow> vswitch_zone vs = off_Zone off \<Longrightarrow>
       vs \<in> set (filterVSwitchesByZones vswitches (zonesFromRequirements reqs))"
proof -
  have "zones_sound (it_Zones it)" using assms(2,3) by (auto simp: types_sound_def list_all_iff)
  from suited_type_matches [OF assms(1) off this region suits]
  show "it \<in> set (filterInstanceTypesByRequirements (env_region env) its reqs)"
    using assms(2) by (auto simp: filterInstanceTypesByRequirements_def FilterTypes_def list_all_iff map_filter_in)
  assume vs: "vs \<in> set vswitches" "vswitch_zone vs = off_Zone off"
  have "off_Zone off \<in> set (zonesFromRequirements reqs)" if "zonesFromRequirements reqs \<noteq> []"
  proof -
    from that obtain req where req: "req \<in> set reqs" "nsr_Key req = LabelTopologyZone"
      "nsr_Operator req = NodeSelectorOpIn" "zonesFromRequirements reqs = nsr_Values req"
      by (auto simp: zonesFromRequirements_def find_Some_iff in_set_conv_nth split: option.splits)
    with suits have "met_by [off_Zone off] req" by (auto simp: suits_def list_all_iff published_def)
    with req(3,4) show ?thesis by (simp add: met_by_def)
  qed
  with vs show "vs \<in> set (filterVSwitchesByZones vswitches (zonesFromRequirements reqs))"
    by (auto simp: filterVSwitchesByZones_def)
qed

section \<open>Property\<close>


lemma sample_types_sound: "types_cache_ok (sta_types sample_state)"
  by (simp add: sample_state_def cache_all_def types_sound_def zones_sound_def sample_type_def zone_sound_def
      known_kinds_def CapacityTypeOnDemand_def CapacityTypeSpot_def wf_map_def)

lemma offered_sample_type:
  assumes "st_VSwitches (k_Status cls) = sample_vswitches"
  shows "\<exists>cit. core_type (reading_env cls) (availableZones (st_VSwitches (k_Status cls))) sample_type = Some cit"
proof -
  obtain cap where "capacity_of (reading_env cls) sample_type = Inr cap"
    by (simp add: capacity_of_def calculateCapacityAndAllocatable_def sample_type_def Let_def reading_env_def)
  moreover have "offerings_of (availableZones (st_VSwitches (k_Status cls))) sample_type \<noteq> []"
    by (simp add: assms offerings_of_def sample_type_def zone_offerings_def capTypeAvailability_def availableZones_def
        sample_vswitches_def vswitch_zone_def)
  moreover have "it_CPU sample_type \<noteq> None" "it_Memory sample_type \<noteq> None" by (simp_all add: sample_type_def)
  ultimately show ?thesis by (cases cap) (simp add: core_type_def Let_def)
qed

definition planned_claim :: NodeClaim where
  "planned_claim = emptyNodeClaim\<lparr>ncl_NodeClassRef := ''default'', ncl_Requirements :=
     [\<lparr>nsr_Key = LabelTopologyZone, nsr_Operator = NodeSelectorOpIn, nsr_Values = [''cn-a-b'']\<rparr>,
      \<lparr>nsr_Key = CapacityTypeLabelKey, nsr_Operator = NodeSelectorOpIn, nsr_Values = [''spot'', ''on-demand'']\<rparr>,
      \<lparr>nsr_Key = LabelInstanceFamily, nsr_Operator = NodeSelectorOpExists, nsr_Values = []\<rparr>]\<rparr>"

definition sample_pool :: NodePool where
  "sample_pool = \<lparr>np_Name = ''default'', np_NodeClassRef = ''default'', np_Requirements = []\<rparr>"

definition spot_offering :: Offering where
  "spot_offering = \<lparr>off_Zone = ''cn-a-b'', off_CapacityType = ''spot'', off_Price = 0, off_Available = True\<rparr>"

lemma planned_on_spot:
  assumes "core_type env zones sample_type = Some cit"
  shows "suits cit spot_offering (ncl_Requirements planned_claim)"
proof -
  have "map_of (resolved_values sample_type) LabelInstanceFamily = Some ''g6''"
    by (simp add: resolved_values_def label_defs sample_type_def instanceFamily_def name_parts_def trim_prefix_def
        has_prefix_def Let_def)
  from resolved_published [OF assms this] have "published cit spot_offering LabelInstanceFamily = [''g6'']" by simp
  moreover have "published cit spot_offering LabelTopologyZone = [''cn-a-b'']"
    "published cit spot_offering CapacityTypeLabelKey = [''spot'']"
    by (simp_all add: published_def spot_offering_def kube_label_defs)
  ultimately show ?thesis
    by (simp add: suits_def planned_claim_def met_by_def selector_defs label_defs kube_label_defs)
qed

lemma sample_offers:
  assumes "status_of (st_Conditions (k_Status cls)) ConditionTypeReady = Some ConditionTrue"
    "st_VSwitches (k_Status cls) = sample_vswitches"
    "core_type (reading_env cls) (availableZones (st_VSwitches (k_Status cls))) sample_type = Some cit"
  shows "GetInstanceTypes (reading_env cls) sample_pool sample_state = (Inr [cit], sample_state)"
proof -
  have "list_types (reading_env cls) sample_state = (Inr [sample_type], sample_state)"
    using sample_list_types [of "[launched_instance]" cls] by (simp add: list_types_def reading_env_def del: list_types_keeps)
  moreover have "readiness_error (reading_env cls) cls = None"
    using assms(1) by (simp add: readiness_error_def reading_env_def)
  moreover have "filterInstanceTypesByRequirements r [sample_type] [] = [sample_type]" for r
    by (simp add: filterInstanceTypesByRequirements_def FilterTypes_def List.map_filter_def)
  moreover have "st_VSwitches (k_Status cls) \<noteq> []" using assms(2) by (simp add: sample_vswitches_def)
  ultimately show ?thesis
    using assms(3) by (simp add: GetInstanceTypes_def sample_pool_def Let_def List.map_filter_def)
qed


section \<open>What an offering does not promise\<close>

text \<open>
  A requirement that excludes a zone leaves every vSwitch a candidate, those of the excluded zone
  too, and drops every type with stock there, also one that is offered elsewhere.
\<close>

lemma excluded_zone_is_misread:
  assumes "\<forall>req \<in> set reqs. nsr_Operator req \<noteq> NodeSelectorOpIn"
    and "req \<in> set reqs" "nsr_Key req = LabelTopologyZone" "nsr_Operator req = NodeSelectorOpNotIn"
    and "z \<in> set (nsr_Values req)" "zone_available it z"
  shows "filterVSwitchesByZones vswitches (zonesFromRequirements reqs) = vswitches"
    "it \<notin> set (filterInstanceTypesByRequirements region its reqs)"
proof -
  have "find (\<lambda>req. nsr_Key req = LabelTopologyZone \<and> nsr_Operator req = NodeSelectorOpIn) reqs = None"
    using assms(1) by (auto simp: find_None_iff)
  then show "filterVSwitchesByZones vswitches (zonesFromRequirements reqs) = vswitches"
    by (simp add: zonesFromRequirements_def filterVSwitchesByZones_def)
  let ?q = "\<lparr>req_Key = LabelZone, req_Operator = OperatorNotIn, req_Values = nsr_Values req\<rparr>"
  have "convert_requirement req = Some ?q"
    using assms(3,4) by (simp add: convert_requirement_def convert_operator_def selector_defs label_defs kube_label_defs)
  then have "?q \<in> set (List.map_filter convert_requirement reqs)" using assms(2) unfolding map_filter_in by blast
  moreover have "\<not> matchesRequirement region it ?q"
    using assms(5,6)
    by (auto simp: matchesRequirement_def Let_def label_defs matchesZoneRequirement_def operator_defs list_ex_iff)
  ultimately show "it \<notin> set (filterInstanceTypesByRequirements region its reqs)"
    by (auto simp: filterInstanceTypesByRequirements_def FilterTypes_def list_all_iff)
qed

text \<open>A claim planned on a spot offering because it excludes on-demand is launched on demand.\<close>

lemma excluded_on_demand_is_launched:
  defines "reqs \<equiv> [\<lparr>nsr_Key = CapacityTypeLabelKey, nsr_Operator = NodeSelectorOpNotIn, nsr_Values = [CapacityTypeOnDemand]\<rparr>]"
  shows "suits cit spot_offering reqs" "capacityTypeFromRequirements reqs = CapacityTypeOnDemand"
  by (simp_all add: reqs_def suits_def met_by_def published_def spot_offering_def selector_defs kube_label_defs
      CapacityTypeOnDemand_def capacityTypeFromRequirements_def)

text \<open>
  An offering says nothing about images.  When no resolved image has the architecture of the
  type, the first one is taken, also one of another known architecture.
\<close>

lemma other_architecture_is_launched:
  assumes "images \<noteq> []" "\<forall>img \<in> set images. KubeArchitecture (img_Architecture img) \<noteq> arch"
  shows "selectImageForArchitecture images arch = Some (hd images)"
proof -
  have "find (\<lambda>img. KubeArchitecture (img_Architecture img) = arch) images = None"
    using assms(2) by (auto simp: find_None_iff)
  then show ?thesis using assms(1) by (cases images) (simp_all add: selectImageForArchitecture_def)
qed

end
