(* ===== verification/Spec2Isabelle.thy ===== *)
theory Spec2Isabelle
  imports Unavailable Batcher BatchWindow InstanceBatch Validation OperatorOptions Offerings Resolvers Reservations
    OperatorStart GarbageCollection Tagging NodeClassHash Lifecycle BatchService StatusHeap ThinClients ProviderCaches
    InstanceRaces Registration StatusRace Scheduling
begin

text \<open>
  Verification of the Karpenter provider for Alibaba Cloud.

  The program is a Kubernetes controller that gives the Karpenter core its nodes
  as ECS instances.  A user writes an ECSNodeClass (what instances look like:
  selectors for vSwitches, security groups and images, disks, role, tags); the core writes
  NodeClaims (what an instance must satisfy) and calls the cloud provider to create,
  find and delete the instances behind them.  The parts and their interaction:

  The status controller (pkg/controllers/nodeclass/status) resolves the selectors of
  a node class through the three resolvers (pkg/providers/vswitch, securitygroup,
  imagefamily), or its launch template (pkg/providers/launchtemplate), and its role
  (pkg/providers/ramrole), and writes lists and conditions to its status.
  The cloud provider (pkg/cloudprovider) reads that status when it creates an instance:
  it filters the instance types (pkg/providers/instancetype) and vSwitches by the requirements of the claim,
  makes the user data (pkg/providers/bootstrap), and tries types and
  vSwitches in turn through the instance provider (pkg/providers/instance), which sends
  RunInstances and tags.  The same package lists, finds and
  deletes instances, reports drift and tells the scheduler what can be bought.
  The other controllers work on the results: garbage collection deletes claims without
  instance, tagging repairs tags, hashing annotates node classes for drift.
  The operator (pkg/operator) builds all of it from options and environment.
\<close>

section \<open>Theories and code\<close>

text \<open>
  Foundations.  Prelude: byte strings, Go's string functions, maps as association lists
  with distinct keys, 32-bit and 64-bit wrap-around.  TtlCache: the cache with expiry that six providers copy
  (CacheEntry, getCachedValue, setCachedValue), as the locale ttl_store with the
  association list as its instance.  ProviderCaches: the four copies with a
  changeable time to live, as instances of the locale caching_provider.  GoHeap: a heap with allocation, and what it means
  that a copy is deep.  Unavailable: pkg/cache.  EcsErrors, KubeErrors:
  pkg/errors and the typed errors that decide what a caller does next.  Labels, EcsUtil: label values,
  tag batches, spot strategies, identifiers (pkg/utils and the ECS helpers).

  API.  ApiTypes: the types of pkg/apis/v1alpha1.  Disks: disks_normalize.go.
  Validation: ecsnodeclass_validation.go and the webhook.  KubeTypes: claims, nodes and node pools as far as
  the code reads them, and the retry on conflicts of client-go.  DeepCopy: zz_generated.deepcopy.go,
  every generated function on the heap, where pointers, slices and maps are addresses.

  Cloud access.  Batcher, BatchMetrics, BatchWindow, InstanceBatch: pkg/batcher.  BatchService: CreateInstance of the
  same package, callers, channels and the goroutine of a flush over one window.  CloudClients: the requests and the
  paging of pkg/clients/ecs.go and vpc.go; its record Sdk holds the calls of the SDK.  ThinClients: the methods of ecs.go, cs.go and
  ram.go that hand a request on, and the environments of the providers that they make up.

  Providers.  GpuTables, InstanceTypes, TypeLabels: pkg/providers/instancetype.  InstanceProvider: pkg/providers/instance; InstanceRaces:
  its cache under concurrent look-ups, lists and deletions.
  ClusterNetwork: pkg/providers/cluster.  BootstrapTemplates, Bootstrap: pkg/providers/bootstrap, with an
  interpreter for the actions the templates use.  Resolvers: the three selector
  providers, their common shape as the locale id_dedup.  RoleProviders: ramrole and instanceprofile.
  LaunchTemplates, Reservations: the packages of that name and pricing.

  Cloud provider (cloudprovider.go).  NodeCapacity: capacity, overhead, labels and tags of a node.
  Fallback: the locale of a loop that tries candidates until one works.
  CreatePlan: createInstanceWithRetry and what it is given; both nested loops and
  the flat first fit are instances of Fallback.  Drift: hashes, drift checks, provider IDs.  CloudProvider:
  Create, Delete, Get, List, IsDrifted.  Offerings: GetInstanceTypes.

  Controllers.  NodeClassStatus: the status controller; StatusSpec: its specification, a plan
  computed from answers and spec, and the refinement; StatusWiring: the locale of what the controller needs of its resolvers, and
  the resolvers as its instance; StatusRace: passes over a stored object
  that others may write; StatusHeap: the in-place changes of setCondition on the heap, against the
  functional model.  GarbageCollection, Tagging, NodeClassHash (with the stubs of the interruption controller).

  Operator.  OperatorOptions: options.go and featuregates.go.  OperatorStart: operator.go.  Wiring: the controllers that
  are started, and Close.  Registration: what init, register.go and main hand to Kubernetes and the Karpenter core.

  Lifecycle and Scheduling model no code of their own: the theorems of Lifecycle follow a node through admission, status, launch, listing,
  garbage collection and tagging; those of Scheduling follow an offering from the stock over GetInstanceTypes to the filters of
  Create, with the invariant of the caches of the instance type provider that this rests on.
\<close>

section \<open>Conventions\<close>

text \<open>
  Records, datatypes and functions carry the names of the code where HOL allows; a definition
  that stands for a part of a function (a loop, a branch) has a name of its own.  State is passed explicitly:
  a provider with a cache takes and returns the cache, and every call that leaves the
  program takes and returns a world of arbitrary type, so that the theorems hold for any
  behaviour of the cloud, also a different one at every call.  A theorem on what is sent uses an environment
  that logs its calls.  Errors are values: Inl in a sum, Some in an optional error, and a panic of the runtime is a value
  of its own where the code can reach one.  The clock is a function of the world or an argument.

  Integers are HOL integers where the code cannot overflow, and wrap32, wrap64 or words
  where it can: page numbers, the total count of images, memory sizes.  Quantities and prices are rational numbers.  A Go map is an association
  list with distinct keys; its order is the order of iteration, left open by Go, and the
  theorems hold for every order.

  Concurrency is modelled where the code has it: batch windows are a step relation of additions, timers and
  ends of flushes, the service over a window adds the
  sends and receives on the channels of its callers, the clean-up goroutines of the unavailable offerings are pending steps, the TTL cache is run
  under arbitrary interleavings of evictions, sweeps and writes, and the
  hash controller meets writes of others between its read and its write.

  Objects are values where the code does not share them.  Where it does, in the deep copies and in the conditions
  that the status controller changes in place, they are cells of a heap; the theorem of StatusHeap is the bridge that lets
  the other theories of the controller use values.
\<close>

section \<open>Termination, bounds and fuel\<close>

text \<open>
  Every loop over a list is structural recursion.  The loop over the pages of images
  ends for every server, since the total count has 32 bits and the page number grows: at most
  21474837 pages.  The loop over the pages of instances compares a 32-bit product, so a server could make it run for ever: it is a partial
  function, and it is proved to return the whole fleet of a server that pages a fixed list.
  The goroutine of a flush always ends: its sends go to channels with room for one
  result, which the theorem of BatchService shows to be empty.  The retry on conflicts makes the five attempts of the default backoff; the theorem on the
  hash allows up to four conflicting writes, which is why five are enough.
  Template patching and other searches recurse on the remaining text.
\<close>

section \<open>What the lemmas show\<close>

text \<open>
  Types and invariants: canonical disks, distinct sorted identifiers in status and caches, conserved requests of a
  window, management tags that user tags cannot change.
  Function: stock in types and offerings, labels in agreement with requirements, resolved selectors, tags in batches.
  Refinement: the status controller of its plan, the nested fallback loops of the first fit over pairs, the
  conditions changed in place of the conditions as values.
  Composition: a ready node class launches when capacity is left, what is offered can be launched, the nodes of listed instances are not collected, tagging
  restores the tags that keep an instance listed.
  Safety: what Create launches and returns, that callers of a batch get an instance of their own, which claims garbage collection deletes, when Ready
  is true, which credentials are used.  Termination and liveness: paging, a status that catches up with its spec, and the
  request that a batch window can strand.  Errors: when Delete reports an instance as
  gone, which options are refused.  Some theorems record behaviour that
  contradicts a comment or an evident purpose; their text says so.
\<close>

section \<open>Not modelled\<close>

text \<open>
  The Alibaba Cloud SDK, the Kubernetes client, the Karpenter core, JSON, SHA-256, the flag package,
  sort.Slice and the quantity parser are parameters, with documented properties as hypotheses where a theorem needs
  them.  Logging, the registration of metrics and the Register methods of the controllers are left out: they have no effect
  on the values the theorems speak of.  The copy functions of the Kubernetes metadata, which the generated ones call, are
  parameters.  Text of pointers printed with the verb v in cache keys is an
  argument, as it depends on addresses.
\<close>

end
